(* ===== verification/Prelude.thy ===== *)
theory Prelude
  imports Main
begin

text \<open>
  The shared vocabulary of the development.

  \<^item> Errors are values: every \<open>throw\<close> of the source is an \<open>api_error\<close>, and a
    handler returns \<open>api_error + 'a\<close> together with the state it leaves behind, because
    several handlers write to the database before they throw.
  \<^item> A database table is the list of its rows in insertion order.  The operations below are the
    Prisma calls the source makes on a table (\<open>findFirst\<close>, \<open>create\<close>, \<open>update\<close>,
    \<open>updateMany\<close>, \<open>deleteMany\<close>, \<open>count\<close>); a unique index is a binary relation
    \<open>clash\<close> on rows, and a write that would put two clashing rows into the table fails
    with Prisma's code \<open>P2002\<close>.
  \<^item> The locale \<open>unique_index\<close> states what such an index promises; the theory
    \<open>Schema\<close> interprets it on every index that \<open>prisma/schema.prisma\<close> declares.
\<close>

named_theorems handler_defs \<open>the defining equations of the handlers of a component\<close>
named_theorems frame_simps \<open>which tables an operation leaves alone\<close>

section \<open>Errors and results\<close>

text \<open>
  \<open>httpError(key, statusCode, params)\<close> of \<open>src/utils/httpError.js\<close>; a
  \<open>PrismaClientKnownRequestError\<close> with its code; any other thrown value.
\<close>

datatype param = PStr string | PTime int | PNat nat

datatype api_error =
    HttpError (err_key: string) (err_status: nat) (err_params: "(string \<times> param) list")
  | PrismaError (prisma_code: string)
  | OtherError string

type_synonym 'a result = "api_error + 'a"

definition httpError :: "string \<Rightarrow> nat \<Rightarrow> api_error" where
  "httpError key statusCode = HttpError key statusCode []"

lemma httpError_inject [simp]:
  "httpError k s = httpError k' s' \<longleftrightarrow> k = k' \<and> s = s'"
  by (simp add: httpError_def)

lemma httpError_not_Prisma [simp]:
  "httpError k s \<noteq> PrismaError c" "PrismaError c \<noteq> httpError k s"
  by (simp_all add: httpError_def)

text \<open>The constants \<open>P2002\<close> and \<open>P2025\<close> the source compares \<open>err.code\<close> with.\<close>

abbreviation P2002 :: api_error where
  "P2002 \<equiv> PrismaError ''P2002''"

abbreviation P2025 :: api_error where
  "P2025 \<equiv> PrismaError ''P2025''"

definition is_ok :: "'a result \<Rightarrow> bool" where
  "is_ok r = (case r of Inl _ \<Rightarrow> False | Inr _ \<Rightarrow> True)"

lemma is_ok_simps [simp]: "is_ok (Inr x)" "\<not> is_ok (Inl e)"
  by (simp_all add: is_ok_def)

lemma is_ok_iff: "is_ok r \<longleftrightarrow> (\<exists>x. r = Inr x)"
  by (cases r) simp_all

text \<open>
  \<open>await\<close>: run a step that may throw, and go on with its result in the state it leaves.  An
  error ends the handler; what was written before it stays written.
\<close>

definition await :: "'a result \<times> 's \<Rightarrow> ('a \<Rightarrow> 's \<Rightarrow> 'b result \<times> 's) \<Rightarrow> 'b result \<times> 's" where
  "await m k = (case m of (Inl e, s) \<Rightarrow> (Inl e, s) | (Inr x, s) \<Rightarrow> k x s)"

lemma await_simps [simp]:
  "await (Inl e, s) k = (Inl e, s)" "await (Inr x, s) k = k x s"
  by (simp_all add: await_def)

lemma await_InrE:
  assumes "await m k = (Inr y, s')"
  obtains x s where "m = (Inr x, s)" "k x s = (Inr y, s')"
  using assms by (auto simp: await_def split: prod.splits sum.splits)

lemma await_split:
  "P (await m k) \<longleftrightarrow>
     (\<forall>e s. m = (Inl e, s) \<longrightarrow> P (Inl e, s)) \<and> (\<forall>x s. m = (Inr x, s) \<longrightarrow> P (k x s))"
  by (auto simp: await_def split: prod.splits sum.splits)

lemma await_split_asm:
  "P (await m k) \<longleftrightarrow>
     \<not> ((\<exists>e s. m = (Inl e, s) \<and> \<not> P (Inl e, s)) \<or> (\<exists>x s. m = (Inr x, s) \<and> \<not> P (k x s)))"
  by (auto simp: await_def split: prod.splits sum.splits)

lemmas await_splits = await_split await_split_asm

text \<open>
  JavaScript's \<open>a && a > b\<close> on a nullable date: an absent date compares as false.
\<close>

definition after :: "int option \<Rightarrow> int \<Rightarrow> bool" where
  "after t now = (case t of None \<Rightarrow> False | Some x \<Rightarrow> x > now)"

definition before :: "int option \<Rightarrow> int \<Rightarrow> bool" where
  "before t now = (case t of None \<Rightarrow> False | Some x \<Rightarrow> x < now)"

lemma after_simps [simp]: "after None now = False" "after (Some x) now = (x > now)"
  by (simp_all add: after_def)

lemma before_simps [simp]: "before None now = False" "before (Some x) now = (x < now)"
  by (simp_all add: before_def)

section \<open>Table operations\<close>

definition find_first :: "('r \<Rightarrow> bool) \<Rightarrow> 'r list \<Rightarrow> 'r option" where
  "find_first p t = List.find p t"

definition find_many :: "('r \<Rightarrow> bool) \<Rightarrow> 'r list \<Rightarrow> 'r list" where
  "find_many p t = filter p t"

definition count_where :: "('r \<Rightarrow> bool) \<Rightarrow> 'r list \<Rightarrow> nat" where
  "count_where p t = length (filter p t)"

definition exists_row :: "('r \<Rightarrow> bool) \<Rightarrow> 'r list \<Rightarrow> bool" where
  "exists_row p t = list_ex p t"

definition update_where :: "('r \<Rightarrow> bool) \<Rightarrow> ('r \<Rightarrow> 'r) \<Rightarrow> 'r list \<Rightarrow> 'r list" where
  "update_where p f t = map (\<lambda>r. if p r then f r else r) t"

definition delete_where :: "('r \<Rightarrow> bool) \<Rightarrow> 'r list \<Rightarrow> 'r list" where
  "delete_where p t = filter (\<lambda>r. \<not> p r) t"

text \<open>\<open>findFirst\<close> with \<open>orderBy: { createdAt: 'desc' }\<close>: the row with the greatest key.\<close>

fun find_latest :: "('r \<Rightarrow> int) \<Rightarrow> ('r \<Rightarrow> bool) \<Rightarrow> 'r list \<Rightarrow> 'r option" where
  "find_latest key p [] = None"
| "find_latest key p (r # t) =
     (case find_latest key p t of
        None \<Rightarrow> (if p r then Some r else None)
      | Some x \<Rightarrow> if p r \<and> key r \<ge> key x then Some r else Some x)"

text \<open>No two rows of the table clash under the index.\<close>

definition uniq :: "('r \<Rightarrow> 'r \<Rightarrow> bool) \<Rightarrow> 'r list \<Rightarrow> bool" where
  "uniq clash t = sorted_wrt (\<lambda>x y. \<not> clash x y) t"

definition insert_row :: "('r \<Rightarrow> 'r \<Rightarrow> bool) \<Rightarrow> 'r \<Rightarrow> 'r list \<Rightarrow> 'r list result" where
  "insert_row clash r t = (if list_ex (\<lambda>x. clash x r) t then Inl P2002 else Inr (t @ [r]))"

text \<open>\<open>update\<close> with a unique \<open>where\<close>: \<open>P2025\<close> when no row matches.\<close>

definition update_row ::
  "('r \<Rightarrow> 'r \<Rightarrow> bool) \<Rightarrow> ('r \<Rightarrow> bool) \<Rightarrow> ('r \<Rightarrow> 'r) \<Rightarrow> 'r list \<Rightarrow> 'r list result" where
  "update_row clash p f t =
     (if \<not> list_ex p t then Inl P2025
      else let t' = update_where p f t in if uniq clash t' then Inr t' else Inl P2002)"

subsection \<open>Facts about the table operations\<close>

lemma find_first_SomeD:
  assumes "find_first p t = Some r"
  shows "r \<in> set t" and "p r"
  using assms by (auto simp: find_first_def find_Some_iff)

lemma find_first_None_iff: "find_first p t = None \<longleftrightarrow> (\<forall>r \<in> set t. \<not> p r)"
  by (auto simp: find_first_def find_None_iff)

lemma find_first_Nil [simp]: "find_first p [] = None"
  by (simp add: find_first_def)

lemma find_first_Cons [simp]:
  "find_first p (r # t) = (if p r then Some r else find_first p t)"
  by (simp add: find_first_def)

lemma exists_row_iff [simp]: "exists_row p t \<longleftrightarrow> (\<exists>r \<in> set t. p r)"
  by (simp add: exists_row_def list_ex_iff)

lemma set_find_many [simp]: "set (find_many p t) = {r \<in> set t. p r}"
  by (simp add: find_many_def)

lemma update_where_Nil [simp]: "update_where p f [] = []"
  by (simp add: update_where_def)

lemma update_where_Cons [simp]:
  "update_where p f (r # t) = (if p r then f r else r) # update_where p f t"
  by (simp add: update_where_def)

lemma update_where_append [simp]:
  "update_where p f (s @ t) = update_where p f s @ update_where p f t"
  by (simp add: update_where_def)

lemma set_update_where:
  "set (update_where p f t) = f ` {r \<in> set t. p r} \<union> {r \<in> set t. \<not> p r}"
  by (auto simp: update_where_def)

lemma in_update_whereE:
  assumes "r' \<in> set (update_where p f t)"
  obtains r where "r \<in> set t" "p r" "r' = f r" | "r' \<in> set t" "\<not> p r'"
  using assms by (auto simp: set_update_where)

lemma length_update_where [simp]: "length (update_where p f t) = length t"
  by (simp add: update_where_def)

lemma map_update_where:
  assumes "\<And>r. p r \<Longrightarrow> g (f r) = g r"
  shows "map g (update_where p f t) = map g t"
  using assms by (simp add: update_where_def)

lemma update_where_id: "(\<And>r. r \<in> set t \<Longrightarrow> \<not> p r) \<Longrightarrow> update_where p f t = t"
  by (simp add: update_where_def map_idI)

lemma delete_where_Nil [simp]: "delete_where p [] = []"
  by (simp add: delete_where_def)

lemma delete_where_Cons [simp]:
  "delete_where p (r # t) = (if p r then delete_where p t else r # delete_where p t)"
  by (simp add: delete_where_def)

lemma set_delete_where [simp]: "set (delete_where p t) = {r \<in> set t. \<not> p r}"
  by (auto simp: delete_where_def)

lemma count_where_Nil [simp]: "count_where p [] = 0"
  by (simp add: count_where_def)

lemma count_where_Cons [simp]:
  "count_where p (r # t) = (if p r then Suc (count_where p t) else count_where p t)"
  by (simp add: count_where_def)

lemma count_where_append [simp]: "count_where p (s @ t) = count_where p s + count_where p t"
  by (simp add: count_where_def)

lemma count_where_pos_iff: "0 < count_where p t \<longleftrightarrow> (\<exists>r \<in> set t. p r)"
  by (induction t) auto

lemma count_where_0_iff: "count_where p t = 0 \<longleftrightarrow> (\<forall>r \<in> set t. \<not> p r)"
  by (induction t) auto

text \<open>Looking a row up after an update that leaves the lookup's condition alone.\<close>

lemma find_first_update_where:
  assumes "\<And>r. p r \<Longrightarrow> q (f r) = q r"
  shows "find_first q (update_where p f t) = map_option (\<lambda>r. if p r then f r else r) (find_first q t)"
  using assms by (induction t) auto

lemma find_first_append:
  "find_first q (s @ t) = (case find_first q s of None \<Rightarrow> find_first q t | Some r \<Rightarrow> Some r)"
  by (induction s) auto

lemma find_first_delete_where:
  assumes "\<And>r. q r \<Longrightarrow> \<not> p r"
  shows "find_first q (delete_where p t) = find_first q t"
  using assms by (induction t) auto

lemma find_first_cong:
  "(\<And>r. r \<in> set t \<Longrightarrow> p r = q r) \<Longrightarrow> find_first p t = find_first q t"
  by (induction t) auto

lemma find_latest_None_iff: "find_latest key p t = None \<longleftrightarrow> (\<forall>r \<in> set t. \<not> p r)"
  by (induction t) (auto split: option.splits)

lemma find_latest_SomeD:
  "find_latest key p t = Some r \<Longrightarrow> r \<in> set t \<and> p r \<and> (\<forall>x \<in> set t. p x \<longrightarrow> key x \<le> key r)"
proof (induction t arbitrary: r)
  case Nil
  then show ?case by simp
next
  case (Cons a t)
  show ?case
  proof (cases "find_latest key p t")
    case None
    with Cons.prems show ?thesis by (auto simp: find_latest_None_iff split: if_splits)
  next
    case (Some x)
    with Cons show ?thesis by (fastforce split: if_splits)
  qed
qed

lemma insert_row_InrD:
  "insert_row clash r t = Inr t' \<Longrightarrow> t' = t @ [r] \<and> (\<forall>x \<in> set t. \<not> clash x r)"
  by (auto simp: insert_row_def list_ex_iff split: if_splits)

lemma insert_row_InlD: "insert_row clash r t = Inl e \<Longrightarrow> e = P2002"
  by (auto simp: insert_row_def split: if_splits)

lemma update_row_InrD:
  "update_row clash p f t = Inr t' \<Longrightarrow> t' = update_where p f t \<and> uniq clash t'"
  by (auto simp: update_row_def Let_def split: if_splits)

lemma update_row_InlD: "update_row clash p f t = Inl e \<Longrightarrow> e = P2002 \<or> e = P2025"
  by (auto simp: update_row_def Let_def split: if_splits)

lemma uniq_Nil [simp]: "uniq clash []"
  by (simp add: uniq_def)

lemma uniq_Cons [simp]: "uniq clash (r # t) \<longleftrightarrow> (\<forall>x \<in> set t. \<not> clash r x) \<and> uniq clash t"
  by (simp add: uniq_def)

lemma uniq_append [simp]:
  "uniq clash (s @ t) \<longleftrightarrow> uniq clash s \<and> uniq clash t \<and> (\<forall>x \<in> set s. \<forall>y \<in> set t. \<not> clash x y)"
  by (auto simp: uniq_def sorted_wrt_append)

lemma uniq_mono: "uniq clash t \<Longrightarrow> (\<And>x y. clash' x y \<Longrightarrow> clash x y) \<Longrightarrow> uniq clash' t"
  by (induction t) auto

lemma uniq_key_distinct: "uniq (\<lambda>x y. key x = key y) t \<longleftrightarrow> distinct (map key t)"
  by (induction t) (auto simp: image_iff)

lemma distinct_map_find:
  assumes "distinct (map key t)" "r \<in> set t"
  shows "find_first (\<lambda>x. key x = key r) t = Some r"
  using assms by (induction t) (auto simp: image_iff)

lemma distinct_map_inj:
  "distinct (map key t) \<Longrightarrow> x \<in> set t \<Longrightarrow> y \<in> set t \<Longrightarrow> key x = key y \<Longrightarrow> x = y"
  by (auto simp: distinct_map inj_on_def)

section \<open>What a unique index promises\<close>

text \<open>
  An index relates rows symmetrically.  From that alone follow the laws every component relies on:
  \<open>create\<close>, \<open>update\<close>, \<open>updateMany\<close> on other columns and \<open>deleteMany\<close> keep the
  table free of clashes.
\<close>

locale unique_index =
  fixes clash :: "'r \<Rightarrow> 'r \<Rightarrow> bool"
  assumes clash_sym: "clash x y \<Longrightarrow> clash y x"
begin

lemma insert_keeps:
  assumes "insert_row clash r t = Inr t'" "uniq clash t"
  shows "uniq clash t'"
  using insert_row_InrD [OF assms(1)] assms(2) by simp

lemma update_keeps:
  assumes "update_row clash p f t = Inr t'"
  shows "uniq clash t'"
  using update_row_InrD [OF assms] by blast

lemma delete_keeps: "uniq clash t \<Longrightarrow> uniq clash (delete_where p t)"
  by (induction t) auto

text \<open>Writing columns that make no row clash with more rows than before keeps the index.\<close>

lemma update_where_keeps:
  assumes "uniq clash t"
    and less: "\<And>x y. p x \<Longrightarrow> p y \<Longrightarrow> clash (f x) (f y) \<Longrightarrow> clash x y"
              "\<And>x y. p x \<Longrightarrow> \<not> p y \<Longrightarrow> clash (f x) y \<Longrightarrow> clash x y"
  shows "uniq clash (update_where p f t)"
  using assms(1)
proof (induction t)
  case Nil
  then show ?case by simp
next
  case (Cons r t)
  have apart: "\<not> clash r x" if "x \<in> set t" for x
    using that Cons.prems by simp
  have "\<not> clash (if p r then f r else r) y" if "y \<in> set (update_where p f t)" for y
    using that
  proof (rule in_update_whereE)
    fix x assume "x \<in> set t" "p x" "y = f x"
    with apart less show ?thesis by (metis clash_sym)
  next
    assume "y \<in> set t" "\<not> p y"
    with apart less show ?thesis by metis
  qed
  with Cons show ?case by simp
qed

text \<open>In particular writing columns the index does not read.\<close>

lemma update_where_same:
  assumes "uniq clash t" "\<And>x y. clash (f x) y = clash x y"
  shows "uniq clash (update_where p f t)"
proof (rule update_where_keeps [OF assms(1)])
  fix x y assume "clash (f x) (f y)"
  then have "clash (f y) x" using assms(2) clash_sym by blast
  then show "clash x y" using assms(2) clash_sym by blast
qed (use assms(2) in blast)

lemma no_two:
  assumes "uniq clash t" "i < length t" "j < length t" "i \<noteq> j"
  shows "\<not> clash (t ! i) (t ! j)"
  using assms clash_sym
  by (metis linorder_neqE_nat sorted_wrt_iff_nth_less uniq_def)

text \<open>Two different members of a table never clash.\<close>

lemma members_apart:
  "uniq clash t \<Longrightarrow> x \<in> set t \<Longrightarrow> y \<in> set t \<Longrightarrow> clash x y \<Longrightarrow> x = y"
  by (induction t) (auto dest: clash_sym)

end

section \<open>Invariants of a system of steps\<close>

text \<open>
  A component whose requests are steps on the database promises an invariant by keeping it in every
  single step; what clients rely on is that it holds after any sequence of steps.
\<close>

locale step_system =
  fixes step :: "'s \<Rightarrow> 's \<Rightarrow> bool" and inv :: "'s \<Rightarrow> bool"
  assumes step_keeps: "step s t \<Longrightarrow> inv s \<Longrightarrow> inv t"
begin

lemma run_keeps:
  assumes "step\<^sup>*\<^sup>* s t" "inv s"
  shows "inv t"
  using assms by (induction rule: rtranclp_induct) (auto intro: step_keeps)

end

end
