(* ===== verification/Schema.thy ===== *)
theory Schema
  imports Complex_Main Prelude
begin

text \<open>
  The data model of \<open>prisma/schema.prisma\<close>: one record per model, one datatype per enum,
  one list of rows per table, and one binary relation per unique index, partial indexes of the
  migrations included.  Dates are integers (milliseconds since the epoch, as \<open>Date.now()\<close>
  gives them), \<open>String?\<close> and \<open>DateTime?\<close> columns are options, \<open>Json\<close> columns
  hold a \<open>json\<close> value.  Column names carry their table's prefix, since a record field is a
  global constant here.
\<close>

section \<open>JSON values\<close>

text \<open>
  A parsed JSON document.  Object keys keep their order, as \<open>Object.entries\<close> lists them.
  A JSON number that JavaScript can hold is a finite double, so it is a rational.
\<close>

datatype json =
    JNull
  | JBool bool
  | JNum rat
  | JStr string
  | JArr "json list"
  | JObj "(string \<times> json) list"

section \<open>Enums\<close>

datatype role = USER | ADMIN

datatype org_role = OWNER | ORG_ADMIN | MEMBER

datatype project_status = PROJECT_ACTIVE | PROJECT_ARCHIVED

datatype plan_interval = MONTH | YEAR

datatype subscription_status =
    SUB_ACTIVE | SUB_TRIALING | SUB_PAST_DUE | SUB_CANCELED
  | SUB_INCOMPLETE | SUB_INCOMPLETE_EXPIRED | SUB_UNPAID

datatype invitation_status = INV_PENDING | INV_ACCEPTED | INV_DECLINED | INV_EXPIRED | INV_CANCELED

datatype notification_type = SYSTEM | ORGANIZATION | BILLING | SECURITY | TEAM

datatype flag_type = FLAG_BOOLEAN | FLAG_PERCENTAGE | FLAG_PLAN

datatype audit_action =
    USER_REGISTER | USER_LOGIN | USER_OAUTH_LOGIN | USER_LOGOUT | USER_LOGIN_FAILED
  | USER_BANNED | USER_UNBANNED | USER_SUSPENDED | USER_UNSUSPENDED | USER_ROLE_CHANGED
  | USER_DELETED | USER_RESTORED | USER_PASSWORD_CHANGED | USER_EMAIL_CHANGED
  | ORG_CREATED | ORG_UPDATED | ORG_DELETED | ORG_RESTORED | ORG_OWNERSHIP_TRANSFERRED
  | MEMBER_ADDED | MEMBER_REMOVED | MEMBER_ROLE_CHANGED | MEMBER_INVITED
  | INVITATION_ACCEPTED | INVITATION_DECLINED | INVITATION_CANCELED
  | API_KEY_CREATED | API_KEY_REVOKED | API_KEY_DELETED | API_KEY_RESTORED
  | SUBSCRIPTION_CREATED | SUBSCRIPTION_UPDATED | SUBSCRIPTION_CANCELED
  | CHECKOUT_STARTED | PORTAL_OPENED
  | FEATURE_FLAG_CREATED | FEATURE_FLAG_UPDATED | FEATURE_FLAG_DELETED
  | FEATURE_FLAG_OVERRIDE_SET | FEATURE_FLAG_OVERRIDE_REMOVED
  | USER_DATA_EXPORTED | USER_DATA_DELETED | TWO_FACTOR_ENABLED | TWO_FACTOR_DISABLED
  | SESSION_REVOKED | PROJECT_CREATED | PROJECT_UPDATED | PROJECT_DELETED | SESSIONS_REVOKED_ALL

section \<open>Models\<close>

record user =
  u_id :: string
  u_email :: string
  u_password :: "string option"
  u_name :: "string option"
  u_googleId :: "string option"
  u_role :: role
  u_emailVerified :: bool
  u_emailVerificationToken :: "string option"
  u_emailVerificationExpires :: "int option"
  u_pendingEmail :: "string option"
  u_passwordResetToken :: "string option"
  u_passwordResetExpires :: "int option"
  u_tokenVersion :: int
  u_failedLoginAttempts :: nat
  u_lockedUntil :: "int option"
  u_lastLoginAt :: "int option"
  u_banned :: bool
  u_bannedAt :: "int option"
  u_suspendedUntil :: "int option"
  u_deletedAt :: "int option"
  u_twoFactorEnabled :: bool
  u_twoFactorSecret :: "string option"
  u_twoFactorBackupCodes :: "string list"
  u_lastTotpTimeStep :: "int option"
  u_createdAt :: int
  u_updatedAt :: int
  u_stripeCustomerId :: "string option"

record two_factor_challenge =
  ch_id :: string
  ch_token :: string
  ch_userId :: string
  ch_expiresAt :: int
  ch_used :: bool
  ch_attempts :: nat
  ch_createdAt :: int

record refresh_token =
  rt_id :: string
  rt_token :: string
  rt_userId :: string
  rt_userAgent :: "string option"
  rt_ipAddress :: "string option"
  rt_revoked :: bool
  rt_expiresAt :: int
  rt_createdAt :: int
  rt_updatedAt :: int

record organization =
  o_id :: string
  o_name :: string
  o_slug :: string
  o_ownerId :: string
  o_stripeCustomerId :: "string option"
  o_deletedAt :: "int option"
  o_createdAt :: int
  o_updatedAt :: int

record organization_member =
  m_id :: string
  m_organizationId :: string
  m_userId :: string
  m_role :: org_role
  m_createdAt :: int
  m_updatedAt :: int

record project =
  p_id :: string
  p_organizationId :: string
  p_createdById :: string
  p_name :: string
  p_description :: "string option"
  p_status :: project_status
  p_deletedAt :: "int option"
  p_createdAt :: int
  p_updatedAt :: int

record plan =
  pl_id :: string
  pl_name :: string
  pl_code :: string
  pl_description :: "string option"
  pl_stripePriceId :: string
  pl_priceCents :: int
  pl_currency :: string
  pl_interval :: plan_interval
  pl_features :: json
  pl_active :: bool
  pl_createdAt :: int

record subscription =
  s_id :: string
  s_userId :: "string option"
  s_organizationId :: "string option"
  s_planId :: string
  s_stripeSubscriptionId :: string
  s_stripeCustomerId :: string
  s_status :: subscription_status
  s_trialEndsAt :: "int option"
  s_currentPeriodStart :: "int option"
  s_currentPeriodEnd :: "int option"
  s_canceledAt :: "int option"
  s_stripeEventCreatedAt :: "int option"
  s_createdAt :: int
  s_updatedAt :: int

record processed_webhook_event =
  we_id :: string
  we_type :: string
  we_createdAt :: int

record failed_job =
  fj_id :: string
  fj_queue :: string
  fj_jobName :: string
  fj_jobData :: json
  fj_error :: string
  fj_attempts :: nat
  fj_failedAt :: int

record api_key =
  k_id :: string
  k_name :: string
  k_keyHash :: string
  k_keyPrefix :: string
  k_userId :: string
  k_scopes :: "string list"
  k_lastUsedAt :: "int option"
  k_expiresAt :: "int option"
  k_revokedAt :: "int option"
  k_deletedAt :: "int option"
  k_createdAt :: int
  k_updatedAt :: int

record audit_log =
  a_action :: audit_action
  a_userId :: "string option"
  a_targetUserId :: "string option"
  a_organizationId :: "string option"
  a_ipAddress :: "string option"
  a_userAgent :: "string option"
  a_metadata :: "(string \<times> json) list"
  a_createdAt :: int

record organization_invitation =
  i_id :: string
  i_organizationId :: string
  i_inviterId :: string
  i_inviteeEmail :: string
  i_inviteeId :: "string option"
  i_role :: org_role
  i_status :: invitation_status
  i_token :: string
  i_expiresAt :: int
  i_acceptedAt :: "int option"
  i_declinedAt :: "int option"
  i_canceledAt :: "int option"
  i_createdAt :: int
  i_updatedAt :: int

record notification =
  n_id :: string
  n_userId :: string
  n_type :: notification_type
  n_title :: string
  n_message :: string
  n_data :: json
  n_readAt :: "int option"
  n_createdAt :: int

record notification_preference =
  np_id :: string
  np_userId :: string
  np_emailEnabled :: bool
  np_pushEnabled :: bool
  np_inAppEnabled :: bool
  np_mutedTypes :: "notification_type list"
  np_createdAt :: int
  np_updatedAt :: int

record feature_flag =
  f_id :: string
  f_key :: string
  f_name :: string
  f_description :: "string option"
  f_type :: flag_type
  f_value :: json
  f_active :: bool
  f_createdAt :: int
  f_updatedAt :: int

record organization_feature_flag =
  ov_id :: string
  ov_featureFlagId :: string
  ov_organizationId :: string
  ov_enabled :: bool
  ov_value :: json
  ov_createdAt :: int
  ov_updatedAt :: int

section \<open>The database\<close>

text \<open>
  Besides the tables the state holds the jobs waiting in the e-mail queue, since what a handler
  mails to whom is part of what it does.
\<close>

datatype email_job =
    SendVerificationEmail (job_to: string) (job_token: string) (job_name: "string option")
      (job_locale: string)
  | SendPasswordResetEmail (job_to: string) (job_token: string) (job_name: "string option")
      (job_locale: string)
  | SendOrgInvitationEmail (job_to: string) (job_orgName: string) (job_inviterName: string)
      (job_role: org_role) (job_token: string) (job_locale: string)

record db =
  users :: "user list"
  twoFactorChallenges :: "two_factor_challenge list"
  refreshTokens :: "refresh_token list"
  organizations :: "organization list"
  members :: "organization_member list"
  projects :: "project list"
  plans :: "plan list"
  subscriptions :: "subscription list"
  webhookEvents :: "processed_webhook_event list"
  failedJobs :: "failed_job list"
  apiKeys :: "api_key list"
  auditLogs :: "audit_log list"
  invitations :: "organization_invitation list"
  notifications :: "notification list"
  notificationPreferences :: "notification_preference list"
  featureFlags :: "feature_flag list"
  flagOverrides :: "organization_feature_flag list"
  emailQueue :: "email_job list"

definition empty_db :: db where
  "empty_db = \<lparr>users = [], twoFactorChallenges = [], refreshTokens = [], organizations = [],
     members = [], projects = [], plans = [], subscriptions = [], webhookEvents = [],
     failedJobs = [], apiKeys = [], auditLogs = [], invitations = [], notifications = [],
     notificationPreferences = [], featureFlags = [], flagOverrides = [], emailQueue = []\<rparr>"

section \<open>Unique indexes\<close>

text \<open>
  SQL does not compare \<open>NULL\<close>s: two absent values never clash.  The indexes on \<open>email\<close>,
  \<open>googleId\<close> and \<open>pendingEmail\<close> are partial (\<open>WHERE "deletedAt" IS NULL\<close>, migration
  \<open>20260823210000\<close>), and so is the one on pending invitations (migration
  \<open>20260818152809\<close>).
\<close>

definition same_some :: "'a option \<Rightarrow> 'a option \<Rightarrow> bool" where
  "same_some a b = (a \<noteq> None \<and> a = b)"

lemma same_some_sym: "same_some a b \<Longrightarrow> same_some b a"
  by (auto simp: same_some_def)

lemma same_some_simps [simp]:
  "\<not> same_some None b" "\<not> same_some a None" "same_some (Some x) (Some y) \<longleftrightarrow> x = y"
  by (auto simp: same_some_def)

definition user_clash :: "user \<Rightarrow> user \<Rightarrow> bool" where
  "user_clash x y \<longleftrightarrow>
     u_id x = u_id y
   \<or> (u_deletedAt x = None \<and> u_deletedAt y = None \<and>
       (u_email x = u_email y \<or> same_some (u_googleId x) (u_googleId y)
        \<or> same_some (u_pendingEmail x) (u_pendingEmail y)))
   \<or> same_some (u_emailVerificationToken x) (u_emailVerificationToken y)
   \<or> same_some (u_passwordResetToken x) (u_passwordResetToken y)"

definition challenge_clash :: "two_factor_challenge \<Rightarrow> two_factor_challenge \<Rightarrow> bool" where
  "challenge_clash x y \<longleftrightarrow> ch_id x = ch_id y \<or> ch_token x = ch_token y"

definition token_clash :: "refresh_token \<Rightarrow> refresh_token \<Rightarrow> bool" where
  "token_clash x y \<longleftrightarrow> rt_id x = rt_id y \<or> rt_token x = rt_token y"

definition org_clash :: "organization \<Rightarrow> organization \<Rightarrow> bool" where
  "org_clash x y \<longleftrightarrow> o_id x = o_id y \<or> o_slug x = o_slug y"

definition member_clash :: "organization_member \<Rightarrow> organization_member \<Rightarrow> bool" where
  "member_clash x y \<longleftrightarrow>
     m_id x = m_id y \<or> (m_organizationId x = m_organizationId y \<and> m_userId x = m_userId y)"

definition plan_clash :: "plan \<Rightarrow> plan \<Rightarrow> bool" where
  "plan_clash x y \<longleftrightarrow>
     pl_id x = pl_id y \<or> pl_code x = pl_code y \<or> pl_stripePriceId x = pl_stripePriceId y"

definition sub_clash :: "subscription \<Rightarrow> subscription \<Rightarrow> bool" where
  "sub_clash x y \<longleftrightarrow> s_id x = s_id y \<or> s_stripeSubscriptionId x = s_stripeSubscriptionId y"

definition event_clash :: "processed_webhook_event \<Rightarrow> processed_webhook_event \<Rightarrow> bool" where
  "event_clash x y \<longleftrightarrow> we_id x = we_id y"

definition key_clash :: "api_key \<Rightarrow> api_key \<Rightarrow> bool" where
  "key_clash x y \<longleftrightarrow> k_id x = k_id y \<or> k_keyHash x = k_keyHash y"

definition invitation_clash :: "organization_invitation \<Rightarrow> organization_invitation \<Rightarrow> bool" where
  "invitation_clash x y \<longleftrightarrow>
     i_id x = i_id y \<or> i_token x = i_token y
   \<or> (i_status x = INV_PENDING \<and> i_status y = INV_PENDING
       \<and> i_organizationId x = i_organizationId y \<and> i_inviteeEmail x = i_inviteeEmail y)"

definition project_clash :: "project \<Rightarrow> project \<Rightarrow> bool" where
  "project_clash x y \<longleftrightarrow> p_id x = p_id y"

definition notification_clash :: "notification \<Rightarrow> notification \<Rightarrow> bool" where
  "notification_clash x y \<longleftrightarrow> n_id x = n_id y"

definition preference_clash :: "notification_preference \<Rightarrow> notification_preference \<Rightarrow> bool" where
  "preference_clash x y \<longleftrightarrow> np_id x = np_id y \<or> np_userId x = np_userId y"

definition flag_clash :: "feature_flag \<Rightarrow> feature_flag \<Rightarrow> bool" where
  "flag_clash x y \<longleftrightarrow> f_id x = f_id y \<or> f_key x = f_key y"

definition override_clash ::
  "organization_feature_flag \<Rightarrow> organization_feature_flag \<Rightarrow> bool" where
  "override_clash x y \<longleftrightarrow>
     ov_id x = ov_id y
   \<or> (ov_featureFlagId x = ov_featureFlagId y \<and> ov_organizationId x = ov_organizationId y)"

interpretation user_ix: unique_index user_clash
  by unfold_locales (auto simp: user_clash_def dest: same_some_sym)

interpretation challenge_ix: unique_index challenge_clash
  by unfold_locales (auto simp: challenge_clash_def)

interpretation token_ix: unique_index token_clash
  by unfold_locales (auto simp: token_clash_def)

interpretation org_ix: unique_index org_clash
  by unfold_locales (auto simp: org_clash_def)

interpretation member_ix: unique_index member_clash
  by unfold_locales (auto simp: member_clash_def)

interpretation plan_ix: unique_index plan_clash
  by unfold_locales (auto simp: plan_clash_def)

interpretation sub_ix: unique_index sub_clash
  by unfold_locales (auto simp: sub_clash_def)

interpretation event_ix: unique_index event_clash
  by unfold_locales (auto simp: event_clash_def)

interpretation key_ix: unique_index key_clash
  by unfold_locales (auto simp: key_clash_def)

interpretation invitation_ix: unique_index invitation_clash
  by unfold_locales (auto simp: invitation_clash_def)

interpretation project_ix: unique_index project_clash
  by unfold_locales (auto simp: project_clash_def)

interpretation notification_ix: unique_index notification_clash
  by unfold_locales (auto simp: notification_clash_def)

interpretation preference_ix: unique_index preference_clash
  by unfold_locales (auto simp: preference_clash_def)

interpretation flag_ix: unique_index flag_clash
  by unfold_locales (auto simp: flag_clash_def)

interpretation override_ix: unique_index override_clash
  by unfold_locales (auto simp: override_clash_def)

text \<open>Every table respects its indexes: what the database itself enforces.\<close>

definition indexes_ok :: "db \<Rightarrow> bool" where
  "indexes_ok d \<longleftrightarrow>
     uniq user_clash (users d) \<and> uniq challenge_clash (twoFactorChallenges d)
   \<and> uniq token_clash (refreshTokens d) \<and> uniq org_clash (organizations d)
   \<and> uniq member_clash (members d) \<and> uniq project_clash (projects d)
   \<and> uniq plan_clash (plans d) \<and> uniq sub_clash (subscriptions d)
   \<and> uniq event_clash (webhookEvents d) \<and> uniq key_clash (apiKeys d)
   \<and> uniq invitation_clash (invitations d) \<and> uniq notification_clash (notifications d)
   \<and> uniq preference_clash (notificationPreferences d) \<and> uniq flag_clash (featureFlags d)
   \<and> uniq override_clash (flagOverrides d)"

section \<open>Row updates\<close>

text \<open>
  \<open>prisma.<model>.update({ where: { id }, data })\<close> for data that touches no unique column, on a
  row the handler has just read.  Prisma sets \<open>updatedAt\<close> (\<open>@updatedAt\<close>) on every update.
\<close>

definition update_user :: "int \<Rightarrow> string \<Rightarrow> (user \<Rightarrow> user) \<Rightarrow> db \<Rightarrow> db" where
  "update_user now uid f d =
     d\<lparr>users := update_where (\<lambda>u. u_id u = uid) (\<lambda>u. (f u)\<lparr>u_updatedAt := now\<rparr>) (users d)\<rparr>"

text \<open>The same for data that touches a unique column: the write may fail.\<close>

definition update_user_unique :: "int \<Rightarrow> string \<Rightarrow> (user \<Rightarrow> user) \<Rightarrow> db \<Rightarrow> db result" where
  "update_user_unique now uid f d =
     (case update_row user_clash (\<lambda>u. u_id u = uid) (\<lambda>u. (f u)\<lparr>u_updatedAt := now\<rparr>) (users d) of
        Inl e \<Rightarrow> Inl e
      | Inr us \<Rightarrow> Inr (d\<lparr>users := us\<rparr>))"

text \<open>\<open>prisma.refreshToken.updateMany\<close> with \<open>data: { revoked: true }\<close>.\<close>

definition revoke_tokens :: "int \<Rightarrow> (refresh_token \<Rightarrow> bool) \<Rightarrow> db \<Rightarrow> db" where
  "revoke_tokens now p d =
     d\<lparr>refreshTokens :=
         update_where p (\<lambda>t. t\<lparr>rt_revoked := True, rt_updatedAt := now\<rparr>) (refreshTokens d)\<rparr>"

definition live_user_by_id :: "string \<Rightarrow> db \<Rightarrow> user option" where
  "live_user_by_id uid d = find_first (\<lambda>u. u_id u = uid \<and> u_deletedAt u = None) (users d)"

definition live_user_by_email :: "string \<Rightarrow> db \<Rightarrow> user option" where
  "live_user_by_email e d = find_first (\<lambda>u. u_email u = e \<and> u_deletedAt u = None) (users d)"

end
