(* ===== verification/JsText.thy ===== *)
theory JsText
  imports Complex_Main Prelude
begin

text \<open>
  What the source uses of JavaScript strings.  A \<open>string\<close> is a list of characters with codes
  0 to 255, read as the code units U+0000 to U+00FF: on strings of that range the functions below
  are the ECMAScript ones (\<open>trim\<close>, \<open>toLowerCase\<close>, \<open>startsWith\<close>, \<open>split\<close>,
  \<open>join\<close>), and \<open>length\<close> counts what \<open>String.length\<close> counts.
\<close>

section \<open>Character classes\<close>

definition char_code :: "char \<Rightarrow> nat" where
  "char_code c = of_char c"

text \<open>White space and line terminators below U+0100: tab, LF, VT, FF, CR, space, no-break space.\<close>

definition is_space :: "char \<Rightarrow> bool" where
  "is_space c = (char_code c \<in> {9, 10, 11, 12, 13, 32, 160})"

definition is_digit :: "char \<Rightarrow> bool" where
  "is_digit c = (48 \<le> char_code c \<and> char_code c \<le> 57)"

definition is_upper :: "char \<Rightarrow> bool" where
  "is_upper c = (65 \<le> char_code c \<and> char_code c \<le> 90)"

definition is_lower :: "char \<Rightarrow> bool" where
  "is_lower c = (97 \<le> char_code c \<and> char_code c \<le> 122)"

definition is_letter :: "char \<Rightarrow> bool" where
  "is_letter c = (is_upper c \<or> is_lower c)"

text \<open>The class \<open>\w\<close>: ASCII letters, digits and the underscore.\<close>

definition is_word :: "char \<Rightarrow> bool" where
  "is_word c = (is_letter c \<or> is_digit c \<or> char_code c = 95)"

section \<open>String functions\<close>

definition js_lower_char :: "char \<Rightarrow> char" where
  "js_lower_char c =
     (let n = char_code c in
      if (65 \<le> n \<and> n \<le> 90) \<or> (192 \<le> n \<and> n \<le> 214) \<or> (216 \<le> n \<and> n \<le> 222)
      then char_of (n + 32) else c)"

definition js_lower :: "string \<Rightarrow> string" where
  "js_lower s = map js_lower_char s"

definition js_trim :: "string \<Rightarrow> string" where
  "js_trim s = rev (dropWhile is_space (rev (dropWhile is_space s)))"

definition starts_with :: "string \<Rightarrow> string \<Rightarrow> bool" where
  "starts_with s p = (take (length p) s = p)"

text \<open>\<open>s.split(c)\<close> for a one-character separator: always at least one part.\<close>

fun js_split :: "char \<Rightarrow> string \<Rightarrow> string list" where
  "js_split c [] = [[]]"
| "js_split c (x # s) =
     (if x = c then [] # js_split c s
      else case js_split c s of [] \<Rightarrow> [[x]] | p # ps \<Rightarrow> (x # p) # ps)"

fun js_join :: "string \<Rightarrow> string list \<Rightarrow> string" where
  "js_join sep [] = []"
| "js_join sep [p] = p"
| "js_join sep (p # q # ps) = p @ sep @ js_join sep (q # ps)"

subsection \<open>Their laws\<close>

lemma char_code_less [simp]: "char_code c < 256"
proof -
  have "(of_char c :: nat) mod 256 = of_char c" by (rule of_char_mod_256)
  then show ?thesis unfolding char_code_def by (metis mod_less_divisor zero_less_numeral)
qed

lemma char_code_char_of [simp]: "n < 256 \<Longrightarrow> char_code (char_of n) = n"
  by (simp add: char_code_def)

lemma char_code_inj: "char_code c = char_code d \<longleftrightarrow> c = d"
  by (simp add: char_code_def)

lemma js_lower_char_code:
  "char_code (js_lower_char c) =
     (let n = char_code c in
      if (65 \<le> n \<and> n \<le> 90) \<or> (192 \<le> n \<and> n \<le> 214) \<or> (216 \<le> n \<and> n \<le> 222)
      then n + 32 else n)"
  by (auto simp: js_lower_char_def Let_def)

lemma js_lower_char_idem [simp]: "js_lower_char (js_lower_char c) = js_lower_char c"
proof -
  have "char_code (js_lower_char (js_lower_char c)) = char_code (js_lower_char c)"
    by (auto simp: js_lower_char_code Let_def)
  then show ?thesis by (simp add: char_code_inj)
qed

lemma is_space_lower [simp]: "is_space (js_lower_char c) = is_space c"
  by (auto simp: is_space_def js_lower_char_code Let_def split: if_splits)

lemma js_lower_idem [simp]: "js_lower (js_lower s) = js_lower s"
  by (simp add: js_lower_def)

lemma dropWhile_map_lower:
  "dropWhile is_space (map js_lower_char s) = map js_lower_char (dropWhile is_space s)"
  by (induction s) auto

lemma js_trim_lower: "js_trim (js_lower s) = js_lower (js_trim s)"
  by (simp add: js_trim_def js_lower_def dropWhile_map_lower rev_map)

lemma dropWhile_rev_dropWhile:
  "dropWhile P (rev (dropWhile P (rev (dropWhile P s)))) = rev (dropWhile P (rev (dropWhile P s)))"
proof (cases "dropWhile P s")
  case Nil
  then show ?thesis by (simp del: dropWhile_eq_Nil_conv)
next
  case (Cons a t)
  then have "\<not> P a" by (metis hd_dropWhile list.sel(1) list.distinct(1))
  then have "dropWhile P (rev (a # t)) = dropWhile P (rev t) @ [a]"
    by (simp add: dropWhile_append2 dropWhile_append)
  with Cons \<open>\<not> P a\<close> show ?thesis by simp
qed

lemma js_trim_idem [simp]: "js_trim (js_trim s) = js_trim s"
  by (simp add: js_trim_def dropWhile_rev_dropWhile)

lemma js_split_ne [simp]: "js_split c s \<noteq> []"
  by (induction s) (auto split: list.splits)

lemma js_join_Cons: "ps \<noteq> [] \<Longrightarrow> js_join sep (p # ps) = p @ sep @ js_join sep ps"
  by (cases ps) simp_all

lemma js_join_split: "js_join [c] (js_split c s) = s"
proof (induction s)
  case Nil
  then show ?case by simp
next
  case (Cons x s)
  obtain p ps where "js_split c s = p # ps"
    using js_split_ne [of c s] by (meson list.exhaust)
  with Cons show ?case by (cases ps) (auto simp: js_join_Cons)
qed

lemma js_split_no_sep: "c \<notin> set s \<Longrightarrow> js_split c s = [s]"
  by (induction s) auto

lemma js_split_append: "c \<notin> set p \<Longrightarrow> js_split c (p @ c # s) = p # js_split c s"
  by (induction p) auto

lemma js_split_parts: "p \<in> set (js_split c s) \<Longrightarrow> c \<notin> set p"
proof (induction s arbitrary: p)
  case Nil
  then show ?case by simp
next
  case (Cons x s)
  obtain q ps where "js_split c s = q # ps"
    using js_split_ne [of c s] by (meson list.exhaust)
  with Cons show ?case by (auto split: if_splits)
qed

lemma js_split_join:
  "ps \<noteq> [] \<Longrightarrow> (\<And>p. p \<in> set ps \<Longrightarrow> c \<notin> set p) \<Longrightarrow> js_split c (js_join [c] ps) = ps"
  by (induction "[c]" ps rule: js_join.induct) (auto simp: js_split_no_sep js_split_append)

lemma starts_with_append [simp]: "starts_with (p @ s) p"
  by (simp add: starts_with_def)

lemma starts_withE:
  assumes "starts_with s p"
  obtains r where "s = p @ r"
  using assms append_take_drop_id [of "length p" s] unfolding starts_with_def by metis

end
