(* ===== verification/JsNumber.thy ===== *)
theory JsNumber
  imports JsText
begin

text \<open>
  Numbers in text: what \<open>String(n)\<close>, \<open>Number(s)\<close>, \<open>parseFloat(s)\<close> and the duration
  grammar of \<open>auth.service.js\<close> do.  Values are rationals; the rounding of a decimal literal to
  the nearest double is not modelled.
\<close>

datatype js_num = NaN | Infinite (negative: bool) | Fin rat

definition digit_val :: "char \<Rightarrow> nat" where
  "digit_val c = char_code c - 48"

definition digits_val :: "string \<Rightarrow> nat" where
  "digits_val ds = foldl (\<lambda>a d. 10 * a + digit_val d) 0 ds"

text \<open>\<open>String(n)\<close> for a natural number below \<open>10^21\<close>.\<close>

fun show_nat :: "nat \<Rightarrow> string" where
  "show_nat n = (if n < 10 then [char_of (n + 48)] else show_nat (n div 10) @ [char_of (n mod 10 + 48)])"

declare show_nat.simps [simp del]

section \<open>Decimal literals\<close>

text \<open>The exponent part \<open>e[+-]digits\<close>, if there is one: its value and what follows.\<close>

definition scan_exponent :: "string \<Rightarrow> int \<times> string" where
  "scan_exponent s =
     (case s of
        [] \<Rightarrow> (0, s)
      | e # r \<Rightarrow>
          if e = CHR ''e'' \<or> e = CHR ''E'' then
            (let (neg, r') = (case r of [] \<Rightarrow> (False, r)
                              | c # r'' \<Rightarrow> if c = CHR ''-'' then (True, r'')
                                           else if c = CHR ''+'' then (False, r'') else (False, r));
                 ds = takeWhile is_digit r'
             in if ds = [] then (0, s)
                else ((if neg then - int (digits_val ds) else int (digits_val ds)),
                      dropWhile is_digit r'))
          else (0, s))"

definition pow10 :: "int \<Rightarrow> rat" where
  "pow10 e = (if e \<ge> 0 then 10 ^ nat e else 1 / 10 ^ nat (- e))"

text \<open>The longest unsigned decimal literal at the front of a string.\<close>

definition scan_decimal :: "string \<Rightarrow> (rat \<times> string) option" where
  "scan_decimal s =
     (let ip = takeWhile is_digit s; r1 = dropWhile is_digit s;
          (fp, r2) = (case r1 of [] \<Rightarrow> ([], r1)
                      | c # r \<Rightarrow> if c = CHR ''.'' then (takeWhile is_digit r, dropWhile is_digit r)
                                  else ([], r1))
      in if ip = [] \<and> fp = [] then None
         else let (e, r3) = scan_exponent r2
              in Some (of_nat (digits_val (ip @ fp)) / 10 ^ length fp * pow10 e, r3))"

definition scan_sign :: "string \<Rightarrow> bool \<times> string" where
  "scan_sign s = (case s of [] \<Rightarrow> (False, s)
                  | c # r \<Rightarrow> if c = CHR ''-'' then (True, r)
                              else if c = CHR ''+'' then (False, r) else (False, s))"

definition parseFloat :: "string \<Rightarrow> js_num" where
  "parseFloat s =
     (let (neg, r) = scan_sign (dropWhile is_space s)
      in if starts_with r ''Infinity'' then Infinite neg
         else case scan_decimal r of
                None \<Rightarrow> NaN
              | Some (x, _) \<Rightarrow> Fin (if neg then - x else x))"

text \<open>The digits of a \<open>0x\<close>, \<open>0o\<close> or \<open>0b\<close> literal.\<close>

definition radix_digit :: "char \<Rightarrow> nat option" where
  "radix_digit c =
     (if is_digit c then Some (char_code c - 48)
      else if 97 \<le> char_code c \<and> char_code c \<le> 102 then Some (char_code c - 87)
      else if 65 \<le> char_code c \<and> char_code c \<le> 70 then Some (char_code c - 55) else None)"

fun radix_val :: "nat \<Rightarrow> nat \<Rightarrow> string \<Rightarrow> nat option" where
  "radix_val b acc [] = Some acc"
| "radix_val b acc (c # s) =
     (case radix_digit c of None \<Rightarrow> None
      | Some d \<Rightarrow> if d < b then radix_val b (b * acc + d) s else None)"

definition radix_number :: "nat \<Rightarrow> string \<Rightarrow> js_num" where
  "radix_number b s =
     (if s = [] then NaN else case radix_val b 0 s of None \<Rightarrow> NaN | Some n \<Rightarrow> Fin (of_nat n))"

definition js_number :: "string \<Rightarrow> js_num" where
  "js_number s0 =
     (let s = js_trim s0 in
      if s = [] then Fin 0
      else if starts_with s ''0x'' \<or> starts_with s ''0X'' then radix_number 16 (drop 2 s)
      else if starts_with s ''0o'' \<or> starts_with s ''0O'' then radix_number 8 (drop 2 s)
      else if starts_with s ''0b'' \<or> starts_with s ''0B'' then radix_number 2 (drop 2 s)
      else let (neg, r) = scan_sign s
           in if r = ''Infinity'' then Infinite neg
              else case scan_decimal r of
                     Some (x, []) \<Rightarrow> Fin (if neg then - x else x)
                   | _ \<Rightarrow> NaN)"

section \<open>Durations\<close>

text \<open>
  \<open>DURATION_UNIT_MS\<close> and \<open>parseDurationMs\<close> of \<open>auth.service.js\<close>: the regular expression
  \<open>/^(\d+(?:\.\d+)?)\s*(ms|s|m|h|d|w|y)?$/i\<close> on the trimmed text.
\<close>

definition DURATION_UNIT_MS :: "string \<Rightarrow> rat option" where
  "DURATION_UNIT_MS u =
     map_of [(''ms'', 1), (''s'', 1000), (''m'', 60 * 1000), (''h'', 60 * 60 * 1000),
             (''d'', 24 * 60 * 60 * 1000), (''w'', 7 * 24 * 60 * 60 * 1000),
             (''y'', 365 * 24 * 60 * 60 * 1000 + 6 * 60 * 60 * 1000)] u"

definition duration_amount :: "string \<Rightarrow> (rat \<times> string) option" where
  "duration_amount s =
     (let ip = takeWhile is_digit s; r1 = dropWhile is_digit s
      in if ip = [] then None
         else case r1 of
                c # r \<Rightarrow>
                  (let fp = takeWhile is_digit r
                   in if c = CHR ''.'' \<and> fp \<noteq> []
                      then Some (of_nat (digits_val (ip @ fp)) / 10 ^ length fp, dropWhile is_digit r)
                      else Some (of_nat (digits_val ip), r1))
              | [] \<Rightarrow> Some (of_nat (digits_val ip), r1))"

definition parseDurationMs :: "string option \<Rightarrow> rat \<Rightarrow> rat" where
  "parseDurationMs value fallbackMs =
     (let s = js_trim (case value of None \<Rightarrow> [] | Some v \<Rightarrow> v)
      in case duration_amount s of
           None \<Rightarrow> fallbackMs
         | Some (n, r) \<Rightarrow>
             (let u = js_lower (dropWhile is_space r)
              in case DURATION_UNIT_MS (if u = [] then ''ms'' else u) of
                   None \<Rightarrow> fallbackMs
                 | Some f \<Rightarrow> n * f))"

section \<open>Laws\<close>

lemma digits_val_snoc: "digits_val (ds @ [c]) = 10 * digits_val ds + digit_val c"
  by (simp add: digits_val_def)

lemma digit_char [simp]:
  "n < 10 \<Longrightarrow> is_digit (char_of (n + 48))" "n < 10 \<Longrightarrow> digit_val (char_of (n + 48)) = n"
  by (simp_all add: is_digit_def digit_val_def)

lemma show_nat_digits: "\<forall>c \<in> set (show_nat n). is_digit c"
proof (induction n rule: show_nat.induct)
  case (1 n)
  then show ?case by (subst show_nat.simps) auto
qed

lemma show_nat_ne [simp]: "show_nat n \<noteq> []"
  by (subst show_nat.simps) simp

lemma digits_val_show_nat [simp]: "digits_val (show_nat n) = n"
proof (induction n rule: show_nat.induct)
  case (1 n)
  show ?case
  proof (cases "n < 10")
    case True
    then show ?thesis by (subst show_nat.simps) (simp add: digits_val_def)
  next
    case False
    with 1 show ?thesis by (subst show_nat.simps) (simp add: digits_val_snoc)
  qed
qed

lemma is_digit_not_space: "is_digit c \<Longrightarrow> \<not> is_space c"
  by (auto simp: is_digit_def is_space_def)

lemma takeWhile_all_digits:
  "\<forall>c \<in> set s. is_digit c \<Longrightarrow> takeWhile is_digit s = s \<and> dropWhile is_digit s = []"
  by (induction s) auto

lemma dropWhile_hd: "s \<noteq> [] \<Longrightarrow> \<not> P (hd s) \<Longrightarrow> dropWhile P s = s"
  by (cases s) auto

lemma js_trim_solid:
  assumes "s \<noteq> []" "\<not> is_space (hd s)" "\<not> is_space (last s)"
  shows "js_trim s = s"
  using assms by (simp add: js_trim_def dropWhile_hd hd_rev)

lemma js_trim_digits:
  assumes "s \<noteq> []" "\<forall>c \<in> set s. is_digit c"
  shows "js_trim s = s"
  using assms by (intro js_trim_solid) (auto simp: is_digit_not_space)

lemma scan_decimal_digits:
  assumes "s \<noteq> []" "\<forall>c \<in> set s. is_digit c"
  shows "scan_decimal s = Some (of_nat (digits_val s), [])"
proof -
  have tk: "takeWhile is_digit s = s" "dropWhile is_digit s = []"
    using takeWhile_all_digits [OF assms(2)] by blast+
  show ?thesis
    unfolding scan_decimal_def Let_def tk
    using assms(1) by (simp add: scan_exponent_def pow10_def)
qed

lemma digits_no_prefix:
  assumes "\<forall>c \<in> set s. is_digit c" "\<not> is_digit y"
  shows "\<not> starts_with s [x, y]"
proof
  assume "starts_with s [x, y]"
  then have "y \<in> set (take 2 s)" by (simp add: starts_with_def numeral_2_eq_2)
  then have "y \<in> set s" by (rule in_set_takeD)
  with assms show False by blast
qed

text \<open>\<open>Number(String(n)) = n\<close>.\<close>

lemma js_number_show_nat: "js_number (show_nat n) = Fin (of_nat n)"
proof -
  let ?s = "show_nat n"
  have dig: "\<forall>c \<in> set ?s. is_digit c" by (rule show_nat_digits)
  obtain c r where s: "?s = c # r" by (meson list.exhaust show_nat_ne)
  with dig have c: "is_digit c" by simp
  then have sign: "scan_sign ?s = (False, ?s)"
    by (auto simp: scan_sign_def s is_digit_def char_code_def)
  have inf: "?s \<noteq> ''Infinity''"
    using c s by (auto simp: is_digit_def char_code_def)
  have pre: "\<not> starts_with ?s [CHR ''0'', y]" if "\<not> is_digit y" for y
    by (rule digits_no_prefix [OF dig that])
  have "js_trim ?s = ?s" by (rule js_trim_digits [OF show_nat_ne dig])
  with sign inf pre scan_decimal_digits [OF show_nat_ne dig] show ?thesis
    by (simp add: js_number_def is_digit_def char_code_def)
qed

text \<open>A duration written as a whole number and a unit means what it says.\<close>

lemma parseDurationMs_show:
  assumes "DURATION_UNIT_MS u = Some f" "u \<noteq> []" "\<not> is_space (last u)" "js_lower u = u"
    "\<not> is_digit (hd u)" "hd u \<noteq> CHR ''.''" "\<not> is_space (hd u)"
  shows "parseDurationMs (Some (show_nat n @ u)) d = of_nat n * f"
proof -
  have dig: "\<forall>c \<in> set (show_nat n). is_digit c" by (rule show_nat_digits)
  obtain x v where u: "u = x # v" using assms(2) by (cases u) auto
  have tk: "takeWhile is_digit (show_nat n @ u) = show_nat n"
    "dropWhile is_digit (show_nat n @ u) = u"
    using dig assms(5) u by (simp_all add: takeWhile_append2 dropWhile_append2)
  have "\<not> is_space (hd (show_nat n @ u))"
    using dig by (simp add: is_digit_not_space)
  with assms(2,3) have trim: "js_trim (show_nat n @ u) = show_nat n @ u"
    by (intro js_trim_solid) auto
  have "duration_amount (show_nat n @ u) = Some (of_nat n, u)"
    using tk assms(6) u by (simp add: duration_amount_def)
  with trim assms u show ?thesis
    by (simp add: parseDurationMs_def)
qed

end
