(* ===== verification/Runtime.thy ===== *)
theory Runtime
  imports Schema JsNumber
begin

text \<open>
  What a request handler gets besides its arguments: the process environment, the packages the
  code calls but does not contain, the client's data, and the random values drawn during the
  request.  A field of \<open>env\<close> in lower case is a function of a package (\<open>bcryptjs\<close>,
  \<open>jsonwebtoken\<close>, \<open>otplib\<close>, \<open>google-auth-library\<close>, \<open>bullmq\<close>, Node's \<open>crypto\<close>): it is a parameter of
  the model, and a theorem that relies on what the package documents says so in a hypothesis.

  Here are also \<open>src/utils/jwt.js\<close>, \<open>src/utils/hash.js\<close> and the small helpers that
  \<open>auth.service.js\<close>, \<open>twofa.service.js\<close> and \<open>invitation.service.js\<close> share.
\<close>

section \<open>Environment\<close>

datatype jwt_claims =
    AccessClaims (c_id: string) (c_email: string) (c_role: role) (c_tokenVersion: int)
  | RefreshClaims (c_sub: string)

record jwt_options =
  jo_expiresIn :: string
  jo_jwtid :: "string option"
  jo_algorithm :: string

text \<open>What \<open>otplib.verify\<close> returns; it throws on a token that is not six digits.\<close>

datatype totp_result = TotpThrows | TotpResult (totp_valid: bool) (totp_timeStep: int)

text \<open>The part of Google's ID-token payload the code reads.\<close>

record google_payload =
  gp_sub :: "string option"
  gp_email :: "string option"
  gp_email_verified :: bool
  gp_name :: "string option"

text \<open>What PostgreSQL decides for the code: \<open>ILIKE\<close>, and the order \<open>orderBy\<close> gives the rows of a table.\<close>

record postgres =
  ilike :: "string \<Rightarrow> string \<Rightarrow> bool"
  order_users :: "(string \<times> string) option \<Rightarrow> user list \<Rightarrow> user list"
  order_sessions :: "(string \<times> string) option \<Rightarrow> refresh_token list \<Rightarrow> refresh_token list"
  order_members :: "(string \<times> string) option \<Rightarrow> organization_member list \<Rightarrow> organization_member list"
  order_invitations :: "(string \<times> string) option \<Rightarrow> organization_invitation list \<Rightarrow> organization_invitation list"
  order_plans :: "(string \<times> string) option \<Rightarrow> plan list \<Rightarrow> plan list"
  order_keys :: "(string \<times> string) option \<Rightarrow> api_key list \<Rightarrow> api_key list"
  order_audit :: "(string \<times> string) option \<Rightarrow> audit_log list \<Rightarrow> audit_log list"
  order_notifications :: "(string \<times> string) option \<Rightarrow> notification list \<Rightarrow> notification list"
  order_flags :: "(string \<times> string) option \<Rightarrow> feature_flag list \<Rightarrow> feature_flag list"
  order_projects :: "(string \<times> string) option \<Rightarrow> project list \<Rightarrow> project list"

record env =
  NODE_ENV :: "string option"
  JWT_SECRET :: string
  JWT_EXPIRES_IN :: "string option"
  JWT_REFRESH_SECRET :: string
  JWT_REFRESH_EXPIRES_IN :: "string option"
  SECRET_ENCRYPTION_KEY :: "string option"
  GOOGLE_CLIENT_ID :: "string option"
  GOOGLE_CLIENT_SECRET :: "string option"
  STRIPE_SECRET_KEY :: "string option"
  STRIPE_WEBHOOK_SECRET :: "string option"
  JOB_QUEUE_DISABLED :: "string option"
  APP_NAME :: "string option"
  sha256_hex :: "string \<Rightarrow> string"
  sha256_bytes :: "string \<Rightarrow> string"
  hmac_sha256_hex :: "string \<Rightarrow> string \<Rightarrow> string"
  aes_gcm_encrypt :: "string \<Rightarrow> string \<Rightarrow> string \<Rightarrow> string \<times> string"
  aes_gcm_decrypt :: "string \<Rightarrow> string \<Rightarrow> string \<Rightarrow> string \<Rightarrow> string option"
  bcrypt_hash :: "string \<Rightarrow> nat \<Rightarrow> string \<Rightarrow> string"
  bcrypt_compare :: "string \<Rightarrow> string \<Rightarrow> bool"
  jwt_sign :: "jwt_claims \<Rightarrow> string \<Rightarrow> jwt_options \<Rightarrow> int \<Rightarrow> string"
  jwt_verify :: "string \<Rightarrow> string \<Rightarrow> string list \<Rightarrow> int \<Rightarrow> jwt_claims option"
  totp_verify :: "string \<Rightarrow> string \<Rightarrow> int \<times> int \<Rightarrow> int option \<Rightarrow> int \<Rightarrow> totp_result"
  otp_uri :: "string \<Rightarrow> string \<Rightarrow> string \<Rightarrow> string"
  qr_code :: "string \<Rightarrow> string"
  google_auth_url :: "string \<Rightarrow> string"
  google_verify :: "string \<Rightarrow> string option \<Rightarrow> google_payload option option"
  queue_add :: "email_job \<Rightarrow> string option"
  audit_insert :: "audit_log \<Rightarrow> bool"
  pg :: postgres

text \<open>
  \<open>userAgent\<close>, \<open>ipAddress\<close> and \<open>locale\<close> (here \<open>reqLocale\<close>) of the request; the values \<open>randomBytes\<close>,
  \<open>randomUUID\<close>, bcrypt's salt and Prisma's \<open>cuid()\<close> yield during it.
\<close>

record client =
  userAgent :: "string option"
  ipAddress :: "string option"
  reqLocale :: "string option"

record fresh =
  fr_token :: string
  fr_jti :: string
  fr_salt :: string
  fr_id :: string
  fr_tokenId :: string

text \<open>JavaScript truthiness of a string that may be missing.\<close>

definition truthy :: "string option \<Rightarrow> bool" where
  "truthy s = (case s of None \<Rightarrow> False | Some x \<Rightarrow> x \<noteq> [])"

lemma truthy_simps [simp]: "\<not> truthy None" "truthy (Some x) \<longleftrightarrow> x \<noteq> []"
  by (simp_all add: truthy_def)

section \<open>\<open>src/utils/jwt.js\<close>\<close>

definition signToken :: "env \<Rightarrow> int \<Rightarrow> jwt_claims \<Rightarrow> string" where
  "signToken E now payload =
     jwt_sign E payload (JWT_SECRET E)
       \<lparr>jo_expiresIn = (case JWT_EXPIRES_IN E of None \<Rightarrow> ''15m'' | Some x \<Rightarrow> x),
        jo_jwtid = None, jo_algorithm = ''HS256''\<rparr> now"

definition signRefreshToken :: "env \<Rightarrow> int \<Rightarrow> string \<Rightarrow> jwt_claims \<Rightarrow> string" where
  "signRefreshToken E now jti payload =
     jwt_sign E payload (JWT_REFRESH_SECRET E)
       \<lparr>jo_expiresIn = (case JWT_REFRESH_EXPIRES_IN E of None \<Rightarrow> ''7d'' | Some x \<Rightarrow> x),
        jo_jwtid = Some jti, jo_algorithm = ''HS256''\<rparr> now"

definition verifyToken :: "env \<Rightarrow> int \<Rightarrow> string \<Rightarrow> jwt_claims option" where
  "verifyToken E now token = jwt_verify E token (JWT_SECRET E) [''HS256''] now"

definition verifyRefreshToken :: "env \<Rightarrow> int \<Rightarrow> string \<Rightarrow> jwt_claims option" where
  "verifyRefreshToken E now token = jwt_verify E token (JWT_REFRESH_SECRET E) [''HS256''] now"

section \<open>\<open>src/utils/hash.js\<close>\<close>

definition SALT_ROUNDS :: nat where
  "SALT_ROUNDS = 12"

definition hashPassword :: "env \<Rightarrow> string \<Rightarrow> string \<Rightarrow> string" where
  "hashPassword E salt password = bcrypt_hash E salt SALT_ROUNDS password"

definition comparePassword :: "env \<Rightarrow> string \<Rightarrow> string \<Rightarrow> bool" where
  "comparePassword E password hash = bcrypt_compare E password hash"

section \<open>Helpers the services share\<close>

definition hashToken :: "env \<Rightarrow> string \<Rightarrow> string" where
  "hashToken E token = sha256_hex E token"

definition normalizeEmail :: "string \<Rightarrow> string" where
  "normalizeEmail email = js_lower (js_trim email)"

lemma normalizeEmail_idem: "normalizeEmail (normalizeEmail e) = normalizeEmail e"
  by (simp add: normalizeEmail_def js_trim_lower)

definition EXPOSE_DEV_TOKENS :: "env \<Rightarrow> bool" where
  "EXPOSE_DEV_TOKENS E \<longleftrightarrow> NODE_ENV E = Some ''development'' \<or> NODE_ENV E = Some ''test''"

definition REFRESH_TOKEN_TTL_MS :: "env \<Rightarrow> rat" where
  "REFRESH_TOKEN_TTL_MS E = parseDurationMs (JWT_REFRESH_EXPIRES_IN E) (7 * 24 * 60 * 60 * 1000)"

text \<open>\<open>new Date(t)\<close> drops the fraction of a millisecond; a date is never before the epoch here.\<close>

definition date_of :: "rat \<Rightarrow> int" where
  "date_of t = \<lfloor>t\<rfloor>"

section \<open>The e-mail producer (\<open>src/modules/jobs/email.producer.js\<close>)\<close>

definition DEFAULT_LOCALE :: string where
  "DEFAULT_LOCALE = ''en''"

definition locale_or_default :: "string option \<Rightarrow> string" where
  "locale_or_default l = (case l of None \<Rightarrow> DEFAULT_LOCALE | Some x \<Rightarrow> x)"

definition queue_disabled :: "env \<Rightarrow> bool" where
  "queue_disabled E \<longleftrightarrow> NODE_ENV E = Some ''test'' \<or> JOB_QUEUE_DISABLED E = Some ''true''"

text \<open>\<open>queue.add\<close> of BullMQ takes the job, or rejects with an error (when Redis is gone).\<close>

definition enqueueEmail :: "env \<Rightarrow> email_job \<Rightarrow> db \<Rightarrow> unit result \<times> db" where
  "enqueueEmail E job d =
     (if queue_disabled E then (Inr (), d)
      else (case queue_add E job of
              Some msg \<Rightarrow> (Inl (OtherError msg), d)
            | None \<Rightarrow> (Inr (), d\<lparr>emailQueue := emailQueue d @ [job]\<rparr>)))"

definition queueVerificationEmail ::
  "env \<Rightarrow> string \<Rightarrow> string \<Rightarrow> string option \<Rightarrow> string option \<Rightarrow> db \<Rightarrow> unit result \<times> db" where
  "queueVerificationEmail E to token name loc d =
     enqueueEmail E (SendVerificationEmail to token name (locale_or_default loc)) d"

definition queuePasswordResetEmail ::
  "env \<Rightarrow> string \<Rightarrow> string \<Rightarrow> string option \<Rightarrow> string option \<Rightarrow> db \<Rightarrow> unit result \<times> db" where
  "queuePasswordResetEmail E to token name loc d =
     enqueueEmail E (SendPasswordResetEmail to token name (locale_or_default loc)) d"

definition queueOrgInvitationEmail ::
  "env \<Rightarrow> string \<Rightarrow> string \<Rightarrow> string \<Rightarrow> org_role \<Rightarrow> string \<Rightarrow> string option \<Rightarrow> db \<Rightarrow> unit result \<times> db" where
  "queueOrgInvitationEmail E to orgName inviterName role token loc d =
     enqueueEmail E
       (SendOrgInvitationEmail to orgName inviterName role token (locale_or_default loc)) d"

lemma enqueueEmail_frame [frame_simps, simp]:
  "users (snd (enqueueEmail E j d)) = users d" "refreshTokens (snd (enqueueEmail E j d)) = refreshTokens d"
  "twoFactorChallenges (snd (enqueueEmail E j d)) = twoFactorChallenges d"
  "organizations (snd (enqueueEmail E j d)) = organizations d" "members (snd (enqueueEmail E j d)) = members d"
  "invitations (snd (enqueueEmail E j d)) = invitations d" "auditLogs (snd (enqueueEmail E j d)) = auditLogs d"
  "subscriptions (snd (enqueueEmail E j d)) = subscriptions d"
  by (simp_all add: enqueueEmail_def split: option.split)

text \<open>Whether the queue takes the job or not, only the queue changes.\<close>

lemma enqueueEmailD:
  assumes "enqueueEmail E j d = (r, d')"
  shows "\<exists>q. d' = d\<lparr>emailQueue := q\<rparr>"
proof (cases "queue_disabled E \<or> queue_add E j \<noteq> None")
  case True
  with assms have "d' = d\<lparr>emailQueue := emailQueue d\<rparr>"
    by (auto simp: enqueueEmail_def split: option.splits if_splits)
  then show ?thesis ..
next
  case False
  with assms show ?thesis by (auto simp: enqueueEmail_def split: option.splits if_splits)
qed

lemmas queueEmail_defs = queueVerificationEmail_def queuePasswordResetEmail_def queueOrgInvitationEmail_def

section \<open>The audit log (\<open>log\<close> of \<open>src/modules/audit/audit.service.js\<close>)\<close>

text \<open>
  Fire and forget: the caller never waits for the insert, and an insert the database refuses (\<open>audit_insert\<close> of
  \<open>env\<close> is false of its row) is only logged.
\<close>

record audit_data =
  ad_userId :: "string option"
  ad_targetUserId :: "string option"
  ad_organizationId :: "string option"
  ad_ipAddress :: "string option"
  ad_userAgent :: "string option"
  ad_metadata :: "(string \<times> json) list"

definition no_audit_data :: audit_data where
  "no_audit_data = \<lparr>ad_userId = None, ad_targetUserId = None, ad_organizationId = None,
     ad_ipAddress = None, ad_userAgent = None, ad_metadata = []\<rparr>"

definition audit_row :: "int \<Rightarrow> audit_action \<Rightarrow> audit_data \<Rightarrow> audit_log" where
  "audit_row now action a =
     \<lparr>a_action = action, a_userId = ad_userId a, a_targetUserId = ad_targetUserId a,
      a_organizationId = ad_organizationId a, a_ipAddress = ad_ipAddress a,
      a_userAgent = ad_userAgent a, a_metadata = ad_metadata a, a_createdAt = now\<rparr>"

definition auditLog :: "env \<Rightarrow> int \<Rightarrow> audit_action \<Rightarrow> audit_data \<Rightarrow> db \<Rightarrow> db" where
  "auditLog E now action a d =
     (if audit_insert E (audit_row now action a)
      then d\<lparr>auditLogs := auditLogs d @ [audit_row now action a]\<rparr> else d)"

lemma auditLog_frame [frame_simps, simp]:
  "users (auditLog E now act a d) = users d"
  "refreshTokens (auditLog E now act a d) = refreshTokens d"
  "twoFactorChallenges (auditLog E now act a d) = twoFactorChallenges d"
  "organizations (auditLog E now act a d) = organizations d"
  "members (auditLog E now act a d) = members d"
  "invitations (auditLog E now act a d) = invitations d"
  "subscriptions (auditLog E now act a d) = subscriptions d"
  "plans (auditLog E now act a d) = plans d"
  "webhookEvents (auditLog E now act a d) = webhookEvents d"
  "projects (auditLog E now act a d) = projects d"
  "emailQueue (auditLog E now act a d) = emailQueue d"
  by (simp_all add: auditLog_def)

section \<open>What writes to the user and refresh-token tables keep\<close>

lemma update_user_frame [frame_simps, simp]:
  "refreshTokens (update_user now i f d) = refreshTokens d"
  "twoFactorChallenges (update_user now i f d) = twoFactorChallenges d"
  "organizations (update_user now i f d) = organizations d"
  "members (update_user now i f d) = members d"
  "invitations (update_user now i f d) = invitations d"
  "auditLogs (update_user now i f d) = auditLogs d"
  "emailQueue (update_user now i f d) = emailQueue d"
  "subscriptions (update_user now i f d) = subscriptions d"
  by (simp_all add: update_user_def)

lemma revoke_tokens_frame [frame_simps, simp]:
  "users (revoke_tokens now p d) = users d"
  "twoFactorChallenges (revoke_tokens now p d) = twoFactorChallenges d"
  "organizations (revoke_tokens now p d) = organizations d"
  "members (revoke_tokens now p d) = members d"
  "invitations (revoke_tokens now p d) = invitations d"
  "auditLogs (revoke_tokens now p d) = auditLogs d"
  "emailQueue (revoke_tokens now p d) = emailQueue d"
  "subscriptions (revoke_tokens now p d) = subscriptions d"
  by (simp_all add: revoke_tokens_def)

end
