(* ===== verification/AuthTokens.thy ===== *)
theory AuthTokens
  imports Runtime
begin

text \<open>
  The pieces \<open>auth.service.js\<close> and \<open>twofa.service.js\<close> import from each other: the refresh-token
  record behind a session, the revocation of all of a user's sessions, the login challenge of the
  second factor, and the user fields that leave the server.

\<close>

section \<open>Selected user fields\<close>

text \<open>\<open>userSelect\<close>: no password hash, no token, no secret.\<close>

record safe_user =
  su_id :: string
  su_name :: "string option"
  su_email :: string
  su_role :: role
  su_createdAt :: int

definition userSelect :: "user \<Rightarrow> safe_user" where
  "userSelect u = \<lparr>su_id = u_id u, su_name = u_name u, su_email = u_email u, su_role = u_role u,
     su_createdAt = u_createdAt u\<rparr>"

definition user_by_id :: "string \<Rightarrow> db \<Rightarrow> user option" where
  "user_by_id uid d = find_first (\<lambda>u. u_id u = uid) (users d)"

text \<open>The 403 of a suspended account carries the end of the suspension.\<close>

definition accountSuspended :: "int option \<Rightarrow> api_error" where
  "accountSuspended until =
     HttpError ''errors.accountSuspended'' 403
       (case until of None \<Rightarrow> [] | Some t \<Rightarrow> [(''until'', PTime t)])"

text \<open>The payload every login path signs.\<close>

definition accessTokenFor :: "env \<Rightarrow> int \<Rightarrow> user \<Rightarrow> string" where
  "accessTokenFor E now u =
     signToken E now (AccessClaims (u_id u) (u_email u) (u_role u) (u_tokenVersion u))"

section \<open>Refresh tokens\<close>

definition createRefreshTokenRecord ::
  "env \<Rightarrow> int \<Rightarrow> client \<Rightarrow> fresh \<Rightarrow> string \<Rightarrow> db \<Rightarrow> string result \<times> db" where
  "createRefreshTokenRecord E now cl fr userId d =
     (let refreshToken = signRefreshToken E now (fr_jti fr) (RefreshClaims userId);
          row = \<lparr>rt_id = fr_tokenId fr, rt_token = hashToken E refreshToken, rt_userId = userId,
                 rt_userAgent = userAgent cl, rt_ipAddress = ipAddress cl, rt_revoked = False,
                 rt_expiresAt = date_of (of_int now + REFRESH_TOKEN_TTL_MS E),
                 rt_createdAt = now, rt_updatedAt = now\<rparr>
      in case insert_row token_clash row (refreshTokens d) of
           Inl e \<Rightarrow> (Inl e, d)
         | Inr ts \<Rightarrow> (Inr refreshToken, d\<lparr>refreshTokens := ts\<rparr>))"

definition revokeAllRefreshTokens :: "int \<Rightarrow> string \<Rightarrow> db \<Rightarrow> db" where
  "revokeAllRefreshTokens now userId d =
     revoke_tokens now (\<lambda>t. rt_userId t = userId \<and> \<not> rt_revoked t) d"

section \<open>Login challenges\<close>

definition CHALLENGE_TTL_MS :: int where
  "CHALLENGE_TTL_MS = 5 * 60 * 1000"

definition createChallenge :: "env \<Rightarrow> int \<Rightarrow> fresh \<Rightarrow> string \<Rightarrow> db \<Rightarrow> string result \<times> db" where
  "createChallenge E now fr userId d =
     (let challengeToken = fr_token fr;
          row = \<lparr>ch_id = fr_id fr, ch_token = hashToken E challengeToken, ch_userId = userId,
                 ch_expiresAt = now + CHALLENGE_TTL_MS, ch_used = False, ch_attempts = 0,
                 ch_createdAt = now\<rparr>
      in case insert_row challenge_clash row (twoFactorChallenges d) of
           Inl e \<Rightarrow> (Inl e, d)
         | Inr cs \<Rightarrow> (Inr challengeToken, d\<lparr>twoFactorChallenges := cs\<rparr>))"

section \<open>Their laws\<close>

lemma createRefreshTokenRecord_Inr:
  assumes "createRefreshTokenRecord E now cl fr uid d = (Inr rt, d')"
  shows "rt = signRefreshToken E now (fr_jti fr) (RefreshClaims uid)"
    and "\<exists>row. rt_token row = hashToken E rt \<and> rt_userId row = uid \<and> \<not> rt_revoked row
           \<and> refreshTokens d' = refreshTokens d @ [row]"
    and "users d' = users d" "twoFactorChallenges d' = twoFactorChallenges d"
    and "auditLogs d' = auditLogs d" "emailQueue d' = emailQueue d"
  using assms
  by (auto simp: createRefreshTokenRecord_def Let_def split: sum.splits dest!: insert_row_InrD)

lemma createRefreshTokenRecord_users [simp]:
  "users (snd (createRefreshTokenRecord E now cl fr uid d)) = users d"
  by (simp add: createRefreshTokenRecord_def Let_def split: sum.splits)

lemma createRefreshTokenRecord_uniq:
  "uniq token_clash (refreshTokens d) \<Longrightarrow>
   uniq token_clash (refreshTokens (snd (createRefreshTokenRecord E now cl fr uid d)))"
  by (auto simp: createRefreshTokenRecord_def Let_def split: sum.splits
      dest: token_ix.insert_keeps)

lemma createChallenge_Inr:
  assumes "createChallenge E now fr uid d = (Inr c, d')"
  shows "c = fr_token fr" "users d' = users d" "refreshTokens d' = refreshTokens d"
    and "\<exists>row. ch_token row = hashToken E c \<and> ch_userId row = uid \<and> \<not> ch_used row
           \<and> ch_attempts row = 0 \<and> twoFactorChallenges d' = twoFactorChallenges d @ [row]"
  using assms
  by (auto simp: createChallenge_def Let_def split: sum.splits dest!: insert_row_InrD)

lemma createChallenge_frame [simp]:
  "users (snd (createChallenge E now fr uid d)) = users d"
  "refreshTokens (snd (createChallenge E now fr uid d)) = refreshTokens d"
  by (simp_all add: createChallenge_def Let_def split: sum.splits)

lemma in_revoke_tokensE:
  assumes "t' \<in> set (refreshTokens (revoke_tokens now p d))"
  obtains t where "t \<in> set (refreshTokens d)" "p t"
      "t' = t\<lparr>rt_revoked := True, rt_updatedAt := now\<rparr>"
    | "t' \<in> set (refreshTokens d)" "\<not> p t'"
  using assms by (auto simp: revoke_tokens_def elim: in_update_whereE)

lemma revokeAll_revokes:
  assumes "t \<in> set (refreshTokens (revokeAllRefreshTokens now uid d))" "rt_userId t = uid"
  shows "rt_revoked t"
  using assms(1) unfolding revokeAllRefreshTokens_def
  by (rule in_revoke_tokensE) (use assms(2) in simp_all)

lemma revoke_tokens_map [simp]:
  "map rt_id (refreshTokens (revoke_tokens now p d)) = map rt_id (refreshTokens d)"
  "map rt_token (refreshTokens (revoke_tokens now p d)) = map rt_token (refreshTokens d)"
  "map rt_userId (refreshTokens (revoke_tokens now p d)) = map rt_userId (refreshTokens d)"
  unfolding revoke_tokens_def by (simp_all add: map_update_where)

text \<open>Revocation is final: no write to the table ever clears the flag.\<close>

lemma revoke_tokens_keeps_revoked:
  assumes "t \<in> set (refreshTokens d)" "rt_revoked t"
  shows "\<exists>t' \<in> set (refreshTokens (revoke_tokens now p d)). rt_id t' = rt_id t
           \<and> rt_token t' = rt_token t \<and> rt_userId t' = rt_userId t \<and> rt_revoked t'"
proof (cases "p t")
  case True
  with assms(1) have "t\<lparr>rt_revoked := True, rt_updatedAt := now\<rparr>
      \<in> set (refreshTokens (revoke_tokens now p d))"
    by (auto simp: revoke_tokens_def set_update_where)
  then show ?thesis by (rule bexI [rotated]) simp
next
  case False
  with assms(1) have "t \<in> set (refreshTokens (revoke_tokens now p d))"
    by (auto simp: revoke_tokens_def set_update_where)
  then show ?thesis using assms(2) by blast
qed

end
