(* ===== verification/Users.thy ===== *)
theory Users
  imports AuthTokens
begin

text \<open>
  Facts about the user table that the account components share: which columns its unique indexes
  read, what an update of other columns leaves alone, and what a lookup finds afterwards.
\<close>

section \<open>The columns the indexes read\<close>

definition user_key ::
  "user \<Rightarrow> string \<times> string \<times> string option \<times> string option \<times> int option \<times> string option \<times> string option"
  where
  "user_key u = (u_id u, u_email u, u_googleId u, u_pendingEmail u, u_deletedAt u,
     u_emailVerificationToken u, u_passwordResetToken u)"

lemma user_key_eq_iff:
  "user_key x = user_key y \<longleftrightarrow>
     u_id x = u_id y \<and> u_email x = u_email y \<and> u_googleId x = u_googleId y
   \<and> u_pendingEmail x = u_pendingEmail y \<and> u_deletedAt x = u_deletedAt y
   \<and> u_emailVerificationToken x = u_emailVerificationToken y
   \<and> u_passwordResetToken x = u_passwordResetToken y"
  by (simp add: user_key_def)

lemma user_clash_key:
  assumes "user_key x' = user_key x" "user_key y' = user_key y"
  shows "user_clash x' y' = user_clash x y"
  using assms unfolding user_key_eq_iff user_clash_def by simp

lemma user_key_updatedAt [simp]: "user_key (u\<lparr>u_updatedAt := t\<rparr>) = user_key u"
  by (simp add: user_key_def)

lemma update_user_uniq:
  assumes "uniq user_clash (users d)" "\<And>u. user_key (f u) = user_key u"
  shows "uniq user_clash (users (update_user now i f d))"
  unfolding update_user_def
proof simp
  show "uniq user_clash (update_where (\<lambda>u. u_id u = i) (\<lambda>u. f u\<lparr>u_updatedAt := now\<rparr>) (users d))"
  proof (rule user_ix.update_where_keeps [OF assms(1)])
    fix x y
    assume "user_clash (f x\<lparr>u_updatedAt := now\<rparr>) (f y\<lparr>u_updatedAt := now\<rparr>)"
    then show "user_clash x y"
      using user_clash_key [of "f x\<lparr>u_updatedAt := now\<rparr>" x "f y\<lparr>u_updatedAt := now\<rparr>" y] assms(2)
      by simp
  next
    fix x y
    assume "user_clash (f x\<lparr>u_updatedAt := now\<rparr>) y"
    then show "user_clash x y"
      using user_clash_key [of "f x\<lparr>u_updatedAt := now\<rparr>" x y y] assms(2) by simp
  qed
qed

lemma uniq_user_ids: "uniq user_clash us \<Longrightarrow> distinct (map u_id us)"
  by (subst uniq_key_distinct [symmetric]) (erule uniq_mono, simp add: user_clash_def)

section \<open>Lookups\<close>

lemma update_user_ids [simp]:
  assumes "\<And>u. u_id (f u) = u_id u"
  shows "map u_id (users (update_user now i f d)) = map u_id (users d)"
  using assms by (simp add: update_user_def map_update_where)

lemma user_by_id_update:
  assumes "\<And>u. u_id (f u) = u_id u"
  shows "user_by_id j (update_user now i f d) =
           map_option (\<lambda>u. if u_id u = i then (f u)\<lparr>u_updatedAt := now\<rparr> else u) (user_by_id j d)"
  using assms by (simp add: user_by_id_def update_user_def find_first_update_where)

lemma live_user_by_email_update:
  assumes "\<And>u. u_email (f u) = u_email u" "\<And>u. u_deletedAt (f u) = u_deletedAt u"
  shows "live_user_by_email e (update_user now i f d) =
           map_option (\<lambda>u. if u_id u = i then (f u)\<lparr>u_updatedAt := now\<rparr> else u) (live_user_by_email e d)"
  using assms by (simp add: live_user_by_email_def update_user_def find_first_update_where)

lemma live_user_by_id_update:
  assumes "\<And>u. u_id (f u) = u_id u" "\<And>u. u_deletedAt (f u) = u_deletedAt u"
  shows "live_user_by_id j (update_user now i f d) =
           map_option (\<lambda>u. if u_id u = i then (f u)\<lparr>u_updatedAt := now\<rparr> else u) (live_user_by_id j d)"
  using assms by (simp add: live_user_by_id_def update_user_def find_first_update_where)

lemma live_user_by_emailD:
  assumes "live_user_by_email e d = Some u"
  shows "u \<in> set (users d)" "u_email u = e" "u_deletedAt u = None"
  using find_first_SomeD [OF assms [unfolded live_user_by_email_def]] by simp_all

lemma live_user_by_idD:
  assumes "live_user_by_id i d = Some u"
  shows "u \<in> set (users d)" "u_id u = i" "u_deletedAt u = None"
  using find_first_SomeD [OF assms [unfolded live_user_by_id_def]] by simp_all

lemma user_by_idD:
  assumes "user_by_id i d = Some u"
  shows "u \<in> set (users d)" "u_id u = i"
  using find_first_SomeD [OF assms [unfolded user_by_id_def]] by simp_all

lemma user_by_id_update_same:
  assumes "\<And>u. u_id (f u) = u_id u"
  shows "user_by_id i (update_user now i f d) =
           map_option (\<lambda>u. (f u)\<lparr>u_updatedAt := now\<rparr>) (user_by_id i d)"
  unfolding user_by_id_update [OF assms] by (cases "user_by_id i d") (auto dest: user_by_idD(2))

lemma user_by_id_unique:
  assumes "uniq user_clash (users d)" "u \<in> set (users d)"
  shows "user_by_id (u_id u) d = Some u"
  using distinct_map_find [OF uniq_user_ids [OF assms(1)] assms(2)]
  by (simp add: user_by_id_def)

lemma live_user_by_email_user_by_id:
  assumes "uniq user_clash (users d)" "live_user_by_email e d = Some u"
  shows "user_by_id (u_id u) d = Some u"
  using user_by_id_unique assms live_user_by_emailD(1) by blast

lemma users_by_id_eq:
  assumes "users d' = users d"
  shows "user_by_id i d' = user_by_id i d" "live_user_by_id i d' = live_user_by_id i d"
    "live_user_by_email e d' = live_user_by_email e d"
  using assms by (simp_all add: user_by_id_def live_user_by_id_def live_user_by_email_def)

lemma users_lookup_frame [frame_simps, simp]:
  "user_by_id i (auditLog E now act a d) = user_by_id i d"
  "live_user_by_id i (auditLog E now act a d) = live_user_by_id i d"
  "live_user_by_email e (auditLog E now act a d) = live_user_by_email e d"
  "user_by_id i (revoke_tokens now p d) = user_by_id i d"
  "live_user_by_id i (revoke_tokens now p d) = live_user_by_id i d"
  "live_user_by_email e (revoke_tokens now p d) = live_user_by_email e d"
  "user_by_id i (revokeAllRefreshTokens now j d) = user_by_id i d"
  "live_user_by_id i (revokeAllRefreshTokens now j d) = live_user_by_id i d"
  "user_by_id i (snd (enqueueEmail E jb d)) = user_by_id i d"
  "users (revokeAllRefreshTokens now j d) = users d"
  by (simp_all add: user_by_id_def live_user_by_id_def live_user_by_email_def revokeAllRefreshTokens_def)

end
