(* ===== verification/Guards.thy ===== *)
theory Guards
  imports Users
begin

text \<open>
  The route guards of \<open>src/middleware\<close>: \<open>auth.middleware.js\<close> (\<open>authenticate\<close>, \<open>authorize\<close>,
  \<open>requireVerifiedEmail\<close>), \<open>tenant.middleware.js\<close> and \<open>subscription.middleware.js\<close>.  A guard answers
  the request itself (here \<open>Inl\<close> with the status and the message key) or attaches a context to the
  request and calls \<open>next\<close> (here \<open>Inr\<close> with that context).
\<close>

section \<open>\<open>auth.middleware.js\<close>\<close>

record auth_user =
  au_id :: string
  au_name :: "string option"
  au_email :: string
  au_role :: role
  au_tokenVersion :: int
  au_emailVerified :: bool

text \<open>\<open>authHeader?.startsWith('Bearer ')\<close> and \<open>authHeader.split(' ')[1]\<close>.\<close>

definition bearer_token :: "string option \<Rightarrow> string option" where
  "bearer_token hdr =
     (case hdr of
        None \<Rightarrow> None
      | Some h \<Rightarrow>
          if starts_with h ''Bearer ''
          then (case js_split (CHR '' '') h of _ # t # _ \<Rightarrow> Some t | _ \<Rightarrow> None)
          else None)"

text \<open>
  A token signed for another purpose has no \<open>id\<close>: Prisma ignores an undefined condition, so the
  first live user is found, whose version never equals the missing one.
\<close>

definition authenticate :: "env \<Rightarrow> int \<Rightarrow> string option \<Rightarrow> db \<Rightarrow> auth_user result" where
  "authenticate E now hdr d =
     (case bearer_token hdr of
        None \<Rightarrow> Inl (httpError ''errors.noTokenProvided'' 401)
      | Some token \<Rightarrow>
          (case verifyToken E now token of
             None \<Rightarrow> Inl (httpError ''errors.invalidOrExpiredToken'' 401)
           | Some (RefreshClaims _) \<Rightarrow>
               if exists_row (\<lambda>u. u_deletedAt u = None) (users d)
               then Inl (httpError ''errors.tokenInvalidated'' 401)
               else Inl (httpError ''errors.userNoLongerExists'' 401)
           | Some (AccessClaims i _ _ v) \<Rightarrow>
               (case live_user_by_id i d of
                  None \<Rightarrow> Inl (httpError ''errors.userNoLongerExists'' 401)
                | Some u \<Rightarrow>
                    if v \<noteq> u_tokenVersion u then Inl (httpError ''errors.tokenInvalidated'' 401)
                    else if u_banned u then Inl (httpError ''errors.accountBanned'' 403)
                    else if after (u_suspendedUntil u) now
                    then Inl (accountSuspended (u_suspendedUntil u))
                    else Inr \<lparr>au_id = u_id u, au_name = u_name u, au_email = u_email u,
                              au_role = u_role u, au_tokenVersion = u_tokenVersion u,
                              au_emailVerified = u_emailVerified u\<rparr>)))"

definition authorize :: "role list \<Rightarrow> auth_user option \<Rightarrow> unit result" where
  "authorize roles user =
     (case user of
        None \<Rightarrow> Inl (httpError ''errors.noTokenProvided'' 401)
      | Some u \<Rightarrow>
          if au_role u \<notin> set roles then Inl (httpError ''errors.insufficientPermissions'' 403)
          else Inr ())"

text \<open>
  \<open>req.user\<close> as \<open>requireVerifiedEmail\<close> sees it: the id, and \<open>emailVerified\<close> when the guard before
  it attached that field.
\<close>

definition requireVerifiedEmail :: "(string \<times> bool option) option \<Rightarrow> db \<Rightarrow> unit result" where
  "requireVerifiedEmail user d =
     (case user of
        None \<Rightarrow> Inl (httpError ''errors.noTokenProvided'' 401)
      | Some (i, Some verified) \<Rightarrow>
          if \<not> verified then Inl (httpError ''errors.emailNotVerified'' 403) else Inr ()
      | Some (i, None) \<Rightarrow>
          (case live_user_by_id i d of
             None \<Rightarrow> Inl (httpError ''errors.emailNotVerified'' 403)
           | Some u \<Rightarrow>
               if \<not> u_emailVerified u then Inl (httpError ''errors.emailNotVerified'' 403) else Inr ()))"

section \<open>\<open>tenant.middleware.js\<close>\<close>

record tenant =
  tn_id :: string
  tn_name :: string
  tn_slug :: string
  tn_ownerId :: string
  tn_role :: org_role

definition membership :: "string \<Rightarrow> string \<Rightarrow> db \<Rightarrow> organization_member option" where
  "membership orgId userId d =
     find_first (\<lambda>m. m_organizationId m = orgId \<and> m_userId m = userId) (members d)"

definition org_by_id :: "string \<Rightarrow> db \<Rightarrow> organization option" where
  "org_by_id orgId d = find_first (\<lambda>x. o_id x = orgId) (organizations d)"

definition tenant_of :: "organization \<Rightarrow> organization_member \<Rightarrow> tenant" where
  "tenant_of x m = \<lparr>tn_id = o_id x, tn_name = o_name x, tn_slug = o_slug x, tn_ownerId = o_ownerId x,
     tn_role = m_role m\<rparr>"

text \<open>A membership always has its organization (foreign key, cascading delete).\<close>

definition requireTenant :: "string \<Rightarrow> string \<Rightarrow> db \<Rightarrow> tenant result" where
  "requireTenant orgId userId d =
     (if orgId = [] then Inl (httpError ''errors.organizationIdRequired'' 400)
      else
        (case membership orgId userId d of
           None \<Rightarrow> Inl (httpError ''errors.noOrgAccess'' 403)
         | Some m \<Rightarrow>
             (case org_by_id (m_organizationId m) d of
                None \<Rightarrow> Inl (OtherError ''Inconsistent query result: organization is required'')
              | Some x \<Rightarrow>
                  if o_deletedAt x \<noteq> None then Inl (httpError ''errors.noOrgAccess'' 403)
                  else Inr (tenant_of x m))))"

definition requireTenantIncludeDeleted :: "string \<Rightarrow> string \<Rightarrow> db \<Rightarrow> tenant result" where
  "requireTenantIncludeDeleted orgId userId d =
     (if orgId = [] then Inl (httpError ''errors.organizationIdRequired'' 400)
      else
        (case membership orgId userId d of
           None \<Rightarrow> Inl (httpError ''errors.noOrgAccess'' 403)
         | Some m \<Rightarrow>
             (case org_by_id (m_organizationId m) d of
                None \<Rightarrow> Inl (OtherError ''Inconsistent query result: organization is required'')
              | Some x \<Rightarrow> Inr (tenant_of x m))))"

definition requireOrgRole :: "org_role list \<Rightarrow> tenant option \<Rightarrow> unit result" where
  "requireOrgRole roles tn =
     (case tn of
        None \<Rightarrow> Inl (httpError ''errors.noTenantContext'' 400)
      | Some t \<Rightarrow>
          if tn_role t \<notin> set roles then Inl (httpError ''errors.insufficientOrgPermissions'' 403)
          else Inr ())"

section \<open>\<open>subscription.middleware.js\<close>\<close>

definition gate_open :: "subscription \<Rightarrow> bool" where
  "gate_open s \<longleftrightarrow> s_status s = SUB_ACTIVE \<or> s_status s = SUB_TRIALING"

definition requireSubscription :: "string option \<Rightarrow> db \<Rightarrow> subscription result" where
  "requireSubscription userId d =
     (case userId of
        None \<Rightarrow> Inl (httpError ''errors.noTokenProvided'' 401)
      | Some i \<Rightarrow>
          (case find_latest s_createdAt (\<lambda>s. s_userId s = Some i \<and> gate_open s) (subscriptions d) of
             None \<Rightarrow> Inl (httpError ''errors.activeSubscriptionRequired'' 402)
           | Some s \<Rightarrow> Inr s))"

definition requireOrgSubscription :: "tenant option \<Rightarrow> db \<Rightarrow> subscription result" where
  "requireOrgSubscription tn d =
     (case tn of
        None \<Rightarrow> Inl (httpError ''errors.noTenantContext'' 400)
      | Some t \<Rightarrow>
          (case find_latest s_createdAt (\<lambda>s. s_organizationId s = Some (tn_id t) \<and> gate_open s)
                  (subscriptions d) of
             None \<Rightarrow> Inl (httpError ''errors.activeSubscriptionRequired'' 402)
           | Some s \<Rightarrow> Inr s))"

definition plan_by_id :: "string \<Rightarrow> db \<Rightarrow> plan option" where
  "plan_by_id i d = find_first (\<lambda>p. pl_id p = i) (plans d)"

definition requirePlan :: "string list \<Rightarrow> subscription option \<Rightarrow> db \<Rightarrow> unit result" where
  "requirePlan planCodes sub d =
     (case sub of
        None \<Rightarrow> Inl (httpError ''errors.activeSubscriptionRequired'' 402)
      | Some s \<Rightarrow>
          (case plan_by_id (s_planId s) d of
             None \<Rightarrow> Inl (OtherError ''Inconsistent query result: plan is required'')
           | Some p \<Rightarrow>
               if pl_code p \<notin> set planCodes
               then Inl (HttpError ''errors.planRequired'' 403
                           [(''planNames'', PStr (js_join '', '' planCodes))])
               else Inr ()))"

section \<open>What a guard that lets a request through has checked\<close>

lemma authenticate_InrD:
  assumes "authenticate E now hdr d = Inr a"
  shows "\<exists>token e r u. bearer_token hdr = Some token
     \<and> verifyToken E now token = Some (AccessClaims (au_id a) e r (u_tokenVersion u))
     \<and> live_user_by_id (au_id a) d = Some u \<and> \<not> u_banned u \<and> \<not> after (u_suspendedUntil u) now
     \<and> au_role a = u_role u \<and> au_emailVerified a = u_emailVerified u"
  using assms live_user_by_idD(2)
  by (fastforce simp: authenticate_def split: option.splits jwt_claims.splits if_splits)

lemma requireTenant_InrD:
  assumes "requireTenant orgId userId d = Inr t"
  shows "\<exists>m x. membership orgId userId d = Some m \<and> org_by_id (m_organizationId m) d = Some x
     \<and> o_deletedAt x = None \<and> t = tenant_of x m"
  using assms by (auto simp: requireTenant_def split: option.splits if_splits)

lemma membershipD:
  assumes "membership orgId userId d = Some m"
  shows "m \<in> set (members d)" "m_organizationId m = orgId" "m_userId m = userId"
  using find_first_SomeD [OF assms [unfolded membership_def]] by simp_all

lemma org_by_idD:
  assumes "org_by_id orgId d = Some x"
  shows "x \<in> set (organizations d)" "o_id x = orgId"
  using find_first_SomeD [OF assms [unfolded org_by_id_def]] by simp_all

end
