(* ===== verification/Query.thy ===== *)
theory Query
  imports JsText "HOL-Library.Multiset"
begin

text \<open>
  \<open>src/utils/query.js\<close>: pagination, sorting and search parameters, and the listing every
  \<open>list*\<close> service does with them.  How PostgreSQL orders rows (its collation, the order of equal
  keys) is a parameter \<open>ob\<close> of the listing; that it orders and neither drops nor adds rows is a
  hypothesis where a theorem needs it.
\<close>

record pagination_params =
  skip :: int
  take_n :: int

definition paginationParams :: "int \<Rightarrow> int \<Rightarrow> pagination_params" where
  "paginationParams page limit = \<lparr>skip = (page - 1) * limit, take_n = limit\<rparr>"

text \<open>\<open>total / 0\<close> is no finite number: \<open>totalPages\<close> is then absent.\<close>

record pagination_meta =
  pm_page :: int
  pm_limit :: int
  pm_total :: int
  pm_totalPages :: "int option"
  pm_hasNext :: bool
  pm_hasPrev :: bool

definition paginationMeta :: "int \<Rightarrow> int \<Rightarrow> int \<Rightarrow> pagination_meta" where
  "paginationMeta page limit tot =
     \<lparr>pm_page = page, pm_limit = limit, pm_total = tot,
      pm_totalPages = (if limit = 0 then None else Some \<lceil>(of_int tot :: rat) / of_int limit\<rceil>),
      pm_hasNext = (page * limit < tot), pm_hasPrev = (page > 1)\<rparr>"

text \<open>A field outside the list falls back to the list's first field.\<close>

definition parseSort :: "string \<Rightarrow> string \<Rightarrow> string list \<Rightarrow> (string \<times> string) option" where
  "parseSort srt order allowedFields =
     (if srt \<in> set allowedFields then Some (srt, order)
      else case allowedFields of [] \<Rightarrow> None | f # _ \<Rightarrow> Some (f, order))"

text \<open>The nested \<open>where\<close> clause that \<open>setNestedValue\<close> builds along a dotted path.\<close>

datatype where_clause = Contains string | Nested string where_clause

fun nest_path :: "string list \<Rightarrow> where_clause \<Rightarrow> where_clause" where
  "nest_path [] v = v"
| "nest_path (p # ps) v = Nested p (nest_path ps v)"

definition setNestedValue :: "string \<Rightarrow> where_clause \<Rightarrow> where_clause" where
  "setNestedValue path v = nest_path (js_split (CHR ''.'') path) v"

definition buildSearch :: "string option \<Rightarrow> string list \<Rightarrow> where_clause list option" where
  "buildSearch search flds =
     (case search of
        None \<Rightarrow> None
      | Some s \<Rightarrow> if s = [] then None else Some (map (\<lambda>f. setNestedValue f (Contains s)) flds))"

text \<open>
  What such a clause asks of a row: \<open>get\<close> reads the column a path names, and \<open>like\<close> is the
  database's case-insensitive \<open>contains\<close>.  Without a search term every row passes.
\<close>

fun clause_holds ::
  "(string \<Rightarrow> string \<Rightarrow> bool) \<Rightarrow> (string list \<Rightarrow> string option) \<Rightarrow> string list \<Rightarrow> where_clause \<Rightarrow> bool" where
  "clause_holds like get path (Contains s) = (case get path of None \<Rightarrow> False | Some v \<Rightarrow> like v s)"
| "clause_holds like get path (Nested p c) = clause_holds like get (path @ [p]) c"

definition search_ok ::
  "(string \<Rightarrow> string \<Rightarrow> bool) \<Rightarrow> ('r \<Rightarrow> string list \<Rightarrow> string option) \<Rightarrow> where_clause list option \<Rightarrow> 'r \<Rightarrow> bool" where
  "search_ok like get search r =
     (case search of None \<Rightarrow> True | Some cs \<Rightarrow> list_ex (clause_holds like (get r) []) cs)"

text \<open>The validated query string of a listing.\<close>

record list_query =
  lq_page :: "int option"
  lq_limit :: "int option"
  lq_search :: "string option"
  lq_sort :: string
  lq_order :: string

definition page_of :: "list_query \<Rightarrow> int" where
  "page_of q = (case lq_page q of None \<Rightarrow> 1 | Some p \<Rightarrow> p)"

definition limit_of :: "list_query \<Rightarrow> int" where
  "limit_of q = (case lq_limit q of None \<Rightarrow> 20 | Some l \<Rightarrow> l)"

section \<open>A page of a table\<close>

text \<open>
  \<open>findMany({ where, orderBy, skip, take })\<close> and \<open>count({ where })\<close>, as every listing service
  calls them.
\<close>

definition find_page ::
  "('r list \<Rightarrow> 'r list) \<Rightarrow> ('r \<Rightarrow> bool) \<Rightarrow> int \<Rightarrow> int \<Rightarrow> 'r list \<Rightarrow> 'r list" where
  "find_page ob p page limit rows =
     (let pp = paginationParams page limit
      in take (nat (take_n pp)) (drop (nat (skip pp)) (ob (find_many p rows))))"

definition list_page ::
  "('r list \<Rightarrow> 'r list) \<Rightarrow> ('r \<Rightarrow> bool) \<Rightarrow> int \<Rightarrow> int \<Rightarrow> 'r list \<Rightarrow> 'r list \<times> pagination_meta" where
  "list_page ob p page limit rows =
     (find_page ob p page limit rows, paginationMeta page limit (int (count_where p rows)))"

text \<open>\<open>orderBy\<close> permutes the rows it is given.\<close>

definition reorders :: "('r list \<Rightarrow> 'r list) \<Rightarrow> bool" where
  "reorders ob \<longleftrightarrow> (\<forall>rs. mset (ob rs) = mset rs)"

lemma reorders_set: "reorders ob \<Longrightarrow> set (ob rs) = set rs"
  unfolding reorders_def by (metis set_mset_mset)

lemma reorders_length: "reorders ob \<Longrightarrow> length (ob rs) = length rs"
  unfolding reorders_def by (metis size_mset)

lemma find_page_sound:
  "reorders ob \<Longrightarrow> r \<in> set (find_page ob p page limit rows) \<Longrightarrow> r \<in> set rows \<and> p r"
  by (auto simp: find_page_def Let_def reorders_set dest!: in_set_takeD in_set_dropD)

lemma find_page_length: "length (find_page ob p page limit rows) \<le> nat limit"
  by (simp add: find_page_def paginationParams_def)

text \<open>Consecutive windows of a list concatenate to the list.\<close>

lemma windows_concat:
  assumes "0 < l"
  shows "concat (map (\<lambda>k. take l (drop (k * l) xs)) [0..<n]) = take (n * l) xs"
proof (induction n)
  case 0
  then show ?case by simp
next
  case (Suc n)
  have "take (n * l) xs @ take l (drop (n * l) xs) = take (n * l + l) xs"
    by (simp add: take_add)
  with Suc show ?case by (simp add: add.commute)
qed

lemma totalPages_enough:
  assumes "0 < limit" "pm_totalPages (paginationMeta page limit tot) = Some n"
  shows "tot \<le> n * limit"
proof -
  have n: "n = \<lceil>(of_int tot :: rat) / of_int limit\<rceil>"
    using assms by (simp add: paginationMeta_def)
  have "(of_int tot :: rat) / of_int limit \<le> of_int n"
    unfolding n by (rule le_of_int_ceiling)
  then have "(of_int tot :: rat) \<le> of_int (n * limit)"
    using assms(1) by (simp add: field_simps)
  then show ?thesis by (simp only: of_int_le_iff)
qed

lemma find_page_window:
  assumes "1 \<le> page" "0 \<le> limit"
  shows "find_page ob p page limit rows =
           take (nat limit) (drop (nat (page - 1) * nat limit) (ob (find_many p rows)))"
  using assms by (simp add: find_page_def paginationParams_def nat_mult_distrib)

end
