(* ===== verification/Org.thy ===== *)
theory Org
  imports Guards Query
begin

text \<open>
  \<open>src/modules/org/org.service.js\<close>: organizations and their members.  Stripe's answer to a
  cancellation is a parameter \<open>cancel\<close> (\<open>True\<close> when it accepts).
\<close>

section \<open>Views and writes\<close>

record org_view =
  ow_id :: string
  ow_name :: string
  ow_slug :: string
  ow_ownerId :: string
  ow_createdAt :: int
  ow_updatedAt :: int

definition orgSelect :: "organization \<Rightarrow> org_view" where
  "orgSelect x = \<lparr>ow_id = o_id x, ow_name = o_name x, ow_slug = o_slug x, ow_ownerId = o_ownerId x,
     ow_createdAt = o_createdAt x, ow_updatedAt = o_updatedAt x\<rparr>"

record member_view =
  mv_id :: string
  mv_role :: org_role
  mv_createdAt :: int
  mv_user :: "(string \<times> string option \<times> string) option"

definition memberSelect :: "db \<Rightarrow> organization_member \<Rightarrow> member_view" where
  "memberSelect d m = \<lparr>mv_id = m_id m, mv_role = m_role m, mv_createdAt = m_createdAt m,
     mv_user = map_option (\<lambda>u. (u_id u, u_name u, u_email u)) (user_by_id (m_userId m) d)\<rparr>"

definition update_org :: "int \<Rightarrow> string \<Rightarrow> (organization \<Rightarrow> organization) \<Rightarrow> db \<Rightarrow> db" where
  "update_org now i f d =
     d\<lparr>organizations := update_where (\<lambda>x. o_id x = i) (\<lambda>x. (f x)\<lparr>o_updatedAt := now\<rparr>)
                          (organizations d)\<rparr>"

definition update_member :: "int \<Rightarrow> (organization_member \<Rightarrow> bool) \<Rightarrow> org_role \<Rightarrow> db \<Rightarrow> db" where
  "update_member now p role d =
     d\<lparr>members := update_where p (\<lambda>m. m\<lparr>m_role := role, m_updatedAt := now\<rparr>) (members d)\<rparr>"

section \<open>Organizations\<close>

text \<open>
  The nested create writes the organization and its owner's membership in one transaction; either
  unique index makes it fail as a whole.
\<close>

definition createOrganization ::
  "int \<Rightarrow> fresh \<Rightarrow> string \<Rightarrow> string \<Rightarrow> string \<Rightarrow> db \<Rightarrow> org_view result \<times> db" where
  "createOrganization now fr userId name slug d =
     (if exists_row (\<lambda>x. o_slug x = slug \<and> o_deletedAt x = None) (organizations d)
      then (Inl (httpError ''errors.slugAlreadyTaken'' 409), d)
      else
        (let row = \<lparr>o_id = fr_id fr, o_name = js_trim name, o_slug = slug, o_ownerId = userId,
                    o_stripeCustomerId = None, o_deletedAt = None, o_createdAt = now,
                    o_updatedAt = now\<rparr>;
             member = \<lparr>m_id = fr_tokenId fr, m_organizationId = fr_id fr, m_userId = userId,
                       m_role = OWNER, m_createdAt = now, m_updatedAt = now\<rparr>
         in case (insert_row org_clash row (organizations d),
                  insert_row member_clash member (members d)) of
              (Inr xs, Inr ms) \<Rightarrow> (Inr (orgSelect row), d\<lparr>organizations := xs, members := ms\<rparr>)
            | _ \<Rightarrow> (Inl (httpError ''errors.slugAlreadyTaken'' 409), d)))"

text \<open>The columns the search clause of \<open>listOrganizations\<close> names, of the joined organization.\<close>

definition org_column :: "db \<Rightarrow> organization_member \<Rightarrow> string list \<Rightarrow> string option" where
  "org_column d m path =
     (case org_by_id (m_organizationId m) d of
        None \<Rightarrow> None
      | Some x \<Rightarrow>
          if path = [''organization'', ''name''] then Some (o_name x)
          else if path = [''organization'', ''slug''] then Some (o_slug x) else None)"

definition listOrganizations ::
  "(string \<Rightarrow> string \<Rightarrow> bool)
   \<Rightarrow> ((string \<times> string) option \<Rightarrow> organization_member list \<Rightarrow> organization_member list)
   \<Rightarrow> string \<Rightarrow> list_query \<Rightarrow> db \<Rightarrow> (org_view option \<times> org_role) list \<times> pagination_meta" where
  "listOrganizations like ob userId q d =
     (let clauses = buildSearch (lq_search q) [''organization.name'', ''organization.slug''];
          p = (\<lambda>m. m_userId m = userId
                   \<and> (case org_by_id (m_organizationId m) d of
                        None \<Rightarrow> False | Some x \<Rightarrow> o_deletedAt x = None)
                   \<and> search_ok like (org_column d) clauses m);
          r = list_page (ob (parseSort (lq_sort q) (lq_order q) [''createdAt'', ''name'', ''slug'']))
                p (page_of q) (limit_of q) (members d)
      in (map (\<lambda>m. (map_option orgSelect (org_by_id (m_organizationId m) d), m_role m)) (fst r), snd r))"

definition getOrganization :: "string \<Rightarrow> db \<Rightarrow> org_view result" where
  "getOrganization orgId d =
     (case find_first (\<lambda>x. o_id x = orgId \<and> o_deletedAt x = None) (organizations d) of
        None \<Rightarrow> Inl (httpError ''errors.organizationNotFound'' 404)
      | Some x \<Rightarrow> Inr (orgSelect x))"

definition updateOrganization ::
  "int \<Rightarrow> string \<Rightarrow> string option \<Rightarrow> string option \<Rightarrow> db \<Rightarrow> org_view result \<times> db" where
  "updateOrganization now orgId name slug d =
     (let existing = (if truthy slug
                      then find_first (\<lambda>x. Some (o_slug x) = slug \<and> o_deletedAt x = None)
                             (organizations d)
                      else None)
      in if existing \<noteq> None \<and> o_id (the existing) \<noteq> orgId
         then (Inl (httpError ''errors.slugAlreadyTaken'' 409), d)
         else
           (let f = (\<lambda>x. x\<lparr>o_name := (case name of None \<Rightarrow> o_name x | Some n \<Rightarrow> js_trim n),
                           o_slug := (case slug of None \<Rightarrow> o_slug x | Some s \<Rightarrow> s),
                           o_updatedAt := now\<rparr>)
            in case update_row org_clash (\<lambda>x. o_id x = orgId) f (organizations d) of
                 Inl e \<Rightarrow>
                   (Inl (if e = P2002 then httpError ''errors.slugAlreadyTaken'' 409 else e), d)
               | Inr xs \<Rightarrow>
                   (case find_first (\<lambda>x. o_id x = orgId) xs of
                      None \<Rightarrow> (Inl P2025, d)
                    | Some x \<Rightarrow> (Inr (orgSelect x), d\<lparr>organizations := xs\<rparr>))))"

definition isStripeConfigured :: "env \<Rightarrow> bool" where
  "isStripeConfigured E \<longleftrightarrow> truthy (STRIPE_SECRET_KEY E)"

definition LIVE_SUBSCRIPTION_STATUSES :: "subscription_status list" where
  "LIVE_SUBSCRIPTION_STATUSES = [SUB_ACTIVE, SUB_TRIALING, SUB_PAST_DUE]"

definition cancel_row :: "int \<Rightarrow> subscription \<Rightarrow> subscription" where
  "cancel_row now s = s\<lparr>s_status := SUB_CANCELED, s_canceledAt := Some now, s_updatedAt := now\<rparr>"

definition deleteOrganization ::
  "env \<Rightarrow> (string \<Rightarrow> bool) \<Rightarrow> int \<Rightarrow> string \<Rightarrow> db \<Rightarrow> string result \<times> db" where
  "deleteOrganization E cancel now orgId d =
     (let live = (if isStripeConfigured E
                  then find_many (\<lambda>s. s_organizationId s = Some orgId
                                      \<and> s_status s \<in> set LIVE_SUBSCRIPTION_STATUSES) (subscriptions d)
                  else []);
          d1 = d\<lparr>subscriptions := update_where (\<lambda>s. s_id s \<in> set (map s_id live)) (cancel_row now)
                                    (subscriptions d)\<rparr>
      in if \<not> list_all (\<lambda>s. cancel (s_stripeSubscriptionId s)) live
         then (Inl (httpError ''errors.stripeCancellationFailed'' 502), d)
         else if org_by_id orgId d = None then (Inl P2025, d1)
         else (Inr ''messages.organizationDeletedSuccessfully'',
               update_org now orgId (\<lambda>x. x\<lparr>o_deletedAt := Some now\<rparr>) d1))"

definition restoreOrganization :: "int \<Rightarrow> string \<Rightarrow> db \<Rightarrow> string result \<times> db" where
  "restoreOrganization now orgId d =
     (if \<not> exists_row (\<lambda>x. o_id x = orgId \<and> o_deletedAt x \<noteq> None) (organizations d)
      then (Inl (httpError ''errors.deletedOrganizationNotFound'' 404), d)
      else (Inr ''messages.organizationRestoredSuccessfully'',
            update_org now orgId (\<lambda>x. x\<lparr>o_deletedAt := None\<rparr>) d))"

section \<open>Members\<close>

definition member_column :: "db \<Rightarrow> organization_member \<Rightarrow> string list \<Rightarrow> string option" where
  "member_column d m path =
     (case user_by_id (m_userId m) d of
        None \<Rightarrow> None
      | Some u \<Rightarrow>
          if path = [''user'', ''name''] then u_name u
          else if path = [''user'', ''email''] then Some (u_email u) else None)"

definition listMembers ::
  "(string \<Rightarrow> string \<Rightarrow> bool)
   \<Rightarrow> ((string \<times> string) option \<Rightarrow> organization_member list \<Rightarrow> organization_member list)
   \<Rightarrow> string \<Rightarrow> list_query \<Rightarrow> db \<Rightarrow> member_view list \<times> pagination_meta" where
  "listMembers like ob orgId q d =
     (let clauses = buildSearch (lq_search q) [''user.name'', ''user.email''];
          p = (\<lambda>m. m_organizationId m = orgId
                   \<and> (case user_by_id (m_userId m) d of None \<Rightarrow> False | Some u \<Rightarrow> u_deletedAt u = None)
                   \<and> search_ok like (member_column d) clauses m);
          r = list_page (ob (parseSort (lq_sort q) (lq_order q) [''createdAt'', ''role'']))
                p (page_of q) (limit_of q) (members d)
      in (map (memberSelect d) (fst r), snd r))"

definition updateMemberRole ::
  "int \<Rightarrow> string \<Rightarrow> string \<Rightarrow> org_role \<Rightarrow> db \<Rightarrow> member_view result \<times> db" where
  "updateMemberRole now orgId targetUserId role d =
     (case membership orgId targetUserId d of
        None \<Rightarrow> (Inl (httpError ''errors.memberNotFound'' 404), d)
      | Some m \<Rightarrow>
          if m_role m = OWNER then (Inl (httpError ''errors.cannotChangeOwnerRole'' 400), d)
          else (Inr (memberSelect d (m\<lparr>m_role := role, m_updatedAt := now\<rparr>)),
                update_member now (\<lambda>x. m_id x = m_id m) role d))"

definition member_key :: "string \<Rightarrow> string \<Rightarrow> organization_member \<Rightarrow> bool" where
  "member_key orgId userId m \<longleftrightarrow> m_organizationId m = orgId \<and> m_userId m = userId"

text \<open>One transaction: it fails as a whole when one of its three rows is missing.\<close>

definition transferOwnership ::
  "int \<Rightarrow> string \<Rightarrow> string \<Rightarrow> string \<Rightarrow> db \<Rightarrow> org_view result \<times> db" where
  "transferOwnership now orgId currentOwnerId newOwnerId d =
     (if newOwnerId = currentOwnerId then (Inl (httpError ''errors.cannotTransferToSelf'' 400), d)
      else if membership orgId newOwnerId d = None
      then (Inl (httpError ''errors.memberNotFound'' 404), d)
      else
        (let d1 = update_org now orgId (\<lambda>x. x\<lparr>o_ownerId := newOwnerId\<rparr>) d;
             d2 = update_member now (member_key orgId newOwnerId) OWNER d1;
             d3 = update_member now (member_key orgId currentOwnerId) ORG_ADMIN d2
         in case (org_by_id orgId d1, membership orgId currentOwnerId d) of
              (Some x, Some _) \<Rightarrow> (Inr (orgSelect x), d3)
            | _ \<Rightarrow> (Inl P2025, d)))"

definition removeMember :: "string \<Rightarrow> string \<Rightarrow> db \<Rightarrow> string result \<times> db" where
  "removeMember orgId targetUserId d =
     (case membership orgId targetUserId d of
        None \<Rightarrow> (Inl (httpError ''errors.memberNotFound'' 404), d)
      | Some m \<Rightarrow>
          if m_role m = OWNER then (Inl (httpError ''errors.cannotRemoveOwner'' 400), d)
          else (Inr ''messages.memberRemovedSuccessfully'',
                d\<lparr>members := delete_where (\<lambda>x. m_id x = m_id m) (members d)\<rparr>))"

end
