(* ===== verification/Invitation.thy ===== *)
theory Invitation
  imports Org
begin

text \<open>
  \<open>src/modules/org/invitation.service.js\<close>: an invitation is pending until it is accepted, declined,
  canceled or found expired; only a pending one ever changes.
\<close>

definition INVITATION_TTL_MS :: int where
  "INVITATION_TTL_MS = 7 * 24 * 60 * 60 * 1000"

definition update_invitation ::
  "int \<Rightarrow> string \<Rightarrow> (organization_invitation \<Rightarrow> organization_invitation) \<Rightarrow> db \<Rightarrow> db" where
  "update_invitation now i f d =
     d\<lparr>invitations := update_where (\<lambda>x. i_id x = i) (\<lambda>x. (f x)\<lparr>i_updatedAt := now\<rparr>) (invitations d)\<rparr>"

definition createInvitation ::
  "env \<Rightarrow> int \<Rightarrow> fresh \<Rightarrow> string \<Rightarrow> string \<Rightarrow> string \<Rightarrow> org_role \<Rightarrow> db
   \<Rightarrow> (organization_invitation \<times> string) result \<times> db" where
  "createInvitation E now fr orgId inviterId email role d =
     (let inviteeEmail = normalizeEmail email;
          existing = live_user_by_email inviteeEmail d
      in if role = OWNER then (Inl (httpError ''errors.cannotInviteAsOwner'' 400), d)
         else if existing \<noteq> None \<and> membership orgId (u_id (the existing)) d \<noteq> None
         then (Inl (httpError ''errors.userAlreadyMember'' 409), d)
         else if exists_row (\<lambda>i. i_organizationId i = orgId \<and> i_inviteeEmail i = inviteeEmail
                                 \<and> i_status i = INV_PENDING) (invitations d)
         then (Inl (httpError ''errors.pendingInvitationExists'' 409), d)
         else
           (let row = \<lparr>i_id = fr_id fr, i_organizationId = orgId, i_inviterId = inviterId,
                       i_inviteeEmail = inviteeEmail, i_inviteeId = map_option u_id existing,
                       i_role = role, i_status = INV_PENDING, i_token = hashToken E (fr_token fr),
                       i_expiresAt = now + INVITATION_TTL_MS, i_acceptedAt = None,
                       i_declinedAt = None, i_canceledAt = None, i_createdAt = now,
                       i_updatedAt = now\<rparr>
            in case insert_row invitation_clash row (invitations d) of
                 Inl e \<Rightarrow>
                   (Inl (if e = P2002 then httpError ''errors.pendingInvitationExists'' 409 else e), d)
               | Inr is \<Rightarrow> (Inr (row, fr_token fr), d\<lparr>invitations := is\<rparr>)))"

definition invitation_column :: "db \<Rightarrow> organization_invitation \<Rightarrow> string list \<Rightarrow> string option" where
  "invitation_column d i path =
     (if path = [''inviteeEmail''] then Some (i_inviteeEmail i)
      else if path = [''inviter'', ''name''] then Option.bind (user_by_id (i_inviterId i) d) u_name
      else if path = [''inviter'', ''email''] then map_option u_email (user_by_id (i_inviterId i) d)
      else if path = [''organization'', ''name''] then map_option o_name (org_by_id (i_organizationId i) d)
      else if path = [''organization'', ''slug''] then map_option o_slug (org_by_id (i_organizationId i) d)
      else None)"

type_synonym invitation_order =
  "(string \<times> string) option \<Rightarrow> organization_invitation list \<Rightarrow> organization_invitation list"

definition listInvitations ::
  "(string \<Rightarrow> string \<Rightarrow> bool) \<Rightarrow> invitation_order \<Rightarrow> string \<Rightarrow> list_query \<Rightarrow> db
   \<Rightarrow> organization_invitation list \<times> pagination_meta" where
  "listInvitations like ob orgId q d =
     (let clauses = buildSearch (lq_search q) [''inviteeEmail'', ''inviter.name'', ''inviter.email''];
          p = (\<lambda>i. i_organizationId i = orgId \<and> search_ok like (invitation_column d) clauses i)
      in list_page (ob (parseSort (lq_sort q) (lq_order q) [''createdAt'', ''status'', ''expiresAt'']))
           p (page_of q) (limit_of q) (invitations d))"

definition listMyInvitations ::
  "(string \<Rightarrow> string \<Rightarrow> bool) \<Rightarrow> invitation_order \<Rightarrow> string \<Rightarrow> list_query \<Rightarrow> db
   \<Rightarrow> (organization_invitation list \<times> pagination_meta) result" where
  "listMyInvitations like ob userId q d =
     (case live_user_by_id userId d of
        None \<Rightarrow> Inl (httpError ''errors.userNotFound'' 404)
      | Some user \<Rightarrow>
          (let clauses = buildSearch (lq_search q) [''organization.name'', ''organization.slug''];
               p = (\<lambda>i. i_inviteeEmail i = u_email user \<and> i_status i = INV_PENDING
                        \<and> search_ok like (invitation_column d) clauses i)
           in Inr (list_page (ob (parseSort (lq_sort q) (lq_order q) [''createdAt'', ''expiresAt'']))
                p (page_of q) (limit_of q) (invitations d))))"

text \<open>
  The checks \<open>acceptInvitation\<close> and \<open>declineInvitation\<close> share: the token names a pending, unexpired
  invitation, and the caller is the live user of its address.  A token found expired is marked so.
\<close>

definition open_invitation ::
  "env \<Rightarrow> int \<Rightarrow> string \<Rightarrow> string \<Rightarrow> db \<Rightarrow> organization_invitation result \<times> db" where
  "open_invitation E now userId token d =
     (case find_first (\<lambda>i. i_token i = hashToken E token) (invitations d) of
        None \<Rightarrow> (Inl (httpError ''errors.invitationNotFound'' 404), d)
      | Some i \<Rightarrow>
          if i_status i \<noteq> INV_PENDING then (Inl (httpError ''errors.invitationNotPending'' 400), d)
          else if i_expiresAt i < now
          then (Inl (httpError ''errors.invitationExpired'' 400),
                update_invitation now (i_id i) (\<lambda>x. x\<lparr>i_status := INV_EXPIRED\<rparr>) d)
          else
            (case live_user_by_id userId d of
               None \<Rightarrow> (Inl (httpError ''errors.invitationNotForYou'' 403), d)
             | Some user \<Rightarrow>
                 if u_email user \<noteq> i_inviteeEmail i
                 then (Inl (httpError ''errors.invitationNotForYou'' 403), d)
                 else (Inr i, d)))"

definition mark_accepted :: "int \<Rightarrow> string \<Rightarrow> organization_invitation \<Rightarrow> organization_invitation" where
  "mark_accepted now userId x =
     x\<lparr>i_status := INV_ACCEPTED, i_acceptedAt := Some now, i_inviteeId := Some userId\<rparr>"

definition acceptInvitation ::
  "env \<Rightarrow> int \<Rightarrow> fresh \<Rightarrow> string \<Rightarrow> string \<Rightarrow> db \<Rightarrow> organization_invitation result \<times> db" where
  "acceptInvitation E now fr userId token d =
     await (open_invitation E now userId token d) (\<lambda>i d1.
       if membership (i_organizationId i) userId d1 \<noteq> None
       then (Inl (httpError ''errors.alreadyMember'' 409),
             update_invitation now (i_id i) (mark_accepted now userId) d1)
       else
         (let member = \<lparr>m_id = fr_id fr, m_organizationId = i_organizationId i, m_userId = userId,
                        m_role = i_role i, m_createdAt = now, m_updatedAt = now\<rparr>
          in case insert_row member_clash member (members d1) of
               Inl e \<Rightarrow> (Inl e, d1)
             | Inr ms \<Rightarrow>
                 (Inr ((mark_accepted now userId i)\<lparr>i_updatedAt := now\<rparr>),
                  (update_invitation now (i_id i) (mark_accepted now userId) d1)\<lparr>members := ms\<rparr>)))"

definition declineInvitation ::
  "env \<Rightarrow> int \<Rightarrow> string \<Rightarrow> string \<Rightarrow> db \<Rightarrow> organization_invitation result \<times> db" where
  "declineInvitation E now userId token d =
     await (open_invitation E now userId token d) (\<lambda>i d1.
       (let f = (\<lambda>x. x\<lparr>i_status := INV_DECLINED, i_declinedAt := Some now\<rparr>)
        in (Inr ((f i)\<lparr>i_updatedAt := now\<rparr>), update_invitation now (i_id i) f d1)))"

definition cancelInvitation ::
  "int \<Rightarrow> string \<Rightarrow> string \<Rightarrow> db \<Rightarrow> organization_invitation result \<times> db" where
  "cancelInvitation now orgId invitationId d =
     (case find_first (\<lambda>i. i_id i = invitationId \<and> i_organizationId i = orgId) (invitations d) of
        None \<Rightarrow> (Inl (httpError ''errors.invitationNotFound'' 404), d)
      | Some i \<Rightarrow>
          if i_status i \<noteq> INV_PENDING then (Inl (httpError ''errors.invitationNotPending'' 400), d)
          else
            (let f = (\<lambda>x. x\<lparr>i_status := INV_CANCELED, i_canceledAt := Some now\<rparr>)
             in (Inr ((f i)\<lparr>i_updatedAt := now\<rparr>), update_invitation now (i_id i) f d)))"

end
