(* ===== verification/Samples.thy ===== *)
theory Samples
  imports Users
begin

text \<open>
  Concrete data the witnesses evaluate on: an environment whose package functions are simple
  computable ones that satisfy the documented laws, a client, random values, and a few rows.  None
  of it models code.
\<close>

definition demo_sha :: "string \<Rightarrow> string" where
  "demo_sha s = ''#'' @ s"

definition demo_sign :: "jwt_claims \<Rightarrow> string \<Rightarrow> jwt_options \<Rightarrow> int \<Rightarrow> string" where
  "demo_sign c key opts now =
     (case c of
        AccessClaims i e r v \<Rightarrow> ''A'' @ key @ i @ (if v = 0 then ''0'' else ''1'')
      | RefreshClaims s \<Rightarrow> ''R'' @ key @ s @ (case jo_jwtid opts of None \<Rightarrow> [] | Some j \<Rightarrow> j))"

definition demo_pg :: postgres where
  "demo_pg = \<lparr>ilike = (\<lambda>p s. p = s), order_users = (\<lambda>_ rs. rs), order_sessions = (\<lambda>_ rs. rs),
     order_members = (\<lambda>_ rs. rs), order_invitations = (\<lambda>_ rs. rs), order_plans = (\<lambda>_ rs. rs),
     order_keys = (\<lambda>_ rs. rs), order_audit = (\<lambda>_ rs. rs), order_notifications = (\<lambda>_ rs. rs),
     order_flags = (\<lambda>_ rs. rs), order_projects = (\<lambda>_ rs. rs)\<rparr>"

definition demo_env :: env where
  "demo_env =
     \<lparr>NODE_ENV = Some ''test'', JWT_SECRET = ''k'', JWT_EXPIRES_IN = None, JWT_REFRESH_SECRET = ''r'',
      JWT_REFRESH_EXPIRES_IN = None, SECRET_ENCRYPTION_KEY = None, GOOGLE_CLIENT_ID = Some ''g'',
      GOOGLE_CLIENT_SECRET = Some ''s'', STRIPE_SECRET_KEY = None, STRIPE_WEBHOOK_SECRET = None,
      JOB_QUEUE_DISABLED = None, APP_NAME = None,
      sha256_hex = demo_sha, sha256_bytes = demo_sha, hmac_sha256_hex = (\<lambda>k s. filter (\<lambda>c. c \<noteq> CHR ''.'') (k @ s)),
      aes_gcm_encrypt = (\<lambda>k iv p. (p, ''t'')), aes_gcm_decrypt = (\<lambda>k iv t c. Some c),
      bcrypt_hash = (\<lambda>salt n p. ''$'' @ p), bcrypt_compare = (\<lambda>p h. h = ''$'' @ p),
      jwt_sign = demo_sign,
      jwt_verify = (\<lambda>t k algs now.
        case t of
          [] \<Rightarrow> None
        | c # s \<Rightarrow> if c = CHR ''R'' then Some (RefreshClaims s)
                   else if c = CHR ''A'' then Some (AccessClaims ''u1'' ''a@x'' USER 0) else None),
      totp_verify = (\<lambda>code secret tol afterStep now.
        if code = secret then TotpResult (case afterStep of None \<Rightarrow> True | Some a \<Rightarrow> now > a) now
        else TotpThrows),
      otp_uri = (\<lambda>s a i. s), qr_code = (\<lambda>s. s), google_auth_url = (\<lambda>s. s),
      google_verify = (\<lambda>code aud.
        Some (Some \<lparr>gp_sub = Some code, gp_email = Some ''a@x'', gp_email_verified = True,
                    gp_name = None\<rparr>)), queue_add = (\<lambda>_. None), audit_insert = (\<lambda>_. True), pg = demo_pg\<rparr>"

definition demo_client :: client where
  "demo_client = \<lparr>userAgent = None, ipAddress = None, reqLocale = None\<rparr>"

definition demo_fresh :: "string \<Rightarrow> fresh" where
  "demo_fresh s = \<lparr>fr_token = s, fr_jti = s, fr_salt = s, fr_id = s, fr_tokenId = s\<rparr>"

definition demo_user :: "string \<Rightarrow> string \<Rightarrow> user" where
  "demo_user i email =
     \<lparr>u_id = i, u_email = email, u_password = Some ''$pw'', u_name = None, u_googleId = None,
      u_role = USER,
      u_emailVerified = True, u_emailVerificationToken = None, u_emailVerificationExpires = None,
      u_pendingEmail = None, u_passwordResetToken = None, u_passwordResetExpires = None,
      u_tokenVersion = 0, u_failedLoginAttempts = 0, u_lockedUntil = None, u_lastLoginAt = None,
      u_banned = False, u_bannedAt = None, u_suspendedUntil = None, u_deletedAt = None,
      u_twoFactorEnabled = False, u_twoFactorSecret = None, u_twoFactorBackupCodes = [],
      u_lastTotpTimeStep = None, u_createdAt = 0, u_updatedAt = 0, u_stripeCustomerId = None\<rparr>"

definition demo_db :: db where
  "demo_db = empty_db\<lparr>users := [demo_user ''u1'' ''a@x'', demo_user ''u2'' ''b@x'']\<rparr>"

lemmas demo_defs = demo_env_def demo_client_def demo_fresh_def demo_user_def demo_db_def
  demo_sha_def demo_sign_def empty_db_def

end
