(* ===== verification/OrgInvariant.thy ===== *)
theory OrgInvariant
  imports Invitation Samples
begin

text \<open>
  What organizations promise, stated on an abstraction of the tables: who owns an organization and
  which role each user has in it.  Every operation of \<open>org.service.js\<close> and \<open>invitation.service.js\<close>
  refines an update of that abstraction, the requests behind their route guards are the steps of a
  transition system, and the invariant is that an organization has exactly one owner, the user its
  row names.
\<close>

section \<open>The abstraction\<close>

record org_abs =
  ab_owner :: "string \<Rightarrow> string option"
  ab_role :: "string \<Rightarrow> string \<Rightarrow> org_role option"

definition org_abs :: "db \<Rightarrow> org_abs" where
  "org_abs d = \<lparr>ab_owner = (\<lambda>i. map_option o_ownerId (org_by_id i d)),
                ab_role = (\<lambda>i u. map_option m_role (membership i u d))\<rparr>"

definition set_role :: "string \<Rightarrow> string \<Rightarrow> org_role option \<Rightarrow> org_abs \<Rightarrow> org_abs" where
  "set_role i u r A = A\<lparr>ab_role := (ab_role A)(i := (ab_role A i)(u := r))\<rparr>"

definition set_owner :: "string \<Rightarrow> string \<Rightarrow> org_abs \<Rightarrow> org_abs" where
  "set_owner i u A = A\<lparr>ab_owner := (ab_owner A)(i \<mapsto> u)\<rparr>"

definition one_owner :: "org_abs \<Rightarrow> bool" where
  "one_owner A \<longleftrightarrow>
     (\<forall>i w. ab_owner A i = Some w \<longrightarrow> ab_role A i w = Some OWNER)
   \<and> (\<forall>i u. ab_role A i u = Some OWNER \<longrightarrow> ab_owner A i = Some u)
   \<and> (\<forall>i u r. ab_role A i u = Some r \<longrightarrow> ab_owner A i \<noteq> None)"

lemma one_ownerD:
  assumes "one_owner A"
  shows "ab_owner A i = Some w \<Longrightarrow> ab_role A i w = Some OWNER"
    and "ab_role A i u = Some OWNER \<Longrightarrow> ab_owner A i = Some u"
    and "ab_role A i u = Some r \<Longrightarrow> ab_owner A i \<noteq> None"
  using assms unfolding one_owner_def by blast+

lemma one_ownerI:
  assumes "\<And>i w. ab_owner A i = Some w \<Longrightarrow> ab_role A i w = Some OWNER"
    and "\<And>i u. ab_role A i u = Some OWNER \<Longrightarrow> ab_owner A i = Some u"
    and "\<And>i u r. ab_role A i u = Some r \<Longrightarrow> ab_owner A i \<noteq> None"
  shows "one_owner A"
  using assms unfolding one_owner_def by blast

lemma abs_upd_simps [simp]:
  "ab_owner (set_role i u r A) = ab_owner A"
  "ab_role (set_role i u r A) j w = (if j = i \<and> w = u then r else ab_role A j w)"
  "ab_owner (set_owner i u A) j = (if j = i then Some u else ab_owner A j)"
  "ab_role (set_owner i u A) = ab_role A"
  by (simp_all add: set_role_def set_owner_def)

lemma one_owner_set_role:
  assumes "one_owner A" "ab_owner A i \<noteq> None" "ab_role A i u \<noteq> Some OWNER" "r \<noteq> Some OWNER"
  shows "one_owner (set_role i u r A)"
proof (rule one_ownerI)
  fix j w assume "ab_owner (set_role i u r A) j = Some w"
  then have "ab_role A j w = Some OWNER" using one_ownerD(1) [OF assms(1)] by simp
  with assms(3) show "ab_role (set_role i u r A) j w = Some OWNER" by auto
next
  fix j w assume "ab_role (set_role i u r A) j w = Some OWNER"
  then have "ab_role A j w = Some OWNER" using assms(4) by (simp split: if_splits)
  then show "ab_owner (set_role i u r A) j = Some w" using one_ownerD(2) [OF assms(1)] by simp
next
  fix j w q assume "ab_role (set_role i u r A) j w = Some q"
  then show "ab_owner (set_role i u r A) j \<noteq> None"
    using assms(2) one_ownerD(3) [OF assms(1), of j w q] by (simp split: if_splits)
qed

lemma one_owner_transfer:
  assumes "one_owner A" "ab_role A i cur = Some OWNER" "ab_role A i new \<noteq> None" "new \<noteq> cur"
  shows "one_owner (set_role i cur (Some ORG_ADMIN) (set_role i new (Some OWNER) (set_owner i new A)))"
    (is "one_owner ?B")
proof (rule one_ownerI)
  have own: "ab_owner A i = Some cur" using one_ownerD(2) [OF assms(1,2)] .
  fix j w
  show "ab_owner ?B j = Some w \<Longrightarrow> ab_role ?B j w = Some OWNER"
    using one_ownerD(1) [OF assms(1), of j w] assms(4) by (simp split: if_splits)
  show "ab_role ?B j w = Some OWNER \<Longrightarrow> ab_owner ?B j = Some w"
    using one_ownerD(2) [OF assms(1), of j w] own by (cases "j = i") (auto split: if_splits)
  fix q
  show "ab_role ?B j w = Some q \<Longrightarrow> ab_owner ?B j \<noteq> None"
    using one_ownerD(3) [OF assms(1), of j w q] by (simp split: if_splits)
qed

lemma one_owner_create:
  assumes "one_owner A" "ab_owner A i = None"
  shows "one_owner (set_role i u (Some OWNER) (set_owner i u A))" (is "one_owner ?B")
proof (rule one_ownerI)
  fix j w
  show "ab_owner ?B j = Some w \<Longrightarrow> ab_role ?B j w = Some OWNER"
    using one_ownerD(1) [OF assms(1), of j w] by (simp split: if_splits)
  show "ab_role ?B j w = Some OWNER \<Longrightarrow> ab_owner ?B j = Some w"
    using one_ownerD(3) [OF assms(1), of i w OWNER] one_ownerD(2) [OF assms(1), of j w] assms(2)
    by (cases "j = i") (auto split: if_splits)
  fix q
  show "ab_role ?B j w = Some q \<Longrightarrow> ab_owner ?B j \<noteq> None"
    using one_ownerD(3) [OF assms(1), of j w q] by (simp split: if_splits)
qed

section \<open>What the writes do to the abstraction\<close>

lemma org_abs_eqI:
  "(\<And>i. org_by_id i d' = org_by_id i d) \<Longrightarrow> members d' = members d \<Longrightarrow> org_abs d' = org_abs d"
  by (simp add: org_abs_def membership_def)

lemma org_abs_same:
  "organizations d' = organizations d \<Longrightarrow> members d' = members d \<Longrightarrow> org_abs d' = org_abs d"
  by (simp add: org_abs_def membership_def org_by_id_def)

lemma uniq_member_ids: "uniq member_clash ms \<Longrightarrow> distinct (map m_id ms)"
  by (subst uniq_key_distinct [symmetric]) (erule uniq_mono, simp add: member_clash_def)

lemma org_by_id_update_org:
  assumes "\<And>x. o_id (f x) = o_id x"
  shows "org_by_id j (update_org now i f d) =
           map_option (\<lambda>x. if o_id x = i then (f x)\<lparr>o_updatedAt := now\<rparr> else x) (org_by_id j d)"
  using assms by (simp add: org_by_id_def update_org_def find_first_update_where)

lemma membership_update_org [simp]: "membership i u (update_org now j f d) = membership i u d"
  by (simp add: membership_def update_org_def)

lemma org_by_id_update_member [simp]: "org_by_id i (update_member now p r d) = org_by_id i d"
  by (simp add: org_by_id_def update_member_def)

lemma membership_update_member:
  "membership i u (update_member now p r d) =
     map_option (\<lambda>m. if p m then m\<lparr>m_role := r, m_updatedAt := now\<rparr> else m) (membership i u d)"
  by (simp add: membership_def update_member_def find_first_update_where)

lemma abs_update_org_plain:
  assumes "\<And>x. o_id (f x) = o_id x" "\<And>x. o_ownerId (f x) = o_ownerId x"
  shows "org_abs (update_org now i f d) = org_abs d"
  unfolding org_abs_def
  by (simp add: org_by_id_update_org assms fun_eq_iff option.map_comp comp_def if_distrib cong: if_cong)

lemma abs_set_owner:
  assumes "org_by_id i d \<noteq> None"
  shows "org_abs (update_org now i (\<lambda>x. x\<lparr>o_ownerId := u\<rparr>) d) = set_owner i u (org_abs d)"
proof -
  have "map_option o_ownerId (org_by_id j (update_org now i (\<lambda>x. x\<lparr>o_ownerId := u\<rparr>) d)) =
      (if j = i then Some u else map_option o_ownerId (org_by_id j d))" for j
    using assms org_by_idD(2) [of j d]
    by (cases "org_by_id j d") (auto simp: org_by_id_update_org)
  then show ?thesis by (simp add: org_abs_def set_owner_def fun_eq_iff)
qed

lemma abs_update_member_key:
  assumes "membership i u d \<noteq> None"
  shows "org_abs (update_member now (member_key i u) r d) = set_role i u (Some r) (org_abs d)"
proof -
  have "map_option m_role (membership j w (update_member now (member_key i u) r d)) =
      (if j = i \<and> w = u then Some r else map_option m_role (membership j w d))" for j w
    using assms membershipD(2,3) [of j w d]
    by (cases "membership j w d") (auto simp: membership_update_member member_key_def)
  then show ?thesis by (simp add: org_abs_def set_role_def fun_eq_iff)
qed

text \<open>Writing the row with the id of a membership is writing the row with its key.\<close>

lemma member_id_key:
  assumes "uniq member_clash (members d)" "membership i u d = Some m" "x \<in> set (members d)"
  shows "m_id x = m_id m \<longleftrightarrow> member_key i u x"
proof
  assume "m_id x = m_id m"
  with member_ix.members_apart [OF assms(1,3) membershipD(1) [OF assms(2)]]
  show "member_key i u x"
    using membershipD(2,3) [OF assms(2)] by (simp add: member_clash_def member_key_def)
next
  assume "member_key i u x"
  then have "member_clash x m"
    using membershipD(2,3) [OF assms(2)] by (simp add: member_clash_def member_key_def)
  with member_ix.members_apart [OF assms(1,3) membershipD(1) [OF assms(2)]]
  show "m_id x = m_id m" by simp
qed

lemma update_where_cong:
  "(\<And>x. x \<in> set t \<Longrightarrow> p x = q x) \<Longrightarrow> update_where p f t = update_where q f t"
  by (induction t) auto

lemma delete_where_cong:
  "(\<And>x. x \<in> set t \<Longrightarrow> p x = q x) \<Longrightarrow> delete_where p t = delete_where q t"
  by (induction t) auto

lemma update_member_id_key:
  assumes "uniq member_clash (members d)" "membership i u d = Some m"
  shows "update_member now (\<lambda>x. m_id x = m_id m) r d = update_member now (member_key i u) r d"
proof -
  have "update_where (\<lambda>x. m_id x = m_id m) (\<lambda>x. x\<lparr>m_role := r, m_updatedAt := now\<rparr>) (members d) =
      update_where (member_key i u) (\<lambda>x. x\<lparr>m_role := r, m_updatedAt := now\<rparr>) (members d)"
    by (rule update_where_cong) (rule member_id_key [OF assms])
  then show ?thesis unfolding update_member_def by (simp only:)
qed

lemma abs_delete_member:
  "org_abs (d\<lparr>members := delete_where (member_key i u) (members d)\<rparr>) = set_role i u None (org_abs d)"
proof -
  have "find_first (\<lambda>m. m_organizationId m = j \<and> m_userId m = w) (delete_where (member_key i u) ms) =
      (if j = i \<and> w = u then None else find_first (\<lambda>m. m_organizationId m = j \<and> m_userId m = w) ms)"
    for j w ms
    by (induction ms) (auto simp: member_key_def)
  then show ?thesis
    by (simp add: org_abs_def set_role_def fun_eq_iff membership_def org_by_id_def)
qed

lemma abs_insert_member:
  assumes "membership (m_organizationId m) (m_userId m) d = None"
  shows "org_abs (d\<lparr>members := members d @ [m]\<rparr>) =
           set_role (m_organizationId m) (m_userId m) (Some (m_role m)) (org_abs d)"
proof -
  have "membership j w (d\<lparr>members := members d @ [m]\<rparr>) =
      (if j = m_organizationId m \<and> w = m_userId m then Some m else membership j w d)" for j w
    using assms by (auto simp: membership_def find_first_append split: option.splits)
  then show ?thesis
    by (simp add: org_abs_def set_role_def fun_eq_iff org_by_id_def)
qed

lemma abs_insert_org:
  assumes "org_by_id (o_id x) d = None"
  shows "org_abs (d\<lparr>organizations := organizations d @ [x]\<rparr>) = set_owner (o_id x) (o_ownerId x) (org_abs d)"
proof -
  have "org_by_id j (d\<lparr>organizations := organizations d @ [x]\<rparr>) =
      (if j = o_id x then Some x else org_by_id j d)" for j
    using assms by (auto simp: org_by_id_def find_first_append split: option.splits)
  then show ?thesis
    by (simp add: org_abs_def set_owner_def fun_eq_iff membership_def)
qed

section \<open>The operations refine updates of the abstraction\<close>

definition org_inv :: "db \<Rightarrow> bool" where
  "org_inv d \<longleftrightarrow>
     one_owner (org_abs d) \<and> uniq member_clash (members d) \<and> uniq org_clash (organizations d)
   \<and> (\<forall>i \<in> set (invitations d). i_role i \<noteq> OWNER \<and> org_by_id (i_organizationId i) d \<noteq> None)"

lemma org_invI:
  assumes "one_owner (org_abs d)" "uniq member_clash (members d)" "uniq org_clash (organizations d)"
    and "\<And>i. i \<in> set (invitations d) \<Longrightarrow> i_role i \<noteq> OWNER \<and> org_by_id (i_organizationId i) d \<noteq> None"
  shows "org_inv d"
  using assms unfolding org_inv_def by blast

lemma org_invD:
  assumes "org_inv d"
  shows "one_owner (org_abs d)" "uniq member_clash (members d)" "uniq org_clash (organizations d)"
    and "i \<in> set (invitations d) \<Longrightarrow> i_role i \<noteq> OWNER"
    and "i \<in> set (invitations d) \<Longrightarrow> org_by_id (i_organizationId i) d \<noteq> None"
  using assms unfolding org_inv_def by blast+

lemma ab_role_org_abs: "ab_role (org_abs d) i u = map_option m_role (membership i u d)"
  by (simp add: org_abs_def)

lemma ab_owner_org_abs: "ab_owner (org_abs d) i = map_option o_ownerId (org_by_id i d)"
  by (simp add: org_abs_def)

text \<open>Updates that leave keys and owners alone keep everything.\<close>

lemma update_org_inv:
  assumes "org_inv d"
    and "\<And>x. o_id (f x) = o_id x" "\<And>x. o_ownerId (f x) = o_ownerId x" "\<And>x. o_slug (f x) = o_slug x"
  shows "org_inv (update_org now i f d)"
proof (rule org_invI)
  note inv = org_invD [OF assms(1)]
  show "one_owner (org_abs (update_org now i f d))"
    using inv(1) by (simp add: abs_update_org_plain assms(2,3))
  show "uniq member_clash (members (update_org now i f d))"
    using inv(2) by (simp add: update_org_def)
  show "uniq org_clash (organizations (update_org now i f d))"
    unfolding update_org_def using inv(3)
    by (auto intro!: org_ix.update_where_same simp: org_clash_def assms)
  fix j assume "j \<in> set (invitations (update_org now i f d))"
  then have j: "j \<in> set (invitations d)" by (simp add: update_org_def)
  with inv(4,5) show "i_role j \<noteq> OWNER \<and> org_by_id (i_organizationId j) (update_org now i f d) \<noteq> None"
    by (simp add: org_by_id_update_org assms)
qed

lemma update_member_uniq:
  "uniq member_clash (members d) \<Longrightarrow> uniq member_clash (members (update_member now p r d))"
  unfolding update_member_def by (auto intro!: member_ix.update_where_same simp: member_clash_def)

lemma update_member_inv:
  assumes "org_inv d" "one_owner (org_abs (update_member now p r d))"
  shows "org_inv (update_member now p r d)"
proof (rule org_invI)
  note inv = org_invD [OF assms(1)]
  show "uniq member_clash (members (update_member now p r d))" by (rule update_member_uniq) (rule inv(2))
  show "uniq org_clash (organizations (update_member now p r d))"
    using inv(3) by (simp add: update_member_def)
  fix i assume "i \<in> set (invitations (update_member now p r d))"
  then have "i \<in> set (invitations d)" by (simp add: update_member_def)
  with inv(4,5) show "i_role i \<noteq> OWNER \<and> org_by_id (i_organizationId i) (update_member now p r d) \<noteq> None"
    by simp
qed (rule assms(2))

lemma updateMemberRole_inv:
  assumes "org_inv d" "role \<noteq> OWNER" "updateMemberRole now orgId target role d = (r, d')"
  shows "org_inv d'"
proof (cases "\<exists>m. membership orgId target d = Some m \<and> m_role m \<noteq> OWNER")
  case False
  with assms(3) have "d' = d" by (auto simp: updateMemberRole_def split: option.splits)
  with assms(1) show ?thesis by simp
next
  case True
  then obtain m where m: "membership orgId target d = Some m" "m_role m \<noteq> OWNER" by blast
  note inv = org_invD [OF assms(1)]
  have d': "d' = update_member now (member_key orgId target) role d"
    using assms(3) m update_member_id_key [OF inv(2) m(1)] by (auto simp: updateMemberRole_def)
  have role: "ab_role (org_abs d) orgId target = Some (m_role m)"
    by (simp add: ab_role_org_abs m(1))
  have "one_owner (set_role orgId target (Some role) (org_abs d))"
    using one_owner_set_role [OF inv(1) one_ownerD(3) [OF inv(1) role]] role m(2) assms(2) by simp
  then show ?thesis
    unfolding d' by (intro update_member_inv assms(1)) (simp add: abs_update_member_key m(1))
qed

lemma transferOwnership_inv:
  assumes "org_inv d" "transferOwnership now orgId cur new d = (r, d')"
    and owner: "ab_role (org_abs d) orgId cur = Some OWNER"
  shows "org_inv d'"
proof (cases "new = cur \<or> membership orgId new d = None \<or> org_by_id orgId d = None
    \<or> membership orgId cur d = None")
  case True
  with assms(2) have "d' = d"
    by (auto simp: transferOwnership_def Let_def org_by_id_update_org split: if_splits option.splits)
  with assms(1) show ?thesis by simp
next
  case False
  then have ne: "new \<noteq> cur" "membership orgId new d \<noteq> None" "org_by_id orgId d \<noteq> None"
      "membership orgId cur d \<noteq> None" by auto
  let ?d1 = "update_org now orgId (\<lambda>x. x\<lparr>o_ownerId := new\<rparr>) d"
  let ?d2 = "update_member now (member_key orgId new) OWNER ?d1"
  let ?d3 = "update_member now (member_key orgId cur) ORG_ADMIN ?d2"
  note inv = org_invD [OF assms(1)]
  have d': "d' = ?d3"
    using assms(2) ne by (auto simp: transferOwnership_def Let_def org_by_id_update_org split: option.splits)
  have m2: "membership orgId cur ?d2 \<noteq> None"
    using ne(4) by (simp add: membership_update_member)
  have abs: "org_abs ?d3 = set_role orgId cur (Some ORG_ADMIN) (set_role orgId new (Some OWNER)
      (set_owner orgId new (org_abs d)))"
    by (simp add: abs_update_member_key [OF m2] abs_update_member_key [of orgId new ?d1] ne(2)
        abs_set_owner [OF ne(3)])
  show ?thesis
    unfolding d'
  proof (rule org_invI)
    show "one_owner (org_abs ?d3)"
      unfolding abs using one_owner_transfer [OF inv(1) owner] ne(1,2) by (simp add: ab_role_org_abs)
    show "uniq member_clash (members ?d3)"
      by (intro update_member_uniq) (use inv(2) in \<open>simp add: update_org_def\<close>)
    have "uniq org_clash (update_where (\<lambda>x. o_id x = orgId)
        (\<lambda>x. x\<lparr>o_ownerId := new, o_updatedAt := now\<rparr>) (organizations d))"
      using inv(3) by (auto intro!: org_ix.update_where_same simp: org_clash_def)
    then show "uniq org_clash (organizations ?d3)"
      by (simp add: update_member_def update_org_def)
    fix i assume "i \<in> set (invitations ?d3)"
    then have "i \<in> set (invitations d)" by (simp add: update_member_def update_org_def)
    with inv(4,5) show "i_role i \<noteq> OWNER \<and> org_by_id (i_organizationId i) ?d3 \<noteq> None"
      by (simp add: org_by_id_update_org)
  qed
qed

lemma removeMember_inv:
  assumes "org_inv d" "removeMember orgId target d = (r, d')"
  shows "org_inv d'"
proof (cases "\<exists>m. membership orgId target d = Some m \<and> m_role m \<noteq> OWNER")
  case False
  with assms(2) have "d' = d" by (auto simp: removeMember_def split: option.splits)
  with assms(1) show ?thesis by simp
next
  case True
  then obtain m where m: "membership orgId target d = Some m" "m_role m \<noteq> OWNER" by blast
  note inv = org_invD [OF assms(1)]
  have "delete_where (\<lambda>x. m_id x = m_id m) (members d) = delete_where (member_key orgId target) (members d)"
    by (rule delete_where_cong) (rule member_id_key [OF inv(2) m(1)])
  then have d': "d' = d\<lparr>members := delete_where (member_key orgId target) (members d)\<rparr>"
    using assms(2) m by (auto simp: removeMember_def)
  have role: "ab_role (org_abs d) orgId target = Some (m_role m)"
    by (simp add: ab_role_org_abs m(1))
  have "one_owner (set_role orgId target None (org_abs d))"
    using one_owner_set_role [OF inv(1) one_ownerD(3) [OF inv(1) role]] role m(2) by simp
  then show ?thesis
    unfolding d'
    by (intro org_invI) (use inv in \<open>auto simp: abs_delete_member org_by_id_def intro: member_ix.delete_keeps\<close>)
qed

lemma createOrganization_inv:
  assumes "org_inv d" "createOrganization now fr uid name slug d = (r, d')"
  shows "org_inv d'"
proof (cases "d' = d")
  case True
  with assms(1) show ?thesis by simp
next
  case False
  let ?x = "\<lparr>o_id = fr_id fr, o_name = js_trim name, o_slug = slug, o_ownerId = uid,
      o_stripeCustomerId = None, o_deletedAt = None, o_createdAt = now, o_updatedAt = now\<rparr>"
  let ?m = "\<lparr>m_id = fr_tokenId fr, m_organizationId = fr_id fr, m_userId = uid,
      m_role = OWNER, m_createdAt = now, m_updatedAt = now\<rparr>"
  note inv = org_invD [OF assms(1)]
  obtain xs ms where ins: "insert_row org_clash ?x (organizations d) = Inr xs"
      "insert_row member_clash ?m (members d) = Inr ms"
    and d': "d' = d\<lparr>organizations := xs, members := ms\<rparr>"
    using assms(2) False
    by (auto simp: createOrganization_def Let_def split: if_splits sum.splits)
  have xs: "xs = organizations d @ [?x]" and ms: "ms = members d @ [?m]"
    using insert_row_InrD [OF ins(1)] insert_row_InrD [OF ins(2)] by blast+
  have none: "org_by_id (o_id ?x) d = None"
    using insert_row_InrD [OF ins(1)] by (auto simp: org_by_id_def find_first_None_iff org_clash_def)
  let ?d1 = "d\<lparr>organizations := organizations d @ [?x]\<rparr>"
  have d'2: "d' = ?d1\<lparr>members := members ?d1 @ [?m]\<rparr>"
    by (simp add: d' xs ms)
  have "membership (fr_id fr) uid d = None"
    using one_ownerD(3) [OF inv(1), of "fr_id fr" uid] none
    by (cases "membership (fr_id fr) uid d") (simp_all add: ab_role_org_abs ab_owner_org_abs)
  then have m0: "membership (m_organizationId ?m) (m_userId ?m) ?d1 = None"
    by (simp add: membership_def)
  have "org_abs d' = set_role (fr_id fr) uid (Some OWNER) (set_owner (fr_id fr) uid (org_abs d))"
    unfolding d'2 abs_insert_member [OF m0] abs_insert_org [OF none] by simp
  moreover have "ab_owner (org_abs d) (fr_id fr) = None"
    using none by (simp add: ab_owner_org_abs)
  ultimately have abs: "one_owner (org_abs d')"
    using one_owner_create [OF inv(1)] by simp
  show ?thesis
  proof (rule org_invI)
    show "uniq member_clash (members d')" "uniq org_clash (organizations d')"
      using member_ix.insert_keeps [OF ins(2) inv(2)] org_ix.insert_keeps [OF ins(1) inv(3)]
      by (simp_all add: d')
    fix i assume "i \<in> set (invitations d')"
    then have "i \<in> set (invitations d)" by (simp add: d')
    with inv(4,5) show "i_role i \<noteq> OWNER \<and> org_by_id (i_organizationId i) d' \<noteq> None"
      by (simp add: d' xs org_by_id_def find_first_append split: option.splits)
  qed (rule abs)
qed

lemma updateOrganization_inv:
  assumes "org_inv d" "updateOrganization now orgId name slug d = (r, d')"
  shows "org_inv d'"
proof (cases "d' = d")
  case True
  with assms(1) show ?thesis by simp
next
  case False
  let ?f = "\<lambda>x. x\<lparr>o_name := (case name of None \<Rightarrow> o_name x | Some n \<Rightarrow> js_trim n),
                 o_slug := (case slug of None \<Rightarrow> o_slug x | Some s \<Rightarrow> s), o_updatedAt := now\<rparr>"
  note inv = org_invD [OF assms(1)]
  obtain xs where up: "update_row org_clash (\<lambda>x. o_id x = orgId) ?f (organizations d) = Inr xs"
    and d': "d' = d\<lparr>organizations := xs\<rparr>"
    using assms(2) False
    by (auto simp: updateOrganization_def Let_def split: if_splits sum.splits option.splits)
  have xs: "xs = update_where (\<lambda>x. o_id x = orgId) ?f (organizations d)"
    using update_row_InrD [OF up] by blast
  have by_id: "org_by_id i d' = map_option (\<lambda>x. if o_id x = orgId then ?f x else x) (org_by_id i d)" for i
    by (simp add: d' xs org_by_id_def find_first_update_where)
  have abs: "org_abs d' = org_abs d"
    unfolding org_abs_def by_id
    by (simp add: d' membership_def fun_eq_iff option.map_comp comp_def if_distrib cong: if_cong)
  show ?thesis
  proof (rule org_invI)
    show "one_owner (org_abs d')" unfolding abs by (rule inv(1))
    show "uniq member_clash (members d')" using inv(2) by (simp add: d')
    show "uniq org_clash (organizations d')" using org_ix.update_keeps [OF up] by (simp add: d')
    fix i assume "i \<in> set (invitations d')"
    then have "i \<in> set (invitations d)" by (simp add: d')
    with inv(4,5) show "i_role i \<noteq> OWNER \<and> org_by_id (i_organizationId i) d' \<noteq> None"
      by (simp add: by_id)
  qed
qed

text \<open>Tables the invariant does not read may change freely.\<close>

lemma org_inv_cong:
  assumes "org_inv d" "organizations d' = organizations d" "members d' = members d"
    and "invitations d' = invitations d"
  shows "org_inv d'"
  using assms by (simp add: org_inv_def org_abs_same [OF assms(2,3)] org_by_id_def)

lemma deleteOrganization_inv:
  assumes "org_inv d" "deleteOrganization E cancel now orgId d = (r, d')"
  shows "org_inv d'"
proof -
  obtain ss where d': "d' = d \<or> d' = d\<lparr>subscriptions := ss\<rparr>
      \<or> d' = update_org now orgId (\<lambda>x. x\<lparr>o_deletedAt := Some now\<rparr>) (d\<lparr>subscriptions := ss\<rparr>)"
    using assms(2) by (auto simp: deleteOrganization_def Let_def split: if_splits)
  have "org_inv (d\<lparr>subscriptions := ss\<rparr>)"
    by (rule org_inv_cong [OF assms(1)]) simp_all
  with d' assms(1) show ?thesis by (auto intro: update_org_inv)
qed

lemma restoreOrganization_inv:
  assumes "org_inv d" "restoreOrganization now orgId d = (r, d')"
  shows "org_inv d'"
  using assms by (auto simp: restoreOrganization_def intro: update_org_inv split: if_splits)

lemma update_invitation_inv:
  assumes "org_inv d" "\<And>x. i_role (f x) = i_role x" "\<And>x. i_organizationId (f x) = i_organizationId x"
  shows "org_inv (update_invitation now i f d)"
proof (rule org_invI)
  note inv = org_invD [OF assms(1)]
  show "one_owner (org_abs (update_invitation now i f d))"
    using inv(1) org_abs_same [of "update_invitation now i f d" d] by (simp add: update_invitation_def)
  show "uniq member_clash (members (update_invitation now i f d))"
    "uniq org_clash (organizations (update_invitation now i f d))"
    using inv(2,3) by (simp_all add: update_invitation_def)
  fix j assume "j \<in> set (invitations (update_invitation now i f d))"
  then obtain k where "k \<in> set (invitations d)" "i_role j = i_role k"
      "i_organizationId j = i_organizationId k"
    unfolding update_invitation_def using assms(2,3) by (auto elim: in_update_whereE)
  with inv(4,5) show "i_role j \<noteq> OWNER \<and> org_by_id (i_organizationId j) (update_invitation now i f d) \<noteq> None"
    by (simp add: update_invitation_def org_by_id_def)
qed

lemma createInvitation_inv:
  assumes "org_inv d" "org_by_id orgId d \<noteq> None"
    and "createInvitation E now fr orgId inviter email role d = (r, d')"
  shows "org_inv d'"
proof (cases "d' = d")
  case True
  with assms(1) show ?thesis by simp
next
  case False
  note inv = org_invD [OF assms(1)]
  obtain row where d': "d' = d\<lparr>invitations := invitations d @ [row]\<rparr>"
    and row: "i_role row \<noteq> OWNER" "i_organizationId row = orgId"
    using assms(3) False
    by (auto simp: createInvitation_def Let_def split: if_splits sum.splits dest!: insert_row_InrD)
  show ?thesis
  proof (rule org_invI)
    show "one_owner (org_abs d')" using inv(1) org_abs_same [of d' d] by (simp add: d')
    show "uniq member_clash (members d')" "uniq org_clash (organizations d')"
      using inv(2,3) by (simp_all add: d')
    fix i assume "i \<in> set (invitations d')"
    then show "i_role i \<noteq> OWNER \<and> org_by_id (i_organizationId i) d' \<noteq> None"
      using inv(4,5) row assms(2) by (auto simp: d' org_by_id_def)
  qed
qed

lemma open_invitation_cases:
  assumes "open_invitation E now uid token d = (res, d1)"
  shows "(\<exists>e. res = Inl e \<and> (d1 = d \<or> (\<exists>j. d1 = update_invitation now j (\<lambda>x. x\<lparr>i_status := INV_EXPIRED\<rparr>) d)))
    \<or> (\<exists>i u. res = Inr i \<and> d1 = d \<and> find_first (\<lambda>i. i_token i = hashToken E token) (invitations d) = Some i
         \<and> i_status i = INV_PENDING \<and> now \<le> i_expiresAt i \<and> live_user_by_id uid d = Some u
         \<and> u_email u = i_inviteeEmail i)"
  using assms by (auto simp: open_invitation_def split: option.splits if_splits)

lemma open_invitation_inv:
  assumes "org_inv d" "open_invitation E now uid token d = (res, d1)"
  shows "org_inv d1"
  using open_invitation_cases [OF assms(2)] assms(1) by (auto intro: update_invitation_inv)

lemma mark_accepted_sel [simp]:
  "i_role (mark_accepted now uid x) = i_role x"
  "i_organizationId (mark_accepted now uid x) = i_organizationId x"
  "i_id (mark_accepted now uid x) = i_id x" "i_token (mark_accepted now uid x) = i_token x"
  "i_status (mark_accepted now uid x) = INV_ACCEPTED"
  by (simp_all add: mark_accepted_def)

lemma acceptInvitation_cases:
  assumes "acceptInvitation E now fr uid token d = (r, d')"
  obtains (refused) res d1 where "open_invitation E now uid token d = (res, d1)" "\<exists>e. r = Inl e"
      "d' = d1 \<or> (\<exists>j. d' = update_invitation now j (mark_accepted now uid) d1)"
  | (joined) i m where "open_invitation E now uid token d = (Inr i, d)"
      "membership (i_organizationId i) uid d = None"
      "insert_row member_clash m (members d) = Inr (members d @ [m])"
      "m_organizationId m = i_organizationId i" "m_userId m = uid" "m_role m = i_role i"
      "r = Inr ((mark_accepted now uid i)\<lparr>i_updatedAt := now\<rparr>)"
      "d' = update_invitation now (i_id i) (mark_accepted now uid) (d\<lparr>members := members d @ [m]\<rparr>)"
proof (cases "open_invitation E now uid token d")
  case (Pair res d1)
  note op = Pair
  show ?thesis
  proof (cases res)
    case (Inl e)
    then show ?thesis using assms op by (intro refused [OF op]) (auto simp: acceptInvitation_def)
  next
    case (Inr i)
    have d1: "d1 = d" using open_invitation_cases [OF op] Inr by auto
    let ?m = "\<lparr>m_id = fr_id fr, m_organizationId = i_organizationId i, m_userId = uid,
                        m_role = i_role i, m_createdAt = now, m_updatedAt = now\<rparr>"
    show ?thesis
    proof (cases "membership (i_organizationId i) uid d \<noteq> None \<or>
        (\<exists>e. insert_row member_clash ?m (members d) = Inl e)")
      case True
      then show ?thesis
        using assms op Inr d1
        by (intro refused [OF op]) (auto simp: acceptInvitation_def Let_def split: if_splits)
    next
      case False
      then obtain ms where ms: "insert_row member_clash ?m (members d) = Inr ms"
          "membership (i_organizationId i) uid d = None"
        by (cases "insert_row member_clash ?m (members d)") auto
      have ms2: "ms = members d @ [?m]" using insert_row_InrD [OF ms(1)] by blast
      show ?thesis
        using assms op Inr d1 ms
        by (intro joined [of i ?m])
          (auto simp: acceptInvitation_def Let_def ms2 update_invitation_def)
    qed
  qed
qed

lemma insert_member_inv:
  assumes "org_inv d" "insert_row member_clash m (members d) = Inr (members d @ [m])"
    and "membership (m_organizationId m) (m_userId m) d = None" "m_role m \<noteq> OWNER"
    and "org_by_id (m_organizationId m) d \<noteq> None"
  shows "org_inv (d\<lparr>members := members d @ [m]\<rparr>)"
proof (rule org_invI)
  note inv = org_invD [OF assms(1)]
  have "one_owner (set_role (m_organizationId m) (m_userId m) (Some (m_role m)) (org_abs d))"
    using assms(3-5) by (intro one_owner_set_role inv(1)) (simp_all add: ab_owner_org_abs ab_role_org_abs)
  then show "one_owner (org_abs (d\<lparr>members := members d @ [m]\<rparr>))"
    by (simp add: abs_insert_member [OF assms(3)])
  show "uniq member_clash (members (d\<lparr>members := members d @ [m]\<rparr>))"
    using member_ix.insert_keeps [OF assms(2) inv(2)] by simp
  show "uniq org_clash (organizations (d\<lparr>members := members d @ [m]\<rparr>))"
    using inv(3) by simp
  fix i assume "i \<in> set (invitations (d\<lparr>members := members d @ [m]\<rparr>))"
  with inv(4,5) show "i_role i \<noteq> OWNER \<and> org_by_id (i_organizationId i) (d\<lparr>members := members d @ [m]\<rparr>) \<noteq> None"
    by (simp add: org_by_id_def)
qed

lemma acceptInvitation_inv:
  assumes "org_inv d" "acceptInvitation E now fr uid token d = (r, d')"
  shows "org_inv d'"
  using assms(2)
proof (cases rule: acceptInvitation_cases)
  case (refused res d1)
  with open_invitation_inv [OF assms(1) refused(1)] show ?thesis
    by (auto intro: update_invitation_inv)
next
  case (joined i m)
  have "i \<in> set (invitations d)"
    using open_invitation_cases [OF joined(1)] by (auto dest: find_first_SomeD(1))
  then have "i_role i \<noteq> OWNER" "org_by_id (i_organizationId i) d \<noteq> None"
    using org_invD(4,5) [OF assms(1)] by blast+
  with joined(2-6) have "org_inv (d\<lparr>members := members d @ [m]\<rparr>)"
    by (intro insert_member_inv assms(1)) simp_all
  then show ?thesis unfolding joined(8) by (rule update_invitation_inv) simp_all
qed

lemma declineInvitation_inv:
  assumes "org_inv d" "declineInvitation E now uid token d = (r, d')"
  shows "org_inv d'"
proof (cases "open_invitation E now uid token d")
  case (Pair res d1)
  with assms(2) open_invitation_inv [OF assms(1) Pair] show ?thesis
    by (cases res) (auto simp: declineInvitation_def Let_def intro: update_invitation_inv)
qed

lemma cancelInvitation_inv:
  assumes "org_inv d" "cancelInvitation now orgId iid d = (r, d')"
  shows "org_inv d'"
  using assms
  by (auto simp: cancelInvitation_def Let_def intro: update_invitation_inv
      split: option.splits if_splits)

section \<open>Requests\<close>

text \<open>
  A request to the organization routes: \<open>requireTenant\<close> and \<open>requireOrgRole\<close> where the router puts
  them, then the service.  The role schemas admit \<open>ADMIN\<close> and \<open>MEMBER\<close> only.  What the
  controllers do after the service they do not wait for: the audit entry and the invitation mail are
  steps of their own, which may come at any later time.
\<close>

definition tenant_with :: "org_role list \<Rightarrow> string \<Rightarrow> string \<Rightarrow> db \<Rightarrow> tenant \<Rightarrow> bool" where
  "tenant_with roles orgId uid d t \<longleftrightarrow>
     requireTenant orgId uid d = Inr t \<and> requireOrgRole roles (Some t) = Inr ()"

definition deleted_tenant_with :: "org_role list \<Rightarrow> string \<Rightarrow> string \<Rightarrow> db \<Rightarrow> tenant \<Rightarrow> bool" where
  "deleted_tenant_with roles orgId uid d t \<longleftrightarrow>
     requireTenantIncludeDeleted orgId uid d = Inr t \<and> requireOrgRole roles (Some t) = Inr ()"

inductive org_step :: "env \<Rightarrow> db \<Rightarrow> db \<Rightarrow> bool" for E :: env where
  create: "createOrganization now fr uid name slug d = (r, d') \<Longrightarrow> org_step E d d'"
| change: "tenant_with [OWNER, ORG_ADMIN] orgId uid d t \<Longrightarrow>
    updateOrganization now (tn_id t) name slug d = (r, d') \<Longrightarrow> org_step E d d'"
| remove: "tenant_with [OWNER] orgId uid d t \<Longrightarrow>
    deleteOrganization E cancel now (tn_id t) d = (m, d') \<Longrightarrow> org_step E d d'"
| restore: "deleted_tenant_with [OWNER] orgId uid d t \<Longrightarrow>
    restoreOrganization now (tn_id t) d = (m, d') \<Longrightarrow> org_step E d d'"
| transfer: "tenant_with [OWNER] orgId uid d t \<Longrightarrow>
    transferOwnership now (tn_id t) uid new d = (r, d') \<Longrightarrow> org_step E d d'"
| member_role: "tenant_with [OWNER, ORG_ADMIN] orgId uid d t \<Longrightarrow> role \<in> {ORG_ADMIN, MEMBER} \<Longrightarrow>
    updateMemberRole now (tn_id t) target role d = (v, d') \<Longrightarrow> org_step E d d'"
| member_remove: "tenant_with [OWNER, ORG_ADMIN] orgId uid d t \<Longrightarrow>
    removeMember (tn_id t) target d = (m, d') \<Longrightarrow> org_step E d d'"
| invite: "tenant_with [OWNER, ORG_ADMIN] orgId uid d t \<Longrightarrow>
    createInvitation E now fr (tn_id t) uid email role d = (i, d') \<Longrightarrow> org_step E d d'"
| cancel_invite: "tenant_with [OWNER, ORG_ADMIN] orgId uid d t \<Longrightarrow>
    cancelInvitation now (tn_id t) iid d = (j, d') \<Longrightarrow> org_step E d d'"
| accept: "acceptInvitation E now fr uid token d = (j, d') \<Longrightarrow> org_step E d d'"
| decline: "declineInvitation E now uid token d = (j, d') \<Longrightarrow> org_step E d d'"
| audit: "org_step E d (auditLog E' now action a d)"
| mail: "org_step E d (snd (queueOrgInvitationEmail E to orgName inviterName role token loc d))"

inductive_cases org_stepE: "org_step E d d'"

lemma tenant_withD:
  assumes "tenant_with roles orgId uid d t"
  shows "org_by_id (tn_id t) d \<noteq> None" "tn_id t = orgId" "ab_role (org_abs d) (tn_id t) uid = Some (tn_role t)"
    "tn_role t \<in> set roles"
proof -
  from assms have rt: "requireTenant orgId uid d = Inr t" and role: "requireOrgRole roles (Some t) = Inr ()"
    by (simp_all add: tenant_with_def)
  from requireTenant_InrD [OF rt] obtain m x where
    mx: "membership orgId uid d = Some m" "org_by_id (m_organizationId m) d = Some x" "t = tenant_of x m"
    by blast
  have x: "m_organizationId m = orgId" "o_id x = orgId"
    using membershipD(2) [OF mx(1)] org_by_idD(2) [OF mx(2)] by simp_all
  then show "org_by_id (tn_id t) d \<noteq> None" "tn_id t = orgId"
      "ab_role (org_abs d) (tn_id t) uid = Some (tn_role t)"
    using mx by (simp_all add: tenant_of_def ab_role_org_abs)
  show "tn_role t \<in> set roles" using role by (simp add: requireOrgRole_def split: if_splits)
qed

lemma org_inv_frame:
  assumes "organizations d' = organizations d" "members d' = members d" "invitations d' = invitations d"
    and "org_inv d"
  shows "org_inv d'"
  using assms by (simp add: org_inv_def org_abs_def membership_def org_by_id_def)

lemma auditLog_org_inv: "org_inv d \<Longrightarrow> org_inv (auditLog E now action a d)"
  by (rule org_inv_frame) simp_all

lemma queueOrgInvitationEmail_inv:
  "org_inv d \<Longrightarrow> org_inv (snd (queueOrgInvitationEmail E to orgName inviterName role token loc d))"
  by (rule org_inv_frame) (simp_all add: queueOrgInvitationEmail_def)

lemmas org_operations_inv = auditLog_org_inv queueOrgInvitationEmail_inv createOrganization_inv updateOrganization_inv deleteOrganization_inv
  restoreOrganization_inv updateMemberRole_inv removeMember_inv createInvitation_inv
  cancelInvitation_inv acceptInvitation_inv declineInvitation_inv

lemma org_step_inv:
  assumes "org_step E d d'" "org_inv d"
  shows "org_inv d'"
  using assms(1)
proof cases
  case (transfer orgId uid t now new r)
  have "ab_role (org_abs d) (tn_id t) uid = Some OWNER"
    using tenant_withD(3,4) [OF transfer(1)] by simp
  then show ?thesis by (rule transferOwnership_inv [OF assms(2) transfer(2)])
next
  case (member_role orgId uid t role now target v)
  then have "role \<noteq> OWNER" by auto
  then show ?thesis by (rule updateMemberRole_inv [OF assms(2) _ member_role(3)])
next
  case (invite orgId uid t now fr email role i)
  show ?thesis
    by (rule createInvitation_inv [OF assms(2) tenant_withD(1) [OF invite(1)] invite(2)])
qed (use assms(2) in \<open>blast intro: org_operations_inv\<close>)+

interpretation org_requests: step_system "org_step E" org_inv
  by unfold_locales (rule org_step_inv)

lemma org_inv_owner_row:
  assumes "org_inv d" "x \<in> set (organizations d)"
  shows "\<exists>m. {m' \<in> set (members d). m_organizationId m' = o_id x \<and> m_role m' = OWNER} = {m}
           \<and> m_userId m = o_ownerId x"
proof -
  note inv = org_invD [OF assms(1)]
  have "distinct (map o_id (organizations d))"
    by (subst uniq_key_distinct [symmetric]) (rule uniq_mono [OF inv(3)], simp add: org_clash_def)
  from distinct_map_find [OF this assms(2)] have x: "org_by_id (o_id x) d = Some x"
    by (simp add: org_by_id_def)
  then have owner: "ab_owner (org_abs d) (o_id x) = Some (o_ownerId x)"
    by (simp add: ab_owner_org_abs)
  from one_ownerD(1) [OF inv(1) this] obtain m where
    m: "membership (o_id x) (o_ownerId x) d = Some m" "m_role m = OWNER"
    by (auto simp: ab_role_org_abs)
  have "m' = m" if m': "m' \<in> set (members d)" "m_organizationId m' = o_id x" "m_role m' = OWNER" for m'
  proof -
    have "membership (o_id x) (m_userId m') d = Some m'"
    proof (cases "membership (o_id x) (m_userId m') d")
      case None
      then have "\<not> (m_organizationId r = o_id x \<and> m_userId r = m_userId m')" if "r \<in> set (members d)" for r
        using that by (simp add: membership_def find_first_None_iff)
      with m'(1,2) show ?thesis by blast
    next
      case (Some k)
      from membershipD [OF this] m'(2) have "member_clash k m'" by (simp add: member_clash_def)
      from member_ix.members_apart [OF inv(2) membershipD(1) [OF Some] m'(1) this] Some show ?thesis
        by simp
    qed
    with m'(3) have "ab_role (org_abs d) (o_id x) (m_userId m') = Some OWNER"
      by (simp add: ab_role_org_abs)
    from one_ownerD(2) [OF inv(1) this] owner have "m_userId m' = o_ownerId x" by simp
    then have "member_clash m' m"
      using membershipD(2,3) [OF m(1)] m'(2) by (simp add: member_clash_def)
    from member_ix.members_apart [OF inv(2) m'(1) membershipD(1) [OF m(1)] this] show ?thesis .
  qed
  then have "{m' \<in> set (members d). m_organizationId m' = o_id x \<and> m_role m' = OWNER} = {m}"
    using membershipD(1,2) [OF m(1)] m(2) by blast
  with membershipD(3) [OF m(1)] show ?thesis by blast
qed

text \<open>After any sequence of requests to the organization and invitation routes, every organization
  has exactly one member with the role \<open>OWNER\<close>, and that member is the user the organization's row
  names as its owner.\<close>

theorem ownership_invariant:
  assumes "(org_step E)\<^sup>*\<^sup>* d d'" "org_inv d" "x \<in> set (organizations d')"
  shows "\<exists>m. {m' \<in> set (members d'). m_organizationId m' = o_id x \<and> m_role m' = OWNER} = {m}
           \<and> m_userId m = o_ownerId x"
  using org_requests.run_keeps [OF assms(1,2)] assms(3) by (rule org_inv_owner_row)

text \<open>A run: an organization is created, a second user invited, the invitation accepted, and the
  ownership handed over.\<close>

definition run_created :: db where
  "run_created = snd (createOrganization 1 (demo_fresh ''o1'') ''u1'' ''Acme'' ''acme'' demo_db)"

definition run_invited :: db where
  "run_invited = snd (createInvitation demo_env 2 (demo_fresh ''i1'') ''o1'' ''u1'' ''b@x'' ORG_ADMIN run_created)"

definition run_joined :: db where
  "run_joined = snd (acceptInvitation demo_env 3 (demo_fresh ''m2'') ''u2'' ''i1'' run_invited)"

definition run_transferred :: db where
  "run_transferred = snd (transferOwnership 4 ''o1'' ''u1'' ''u2'' run_joined)"

definition demo_tenant :: "string \<Rightarrow> org_role \<Rightarrow> tenant" where
  "demo_tenant w r = \<lparr>tn_id = ''o1'', tn_name = ''Acme'', tn_slug = ''acme'', tn_ownerId = w, tn_role = r\<rparr>"

lemma run_tables:
  "tenant_with [OWNER, ORG_ADMIN] ''o1'' ''u1'' run_created (demo_tenant ''u1'' OWNER)"
  "tenant_with [OWNER] ''o1'' ''u1'' run_joined (demo_tenant ''u1'' OWNER)"
  "map m_role (members run_transferred) = [ORG_ADMIN, OWNER]"
  "map o_ownerId (organizations run_transferred) = [''u2'']"
  by code_simp+

lemma demo_org_inv: "org_inv demo_db"
  by (simp add: org_inv_def one_owner_def org_abs_def org_by_id_def membership_def demo_db_def empty_db_def)

lemma run_steps: "(org_step demo_env)\<^sup>*\<^sup>* demo_db run_transferred"
proof -
  have "org_step demo_env demo_db run_created"
    unfolding run_created_def by (rule org_step.create) (rule prod.collapse [symmetric])
  moreover have "org_step demo_env run_created run_invited"
    unfolding run_invited_def
    by (rule org_step.invite [OF run_tables(1)]) (simp add: demo_tenant_def prod_eq_iff)
  moreover have "org_step demo_env run_invited run_joined"
    unfolding run_joined_def by (rule org_step.accept) (rule prod.collapse [symmetric])
  moreover have "org_step demo_env run_joined run_transferred"
    unfolding run_transferred_def
    by (rule org_step.transfer [OF run_tables(2)]) (simp add: demo_tenant_def prod_eq_iff)
  ultimately show ?thesis by (meson rtranclp.rtrancl_refl rtranclp.rtrancl_into_rtrancl)
qed

theorem ownership_invariant_witness:
  "\<exists>m. {m' \<in> set (members run_transferred). m_organizationId m' = o_id (hd (organizations run_transferred))
          \<and> m_role m' = OWNER} = {m}
     \<and> m_userId m = o_ownerId (hd (organizations run_transferred))"
proof (rule ownership_invariant [OF run_steps demo_org_inv])
  have "organizations run_transferred \<noteq> []"
    using run_tables(4) by (metis list.distinct(1) list.map_disc_iff)
  then show "hd (organizations run_transferred) \<in> set (organizations run_transferred)"
    by (rule hd_in_set)
qed

section \<open>What the guards do not protect\<close>

definition race_db :: db where
  "race_db = run_joined\<lparr>members := members run_joined @
     [\<lparr>m_id = ''m3'', m_organizationId = ''o1'', m_userId = ''u3'', m_role = MEMBER, m_createdAt = 3,
       m_updatedAt = 3\<rparr>]\<rparr>"

text \<open>The transfer of ownership is not safe against itself: a second transfer by the same owner whose
  guard ran before the first one committed also succeeds, and leaves the organization with two
  members of role \<open>OWNER\<close>.\<close>

theorem transfer_race:
  "tenant_with [OWNER] ''o1'' ''u1'' race_db (demo_tenant ''u1'' OWNER)
   \<and> is_ok (fst (transferOwnership 4 ''o1'' ''u1'' ''u2'' race_db))
   \<and> is_ok (fst (transferOwnership 5 ''o1'' ''u1'' ''u3'' (snd (transferOwnership 4 ''o1'' ''u1'' ''u2'' race_db))))
   \<and> map (\<lambda>m. (m_userId m, m_role m))
       (members (snd (transferOwnership 5 ''o1'' ''u1'' ''u3''
          (snd (transferOwnership 4 ''o1'' ''u1'' ''u2'' race_db)))))
     = [(''u1'', ORG_ADMIN), (''u2'', OWNER), (''u3'', OWNER)]"
  by code_simp

section \<open>Invitations\<close>

lemma membership_insert:
  assumes "membership (m_organizationId m) (m_userId m) d = None"
  shows "membership j w (d\<lparr>members := members d @ [m]\<rparr>) =
      (if j = m_organizationId m \<and> w = m_userId m then Some m else membership j w d)"
  using assms by (auto simp: membership_def find_first_append split: option.splits)

lemma membership_update_invitation [simp]:
  "membership j w (update_invitation now i f d) = membership j w d"
  by (simp add: membership_def update_invitation_def)

text \<open>C23: Accepting an invitation needs its token, its pending state, its deadline and the invited address:
  then the caller joins that organization with the invited role, never as owner, no other membership
  changes, and the token is spent.\<close>

theorem acceptInvitation_effect:
  assumes "org_inv d" "acceptInvitation E now fr uid token d = (Inr i', d')"
  shows "\<exists>i u. i \<in> set (invitations d) \<and> i_token i = hashToken E token \<and> i_status i = INV_PENDING
     \<and> now \<le> i_expiresAt i \<and> live_user_by_id uid d = Some u \<and> u_email u = i_inviteeEmail i
     \<and> i_role i \<noteq> OWNER
     \<and> org_abs d' = set_role (i_organizationId i) uid (Some (i_role i)) (org_abs d)
     \<and> fst (acceptInvitation E now' fr' uid' token d')
         = Inl (httpError ''errors.invitationNotPending'' 400)"
  using assms(2)
proof (cases rule: acceptInvitation_cases)
  case (refused res d1)
  then show ?thesis by simp
next
  case (joined i m)
  from open_invitation_cases [OF joined(1)] obtain u where
    i: "find_first (\<lambda>i. i_token i = hashToken E token) (invitations d) = Some i" "i_status i = INV_PENDING"
      "now \<le> i_expiresAt i" "live_user_by_id uid d = Some u" "u_email u = i_inviteeEmail i"
    by auto
  note row = find_first_SomeD [OF i(1)]
  let ?d1 = "d\<lparr>members := members d @ [m]\<rparr>"
  have m0: "membership (m_organizationId m) (m_userId m) d = None"
    using joined(2,4,5) by simp
  have "org_abs d' = org_abs ?d1"
    unfolding joined(8) by (rule org_abs_same) (simp_all add: update_invitation_def)
  then have abs: "org_abs d' = set_role (i_organizationId i) uid (Some (i_role i)) (org_abs d)"
    using abs_insert_member [OF m0] joined(4-6) by simp
  have "find_first (\<lambda>i. i_token i = hashToken E token) (invitations d') =
      Some ((mark_accepted now uid i)\<lparr>i_updatedAt := now\<rparr>)"
    using i(1) unfolding joined(8) update_invitation_def by (simp add: find_first_update_where)
  then have "fst (acceptInvitation E now' fr' uid' token d')
         = Inl (httpError ''errors.invitationNotPending'' 400)"
    by (simp add: acceptInvitation_def open_invitation_def)
  with row i(2-5) org_invD(4) [OF assms(1) row(1)] abs show ?thesis by blast
qed

theorem acceptInvitation_effect_witness:
  "\<exists>i u. i \<in> set (invitations run_invited) \<and> i_token i = hashToken demo_env ''i1'' \<and> i_status i = INV_PENDING
     \<and> (3::int) \<le> i_expiresAt i \<and> live_user_by_id ''u2'' run_invited = Some u \<and> u_email u = i_inviteeEmail i
     \<and> i_role i \<noteq> OWNER
     \<and> org_abs run_joined = set_role (i_organizationId i) ''u2'' (Some (i_role i)) (org_abs run_invited)
     \<and> fst (acceptInvitation demo_env 4 (demo_fresh ''y'') ''u2'' ''i1'' run_joined)
         = Inl (httpError ''errors.invitationNotPending'' 400)"
proof (rule acceptInvitation_effect)
  have "org_step demo_env demo_db run_created"
    unfolding run_created_def by (rule org_step.create) (rule prod.collapse [symmetric])
  moreover have "org_step demo_env run_created run_invited"
    unfolding run_invited_def
    by (rule org_step.invite [OF run_tables(1)]) (simp add: demo_tenant_def prod_eq_iff)
  ultimately show "org_inv run_invited"
    using org_step_inv demo_org_inv by blast
  have "is_ok (fst (acceptInvitation demo_env 3 (demo_fresh ''m2'') ''u2'' ''i1'' run_invited))"
    by code_simp
  then show "acceptInvitation demo_env 3 (demo_fresh ''m2'') ''u2'' ''i1'' run_invited =
      (Inr (projr (fst (acceptInvitation demo_env 3 (demo_fresh ''m2'') ''u2'' ''i1'' run_invited))), run_joined)"
    by (auto simp: run_joined_def is_ok_iff prod_eq_iff)
qed

end
