(* ===== verification/Sessions.thy ===== *)
theory Sessions
  imports Guards Query Samples
begin

text \<open>
  Refresh-token rotation and logout of \<open>auth.service.js\<close>, and \<open>src/modules/session/session.service.js\<close>:
  listing and revoking sessions.
\<close>

section \<open>\<open>refresh\<close>\<close>

definition bump_version :: "user \<Rightarrow> user" where
  "bump_version u = u\<lparr>u_tokenVersion := u_tokenVersion u + 1\<rparr>"

text \<open>The answer to the reuse of a rotated token: revoke the whole family and the access tokens.\<close>

definition kill_family :: "int \<Rightarrow> string \<Rightarrow> db \<Rightarrow> db" where
  "kill_family now userId d =
     update_user now userId bump_version (revoke_tokens now (\<lambda>t. rt_userId t = userId) d)"

definition refresh ::
  "env \<Rightarrow> int \<Rightarrow> client \<Rightarrow> fresh \<Rightarrow> string \<Rightarrow> db \<Rightarrow> (string \<times> string) result \<times> db" where
  "refresh E now cl fr refreshToken d =
     (if verifyRefreshToken E now refreshToken = None
      then (Inl (httpError ''errors.invalidOrExpiredRefreshToken'' 401), d)
      else
        (case find_first (\<lambda>t. rt_token t = hashToken E refreshToken) (refreshTokens d) of
           None \<Rightarrow> (Inl (httpError ''errors.invalidRefreshToken'' 401), d)
         | Some stored \<Rightarrow>
             (case user_by_id (rt_userId stored) d of
                None \<Rightarrow> (Inl (OtherError ''Inconsistent query result: user is required''), d)
              | Some user \<Rightarrow>
                  if rt_revoked stored
                  then (Inl (httpError ''errors.invalidRefreshToken'' 401),
                        kill_family now (rt_userId stored) d)
                  else if rt_expiresAt stored < now
                  then (Inl (httpError ''errors.invalidRefreshToken'' 401),
                        revoke_tokens now (\<lambda>t. rt_id t = rt_id stored) d)
                  else if u_deletedAt user \<noteq> None
                  then (Inl (httpError ''errors.invalidRefreshToken'' 401), d)
                  else if u_banned user then (Inl (httpError ''errors.accountBanned'' 403), d)
                  else if after (u_suspendedUntil user) now
                  then (Inl (accountSuspended (u_suspendedUntil user)), d)
                  else
                    await (createRefreshTokenRecord E now cl fr (u_id user)
                             (revoke_tokens now (\<lambda>t. rt_id t = rt_id stored) d))
                      (\<lambda>newRefreshToken d2.
                         (Inr (accessTokenFor E now user, newRefreshToken), d2)))))"

section \<open>\<open>logout\<close>\<close>

definition logout :: "env \<Rightarrow> int \<Rightarrow> string \<Rightarrow> string option \<Rightarrow> db \<Rightarrow> string result \<times> db" where
  "logout E now userId refreshToken d =
     (Inr ''messages.loggedOutSuccessfully'',
      if truthy refreshToken
      then revoke_tokens now
             (\<lambda>t. rt_token t = hashToken E (the refreshToken) \<and> rt_userId t = userId) d
      else revokeAllRefreshTokens now userId d)"

section \<open>\<open>session.service.js\<close>\<close>

record session_view =
  sv_id :: string
  sv_userAgent :: "string option"
  sv_ipAddress :: "string option"
  sv_revoked :: bool
  sv_expiresAt :: int
  sv_createdAt :: int
  sv_updatedAt :: int

definition sessionSelect :: "refresh_token \<Rightarrow> session_view" where
  "sessionSelect t = \<lparr>sv_id = rt_id t, sv_userAgent = rt_userAgent t, sv_ipAddress = rt_ipAddress t,
     sv_revoked = rt_revoked t, sv_expiresAt = rt_expiresAt t, sv_createdAt = rt_createdAt t,
     sv_updatedAt = rt_updatedAt t\<rparr>"

definition listSessions ::
  "((string \<times> string) option \<Rightarrow> refresh_token list \<Rightarrow> refresh_token list) \<Rightarrow> string \<Rightarrow> int \<Rightarrow> int
   \<Rightarrow> string \<Rightarrow> string \<Rightarrow> db \<Rightarrow> session_view list \<times> pagination_meta" where
  "listSessions ob userId page limit srt order d =
     (let r = list_page (ob (parseSort srt order [''createdAt'', ''updatedAt'', ''expiresAt'']))
                (\<lambda>t. rt_userId t = userId) page limit (refreshTokens d)
      in (map sessionSelect (fst r), snd r))"

definition revokeSession :: "int \<Rightarrow> string \<Rightarrow> string \<Rightarrow> db \<Rightarrow> session_view result \<times> db" where
  "revokeSession now userId sessionId d =
     (case find_first (\<lambda>t. rt_id t = sessionId \<and> rt_userId t = userId) (refreshTokens d) of
        None \<Rightarrow> (Inl (httpError ''errors.sessionNotFound'' 404), d)
      | Some s \<Rightarrow>
          if rt_revoked s then (Inl (httpError ''errors.sessionAlreadyRevoked'' 400), d)
          else (Inr (sessionSelect (s\<lparr>rt_revoked := True, rt_updatedAt := now\<rparr>)),
                revoke_tokens now (\<lambda>t. rt_id t = sessionId) d))"

text \<open>The transaction fails as a whole when the user row is gone.\<close>

definition revokeAllSessions :: "int \<Rightarrow> string \<Rightarrow> db \<Rightarrow> nat result \<times> db" where
  "revokeAllSessions now userId d =
     (if user_by_id userId d = None then (Inl P2025, d)
      else (Inr (count_where (\<lambda>t. rt_userId t = userId \<and> \<not> rt_revoked t) (refreshTokens d)),
            update_user now userId bump_version (revokeAllRefreshTokens now userId d)))"

section \<open>When no session of a user survives\<close>

text \<open>
  The contract of every operation that ends a user's sessions: afterwards all refresh tokens of the
  user are revoked and the token version is greater than before.
\<close>

definition sessions_ended :: "string \<Rightarrow> db \<Rightarrow> db \<Rightarrow> bool" where
  "sessions_ended uid d d' \<longleftrightarrow>
     (\<forall>t \<in> set (refreshTokens d'). rt_userId t = uid \<longrightarrow> rt_revoked t)
   \<and> (\<forall>u'. user_by_id uid d' = Some u' \<longrightarrow>
        (\<exists>u. user_by_id uid d = Some u \<and> u_tokenVersion u < u_tokenVersion u'))"

text \<open>
  What a client sees of it: no header whose access token carries a version up to the one before the
  operation is let through, and no refresh token of the user is exchanged.
\<close>

definition no_session_survives :: "env \<Rightarrow> string \<Rightarrow> db \<Rightarrow> db \<Rightarrow> bool" where
  "no_session_survives E uid d d' \<longleftrightarrow>
     (\<forall>now hdr token e r v u. bearer_token hdr = Some token
        \<longrightarrow> verifyToken E now token = Some (AccessClaims uid e r v)
        \<longrightarrow> user_by_id uid d = Some u \<longrightarrow> v \<le> u_tokenVersion u
        \<longrightarrow> \<not> is_ok (authenticate E now hdr d'))
   \<and> (\<forall>now cl fr token t. find_first (\<lambda>t. rt_token t = hashToken E token) (refreshTokens d') = Some t
        \<longrightarrow> rt_userId t = uid \<longrightarrow> \<not> is_ok (fst (refresh E now cl fr token d')))"

lemma refresh_revoked:
  assumes "find_first (\<lambda>t. rt_token t = hashToken E token) (refreshTokens d) = Some t" "rt_revoked t"
  shows "\<not> is_ok (fst (refresh E now cl fr token d))"
  using assms by (simp add: refresh_def split: option.splits)

lemma live_user_user_by_id:
  assumes "uniq user_clash (users d)" "live_user_by_id i d = Some u"
  shows "user_by_id i d = Some u"
  using user_by_id_unique [OF assms(1) live_user_by_idD(1) [OF assms(2)]] live_user_by_idD(2) [OF assms(2)]
  by simp

lemma sessions_ended_survive:
  assumes uniq: "uniq user_clash (users d')" and ended: "sessions_ended uid d d'"
  shows "no_session_survives E uid d d'"
  unfolding no_session_survives_def
proof (intro conjI allI impI)
  fix now hdr token e r v u
  assume hdr: "bearer_token hdr = Some token"
    and tok: "verifyToken E now token = Some (AccessClaims uid e r v)"
    and u: "user_by_id uid d = Some u" "v \<le> u_tokenVersion u"
  show "\<not> is_ok (authenticate E now hdr d')"
  proof
    assume "is_ok (authenticate E now hdr d')"
    then obtain a where "authenticate E now hdr d' = Inr a" by (auto simp: is_ok_iff)
    from authenticate_InrD [OF this] hdr tok obtain u' where
      u': "live_user_by_id uid d' = Some u'" "u_tokenVersion u' = v" by auto
    from live_user_user_by_id [OF uniq u'(1)] have "user_by_id uid d' = Some u'" .
    with ended u u'(2) show False by (auto simp: sessions_ended_def)
  qed
next
  fix now cl fr token t
  assume "find_first (\<lambda>t. rt_token t = hashToken E token) (refreshTokens d') = Some t" "rt_userId t = uid"
  with ended find_first_SomeD(1) have "rt_revoked t" by (fastforce simp: sessions_ended_def)
  then show "\<not> is_ok (fst (refresh E now cl fr token d'))"
    using refresh_revoked \<open>find_first _ _ = Some t\<close> by blast
qed

lemma bump_version_sel [simp]:
  "u_id (bump_version u) = u_id u" "u_tokenVersion (bump_version u) = u_tokenVersion u + 1"
  "u_email (bump_version u) = u_email u" "u_deletedAt (bump_version u) = u_deletedAt u"
  "user_key (bump_version u) = user_key u"
  by (simp_all add: bump_version_def user_key_def)

text \<open>The two halves of the contract, for the writes the operations are made of.\<close>

lemma revoked_all_update [simp]:
  "refreshTokens (update_user now i f (revokeAllRefreshTokens now uid d)) =
   refreshTokens (revokeAllRefreshTokens now uid d)"
  by simp

lemma kill_family_revokes:
  assumes "t \<in> set (refreshTokens (kill_family now uid d))" "rt_userId t = uid"
  shows "rt_revoked t"
  using assms(1) unfolding kill_family_def update_user_frame(1)
  by (rule in_revoke_tokensE) (use assms(2) in simp_all)

text \<open>The update of an account and the revocation of its tokens, in either order.\<close>

lemma sessions_ended_update_revoke:
  assumes "\<And>u. u_id (f u) = u_id u" "\<And>u. u_tokenVersion (f u) = u_tokenVersion u + 1"
  shows "sessions_ended uid d (revokeAllRefreshTokens now uid (update_user now uid f d))"
    and "sessions_ended uid d (update_user now uid f (revokeAllRefreshTokens now uid d))"
proof -
  have "user_by_id uid (update_user now uid f d) =
      map_option (\<lambda>u. (f u)\<lparr>u_updatedAt := now\<rparr>) (user_by_id uid d)" for d
    by (rule user_by_id_update_same) (rule assms(1))
  then show "sessions_ended uid d (revokeAllRefreshTokens now uid (update_user now uid f d))"
    and "sessions_ended uid d (update_user now uid f (revokeAllRefreshTokens now uid d))"
    using revokeAll_revokes by (auto simp: sessions_ended_def assms(2))
qed

lemma kill_family_ends: "sessions_ended uid d (kill_family now uid d)"
proof -
  have "user_by_id uid (kill_family now uid d) =
      map_option (\<lambda>u. (bump_version u)\<lparr>u_updatedAt := now\<rparr>) (user_by_id uid d)"
    by (simp add: kill_family_def user_by_id_update_same)
  then show ?thesis
    using kill_family_revokes by (auto simp: sessions_ended_def)
qed

section \<open>Rotation, reuse, revocation\<close>

lemma kill_family_uniq:
  "uniq user_clash (users d) \<Longrightarrow> uniq user_clash (users (kill_family now uid d))"
  unfolding kill_family_def by (rule update_user_uniq) simp_all

text \<open>C9: Presenting a refresh token that was already rotated or revoked is answered with 401 and ends
  every session of its owner: afterwards no access token issued so far is let through, and no refresh
  token of the owner is exchanged.\<close>

theorem refresh_reuse_detected:
  assumes "uniq user_clash (users d)"
    and "verifyRefreshToken E now token \<noteq> None"
    and "find_first (\<lambda>t. rt_token t = hashToken E token) (refreshTokens d) = Some stored"
    and "rt_revoked stored" "user_by_id (rt_userId stored) d \<noteq> None"
  shows "fst (refresh E now cl fr token d) = Inl (httpError ''errors.invalidRefreshToken'' 401)
    \<and> no_session_survives E (rt_userId stored) d (snd (refresh E now cl fr token d))"
proof -
  have "refresh E now cl fr token d =
      (Inl (httpError ''errors.invalidRefreshToken'' 401), kill_family now (rt_userId stored) d)"
    using assms(2-) by (auto simp: refresh_def)
  then show ?thesis
    using sessions_ended_survive [OF kill_family_uniq [OF assms(1)] kill_family_ends] by simp
qed

definition demo_token :: "string \<Rightarrow> string \<Rightarrow> bool \<Rightarrow> refresh_token" where
  "demo_token i uid dead = \<lparr>rt_id = i, rt_token = demo_sha (''Rr'' @ uid @ i), rt_userId = uid,
     rt_userAgent = None, rt_ipAddress = None, rt_revoked = dead, rt_expiresAt = 1000,
     rt_createdAt = 0, rt_updatedAt = 0\<rparr>"

definition demo_sessions :: db where
  "demo_sessions = demo_db\<lparr>refreshTokens :=
     [demo_token ''t1'' ''u1'' True, demo_token ''t2'' ''u1'' False, demo_token ''t3'' ''u2'' False]\<rparr>"

theorem refresh_reuse_detected_witness:
  "fst (refresh demo_env 5 demo_client (demo_fresh ''z'') ''Rru1t1'' demo_sessions)
     = Inl (httpError ''errors.invalidRefreshToken'' 401)
   \<and> no_session_survives demo_env (rt_userId (demo_token ''t1'' ''u1'' True)) demo_sessions
       (snd (refresh demo_env 5 demo_client (demo_fresh ''z'') ''Rru1t1'' demo_sessions))"
proof (rule refresh_reuse_detected)
  show "uniq user_clash (users demo_sessions)"
    by (simp add: demo_sessions_def demo_defs user_clash_def)
  show "verifyRefreshToken demo_env 5 ''Rru1t1'' \<noteq> None" by code_simp
  show "find_first (\<lambda>t. rt_token t = hashToken demo_env ''Rru1t1'') (refreshTokens demo_sessions)
      = Some (demo_token ''t1'' ''u1'' True)"
    by code_simp
  show "rt_revoked (demo_token ''t1'' ''u1'' True)" by code_simp
  show "user_by_id (rt_userId (demo_token ''t1'' ''u1'' True)) demo_sessions \<noteq> None" by code_simp
qed

text \<open>A successful refresh: what it required of the stored token, and what it leaves behind.\<close>

lemma refresh_InrD:
  assumes "refresh E now cl fr token d = (Inr (tok, rt), d')"
  shows "\<exists>stored user. find_first (\<lambda>t. rt_token t = hashToken E token) (refreshTokens d) = Some stored
     \<and> user_by_id (rt_userId stored) d = Some user
     \<and> verifyRefreshToken E now token \<noteq> None
     \<and> \<not> rt_revoked stored \<and> now \<le> rt_expiresAt stored
     \<and> u_deletedAt user = None \<and> \<not> u_banned user \<and> \<not> after (u_suspendedUntil user) now
     \<and> tok = accessTokenFor E now user
     \<and> createRefreshTokenRecord E now cl fr (u_id user)
          (revoke_tokens now (\<lambda>t. rt_id t = rt_id stored) d) = (Inr rt, d')"
  using assms
  by (auto simp: refresh_def accessTokenFor_def split: if_splits option.splits elim!: await_InrE)

text \<open>C10: Rotation: a refresh succeeds only with a stored, unrevoked, unexpired token of a live account
  in good standing, and afterwards the presented token is revoked and exactly one more token row
  exists, unrevoked and belonging to the same account; so the same token cannot be exchanged again.\<close>

theorem refresh_rotates:
  assumes "refresh E now cl fr token d = (Inr (tok, rt), d')"
  shows "\<exists>stored new. stored \<in> set (refreshTokens d) \<and> rt_token stored = hashToken E token
     \<and> \<not> rt_revoked stored \<and> now \<le> rt_expiresAt stored
     \<and> refreshTokens d' = update_where (\<lambda>t. rt_id t = rt_id stored)
          (\<lambda>t. t\<lparr>rt_revoked := True, rt_updatedAt := now\<rparr>) (refreshTokens d) @ [new]
     \<and> rt_token new = hashToken E rt \<and> rt_userId new = rt_userId stored \<and> \<not> rt_revoked new
     \<and> \<not> is_ok (fst (refresh E now' cl' fr' token d'))"
proof -
  from refresh_InrD [OF assms] obtain stored user where
    st: "find_first (\<lambda>t. rt_token t = hashToken E token) (refreshTokens d) = Some stored"
    and us: "user_by_id (rt_userId stored) d = Some user"
    and ok: "\<not> rt_revoked stored" "now \<le> rt_expiresAt stored"
    and rec: "createRefreshTokenRecord E now cl fr (u_id user)
          (revoke_tokens now (\<lambda>t. rt_id t = rt_id stored) d) = (Inr rt, d')"
    by (elim exE conjE)
  from createRefreshTokenRecord_Inr(2) [OF rec] obtain new where
    new: "rt_token new = hashToken E rt" "rt_userId new = u_id user" "\<not> rt_revoked new"
      "refreshTokens d' = refreshTokens (revoke_tokens now (\<lambda>t. rt_id t = rt_id stored) d) @ [new]"
    by (elim exE conjE)
  have "find_first (\<lambda>t. rt_token t = hashToken E token) (refreshTokens d') =
      Some (stored\<lparr>rt_revoked := True, rt_updatedAt := now\<rparr>)"
    using st by (simp add: new(4) revoke_tokens_def find_first_append find_first_update_where)
  then have dead: "\<not> is_ok (fst (refresh E now' cl' fr' token d'))"
    by (rule refresh_revoked) simp
  have rows: "refreshTokens d' = update_where (\<lambda>t. rt_id t = rt_id stored)
          (\<lambda>t. t\<lparr>rt_revoked := True, rt_updatedAt := now\<rparr>) (refreshTokens d) @ [new]"
    using new(4) by (simp add: revoke_tokens_def)
  have uid: "rt_userId new = rt_userId stored"
    using new(2) user_by_idD(2) [OF us] by simp
  show ?thesis
    using find_first_SomeD [OF st] ok rows new(1,3) uid dead by blast
qed

theorem refresh_rotates_witness:
  "\<exists>stored new. stored \<in> set (refreshTokens demo_sessions)
     \<and> rt_token stored = hashToken demo_env ''Rru1t2''
     \<and> \<not> rt_revoked stored \<and> (5::int) \<le> rt_expiresAt stored
     \<and> refreshTokens (snd (refresh demo_env 5 demo_client (demo_fresh ''z'') ''Rru1t2'' demo_sessions))
         = update_where (\<lambda>t. rt_id t = rt_id stored)
          (\<lambda>t. t\<lparr>rt_revoked := True, rt_updatedAt := 5\<rparr>) (refreshTokens demo_sessions) @ [new]
     \<and> rt_token new = hashToken demo_env ''Rru1z'' \<and> rt_userId new = rt_userId stored \<and> \<not> rt_revoked new
     \<and> \<not> is_ok (fst (refresh demo_env 6 demo_client (demo_fresh ''y'') ''Rru1t2''
           (snd (refresh demo_env 5 demo_client (demo_fresh ''z'') ''Rru1t2'' demo_sessions))))"
proof (rule refresh_rotates)
  show "refresh demo_env 5 demo_client (demo_fresh ''z'') ''Rru1t2'' demo_sessions =
      (Inr (''Aku10'', ''Rru1z''), snd (refresh demo_env 5 demo_client (demo_fresh ''z'') ''Rru1t2'' demo_sessions))"
    by code_simp
qed

lemma revokeAllSessions_Inr:
  "revokeAllSessions now uid d = (Inr n, d') \<Longrightarrow>
   d' = update_user now uid bump_version (revokeAllRefreshTokens now uid d)"
  by (simp add: revokeAllSessions_def split: if_splits)

text \<open>Revoking all sessions is a kill switch: when it succeeds no session of the user survives, the
  access tokens already issued included.\<close>

theorem revokeAllSessions_kills:
  assumes "uniq user_clash (users d)" "revokeAllSessions now uid d = (Inr n, d')"
  shows "no_session_survives E uid d d'"
  unfolding revokeAllSessions_Inr [OF assms(2)]
  by (rule sessions_ended_survive)
    (simp_all add: update_user_uniq assms(1) sessions_ended_update_revoke)

theorem revokeAllSessions_kills_witness:
  "no_session_survives demo_env ''u1'' demo_sessions (snd (revokeAllSessions 5 ''u1'' demo_sessions))"
proof (rule revokeAllSessions_kills)
  show "uniq user_clash (users demo_sessions)"
    by (simp add: demo_sessions_def demo_defs user_clash_def)
  show "revokeAllSessions 5 ''u1'' demo_sessions =
      (Inr 1, snd (revokeAllSessions 5 ''u1'' demo_sessions))"
    by code_simp
qed

end
