(* ===== verification/Admin.thy ===== *)
theory Admin
  imports Sessions Org
begin

text \<open>
  \<open>src/modules/admin/admin.service.js\<close> and \<open>src/modules/gdpr/gdpr.service.js\<close>: the administration of
  users, the export of an account's data, and its hard deletion with the cascades that
  \<open>prisma/schema.prisma\<close> declares.
\<close>

section \<open>Administration of users\<close>

record admin_view =
  av_id :: string
  av_email :: string
  av_name :: "string option"
  av_role :: role
  av_emailVerified :: bool
  av_banned :: bool
  av_bannedAt :: "int option"
  av_suspendedUntil :: "int option"
  av_deletedAt :: "int option"
  av_lastLoginAt :: "int option"
  av_createdAt :: int
  av_updatedAt :: int

definition adminUserSelect :: "user \<Rightarrow> admin_view" where
  "adminUserSelect u = \<lparr>av_id = u_id u, av_email = u_email u, av_name = u_name u, av_role = u_role u,
     av_emailVerified = u_emailVerified u, av_banned = u_banned u, av_bannedAt = u_bannedAt u,
     av_suspendedUntil = u_suspendedUntil u, av_deletedAt = u_deletedAt u,
     av_lastLoginAt = u_lastLoginAt u, av_createdAt = u_createdAt u, av_updatedAt = u_updatedAt u\<rparr>"

datatype user_status = StatusActive | StatusBanned | StatusSuspended | StatusDeleted

definition status_ok :: "int \<Rightarrow> user_status option \<Rightarrow> user \<Rightarrow> bool" where
  "status_ok now status u =
     (case status of
        None \<Rightarrow> u_deletedAt u = None
      | Some StatusBanned \<Rightarrow> u_deletedAt u = None \<and> u_banned u
      | Some StatusSuspended \<Rightarrow> u_deletedAt u = None \<and> after (u_suspendedUntil u) now
      | Some StatusActive \<Rightarrow>
          u_deletedAt u = None \<and> \<not> u_banned u \<and> \<not> after (u_suspendedUntil u) now
      | Some StatusDeleted \<Rightarrow> u_deletedAt u \<noteq> None)"

definition user_column :: "user \<Rightarrow> string list \<Rightarrow> string option" where
  "user_column u path =
     (if path = [''email''] then Some (u_email u) else if path = [''name''] then u_name u else None)"

definition listUsers ::
  "(string \<Rightarrow> string \<Rightarrow> bool) \<Rightarrow> ((string \<times> string) option \<Rightarrow> user list \<Rightarrow> user list) \<Rightarrow> int
   \<Rightarrow> list_query \<Rightarrow> role option \<Rightarrow> user_status option \<Rightarrow> db \<Rightarrow> admin_view list \<times> pagination_meta" where
  "listUsers like ob now q role status d =
     (let clauses = buildSearch (lq_search q) [''email'', ''name''];
          p = (\<lambda>u. status_ok now status u \<and> search_ok like user_column clauses u
                   \<and> (case role of None \<Rightarrow> True | Some r \<Rightarrow> u_role u = r));
          r = list_page (ob (parseSort (lq_sort q) (lq_order q) [''createdAt'', ''email'', ''name'']))
                p (page_of q) (limit_of q) (users d)
      in (map adminUserSelect (fst r), snd r))"

definition getUser :: "string \<Rightarrow> db \<Rightarrow> admin_view result" where
  "getUser userId d =
     (case live_user_by_id userId d of
        None \<Rightarrow> Inl (httpError ''errors.userNotFound'' 404)
      | Some u \<Rightarrow> Inr (adminUserSelect u))"

text \<open>The validated body: an absent field is \<open>None\<close>; \<open>suspendedUntil\<close> may be present and null.\<close>

record user_patch =
  up_name :: "string option"
  up_role :: "role option"
  up_banned :: "bool option"
  up_suspendedUntil :: "int option option"

definition live_admin :: "user \<Rightarrow> bool" where
  "live_admin u \<longleftrightarrow> u_role u = ADMIN \<and> u_deletedAt u = None"

definition adminCount :: "db \<Rightarrow> nat" where
  "adminCount d = count_where live_admin (users d)"

definition apply_patch :: "int \<Rightarrow> user_patch \<Rightarrow> user \<Rightarrow> user" where
  "apply_patch now p u =
     u\<lparr>u_name := (case up_name p of None \<Rightarrow> u_name u | Some n \<Rightarrow> Some n),
       u_role := (case up_role p of None \<Rightarrow> u_role u | Some r \<Rightarrow> r),
       u_banned := (case up_banned p of None \<Rightarrow> u_banned u | Some b \<Rightarrow> b),
       u_bannedAt := (case up_banned p of None \<Rightarrow> u_bannedAt u
                      | Some b \<Rightarrow> if b then Some now else None),
       u_suspendedUntil := (case up_suspendedUntil p of None \<Rightarrow> u_suspendedUntil u | Some t \<Rightarrow> t)\<rparr>"

definition demotes :: "user_patch \<Rightarrow> bool" where
  "demotes p \<longleftrightarrow> up_role p \<noteq> None \<and> up_role p \<noteq> Some ADMIN"

text \<open>The checks of \<open>updateUser\<close>, on the database it reads.\<close>

definition updateUser_guard :: "string \<Rightarrow> user_patch \<Rightarrow> string \<Rightarrow> db \<Rightarrow> user result" where
  "updateUser_guard userId p actingAdminId d =
     (if userId = actingAdminId \<and> up_banned p = Some True
      then Inl (httpError ''errors.cannotBanSelf'' 400)
      else if userId = actingAdminId \<and> demotes p
      then Inl (httpError ''errors.cannotDemoteSelf'' 400)
      else case live_user_by_id userId d of
             None \<Rightarrow> Inl (httpError ''errors.userNotFound'' 404)
           | Some u \<Rightarrow>
               if demotes p \<and> u_role u = ADMIN \<and> adminCount d \<le> 1
               then Inl (httpError ''errors.cannotDemoteLastAdmin'' 400)
               else Inr u)"

definition updateUser ::
  "int \<Rightarrow> string \<Rightarrow> user_patch \<Rightarrow> string \<Rightarrow> db \<Rightarrow> admin_view result \<times> db" where
  "updateUser now userId p actingAdminId d =
     (case updateUser_guard userId p actingAdminId d of
        Inl e \<Rightarrow> (Inl e, d)
      | Inr u \<Rightarrow>
          (Inr (adminUserSelect ((apply_patch now p u)\<lparr>u_updatedAt := now\<rparr>)),
           update_user now userId (apply_patch now p) d))"

definition deleteUser_guard :: "string \<Rightarrow> string \<Rightarrow> db \<Rightarrow> unit result" where
  "deleteUser_guard userId actingAdminId d =
     (case live_user_by_id userId d of
        None \<Rightarrow> Inl (httpError ''errors.userNotFound'' 404)
      | Some u \<Rightarrow>
          if u_role u = ADMIN \<and> adminCount d \<le> 1
          then Inl (httpError ''errors.cannotDeleteLastAdmin'' 400)
          else if userId = actingAdminId then Inl (httpError ''errors.cannotDeleteSelf'' 400)
          else Inr ())"

definition deleteUser_write :: "int \<Rightarrow> string \<Rightarrow> db \<Rightarrow> db" where
  "deleteUser_write now userId d = update_user now userId (\<lambda>u. u\<lparr>u_deletedAt := Some now\<rparr>) d"

definition deleteUser :: "int \<Rightarrow> string \<Rightarrow> string \<Rightarrow> db \<Rightarrow> string result \<times> db" where
  "deleteUser now userId actingAdminId d =
     (case deleteUser_guard userId actingAdminId d of
        Inl e \<Rightarrow> (Inl e, d)
      | Inr _ \<Rightarrow> (Inr ''messages.userDeletedSuccessfully'', deleteUser_write now userId d))"

definition restoreUser :: "int \<Rightarrow> string \<Rightarrow> db \<Rightarrow> string result \<times> db" where
  "restoreUser now userId d =
     (if \<not> exists_row (\<lambda>u. u_id u = userId \<and> u_deletedAt u \<noteq> None) (users d)
      then (Inl (httpError ''errors.deletedUserNotFound'' 404), d)
      else case update_user_unique now userId (\<lambda>u. u\<lparr>u_deletedAt := None\<rparr>) d of
             Inl e \<Rightarrow>
               (Inl (if e = P2002 then httpError ''errors.cannotRestoreEmailInUse'' 409 else e), d)
           | Inr d' \<Rightarrow> (Inr ''messages.userRestoredSuccessfully'', d'))"

section \<open>Export of an account's data\<close>

text \<open>\<open>orderBy: { createdAt: 'desc' }\<close>, a stable sort of the rows.\<close>

definition newest_first :: "('r \<Rightarrow> int) \<Rightarrow> 'r list \<Rightarrow> 'r list" where
  "newest_first key rows = rev (sort_key key (rev rows))"

record data_export =
  ex_user :: user
  ex_refreshTokens :: "refresh_token list"
  ex_memberships :: "organization_member list"
  ex_ownedOrganizations :: "organization list"
  ex_subscriptions :: "subscription list"
  ex_apiKeys :: "api_key list"
  ex_auditLogs :: "audit_log list"
  ex_sentInvitations :: "organization_invitation list"
  ex_receivedInvitations :: "organization_invitation list"
  ex_notifications :: "notification list"
  ex_preference :: "notification_preference option"
  ex_exportedAt :: int

definition scrub_user :: "user \<Rightarrow> user" where
  "scrub_user u = u\<lparr>u_password := None, u_emailVerificationToken := None,
     u_emailVerificationExpires := None, u_pendingEmail := None, u_passwordResetToken := None,
     u_passwordResetExpires := None, u_twoFactorSecret := None, u_twoFactorBackupCodes := [],
     u_lastTotpTimeStep := None\<rparr>"

text \<open>
  The account re-authenticates unless it has no password.  The selected columns of each row are a
  projection; the secrets that no selection contains are blanked here.
\<close>

definition exportData :: "env \<Rightarrow> int \<Rightarrow> string \<Rightarrow> string option \<Rightarrow> db \<Rightarrow> data_export result" where
  "exportData E now userId password d =
     (case live_user_by_id userId d of
        None \<Rightarrow> Inl (httpError ''errors.userNotFound'' 404)
      | Some u \<Rightarrow>
          if truthy (u_password u)
             \<and> (\<not> truthy password \<or> \<not> comparePassword E (the password) (the (u_password u)))
          then Inl (httpError ''errors.passwordIncorrect'' 401)
          else Inr
            \<lparr>ex_user = scrub_user u,
             ex_refreshTokens = map (\<lambda>t. t\<lparr>rt_token := []\<rparr>)
               (newest_first rt_createdAt (find_many (\<lambda>t. rt_userId t = userId) (refreshTokens d))),
             ex_memberships =
               newest_first m_createdAt (find_many (\<lambda>m. m_userId m = userId) (members d)),
             ex_ownedOrganizations =
               newest_first o_createdAt
                 (find_many (\<lambda>x. o_ownerId x = userId \<and> o_deletedAt x = None) (organizations d)),
             ex_subscriptions =
               newest_first s_createdAt (find_many (\<lambda>s. s_userId s = Some userId) (subscriptions d)),
             ex_apiKeys = map (\<lambda>k. k\<lparr>k_keyHash := []\<rparr>)
               (newest_first k_createdAt
                 (find_many (\<lambda>k. k_userId k = userId \<and> k_deletedAt k = None) (apiKeys d))),
             ex_auditLogs =
               take 100 (newest_first a_createdAt
                 (find_many (\<lambda>a. a_userId a = Some userId) (auditLogs d))),
             ex_sentInvitations = map (\<lambda>i. i\<lparr>i_token := []\<rparr>)
               (newest_first i_createdAt (find_many (\<lambda>i. i_inviterId i = userId) (invitations d))),
             ex_receivedInvitations = map (\<lambda>i. i\<lparr>i_token := []\<rparr>)
               (newest_first i_createdAt (find_many (\<lambda>i. i_inviteeId i = Some userId) (invitations d))),
             ex_notifications =
               take 100 (newest_first n_createdAt
                 (find_many (\<lambda>n. n_userId n = userId) (notifications d))),
             ex_preference =
               find_first (\<lambda>p. np_userId p = userId) (notificationPreferences d),
             ex_exportedAt = now\<rparr>)"

section \<open>Account deletion\<close>

text \<open>
  \<open>prisma.user.delete\<close> with the referential actions of the schema: what belongs to the user or to an
  organization the user owns goes; the audit log and received invitations lose their reference.
\<close>

definition delete_user_cascade :: "string \<Rightarrow> db \<Rightarrow> db" where
  "delete_user_cascade uid d =
     (let owned = map o_id (find_many (\<lambda>x. o_ownerId x = uid) (organizations d));
          gone = (\<lambda>i. i \<in> set owned)
      in d\<lparr>users := delete_where (\<lambda>u. u_id u = uid) (users d),
           twoFactorChallenges := delete_where (\<lambda>c. ch_userId c = uid) (twoFactorChallenges d),
           refreshTokens := delete_where (\<lambda>t. rt_userId t = uid) (refreshTokens d),
           organizations := delete_where (\<lambda>x. o_ownerId x = uid) (organizations d),
           members := delete_where (\<lambda>m. m_userId m = uid \<or> gone (m_organizationId m)) (members d),
           projects := delete_where (\<lambda>p. p_createdById p = uid \<or> gone (p_organizationId p)) (projects d),
           subscriptions := delete_where
             (\<lambda>s. s_userId s = Some uid \<or> (\<exists>i \<in> set owned. s_organizationId s = Some i))
             (subscriptions d),
           apiKeys := delete_where (\<lambda>k. k_userId k = uid) (apiKeys d),
           auditLogs := update_where (\<lambda>a. a_userId a = Some uid) (\<lambda>a. a\<lparr>a_userId := None\<rparr>) (auditLogs d),
           invitations := update_where (\<lambda>i. i_inviteeId i = Some uid) (\<lambda>i. i\<lparr>i_inviteeId := None\<rparr>)
             (delete_where (\<lambda>i. i_inviterId i = uid \<or> gone (i_organizationId i)) (invitations d)),
           notifications := delete_where (\<lambda>n. n_userId n = uid) (notifications d),
           notificationPreferences := delete_where (\<lambda>p. np_userId p = uid) (notificationPreferences d),
           flagOverrides := delete_where (\<lambda>v. gone (ov_organizationId v)) (flagOverrides d)\<rparr>)"

text \<open>The live subscriptions that go with the account: the user's own and its organizations'.\<close>

definition doomed_subscriptions :: "string \<Rightarrow> db \<Rightarrow> subscription list" where
  "doomed_subscriptions uid d =
     find_many (\<lambda>s. s_status s \<in> set LIVE_SUBSCRIPTION_STATUSES
        \<and> (s_userId s = Some uid
           \<or> exists_row (\<lambda>x. s_organizationId s = Some (o_id x) \<and> o_ownerId x = uid) (organizations d)))
       (subscriptions d)"

definition blocking_orgs :: "string \<Rightarrow> db \<Rightarrow> organization list" where
  "blocking_orgs uid d =
     find_many (\<lambda>x. o_ownerId x = uid
        \<and> count_where (\<lambda>m. m_organizationId m = o_id x) (members d) > 1) (organizations d)"

definition deleteAccount ::
  "env \<Rightarrow> (string \<Rightarrow> bool) \<Rightarrow> string \<Rightarrow> string \<Rightarrow> db \<Rightarrow> (string \<times> string) result \<times> db" where
  "deleteAccount E cancel userId password d =
     (case live_user_by_id userId d of
        None \<Rightarrow> (Inl (httpError ''errors.userNotFound'' 404), d)
      | Some u \<Rightarrow>
          if \<not> truthy (u_password u) then (Inl (httpError ''errors.noPasswordSet'' 400), d)
          else if \<not> comparePassword E password (the (u_password u))
          then (Inl (httpError ''errors.passwordIncorrect'' 401), d)
          else if u_role u = ADMIN \<and> adminCount d \<le> 1
          then (Inl (httpError ''errors.cannotDeleteLastAdminAccount'' 400), d)
          else if blocking_orgs userId d \<noteq> []
          then (Inl (HttpError ''errors.cannotDeleteAccountOwnsOrgWithMembers'' 409
                  [(''organizations'', PStr (js_join '', '' (map o_slug (blocking_orgs userId d))))]), d)
          else if isStripeConfigured E
                  \<and> \<not> list_all (\<lambda>s. cancel (s_stripeSubscriptionId s)) (doomed_subscriptions userId d)
          then (Inl (httpError ''errors.stripeCancellationFailed'' 502), d)
          else (Inr (''messages.accountDeletedSuccessfully'', u_email u), delete_user_cascade userId d))"

end
