(* ===== verification/AdminProps.thy ===== *)
theory AdminProps
  imports Admin OrgInvariant
begin

text \<open>
  What the administration promises: there is always a live administrator, a banned account is cut off
  at once, and an account deletion erases exactly what belongs to the account.
\<close>

section \<open>Counting rows\<close>

lemma count_update_keeps:
  "(\<And>r. r \<in> set t \<Longrightarrow> p r \<Longrightarrow> q r \<Longrightarrow> q (f r)) \<Longrightarrow> count_where q t \<le> count_where q (update_where p f t)"
  by (induction t) (auto intro: le_SucI)

lemma count_update_one:
  "distinct (map key t) \<Longrightarrow> count_where q t \<le> Suc (count_where q (update_where (\<lambda>r. key r = k) f t))"
proof (induction t)
  case Nil
  then show ?case by simp
next
  case (Cons r t)
  show ?case
  proof (cases "key r = k")
    case True
    then have "update_where (\<lambda>r. key r = k) f t = t"
      using Cons.prems by (intro update_where_id) (force simp: image_iff)
    with True show ?thesis by simp
  next
    case False
    with Cons show ?thesis by simp
  qed
qed

lemma count_delete_one:
  "distinct (map key t) \<Longrightarrow> count_where q t \<le> Suc (count_where q (delete_where (\<lambda>r. key r = k) t))"
proof (induction t)
  case Nil
  then show ?case by simp
next
  case (Cons r t)
  show ?case
  proof (cases "key r = k")
    case True
    then have "delete_where (\<lambda>r. key r = k) t = t"
      using Cons.prems unfolding delete_where_def by (intro filter_True) (force simp: image_iff)
    with True show ?thesis by simp
  next
    case False
    with Cons show ?thesis by simp
  qed
qed

lemma count_delete_keeps:
  "(\<And>r. r \<in> set t \<Longrightarrow> p r \<Longrightarrow> \<not> q r) \<Longrightarrow> count_where q t \<le> count_where q (delete_where p t)"
  by (induction t) auto

section \<open>The last administrator\<close>

definition admin_inv :: "db \<Rightarrow> bool" where
  "admin_inv d \<longleftrightarrow> uniq user_clash (users d) \<and> 1 \<le> adminCount d"

lemma user_key_apply_patch [simp]: "user_key ((apply_patch now p u)) = user_key u"
  by (simp add: user_key_def apply_patch_def)

lemma adminCount_update_one:
  assumes "uniq user_clash (users d)"
  shows "adminCount d \<le> Suc (adminCount (update_user now i f d))"
  using count_update_one [OF uniq_user_ids [OF assms]] by (simp add: adminCount_def update_user_def)

lemma adminCount_update_keeps:
  assumes "\<And>u. u \<in> set (users d) \<Longrightarrow> u_id u = i \<Longrightarrow> live_admin u \<Longrightarrow> live_admin ((f u)\<lparr>u_updatedAt := now\<rparr>)"
  shows "adminCount d \<le> adminCount (update_user now i f d)"
  unfolding adminCount_def update_user_def using assms by (simp add: count_update_keeps)

lemma updateUser_inv:
  assumes "admin_inv d" "updateUser now uid p admin d = (r, d')"
  shows "admin_inv d'"
proof (cases "updateUser_guard uid p admin d")
  case (Inl e)
  with assms show ?thesis by (simp add: updateUser_def)
next
  case (Inr u)
  have inv: "uniq user_clash (users d)" "1 \<le> adminCount d"
    using assms(1) by (simp_all add: admin_inv_def)
  have d': "d' = update_user now uid (apply_patch now p) d"
    using assms(2) Inr by (simp add: updateUser_def)
  have u: "live_user_by_id uid d = Some u" and g: "\<not> (demotes p \<and> u_role u = ADMIN \<and> adminCount d \<le> 1)"
    using Inr by (auto simp: updateUser_guard_def split: if_splits option.splits)
  have "1 \<le> adminCount d'"
  proof (cases "demotes p \<and> u_role u = ADMIN")
    case True
    with g adminCount_update_one [OF inv(1), of now uid "apply_patch now p"] show ?thesis
      by (simp add: d')
  next
    case False
    have "live_admin ((apply_patch now p x)\<lparr>u_updatedAt := now\<rparr>)"
      if x: "x \<in> set (users d)" "u_id x = uid" "live_admin x" for x
    proof -
      have "x = u"
        using distinct_map_inj [OF uniq_user_ids [OF inv(1)] x(1) live_user_by_idD(1) [OF u]]
          live_user_by_idD(2) [OF u] x(2) by simp
      with False x(3) show ?thesis
        by (auto simp: live_admin_def apply_patch_def demotes_def split: option.splits)
    qed
    then have "adminCount d \<le> adminCount d'" unfolding d' by (rule adminCount_update_keeps)
    with inv(2) show ?thesis by simp
  qed
  then show ?thesis using inv(1) by (simp add: admin_inv_def d' update_user_uniq)
qed

lemma deleteUser_write_uniq:
  assumes "uniq user_clash (users d)"
  shows "uniq user_clash (users (deleteUser_write now uid d))"
proof -
  have "uniq user_clash (update_where (\<lambda>u. u_id u = uid)
      (\<lambda>u. u\<lparr>u_deletedAt := Some now, u_updatedAt := now\<rparr>) (users d))"
    by (rule user_ix.update_where_keeps [OF assms]) (auto simp: user_clash_def)
  then show ?thesis by (simp add: deleteUser_write_def update_user_def)
qed

lemma deleteUser_inv:
  assumes "admin_inv d" "deleteUser now uid admin d = (r, d')"
  shows "admin_inv d'"
proof (cases "deleteUser_guard uid admin d")
  case (Inl e)
  with assms show ?thesis by (simp add: deleteUser_def)
next
  case (Inr x)
  have inv: "uniq user_clash (users d)" "1 \<le> adminCount d"
    using assms(1) by (simp_all add: admin_inv_def)
  have d': "d' = deleteUser_write now uid d"
    using assms(2) Inr by (simp add: deleteUser_def)
  obtain u where u: "live_user_by_id uid d = Some u" and g: "\<not> (u_role u = ADMIN \<and> adminCount d \<le> 1)"
    using Inr by (auto simp: deleteUser_guard_def split: option.splits if_splits)
  have "1 \<le> adminCount d'"
  proof (cases "u_role u = ADMIN")
    case True
    with g adminCount_update_one [OF inv(1), of now uid "\<lambda>u. u\<lparr>u_deletedAt := Some now\<rparr>"]
    show ?thesis by (simp add: d' deleteUser_write_def)
  next
    case False
    have "\<not> live_admin x" if "x \<in> set (users d)" "u_id x = uid" for x
      using distinct_map_inj [OF uniq_user_ids [OF inv(1)] that(1) live_user_by_idD(1) [OF u]]
        live_user_by_idD(2) [OF u] that(2) False by (auto simp: live_admin_def)
    then have "adminCount d \<le> adminCount d'"
      unfolding d' deleteUser_write_def by (intro adminCount_update_keeps) blast
    with inv(2) show ?thesis by simp
  qed
  then show ?thesis using deleteUser_write_uniq [OF inv(1)] by (simp add: admin_inv_def d')
qed

lemma update_user_unique_InrD:
  assumes "update_user_unique now i f d = Inr d'"
  shows "d' = update_user now i f d" "uniq user_clash (users d')"
  using assms
  by (auto simp: update_user_unique_def update_user_def split: sum.splits dest: update_row_InrD)

lemma restoreUser_inv:
  assumes "admin_inv d" "restoreUser now uid d = (r, d')"
  shows "admin_inv d'"
proof (cases "d' = d")
  case True
  with assms(1) show ?thesis by simp
next
  case False
  then have up: "update_user_unique now uid (\<lambda>u. u\<lparr>u_deletedAt := None\<rparr>) d = Inr d'"
    using assms(2) by (auto simp: restoreUser_def split: if_splits sum.splits)
  note d' = update_user_unique_InrD [OF up]
  have "adminCount d \<le> adminCount d'"
    unfolding d'(1) by (rule adminCount_update_keeps) (simp add: live_admin_def)
  with assms(1) d'(2) show ?thesis by (simp add: admin_inv_def)
qed

lemma uniq_subset_delete: "uniq clash t \<Longrightarrow> uniq clash (delete_where p t)"
  by (induction t) auto

lemma deleteAccount_InrD:
  assumes "deleteAccount E cancel uid pw d = (Inr r, d')"
  shows "\<exists>u. live_user_by_id uid d = Some u \<and> comparePassword E pw (the (u_password u))
     \<and> \<not> (u_role u = ADMIN \<and> adminCount d \<le> 1) \<and> blocking_orgs uid d = []
     \<and> (isStripeConfigured E \<longrightarrow> (\<forall>s \<in> set (doomed_subscriptions uid d). cancel (s_stripeSubscriptionId s)))
     \<and> d' = delete_user_cascade uid d"
  using assms
  by (auto simp: deleteAccount_def list_all_iff split: option.splits if_splits)

lemma deleteAccount_inv:
  assumes "admin_inv d" "deleteAccount E cancel uid pw d = (r, d')"
  shows "admin_inv d'"
proof (cases r)
  case (Inl e)
  with assms have "d' = d" by (auto simp: deleteAccount_def split: option.splits if_splits)
  with assms(1) show ?thesis by simp
next
  case (Inr x)
  have inv: "uniq user_clash (users d)" "1 \<le> adminCount d"
    using assms(1) by (simp_all add: admin_inv_def)
  from deleteAccount_InrD [OF assms(2) [unfolded Inr]] obtain u where
    u: "live_user_by_id uid d = Some u" and g: "\<not> (u_role u = ADMIN \<and> adminCount d \<le> 1)"
    and d': "d' = delete_user_cascade uid d"
    by (elim exE conjE)
  have us: "users d' = delete_where (\<lambda>u. u_id u = uid) (users d)"
    by (simp add: d' delete_user_cascade_def Let_def)
  have "1 \<le> adminCount d'"
  proof (cases "u_role u = ADMIN")
    case True
    with g count_delete_one [OF uniq_user_ids [OF inv(1)], of live_admin uid] show ?thesis
      by (simp add: adminCount_def us)
  next
    case False
    have "\<not> live_admin x" if "x \<in> set (users d)" "u_id x = uid" for x
      using distinct_map_inj [OF uniq_user_ids [OF inv(1)] that(1) live_user_by_idD(1) [OF u]]
        live_user_by_idD(2) [OF u] that(2) False by (auto simp: live_admin_def)
    then have "adminCount d \<le> adminCount d'"
      unfolding adminCount_def us by (rule count_delete_keeps)
    with inv(2) show ?thesis by simp
  qed
  with inv(1) show ?thesis by (simp add: admin_inv_def us uniq_subset_delete)
qed

text \<open>
  The requests that write roles or remove users, behind their guards: the admin routes run
  \<open>authenticate\<close> and \<open>authorize('ADMIN')\<close>; the account owner deletes the own account.  The audit
  entries of the controllers, which nobody waits for, are steps of their own.
\<close>

inductive admin_step :: "env \<Rightarrow> db \<Rightarrow> db \<Rightarrow> bool" for E :: env where
  update: "authenticate E now hdr d = Inr a \<Longrightarrow> authorize [ADMIN] (Some a) = Inr () \<Longrightarrow>
    updateUser now uid p (au_id a) d = (r, d') \<Longrightarrow> admin_step E d d'"
| delete: "authenticate E now hdr d = Inr a \<Longrightarrow> authorize [ADMIN] (Some a) = Inr () \<Longrightarrow>
    deleteUser now uid (au_id a) d = (m, d') \<Longrightarrow> admin_step E d d'"
| restore: "authenticate E now hdr d = Inr a \<Longrightarrow> authorize [ADMIN] (Some a) = Inr () \<Longrightarrow>
    restoreUser now uid d = (m, d') \<Longrightarrow> admin_step E d d'"
| erase: "authenticate E now hdr d = Inr a \<Longrightarrow>
    deleteAccount E cancel (au_id a) pw d = (x, d') \<Longrightarrow> admin_step E d d'"
| audit: "admin_step E d (auditLog E' now action data d)"

lemma auditLog_admin_inv: "admin_inv d \<Longrightarrow> admin_inv (auditLog E now action data d)"
  by (simp add: admin_inv_def adminCount_def)

lemma admin_step_inv: "admin_step E d d' \<Longrightarrow> admin_inv d \<Longrightarrow> admin_inv d'"
  by (induction rule: admin_step.induct)
    (blast intro: auditLog_admin_inv updateUser_inv deleteUser_inv restoreUser_inv deleteAccount_inv)+

interpretation admin_requests: step_system "admin_step E" admin_inv
  by unfold_locales (rule admin_step_inv)

text \<open>C17: There is always an administrator: after any sequence of role changes, deletions, restorations and
  account erasures some live account has the role \<open>ADMIN\<close>.\<close>

theorem admin_remains:
  assumes "(admin_step E)\<^sup>*\<^sup>* d d'" "admin_inv d"
  shows "\<exists>u \<in> set (users d'). u_role u = ADMIN \<and> u_deletedAt u = None"
proof -
  have "0 < adminCount d'"
    using admin_requests.run_keeps [OF assms] by (simp add: admin_inv_def)
  then show ?thesis by (simp add: adminCount_def count_where_pos_iff live_admin_def)
qed

definition demo_admins :: db where
  "demo_admins = demo_db\<lparr>users := [(demo_user ''u1'' ''a@x'')\<lparr>u_role := ADMIN\<rparr>,
     (demo_user ''u2'' ''b@x'')\<lparr>u_role := ADMIN\<rparr>]\<rparr>"

theorem admin_remains_witness:
  "\<exists>u \<in> set (users (snd (deleteUser 5 ''u2'' ''u1'' demo_admins))). u_role u = ADMIN \<and> u_deletedAt u = None"
proof (rule admin_remains)
  let ?a = "\<lparr>au_id = ''u1'', au_name = None, au_email = ''a@x'', au_role = ADMIN, au_tokenVersion = 0,
      au_emailVerified = True\<rparr>"
  have "authenticate demo_env 5 (Some ''Bearer Ax'') demo_admins = Inr ?a"
    by code_simp
  moreover have "authorize [ADMIN] (Some ?a) = Inr ()"
    by (simp add: authorize_def)
  ultimately have "admin_step demo_env demo_admins (snd (deleteUser 5 ''u2'' ''u1'' demo_admins))"
    by (rule admin_step.delete) (simp add: prod_eq_iff)
  then show "(admin_step demo_env)\<^sup>*\<^sup>* demo_admins (snd (deleteUser 5 ''u2'' ''u1'' demo_admins))"
    by (rule r_into_rtranclp)
  show "admin_inv demo_admins"
    by (simp add: admin_inv_def adminCount_def live_admin_def demo_admins_def demo_user_def user_clash_def)
qed

text \<open>The guard counts administrators before it writes, in no transaction: when two administrators
  delete each other at the same time both checks pass, and no administrator is left.\<close>

theorem last_admins_race:
  "is_ok (deleteUser_guard ''u2'' ''u1'' demo_admins) \<and> is_ok (deleteUser_guard ''u1'' ''u2'' demo_admins)
   \<and> adminCount (deleteUser_write 6 ''u1'' (deleteUser_write 5 ''u2'' demo_admins)) = 0"
  by code_simp

section \<open>A ban takes effect at once\<close>

text \<open>C22: As soon as an administrator bans an account, none of its access tokens is let through and none of
  its refresh tokens is exchanged, at any later time.\<close>

theorem ban_cuts_off:
  assumes "uniq user_clash (users d)" "updateUser now uid p admin d = (Inr v, d')" "up_banned p = Some True"
  shows "(\<forall>later hdr a. authenticate E later hdr d' = Inr a \<longrightarrow> au_id a \<noteq> uid)
     \<and> (\<forall>later cl fr token t. find_first (\<lambda>t. rt_token t = hashToken E token) (refreshTokens d') = Some t
          \<longrightarrow> rt_userId t = uid \<longrightarrow> \<not> is_ok (fst (refresh E later cl fr token d')))"
proof -
  obtain u where g: "updateUser_guard uid p admin d = Inr u"
    using assms(2) by (auto simp: updateUser_def split: sum.splits)
  have d': "d' = update_user now uid (apply_patch now p) d"
    using assms(2) g by (simp add: updateUser_def)
  have live: "live_user_by_id uid d = Some u"
    using g by (auto simp: updateUser_guard_def split: if_splits option.splits)
  have sel: "u_id (apply_patch now p x) = u_id x" "u_deletedAt (apply_patch now p x) = u_deletedAt x"
    "u_banned (apply_patch now p x)" for x
    by (simp_all add: apply_patch_def assms(3))
  have live': "live_user_by_id uid d' = Some ((apply_patch now p u)\<lparr>u_updatedAt := now\<rparr>)"
    unfolding d' live_user_by_id_update [OF sel(1,2)]
    using live live_user_by_idD(2) [OF live] by simp
  have by_id': "user_by_id uid d' = Some ((apply_patch now p u)\<lparr>u_updatedAt := now\<rparr>)"
    unfolding d' user_by_id_update_same [OF sel(1)]
    using live_user_user_by_id [OF assms(1) live] by simp
  have "au_id a \<noteq> uid" if "authenticate E later hdr d' = Inr a" for later hdr a
    using authenticate_InrD [OF that] live' sel(3) by auto
  moreover have "\<not> is_ok (fst (refresh E later cl fr token d'))"
    if t: "find_first (\<lambda>t. rt_token t = hashToken E token) (refreshTokens d') = Some t" "rt_userId t = uid"
    for later cl fr token t
    using t by_id' sel(3) by (auto simp: refresh_def)
  ultimately show ?thesis by blast
qed

definition ban_patch :: user_patch where
  "ban_patch = \<lparr>up_name = None, up_role = None, up_banned = Some True, up_suspendedUntil = None\<rparr>"

definition demo_banned :: db where
  "demo_banned = snd (updateUser 5 ''u1'' ban_patch ''u2'' demo_admins)"

text \<open>The header that was let through before the ban is refused after it.\<close>

theorem ban_cuts_off_witness:
  "is_ok (authenticate demo_env 5 (Some ''Bearer Ax'') demo_admins)
   \<and> (\<nexists>a. authenticate demo_env 5 (Some ''Bearer Ax'') demo_banned = Inr a \<and> au_id a = ''u1'')"
proof -
  have uniq: "uniq user_clash (users demo_admins)"
    by (simp add: demo_admins_def demo_user_def user_clash_def)
  have "is_ok (fst (updateUser 5 ''u1'' ban_patch ''u2'' demo_admins))" by code_simp
  then have run: "updateUser 5 ''u1'' ban_patch ''u2'' demo_admins =
      (Inr (projr (fst (updateUser 5 ''u1'' ban_patch ''u2'' demo_admins))), demo_banned)"
    by (auto simp: is_ok_iff prod_eq_iff demo_banned_def)
  have "up_banned ban_patch = Some True" by (simp add: ban_patch_def)
  from ban_cuts_off [OF uniq run this]
  have "\<nexists>a. authenticate demo_env 5 (Some ''Bearer Ax'') demo_banned = Inr a \<and> au_id a = ''u1''"
    by blast
  moreover have "is_ok (authenticate demo_env 5 (Some ''Bearer Ax'') demo_admins)" by code_simp
  ultimately show ?thesis by blast
qed

section \<open>Erasure\<close>

text \<open>
  No relation of the database leads to the user: none of the foreign keys of \<open>prisma/schema.prisma\<close> that point
  to \<open>User\<close> holds the identifier.  \<open>AuditLog.targetUserId\<close> is a plain column, not a relation; what happens to it is
  said apart.
\<close>

definition erased :: "string \<Rightarrow> db \<Rightarrow> bool" where
  "erased uid d \<longleftrightarrow>
     (\<forall>u \<in> set (users d). u_id u \<noteq> uid) \<and> (\<forall>c \<in> set (twoFactorChallenges d). ch_userId c \<noteq> uid)
   \<and> (\<forall>t \<in> set (refreshTokens d). rt_userId t \<noteq> uid) \<and> (\<forall>x \<in> set (organizations d). o_ownerId x \<noteq> uid)
   \<and> (\<forall>m \<in> set (members d). m_userId m \<noteq> uid) \<and> (\<forall>p \<in> set (projects d). p_createdById p \<noteq> uid)
   \<and> (\<forall>s \<in> set (subscriptions d). s_userId s \<noteq> Some uid) \<and> (\<forall>k \<in> set (apiKeys d). k_userId k \<noteq> uid)
   \<and> (\<forall>a \<in> set (auditLogs d). a_userId a \<noteq> Some uid)
   \<and> (\<forall>i \<in> set (invitations d). i_inviterId i \<noteq> uid \<and> i_inviteeId i \<noteq> Some uid)
   \<and> (\<forall>n \<in> set (notifications d). n_userId n \<noteq> uid)
   \<and> (\<forall>p \<in> set (notificationPreferences d). np_userId p \<noteq> uid)"

lemma cascade_erases: "erased uid (delete_user_cascade uid d)"
  unfolding erased_def delete_user_cascade_def Let_def by (auto elim!: in_update_whereE)

lemma count_two:
  assumes "x \<in> set t" "y \<in> set t" "x \<noteq> y" "p x" "p y"
  shows "1 < count_where p t"
  using assms
proof (induction t)
  case Nil
  then show ?case by simp
next
  case (Cons r t)
  show ?case
  proof (cases "r = x \<or> r = y")
    case True
    with Cons.prems have "0 < count_where p t" unfolding count_where_pos_iff by auto
    with True Cons.prems(4,5) show ?thesis by auto
  next
    case False
    with Cons show ?thesis by (auto intro: less_SucI)
  qed
qed

text \<open>C16: Deleting an account leaves no row whose foreign key names the user, takes no membership away from anybody
  else, and, where Stripe is configured, happens only after Stripe has accepted the cancellation of every live
  subscription that goes with it.  The audit log keeps all its entries: they no longer name the user as their
  author, but those about the user still name the user as their target.\<close>

theorem deleteAccount_safe:
  assumes "org_inv d" "deleteAccount E cancel uid pw d = (Inr r, d')"
  shows "erased uid d'
     \<and> map (\<lambda>a. (a_action a, a_targetUserId a, a_createdAt a)) (auditLogs d')
         = map (\<lambda>a. (a_action a, a_targetUserId a, a_createdAt a)) (auditLogs d)
     \<and> (\<forall>m \<in> set (members d). m_userId m \<noteq> uid \<longrightarrow> m \<in> set (members d'))
     \<and> (isStripeConfigured E \<longrightarrow>
          (\<forall>s \<in> set (subscriptions d). s \<notin> set (subscriptions d') \<longrightarrow>
             s_status s \<in> {SUB_ACTIVE, SUB_TRIALING, SUB_PAST_DUE} \<longrightarrow> cancel (s_stripeSubscriptionId s)))"
proof (intro conjI ballI impI)
  from deleteAccount_InrD [OF assms(2)] obtain
    block: "blocking_orgs uid d = []"
    and stripe: "isStripeConfigured E \<Longrightarrow> \<forall>s \<in> set (doomed_subscriptions uid d). cancel (s_stripeSubscriptionId s)"
    and d': "d' = delete_user_cascade uid d"
    by blast
  show "erased uid d'" unfolding d' by (rule cascade_erases)
  show "map (\<lambda>a. (a_action a, a_targetUserId a, a_createdAt a)) (auditLogs d')
      = map (\<lambda>a. (a_action a, a_targetUserId a, a_createdAt a)) (auditLogs d)"
    by (simp add: d' delete_user_cascade_def Let_def map_update_where)
  {
    fix m assume m: "m \<in> set (members d)" "m_userId m \<noteq> uid"
    have notown: "\<not> (o_ownerId x = uid \<and> o_id x = m_organizationId m)" if x: "x \<in> set (organizations d)" for x
    proof
      assume ow: "o_ownerId x = uid \<and> o_id x = m_organizationId m"
      from org_inv_owner_row [OF assms(1) x] ow obtain k where
        k: "k \<in> set (members d)" "m_organizationId k = o_id x" "m_userId k = uid" by blast
      with m ow have "1 < count_where (\<lambda>m. m_organizationId m = o_id x) (members d)"
        by (intro count_two [of m _ k]) auto
      with ow x have "x \<in> set (blocking_orgs uid d)" by (simp add: blocking_orgs_def)
      with block show False by simp
    qed
    have "m_organizationId m \<notin> o_id ` {x \<in> set (organizations d). o_ownerId x = uid}"
    proof
      assume "m_organizationId m \<in> o_id ` {x \<in> set (organizations d). o_ownerId x = uid}"
      then obtain x where "x \<in> set (organizations d)" "o_ownerId x = uid" "m_organizationId m = o_id x"
        by blast
      with notown [of x] show False by simp
    qed
    with m show "m \<in> set (members d')"
      by (simp add: d' delete_user_cascade_def Let_def)
  }
  fix s assume cfg: "isStripeConfigured E" and s: "s \<in> set (subscriptions d)" "s \<notin> set (subscriptions d')"
    "s_status s \<in> {SUB_ACTIVE, SUB_TRIALING, SUB_PAST_DUE}"
  from s have "s_userId s = Some uid
      \<or> (\<exists>x \<in> set (organizations d). o_ownerId x = uid \<and> s_organizationId s = Some (o_id x))"
    by (auto simp: d' delete_user_cascade_def Let_def)
  with s(1,3) have "s \<in> set (doomed_subscriptions uid d)"
    by (auto simp: doomed_subscriptions_def LIVE_SUBSCRIPTION_STATUSES_def)
  with stripe cfg show "cancel (s_stripeSubscriptionId s)" by blast
qed

text \<open>
  An account with an organization of its own that is billed, which is also a member of somebody
  else's organization; Stripe accepts the cancellation of that one subscription only.
\<close>

definition demo_org :: "string \<Rightarrow> string \<Rightarrow> organization" where
  "demo_org i owner = \<lparr>o_id = i, o_name = i, o_slug = i, o_ownerId = owner, o_stripeCustomerId = None,
     o_deletedAt = None, o_createdAt = 0, o_updatedAt = 0\<rparr>"

definition demo_member :: "string \<Rightarrow> string \<Rightarrow> string \<Rightarrow> org_role \<Rightarrow> organization_member" where
  "demo_member i x uid r = \<lparr>m_id = i, m_organizationId = x, m_userId = uid, m_role = r, m_createdAt = 0,
     m_updatedAt = 0\<rparr>"

definition demo_erase :: db where
  "demo_erase = demo_db\<lparr>organizations := [demo_org ''o1'' ''u1'', demo_org ''o2'' ''u2''],
     members := [demo_member ''m1'' ''o1'' ''u1'' OWNER, demo_member ''m2'' ''o2'' ''u2'' OWNER,
                 demo_member ''m3'' ''o2'' ''u1'' MEMBER],
     subscriptions := [\<lparr>s_id = ''s1'', s_userId = None, s_organizationId = Some ''o1'', s_planId = ''p'',
       s_stripeSubscriptionId = ''sub1'', s_stripeCustomerId = ''cus1'', s_status = SUB_PAST_DUE,
       s_trialEndsAt = None, s_currentPeriodStart = None, s_currentPeriodEnd = None, s_canceledAt = None,
       s_stripeEventCreatedAt = None, s_createdAt = 0, s_updatedAt = 0\<rparr>]\<rparr>"

lemma demo_erase_inv: "org_inv demo_erase"
  by (auto simp: org_inv_def one_owner_def org_abs_def org_by_id_def membership_def demo_erase_def demo_db_def
      empty_db_def demo_org_def demo_member_def org_clash_def member_clash_def split: if_splits)

text \<open>The target column keeps the identifier of an account that is gone.\<close>

lemma target_survives_erasure:
  "\<exists>a \<in> set (auditLogs (delete_user_cascade ''u1''
      (demo_erase\<lparr>auditLogs := [audit_row 1 USER_BANNED (no_audit_data\<lparr>ad_userId := Some ''u2'', ad_targetUserId := Some ''u1''\<rparr>)]\<rparr>))).
     a_targetUserId a = Some ''u1''"
  by (simp add: delete_user_cascade_def Let_def audit_row_def no_audit_data_def update_where_def)

definition run_erase :: "(string \<times> string) result \<times> db" where
  "run_erase = deleteAccount (demo_env\<lparr>STRIPE_SECRET_KEY := Some ''sk''\<rparr>) (\<lambda>s. s = ''sub1'') ''u1'' ''pw'' demo_erase"

theorem deleteAccount_safe_witness:
  "erased ''u1'' (snd run_erase) \<and> demo_member ''m2'' ''o2'' ''u2'' OWNER \<in> set (members (snd run_erase))
   \<and> subscriptions (snd run_erase) = []"
proof -
  have "fst run_erase = Inr (''messages.accountDeletedSuccessfully'', ''a@x'')"
    by code_simp
  then have "deleteAccount (demo_env\<lparr>STRIPE_SECRET_KEY := Some ''sk''\<rparr>) (\<lambda>s. s = ''sub1'') ''u1'' ''pw'' demo_erase
      = (Inr (''messages.accountDeletedSuccessfully'', ''a@x''), snd run_erase)"
    by (simp add: run_erase_def prod_eq_iff)
  note safe = deleteAccount_safe [OF demo_erase_inv this]
  have "demo_member ''m2'' ''o2'' ''u2'' OWNER \<in> set (members demo_erase)"
    "m_userId (demo_member ''m2'' ''o2'' ''u2'' OWNER) \<noteq> ''u1''"
    by (simp_all add: demo_erase_def demo_member_def)
  with safe have "demo_member ''m2'' ''o2'' ''u2'' OWNER \<in> set (members (snd run_erase))" by blast
  moreover have "subscriptions (snd run_erase) = []" by code_simp
  ultimately show ?thesis using safe by blast
qed

end
