(* ===== verification/Billing.thy ===== *)
theory Billing
  imports Org Samples
begin

text \<open>
  \<open>src/modules/billing/billing.service.js\<close>: plans, subscriptions of users and organizations, the
  checkout and portal sessions, and the Stripe webhook.  The calls to the \<open>stripe\<close> package are the
  fields of \<open>stripe_api\<close>; \<open>None\<close> stands for a call that throws.
\<close>

section \<open>Stripe\<close>

record owner_metadata =
  md_userId :: "string option"
  md_organizationId :: "string option"
  md_planId :: "string option"

record stripe_sub =
  ss_id :: string
  ss_customer :: string
  ss_status :: string
  ss_metadata :: owner_metadata
  ss_trial_end :: "int option"
  ss_period_start :: "int option"
  ss_period_end :: "int option"
  ss_items :: "(int option \<times> int option) list"
  ss_canceled_at :: "int option"

record checkout_session =
  cs_id :: string
  cs_metadata :: owner_metadata
  cs_subscription :: "string option"

datatype event_object = SubscriptionObject stripe_sub | SessionObject checkout_session | OtherObject

record stripe_event =
  ev_id :: string
  ev_type :: string
  ev_created :: int
  ev_object :: event_object

datatype customer_lookup = CustomerFound | ResourceMissing | LookupFailed

record stripe_api =
  sub_cancel :: "string \<Rightarrow> bool"
  sub_retrieve :: "string \<Rightarrow> stripe_sub option"
  customer_retrieve :: "string \<Rightarrow> customer_lookup"
  customer_create :: "string option \<Rightarrow> string option \<Rightarrow> owner_metadata \<Rightarrow> string option"
  checkout_create ::
    "string \<Rightarrow> string \<Rightarrow> string \<Rightarrow> string \<Rightarrow> owner_metadata \<Rightarrow> (string \<times> string) option"
  portal_create :: "string \<Rightarrow> string \<Rightarrow> string option"
  constructEvent :: "int \<Rightarrow> string \<Rightarrow> string \<Rightarrow> string \<Rightarrow> string + stripe_event"

definition stripe_failed :: api_error where
  "stripe_failed = OtherError ''StripeError''"

definition mapStripeStatus :: "string \<Rightarrow> subscription_status" where
  "mapStripeStatus s =
     (if s = ''active'' then SUB_ACTIVE else if s = ''trialing'' then SUB_TRIALING
      else if s = ''past_due'' then SUB_PAST_DUE else if s = ''canceled'' then SUB_CANCELED
      else if s = ''incomplete'' then SUB_INCOMPLETE
      else if s = ''incomplete_expired'' then SUB_INCOMPLETE_EXPIRED
      else if s = ''unpaid'' then SUB_UNPAID else SUB_INCOMPLETE)"

section \<open>Plans and subscriptions\<close>

definition listPlans ::
  "((string \<times> string) option \<Rightarrow> plan list \<Rightarrow> plan list) \<Rightarrow> int \<Rightarrow> int \<Rightarrow> string \<Rightarrow> string
   \<Rightarrow> plan_interval option \<Rightarrow> db \<Rightarrow> plan list \<times> pagination_meta" where
  "listPlans ob page limit srt order interval d =
     list_page (ob (parseSort srt order [''createdAt'', ''name'', ''priceCents'']))
       (\<lambda>p. pl_active p \<and> (case interval of None \<Rightarrow> True | Some i \<Rightarrow> pl_interval p = i))
       page limit (plans d)"

definition current_subscription :: "(subscription \<Rightarrow> bool) \<Rightarrow> db \<Rightarrow> subscription option" where
  "current_subscription own d =
     find_latest s_createdAt
       (\<lambda>s. own s \<and> s_status s \<in> {SUB_ACTIVE, SUB_TRIALING, SUB_PAST_DUE}) (subscriptions d)"

definition getSubscription :: "string \<Rightarrow> db \<Rightarrow> subscription option" where
  "getSubscription userId d = current_subscription (\<lambda>s. s_userId s = Some userId) d"

definition getOrgSubscription :: "string \<Rightarrow> db \<Rightarrow> subscription option" where
  "getOrgSubscription orgId d = current_subscription (\<lambda>s. s_organizationId s = Some orgId) d"

section \<open>Checkout, portal, cancellation\<close>

text \<open>The id of a customer that Stripe knows; \<open>persist\<close> stores a newly created one.\<close>

definition resolveStripeCustomerId ::
  "stripe_api \<Rightarrow> string option \<Rightarrow> string option \<Rightarrow> string option \<Rightarrow> owner_metadata
   \<Rightarrow> (string \<Rightarrow> db \<Rightarrow> db) \<Rightarrow> db \<Rightarrow> string result \<times> db" where
  "resolveStripeCustomerId S existing email name metadata persist d =
     (let create = (case customer_create S email name metadata of
                      None \<Rightarrow> (Inl stripe_failed, d)
                    | Some i \<Rightarrow> (Inr i, persist i d))
      in if \<not> truthy existing then create
         else case customer_retrieve S (the existing) of
                CustomerFound \<Rightarrow> (Inr (the existing), d)
              | ResourceMissing \<Rightarrow> create
              | LookupFailed \<Rightarrow> (Inl stripe_failed, d))"

definition active_plan :: "string \<Rightarrow> db \<Rightarrow> plan option" where
  "active_plan planId d = find_first (\<lambda>p. pl_id p = planId \<and> pl_active p) (plans d)"

definition open_checkout ::
  "stripe_api \<Rightarrow> string \<Rightarrow> plan \<Rightarrow> string \<Rightarrow> string \<Rightarrow> owner_metadata \<Rightarrow> db
   \<Rightarrow> (string \<times> string) result \<times> db" where
  "open_checkout S customerId p successUrl cancelUrl metadata d =
     (case checkout_create S customerId (pl_stripePriceId p) successUrl cancelUrl metadata of
        None \<Rightarrow> (Inl stripe_failed, d)
      | Some session \<Rightarrow> (Inr session, d))"

definition createCheckoutSession ::
  "env \<Rightarrow> stripe_api \<Rightarrow> int \<Rightarrow> string \<Rightarrow> string \<Rightarrow> string \<Rightarrow> string \<Rightarrow> db
   \<Rightarrow> (string \<times> string) result \<times> db" where
  "createCheckoutSession E S now userId planId successUrl cancelUrl d =
     (case active_plan planId d of
        None \<Rightarrow> (Inl (httpError ''errors.planNotFound'' 404), d)
      | Some p \<Rightarrow>
          if \<not> isStripeConfigured E then (Inl (httpError ''errors.stripeNotConfigured'' 500), d)
          else
            (case user_by_id userId d of
               None \<Rightarrow> (Inl (httpError ''errors.userNotFound'' 404), d)
             | Some user \<Rightarrow>
                 await (resolveStripeCustomerId S (u_stripeCustomerId user) (Some (u_email user))
                          (u_name user)
                          \<lparr>md_userId = Some (u_id user), md_organizationId = None, md_planId = None\<rparr>
                          (\<lambda>i. update_user now userId (\<lambda>u. u\<lparr>u_stripeCustomerId := Some i\<rparr>)) d)
                   (\<lambda>customerId d1.
                      open_checkout S customerId p successUrl cancelUrl
                        \<lparr>md_userId = Some (u_id user), md_organizationId = None,
                         md_planId = Some (pl_id p)\<rparr> d1)))"

definition createOrgCheckoutSession ::
  "env \<Rightarrow> stripe_api \<Rightarrow> int \<Rightarrow> string \<Rightarrow> string \<Rightarrow> string \<Rightarrow> string \<Rightarrow> db
   \<Rightarrow> (string \<times> string) result \<times> db" where
  "createOrgCheckoutSession E S now orgId planId successUrl cancelUrl d =
     (case active_plan planId d of
        None \<Rightarrow> (Inl (httpError ''errors.planNotFound'' 404), d)
      | Some p \<Rightarrow>
          if \<not> isStripeConfigured E then (Inl (httpError ''errors.stripeNotConfigured'' 500), d)
          else
            (case find_first (\<lambda>x. o_id x = orgId \<and> o_deletedAt x = None) (organizations d) of
               None \<Rightarrow> (Inl (httpError ''errors.organizationNotFound'' 404), d)
             | Some x \<Rightarrow>
                 (case user_by_id (o_ownerId x) d of
                    None \<Rightarrow> (Inl (OtherError ''Inconsistent query result: owner is required''), d)
                  | Some owner \<Rightarrow>
                      await (resolveStripeCustomerId S (o_stripeCustomerId x) (Some (u_email owner))
                               (Some (o_name x))
                               \<lparr>md_userId = None, md_organizationId = Some (o_id x), md_planId = None\<rparr>
                               (\<lambda>i. update_org now orgId (\<lambda>x. x\<lparr>o_stripeCustomerId := Some i\<rparr>)) d)
                        (\<lambda>customerId d1.
                           open_checkout S customerId p successUrl cancelUrl
                             \<lparr>md_userId = None, md_organizationId = Some (o_id x),
                              md_planId = Some (pl_id p)\<rparr> d1))))"

definition open_portal :: "env \<Rightarrow> stripe_api \<Rightarrow> string option \<Rightarrow> string \<Rightarrow> string result" where
  "open_portal E S customer returnUrl =
     (if \<not> truthy customer then Inl (httpError ''errors.noBillingAccount'' 400)
      else if \<not> isStripeConfigured E then Inl (httpError ''errors.stripeNotConfigured'' 500)
      else case portal_create S (the customer) returnUrl of
             None \<Rightarrow> Inl stripe_failed | Some url \<Rightarrow> Inr url)"

definition createPortalSession :: "env \<Rightarrow> stripe_api \<Rightarrow> string \<Rightarrow> string \<Rightarrow> db \<Rightarrow> string result" where
  "createPortalSession E S userId returnUrl d =
     (case user_by_id userId d of
        None \<Rightarrow> Inl (httpError ''errors.userNotFound'' 404)
      | Some user \<Rightarrow> open_portal E S (u_stripeCustomerId user) returnUrl)"

definition createOrgPortalSession :: "env \<Rightarrow> stripe_api \<Rightarrow> string \<Rightarrow> string \<Rightarrow> db \<Rightarrow> string result" where
  "createOrgPortalSession E S orgId returnUrl d =
     (case find_first (\<lambda>x. o_id x = orgId \<and> o_deletedAt x = None) (organizations d) of
        None \<Rightarrow> Inl (httpError ''errors.organizationNotFound'' 404)
      | Some x \<Rightarrow> open_portal E S (o_stripeCustomerId x) returnUrl)"

text \<open>Cancel the newest active or trialing subscription, at Stripe first.\<close>

definition cancel_current ::
  "env \<Rightarrow> stripe_api \<Rightarrow> int \<Rightarrow> (subscription \<Rightarrow> bool) \<Rightarrow> db \<Rightarrow> subscription result \<times> db" where
  "cancel_current E S now own d =
     (case find_latest s_createdAt (\<lambda>s. own s \<and> gate_open s) (subscriptions d) of
        None \<Rightarrow> (Inl (httpError ''errors.noActiveSubscription'' 404), d)
      | Some s \<Rightarrow>
          if \<not> isStripeConfigured E then (Inl (httpError ''errors.stripeNotConfigured'' 500), d)
          else if \<not> sub_cancel S (s_stripeSubscriptionId s) then (Inl stripe_failed, d)
          else (Inr (cancel_row now s),
                d\<lparr>subscriptions := update_where (\<lambda>x. s_id x = s_id s) (cancel_row now) (subscriptions d)\<rparr>))"

definition cancelSubscription ::
  "env \<Rightarrow> stripe_api \<Rightarrow> int \<Rightarrow> string \<Rightarrow> db \<Rightarrow> subscription result \<times> db" where
  "cancelSubscription E S now userId d = cancel_current E S now (\<lambda>s. s_userId s = Some userId) d"

definition cancelOrgSubscription ::
  "env \<Rightarrow> stripe_api \<Rightarrow> int \<Rightarrow> string \<Rightarrow> db \<Rightarrow> subscription result \<times> db" where
  "cancelOrgSubscription E S now orgId d = cancel_current E S now (\<lambda>s. s_organizationId s = Some orgId) d"

section \<open>The webhook\<close>

text \<open>\<open>x ? new Date(x * 1000) : null\<close>: zero is falsy.\<close>

definition stripe_date :: "int option \<Rightarrow> int option" where
  "stripe_date x = (case x of None \<Rightarrow> None | Some t \<Rightarrow> if t = 0 then None else Some (t * 1000))"

definition or_else :: "'a option \<Rightarrow> 'a option \<Rightarrow> 'a option" where
  "or_else a b = (case a of None \<Rightarrow> b | Some x \<Rightarrow> Some x)"

text \<open>The data an event writes, into an existing row or as a new one.\<close>

definition write_sub ::
  "string option \<Rightarrow> string option \<Rightarrow> string \<Rightarrow> stripe_sub \<Rightarrow> int \<Rightarrow> int \<Rightarrow> subscription \<Rightarrow> subscription" where
  "write_sub userId orgId planId sub stamp now s =
     (let item = (case ss_items sub of [] \<Rightarrow> (None, None) | i # _ \<Rightarrow> i)
      in s\<lparr>s_userId := userId, s_organizationId := orgId, s_planId := planId,
           s_stripeSubscriptionId := ss_id sub, s_stripeCustomerId := ss_customer sub,
           s_status := mapStripeStatus (ss_status sub),
           s_trialEndsAt := stripe_date (ss_trial_end sub),
           s_currentPeriodStart := stripe_date (or_else (ss_period_start sub) (fst item)),
           s_currentPeriodEnd := stripe_date (or_else (ss_period_end sub) (snd item)),
           s_canceledAt := stripe_date (ss_canceled_at sub),
           s_stripeEventCreatedAt := Some stamp, s_updatedAt := now\<rparr>)"

definition blank_sub :: "string \<Rightarrow> int \<Rightarrow> subscription" where
  "blank_sub i now =
     \<lparr>s_id = i, s_userId = None, s_organizationId = None, s_planId = [], s_stripeSubscriptionId = [],
      s_stripeCustomerId = [], s_status = SUB_INCOMPLETE, s_trialEndsAt = None,
      s_currentPeriodStart = None, s_currentPeriodEnd = None, s_canceledAt = None,
      s_stripeEventCreatedAt = None, s_createdAt = now, s_updatedAt = now\<rparr>"

text \<open>
  The constraints a written row must meet: exactly one owner (a \<open>CHECK\<close> of migration
  \<open>20260826190800\<close>) that exists (foreign keys).
\<close>

definition owner_error :: "string option \<Rightarrow> string option \<Rightarrow> db \<Rightarrow> api_error option" where
  "owner_error userId orgId d =
     (if (userId = None) = (orgId = None) then Some (OtherError ''check constraint'')
      else if (case userId of None \<Rightarrow> False | Some i \<Rightarrow> user_by_id i d = None)
           \<or> (case orgId of None \<Rightarrow> False | Some i \<Rightarrow> org_by_id i d = None)
      then Some (PrismaError ''P2003'') else None)"

definition status_name :: "subscription_status \<Rightarrow> string" where
  "status_name s =
     (case s of SUB_ACTIVE \<Rightarrow> ''ACTIVE'' | SUB_TRIALING \<Rightarrow> ''TRIALING'' | SUB_PAST_DUE \<Rightarrow> ''PAST_DUE''
      | SUB_CANCELED \<Rightarrow> ''CANCELED'' | SUB_INCOMPLETE \<Rightarrow> ''INCOMPLETE''
      | SUB_INCOMPLETE_EXPIRED \<Rightarrow> ''INCOMPLETE_EXPIRED'' | SUB_UNPAID \<Rightarrow> ''UNPAID'')"

definition sub_audit :: "string option \<Rightarrow> string option \<Rightarrow> stripe_sub \<Rightarrow> audit_data" where
  "sub_audit userId orgId sub =
     no_audit_data\<lparr>ad_userId := userId, ad_organizationId := orgId,
       ad_metadata := [(''stripeSubscriptionId'', JStr (ss_id sub)),
                       (''status'', JStr (status_name (mapStripeStatus (ss_status sub))))]\<rparr>"

text \<open>The ordering guard: write when no newer event has written the row.\<close>

definition writable :: "string \<Rightarrow> int \<Rightarrow> subscription \<Rightarrow> bool" where
  "writable subId stamp s \<longleftrightarrow>
     s_stripeSubscriptionId s = subId
   \<and> (case s_stripeEventCreatedAt s of None \<Rightarrow> True | Some t \<Rightarrow> t \<le> stamp)"

definition upsertSubscription ::
  "env \<Rightarrow> int \<Rightarrow> fresh \<Rightarrow> string option \<Rightarrow> string option \<Rightarrow> string \<Rightarrow> stripe_sub \<Rightarrow> int \<Rightarrow> db \<Rightarrow> unit result \<times> db" where
  "upsertSubscription E now fr userId orgId planId sub created d =
     (if plan_by_id planId d = None then (Inr (), d)
      else
        (let stamp = (if created \<noteq> 0 then created * 1000 else now);
             wr = write_sub userId orgId planId sub stamp now;
             p = writable (ss_id sub) stamp;
             row = wr (blank_sub (fr_id fr) now)
         in if exists_row p (subscriptions d)
            then (case owner_error userId orgId d of
                    Some e \<Rightarrow> (Inl e, d)
                  | None \<Rightarrow> (Inr (), auditLog E now SUBSCRIPTION_UPDATED (sub_audit userId orgId sub)
                              (d\<lparr>subscriptions := update_where p wr (subscriptions d)\<rparr>)))
            else (case owner_error userId orgId d of
                    Some e \<Rightarrow> (Inl e, d)
                  | None \<Rightarrow>
                      (case insert_row sub_clash row (subscriptions d) of
                         Inl e \<Rightarrow> if e = P2002 then (Inr (), d) else (Inl e, d)
                       | Inr ss \<Rightarrow> (Inr (), auditLog E now SUBSCRIPTION_CREATED (sub_audit userId orgId sub)
                                     (d\<lparr>subscriptions := ss\<rparr>))))))"

text \<open>The owner and plan of the metadata, when it names them.\<close>

definition has_owner_plan :: "owner_metadata \<Rightarrow> bool" where
  "has_owner_plan m \<longleftrightarrow> (truthy (md_userId m) \<or> truthy (md_organizationId m)) \<and> truthy (md_planId m)"

definition handleCheckoutCompleted ::
  "env \<Rightarrow> stripe_api \<Rightarrow> int \<Rightarrow> fresh \<Rightarrow> checkout_session \<Rightarrow> int \<Rightarrow> db \<Rightarrow> unit result \<times> db" where
  "handleCheckoutCompleted E S now fr session created d =
     (let m = cs_metadata session
      in if \<not> has_owner_plan m \<or> \<not> truthy (cs_subscription session) then (Inr (), d)
         else case sub_retrieve S (the (cs_subscription session)) of
                None \<Rightarrow> (Inl stripe_failed, d)
              | Some sub \<Rightarrow>
                  upsertSubscription E now fr (md_userId m) (md_organizationId m) (the (md_planId m))
                    sub created d)"

definition handleSubscriptionUpdated ::
  "env \<Rightarrow> int \<Rightarrow> fresh \<Rightarrow> stripe_sub \<Rightarrow> int \<Rightarrow> db \<Rightarrow> unit result \<times> db" where
  "handleSubscriptionUpdated E now fr sub created d =
     (let m = ss_metadata sub
      in if \<not> has_owner_plan m then (Inr (), d)
         else upsertSubscription E now fr (md_userId m) (md_organizationId m) (the (md_planId m))
                sub created d)"

definition handleSubscriptionDeleted :: "env \<Rightarrow> int \<Rightarrow> stripe_sub \<Rightarrow> db \<Rightarrow> unit result \<times> db" where
  "handleSubscriptionDeleted E now sub d =
     (let p = (\<lambda>s. s_stripeSubscriptionId s = ss_id sub);
          d1 = d\<lparr>subscriptions := update_where p (cancel_row now) (subscriptions d)\<rparr>
      in (Inr (),
          case find_first p (subscriptions d) of
            None \<Rightarrow> d1
          | Some s \<Rightarrow>
              auditLog E now SUBSCRIPTION_CANCELED
                (no_audit_data\<lparr>ad_userId := s_userId s, ad_organizationId := s_organizationId s,
                   ad_metadata := [(''stripeSubscriptionId'', JStr (ss_id sub)),
                                   (''source'', JStr ''webhook'')]\<rparr>) d1))"

definition dispatch_event ::
  "env \<Rightarrow> stripe_api \<Rightarrow> int \<Rightarrow> fresh \<Rightarrow> stripe_event \<Rightarrow> db \<Rightarrow> unit result \<times> db" where
  "dispatch_event E S now fr ev d =
     (case ev_object ev of
        SessionObject session \<Rightarrow>
          if ev_type ev = ''checkout.session.completed''
          then handleCheckoutCompleted E S now fr session (ev_created ev) d else (Inr (), d)
      | SubscriptionObject sub \<Rightarrow>
          if ev_type ev = ''customer.subscription.created'' \<or> ev_type ev = ''customer.subscription.updated''
          then handleSubscriptionUpdated E now fr sub (ev_created ev) d
          else if ev_type ev = ''customer.subscription.deleted''
          then handleSubscriptionDeleted E now sub d else (Inr (), d)
      | OtherObject \<Rightarrow> (Inr (), d))"

definition handleWebhook ::
  "env \<Rightarrow> stripe_api \<Rightarrow> int \<Rightarrow> fresh \<Rightarrow> string \<Rightarrow> string option \<Rightarrow> db \<Rightarrow> string result \<times> db" where
  "handleWebhook E S now fr rawBody signature d =
     (if \<not> truthy signature then (Inl (httpError ''errors.missingStripeSignature'' 400), d)
      else if \<not> isStripeConfigured E
      then (Inl (httpError ''errors.stripeNotConfiguredShort'' 500), d)
      else if \<not> truthy (STRIPE_WEBHOOK_SECRET E)
      then (Inl (httpError ''errors.stripeWebhookSecretNotConfigured'' 500), d)
      else case constructEvent S now rawBody (the signature) (the (STRIPE_WEBHOOK_SECRET E)) of
             Inl msg \<Rightarrow> (Inl (HttpError ''errors.webhookSignatureFailed'' 400 [(''message'', PStr msg)]), d)
           | Inr ev \<Rightarrow>
               (case insert_row event_clash \<lparr>we_id = ev_id ev, we_type = ev_type ev, we_createdAt = now\<rparr>
                       (webhookEvents d) of
                  Inl e \<Rightarrow> if e = P2002 then (Inr (ev_type ev), d) else (Inl e, d)
                | Inr es \<Rightarrow>
                    await (dispatch_event E S now fr ev (d\<lparr>webhookEvents := es\<rparr>))
                      (\<lambda>_ d1. (Inr (ev_type ev), d1))))"

section \<open>Delivery at least once\<close>

lemma upsert_frame:
  "webhookEvents (snd (upsertSubscription E now fr u i p sub c d)) = webhookEvents d"
  "plans (snd (upsertSubscription E now fr u i p sub c d)) = plans d"
  "users (snd (upsertSubscription E now fr u i p sub c d)) = users d"
  "organizations (snd (upsertSubscription E now fr u i p sub c d)) = organizations d"
  by (simp_all add: upsertSubscription_def Let_def split: option.splits sum.splits)

lemma dispatch_events_frame: "webhookEvents (snd (dispatch_event E S now fr ev d)) = webhookEvents d"
  by (simp add: dispatch_event_def handleCheckoutCompleted_def handleSubscriptionUpdated_def
      handleSubscriptionDeleted_def upsert_frame Let_def split: event_object.splits option.splits)

lemma handleWebhook_InrD:
  assumes "handleWebhook E S now fr raw sig d = (Inr ty, d1)"
  shows "\<exists>ev. constructEvent S now raw (the sig) (the (STRIPE_WEBHOOK_SECRET E)) = Inr ev \<and> ty = ev_type ev
     \<and> truthy sig \<and> isStripeConfigured E \<and> truthy (STRIPE_WEBHOOK_SECRET E)
     \<and> (\<exists>x \<in> set (webhookEvents d1). we_id x = ev_id ev)"
proof -
  let ?row = "\<lambda>ev. \<lparr>we_id = ev_id ev, we_type = ev_type ev, we_createdAt = now\<rparr>"
  obtain ev where ev: "constructEvent S now raw (the sig) (the (STRIPE_WEBHOOK_SECRET E)) = Inr ev"
    and cfg: "truthy sig" "isStripeConfigured E" "truthy (STRIPE_WEBHOOK_SECRET E)"
    using assms by (auto simp: handleWebhook_def split: if_splits sum.splits)
  show ?thesis
  proof (cases "insert_row event_clash (?row ev) (webhookEvents d)")
    case (Inl e)
    from insert_row_InlD [OF this] have e: "e = P2002" .
    with Inl have "\<exists>x \<in> set (webhookEvents d). event_clash x (?row ev)"
      by (auto simp: insert_row_def list_ex_iff split: if_splits)
    moreover have "d1 = d" "ty = ev_type ev" using assms ev cfg Inl e by (simp_all add: handleWebhook_def)
    ultimately show ?thesis using ev cfg by (auto simp: event_clash_def)
  next
    case (Inr es)
    have es: "es = webhookEvents d @ [?row ev]" using insert_row_InrD [OF Inr] by blast
    obtain r d2 where dd: "dispatch_event E S now fr ev (d\<lparr>webhookEvents := es\<rparr>) = (r, d2)"
      by (rule prod.exhaust)
    have "webhookEvents d2 = es"
      using dispatch_events_frame [of E S now fr ev "d\<lparr>webhookEvents := es\<rparr>"] by (simp add: dd)
    moreover have "d1 = d2" "ty = ev_type ev"
      using assms ev cfg Inr dd by (auto simp: handleWebhook_def await_def split: sum.splits)
    ultimately show ?thesis using ev cfg es by auto
  qed
qed

text \<open>C18: A webhook event takes effect once.  After a delivery that succeeded, any later delivery that Stripe's
  library verifies as the same event, whatever its body, its signature and its time, is acknowledged and changes
  nothing, as long as the identifier is among the processed events.\<close>

theorem webhook_idempotent:
  assumes first: "handleWebhook E S now fr raw sig d = (Inr ty, d1)"
    and event: "constructEvent S now raw (the sig) (the (STRIPE_WEBHOOK_SECRET E)) = Inr ev"
    and again: "constructEvent S now' raw' sig' (the (STRIPE_WEBHOOK_SECRET E)) = Inr ev'" "sig' \<noteq> []"
    and same: "ev_id ev' = ev_id ev"
    and kept: "set (webhookEvents d1) \<subseteq> set (webhookEvents d2)"
  shows "handleWebhook E S now' fr' raw' (Some sig') d2 = (Inr (ev_type ev'), d2)"
proof -
  from handleWebhook_InrD [OF first] event
  have cfg: "isStripeConfigured E" "truthy (STRIPE_WEBHOOK_SECRET E)"
    and seen: "\<exists>x \<in> set (webhookEvents d1). we_id x = ev_id ev"
    by auto
  from seen same kept have "insert_row event_clash \<lparr>we_id = ev_id ev', we_type = ev_type ev', we_createdAt = now'\<rparr>
      (webhookEvents d2) = Inl P2002"
    by (auto simp: insert_row_def event_clash_def list_ex_iff)
  with again cfg show ?thesis by (simp add: handleWebhook_def)
qed

definition demo_plan :: plan where
  "demo_plan = \<lparr>pl_id = ''p1'', pl_name = ''Pro'', pl_code = ''pro'', pl_description = None,
     pl_stripePriceId = ''price'', pl_priceCents = 100, pl_currency = ''usd'', pl_interval = MONTH,
     pl_features = JNull, pl_active = True, pl_createdAt = 0\<rparr>"

definition demo_sub :: "string \<Rightarrow> stripe_sub" where
  "demo_sub status = \<lparr>ss_id = ''sub1'', ss_customer = ''cus1'', ss_status = status,
     ss_metadata = \<lparr>md_userId = Some ''u1'', md_organizationId = None, md_planId = Some ''p1''\<rparr>,
     ss_trial_end = None, ss_period_start = None, ss_period_end = None, ss_items = [],
     ss_canceled_at = None\<rparr>"

definition demo_event :: "string \<Rightarrow> string \<Rightarrow> int \<Rightarrow> event_object \<Rightarrow> stripe_event" where
  "demo_event i ty t ob = \<lparr>ev_id = i, ev_type = ty, ev_created = t, ev_object = ob\<rparr>"

definition demo_stripe :: stripe_api where
  "demo_stripe = \<lparr>sub_cancel = (\<lambda>_. True), sub_retrieve = (\<lambda>_. None),
     customer_retrieve = (\<lambda>_. CustomerFound), customer_create = (\<lambda>_ _ _. Some ''cus1''),
     checkout_create = (\<lambda>_ _ _ _ _. Some (''url'', ''cs1'')), portal_create = (\<lambda>_ _. Some ''url''),
     constructEvent = (\<lambda>now raw sig secret.
       if sig = ''sig'' \<and> 300 < now then Inl ''Timestamp outside the tolerance zone''
       else if raw = ''updated10'' then Inr (demo_event raw ''customer.subscription.updated'' 10 (SubscriptionObject (demo_sub ''active'')))
       else if raw = ''updated20'' then Inr (demo_event raw ''customer.subscription.updated'' 20 (SubscriptionObject (demo_sub ''active'')))
       else if raw = ''deleted30'' then Inr (demo_event raw ''customer.subscription.deleted'' 30 (SubscriptionObject (demo_sub ''canceled'')))
       else if raw = ''checkout'' then Inr (demo_event raw ''checkout.session.completed'' 5
          (SessionObject \<lparr>cs_id = ''cs1'', cs_metadata = ss_metadata (demo_sub ''active''), cs_subscription = Some ''sub1''\<rparr>))
       else Inl ''bad'')\<rparr>"

definition demo_billing_env :: env where
  "demo_billing_env = demo_env\<lparr>STRIPE_SECRET_KEY := Some ''sk'', STRIPE_WEBHOOK_SECRET := Some ''wh''\<rparr>"

definition demo_billing :: db where
  "demo_billing = demo_db\<lparr>plans := [demo_plan]\<rparr>"

definition hook :: "string \<Rightarrow> int \<Rightarrow> db \<Rightarrow> string result \<times> db" where
  "hook raw now d = handleWebhook demo_billing_env demo_stripe now (demo_fresh ''z'') raw (Some ''sig'') d"

lemma demo_hook_run: "fst (hook ''updated10'' 10 demo_billing) = Inr ''customer.subscription.updated''"
  by code_simp

theorem webhook_idempotent_witness:
  "handleWebhook demo_billing_env demo_stripe 900 (demo_fresh ''y'') ''updated10'' (Some ''sig2'')
      (snd (hook ''updated10'' 10 demo_billing))
     = (Inr ''customer.subscription.updated'', snd (hook ''updated10'' 10 demo_billing))
   \<and> \<not> is_ok (fst (hook ''updated10'' 900 (snd (hook ''updated10'' 10 demo_billing))))"
proof
  let ?ev = "demo_event ''updated10'' ''customer.subscription.updated'' 10 (SubscriptionObject (demo_sub ''active''))"
  have "handleWebhook demo_billing_env demo_stripe 10 (demo_fresh ''z'') ''updated10'' (Some ''sig'') demo_billing
      = (Inr ''customer.subscription.updated'', snd (hook ''updated10'' 10 demo_billing))"
    by (simp add: prod_eq_iff demo_hook_run [unfolded hook_def] hook_def)
  moreover have "constructEvent demo_stripe 10 ''updated10'' (the (Some ''sig'')) k = Inr ?ev"
    "constructEvent demo_stripe 900 ''updated10'' ''sig2'' k = Inr ?ev" for k
    by (simp_all add: demo_stripe_def)
  ultimately have "handleWebhook demo_billing_env demo_stripe 900 (demo_fresh ''y'') ''updated10'' (Some ''sig2'')
      (snd (hook ''updated10'' 10 demo_billing)) = (Inr (ev_type ?ev), snd (hook ''updated10'' 10 demo_billing))"
    by (rule webhook_idempotent) simp_all
  then show "handleWebhook demo_billing_env demo_stripe 900 (demo_fresh ''y'') ''updated10'' (Some ''sig2'')
      (snd (hook ''updated10'' 10 demo_billing))
     = (Inr ''customer.subscription.updated'', snd (hook ''updated10'' 10 demo_billing))"
    by (simp add: demo_event_def)
  show "\<not> is_ok (fst (hook ''updated10'' 900 (snd (hook ''updated10'' 10 demo_billing))))"
    by code_simp
qed

text \<open>But the event id is recorded before the event is processed: a delivery whose processing fails is
  answered with an error, Stripe delivers it again, and that delivery is acknowledged without the
  subscription ever being written.\<close>

theorem webhook_failure_loses_event:
  "fst (hook ''checkout'' 10 demo_billing) = Inl stripe_failed
   \<and> fst (hook ''checkout'' 20 (snd (hook ''checkout'' 10 demo_billing))) = Inr ''checkout.session.completed''
   \<and> subscriptions (snd (hook ''checkout'' 20 (snd (hook ''checkout'' 10 demo_billing)))) = []"
  by code_simp

text \<open>The ordering guard does not cover deletions: after an update (created at 10) and a deletion (created
  at 30) a delayed update (created at 20) makes the canceled subscription active again, and the gate of
  \<open>requireSubscription\<close> opens.\<close>

theorem deleted_subscription_resurrected:
  "let d1 = snd (hook ''updated10'' 10 demo_billing);
       d2 = snd (hook ''deleted30'' 31 d1);
       d3 = snd (hook ''updated20'' 32 d2)
   in map s_status (subscriptions d2) = [SUB_CANCELED]
    \<and> map s_status (subscriptions d3) = [SUB_ACTIVE]
    \<and> \<not> is_ok (requireSubscription (Some ''u1'') d2) \<and> is_ok (requireSubscription (Some ''u1'') d3)"
  by code_simp

section \<open>Delivery in any order\<close>

text \<open>A run of \<open>created\<close>/\<open>updated\<close> events, in the order they arrive.\<close>

fun deliver_updates :: "env \<Rightarrow> (int \<times> fresh \<times> stripe_sub \<times> int) list \<Rightarrow> db \<Rightarrow> db" where
  "deliver_updates E [] d = d"
| "deliver_updates E ((now, fr, sub, created) # evs) d =
     deliver_updates E evs (snd (handleSubscriptionUpdated E now fr sub created d))"

definition row_of :: "string \<Rightarrow> db \<Rightarrow> subscription option" where
  "row_of sid d = find_first (\<lambda>s. s_stripeSubscriptionId s = sid) (subscriptions d)"

definition event_valid :: "string \<Rightarrow> stripe_sub \<Rightarrow> int \<Rightarrow> db \<Rightarrow> bool" where
  "event_valid sid sub created d \<longleftrightarrow>
     ss_id sub = sid \<and> created \<noteq> 0 \<and> has_owner_plan (ss_metadata sub)
   \<and> plan_by_id (the (md_planId (ss_metadata sub))) d \<noteq> None
   \<and> owner_error (md_userId (ss_metadata sub)) (md_organizationId (ss_metadata sub)) d = None"

definition row_from :: "stripe_sub \<Rightarrow> int \<Rightarrow> subscription \<Rightarrow> bool" where
  "row_from sub created s \<longleftrightarrow>
     s_stripeEventCreatedAt s = Some (created * 1000) \<and> s_status s = mapStripeStatus (ss_status sub)
   \<and> s_planId s = the (md_planId (ss_metadata sub))
   \<and> s_userId s = md_userId (ss_metadata sub) \<and> s_organizationId s = md_organizationId (ss_metadata sub)"

lemma event_valid_cong:
  assumes "users d' = users d" "organizations d' = organizations d" "plans d' = plans d"
  shows "event_valid sid sub c d' = event_valid sid sub c d"
  unfolding event_valid_def plan_by_id_def owner_error_def user_by_id_def org_by_id_def assms
  by (rule refl)

lemma write_sub_row_from:
  "row_from sub created (write_sub (md_userId (ss_metadata sub)) (md_organizationId (ss_metadata sub))
     (the (md_planId (ss_metadata sub))) sub (created * 1000) now s)"
  by (simp add: row_from_def write_sub_def Let_def)

lemma write_sub_keys [simp]:
  "s_id (write_sub u i p sub st now s) = s_id s"
  "s_stripeSubscriptionId (write_sub u i p sub st now s) = ss_id sub"
  by (simp_all add: write_sub_def Let_def)

lemma write_sub_uniq:
  assumes "uniq sub_clash ss"
  shows "uniq sub_clash (update_where (writable (ss_id sub) st) (write_sub u i p sub st now) ss)"
  by (rule sub_ix.update_where_keeps [OF assms]) (auto simp: sub_clash_def writable_def)

lemma handle_valid:
  assumes "event_valid sid sub c d"
  shows "handleSubscriptionUpdated E now fr sub c d =
     (let m = ss_metadata sub;
          wr = write_sub (md_userId m) (md_organizationId m) (the (md_planId m)) sub (c * 1000) now;
          p = writable sid (c * 1000)
      in if exists_row p (subscriptions d)
         then (Inr (), auditLog E now SUBSCRIPTION_UPDATED (sub_audit (md_userId m) (md_organizationId m) sub)
                (d\<lparr>subscriptions := update_where p wr (subscriptions d)\<rparr>))
         else case insert_row sub_clash (wr (blank_sub (fr_id fr) now)) (subscriptions d) of
                Inl e \<Rightarrow> if e = P2002 then (Inr (), d) else (Inl e, d)
              | Inr ss \<Rightarrow> (Inr (), auditLog E now SUBSCRIPTION_CREATED
                    (sub_audit (md_userId m) (md_organizationId m) sub) (d\<lparr>subscriptions := ss\<rparr>)))"
  using assms
  by (auto simp: event_valid_def handleSubscriptionUpdated_def upsertSubscription_def Let_def)

lemma row_of_Some_ex:
  "row_of sid d = Some s \<Longrightarrow> s \<in> set (subscriptions d) \<and> s_stripeSubscriptionId s = sid"
  unfolding row_of_def using find_first_SomeD by fast

lemma writable_id: "writable sid st x \<Longrightarrow> s_stripeSubscriptionId x = sid"
  by (simp add: writable_def)

text \<open>One event: it creates the row, overwrites it, or is stale and changes nothing.\<close>

lemma deliver_creates:
  fixes E :: env and now :: int
  assumes v: "event_valid sid sub c d" and none: "row_of sid d = None"
    and fresh: "\<forall>x \<in> set (subscriptions d). s_id x \<noteq> fr_id fr"
    and u: "uniq sub_clash (subscriptions d)"
  defines "d' \<equiv> snd (handleSubscriptionUpdated E now fr sub c d)"
  shows "\<exists>s. row_of sid d' = Some s \<and> row_from sub c s" and "uniq sub_clash (subscriptions d')"
proof -
  let ?m = "ss_metadata sub"
  let ?row = "write_sub (md_userId ?m) (md_organizationId ?m) (the (md_planId ?m)) sub (c * 1000) now
      (blank_sub (fr_id fr) now)"
  have sid: "ss_id sub = sid" using v by (simp add: event_valid_def)
  have nosid: "s_stripeSubscriptionId x \<noteq> sid" if "x \<in> set (subscriptions d)" for x
    using none that by (simp add: row_of_def find_first_None_iff)
  then have nowr: "\<not> exists_row (writable sid (c * 1000)) (subscriptions d)"
    by (auto simp: writable_def)
  have ins: "insert_row sub_clash ?row (subscriptions d) = Inr (subscriptions d @ [?row])"
    using nosid fresh by (auto simp: insert_row_def list_ex_iff sub_clash_def sid blank_sub_def)
  have subs: "subscriptions d' = subscriptions d @ [?row]"
    using nowr by (simp add: d'_def handle_valid [OF v] Let_def ins)
  show "uniq sub_clash (subscriptions d')"
    using sub_ix.insert_keeps [OF ins u] by (simp add: subs)
  have "row_of sid d' = Some ?row"
    using none by (simp add: row_of_def subs find_first_append sid)
  then show "\<exists>s. row_of sid d' = Some s \<and> row_from sub c s"
    using write_sub_row_from by blast
qed

lemma deliver_updates_row:
  fixes E :: env and now :: int and fr :: fresh
  assumes v: "event_valid sid sub c d" and row: "row_of sid d = Some s"
    and stamp: "s_stripeEventCreatedAt s = Some (t * 1000)"
    and u: "uniq sub_clash (subscriptions d)"
  defines "d' \<equiv> snd (handleSubscriptionUpdated E now fr sub c d)"
  shows "\<exists>s'. row_of sid d' = Some s' \<and> (if t \<le> c then row_from sub c s' else s' = s)"
    and "uniq sub_clash (subscriptions d')"
proof -
  let ?m = "ss_metadata sub"
  let ?wr = "write_sub (md_userId ?m) (md_organizationId ?m) (the (md_planId ?m)) sub (c * 1000) now"
  have sid: "ss_id sub = sid" using v by (simp add: event_valid_def)
  have s: "s \<in> set (subscriptions d)" "s_stripeSubscriptionId s = sid"
    using row_of_Some_ex [OF row] by blast+
  have only: "x = s" if "x \<in> set (subscriptions d)" "s_stripeSubscriptionId x = sid" for x
    using sub_ix.members_apart [OF u that(1) s(1)] that(2) s(2) by (simp add: sub_clash_def)
  show "\<exists>s'. row_of sid d' = Some s' \<and> (if t \<le> c then row_from sub c s' else s' = s)"
  proof (cases "t \<le> c")
    case True
    then have ws: "writable sid (c * 1000) s" using s stamp by (simp add: writable_def)
    then have ex: "exists_row (writable sid (c * 1000)) (subscriptions d)" using s(1) by auto
    have subs: "subscriptions d' = update_where (writable sid (c * 1000)) ?wr (subscriptions d)"
      using ex by (auto simp: d'_def handle_valid [OF v] Let_def auditLog_def)
    have "row_of sid d' = Some (?wr s)"
      unfolding row_of_def subs
      by (subst find_first_update_where)
        (use row ws in \<open>simp_all add: row_of_def sid writable_id\<close>)
    with True show ?thesis using write_sub_row_from by simp
  next
    case False
    then have "\<not> writable sid (c * 1000) x" if "x \<in> set (subscriptions d)" for x
      using only [OF that] stamp by (auto simp: writable_def)
    then have nowr: "\<not> exists_row (writable sid (c * 1000)) (subscriptions d)" by simp
    have "insert_row sub_clash (?wr (blank_sub (fr_id fr) now)) (subscriptions d) = Inl P2002"
      using s by (auto simp: insert_row_def list_ex_iff sub_clash_def sid)
    with nowr have "d' = d" by (simp add: d'_def handle_valid [OF v] Let_def)
    with False row show ?thesis by simp
  qed
  show "uniq sub_clash (subscriptions d')"
  proof (cases "exists_row (writable sid (c * 1000)) (subscriptions d)")
    case True
    then have "subscriptions d' = update_where (writable (ss_id sub) (c * 1000)) ?wr (subscriptions d)"
      by (auto simp: d'_def handle_valid [OF v] Let_def auditLog_def sid)
    with write_sub_uniq [OF u] show ?thesis by simp
  next
    case False
    then show ?thesis
      using u by (auto simp: d'_def handle_valid [OF v] Let_def split: sum.splits
          dest: sub_ix.insert_keeps insert_row_InlD)
  qed
qed

lemma handle_frame:
  "users (snd (handleSubscriptionUpdated E now fr sub c d)) = users d"
  "organizations (snd (handleSubscriptionUpdated E now fr sub c d)) = organizations d"
  "plans (snd (handleSubscriptionUpdated E now fr sub c d)) = plans d"
  by (simp_all add: handleSubscriptionUpdated_def upsert_frame Let_def)

lemma deliver_keeps_newest:
  assumes "row_of sid d = Some s" "row_from sub0 c0 s" "uniq sub_clash (subscriptions d)"
    and "\<forall>(now, fr, sub, c) \<in> set evs. event_valid sid sub c d"
  shows "\<exists>s' sub' c'. row_of sid (deliver_updates E evs d) = Some s' \<and> row_from sub' c' s'
     \<and> c0 \<le> c' \<and> (\<forall>(now, fr, sub, c) \<in> set evs. c \<le> c')
     \<and> ((sub', c') = (sub0, c0) \<or> (\<exists>now fr. (now, fr, sub', c') \<in> set evs))"
  using assms
proof (induction evs arbitrary: d s sub0 c0)
  case Nil
  then show ?case by auto
next
  case (Cons ev evs)
  obtain now fr sub c where ev: "ev = (now, fr, sub, c)" by (cases ev)
  let ?d = "snd (handleSubscriptionUpdated E now fr sub c d)"
  have v: "event_valid sid sub c d" using Cons.prems(4) by (simp add: ev)
  have stamp: "s_stripeEventCreatedAt s = Some (c0 * 1000)"
    using Cons.prems(2) by (simp add: row_from_def)
  note step = deliver_updates_row [OF v Cons.prems(1) stamp Cons.prems(3), where now = now and fr = fr]
  have valid: "\<forall>(now, fr, sub, c) \<in> set evs. event_valid sid sub c ?d"
    using Cons.prems(4) event_valid_cong [OF handle_frame(1-3) [of E now fr sub c d]] by (auto simp: ev)
  show ?case
  proof (cases "c0 \<le> c")
    case True
    with step(1) obtain s1 where "row_of sid ?d = Some s1" "row_from sub c s1" by auto
    from Cons.IH [OF this step(2) valid] True show ?thesis by (fastforce simp: ev)
  next
    case False
    with step(1) have "row_of sid ?d = Some s" by auto
    from Cons.IH [OF this Cons.prems(2) step(2) valid] False show ?thesis by (fastforce simp: ev)
  qed
qed

text \<open>C6: Stripe delivers in no particular order: however the created and updated events of a new
  subscription arrive, the row ends up as an event with the greatest creation time wrote it.\<close>

theorem updates_converge:
  assumes "evs \<noteq> []" "uniq sub_clash (subscriptions d)" "row_of sid d = None"
    and "\<forall>(now, fr, sub, c) \<in> set evs. event_valid sid sub c d"
    and "\<forall>(now, fr, sub, c) \<in> set evs. \<forall>x \<in> set (subscriptions d). s_id x \<noteq> fr_id fr"
  shows "\<exists>s sub' c'. row_of sid (deliver_updates E evs d) = Some s \<and> row_from sub' c' s
     \<and> (\<exists>now fr. (now, fr, sub', c') \<in> set evs) \<and> (\<forall>(now, fr, sub, c) \<in> set evs. c \<le> c')"
proof (cases evs)
  case Nil
  with assms(1) show ?thesis by simp
next
  case (Cons ev rest)
  obtain now fr sub c where ev: "ev = (now, fr, sub, c)" by (cases ev)
  let ?d = "snd (handleSubscriptionUpdated E now fr sub c d)"
  have v: "event_valid sid sub c d" and fresh: "\<forall>x \<in> set (subscriptions d). s_id x \<noteq> fr_id fr"
    using assms(4,5) by (simp_all add: Cons ev)
  note step = deliver_creates [OF v assms(3) fresh assms(2), where now = now]
  then obtain s1 where s1: "row_of sid ?d = Some s1" "row_from sub c s1" by blast
  have valid: "\<forall>(now, fr, sub, c) \<in> set rest. event_valid sid sub c ?d"
    using assms(4) event_valid_cong [OF handle_frame(1-3) [of E now fr sub c d]] by (auto simp: Cons ev)
  from deliver_keeps_newest [OF s1 step(2) valid] show ?thesis
    by (fastforce simp: Cons ev)
qed

definition demo_updates :: "(int \<times> fresh \<times> stripe_sub \<times> int) list" where
  "demo_updates = [(1, demo_fresh ''s1'', demo_sub ''active'', 20), (2, demo_fresh ''s2'', demo_sub ''past_due'', 30),
     (3, demo_fresh ''s3'', demo_sub ''trialing'', 10)]"

theorem updates_converge_witness:
  "\<exists>s sub' c'. row_of ''sub1'' (deliver_updates demo_env demo_updates demo_billing) = Some s \<and> row_from sub' c' s
     \<and> (\<exists>now fr. (now, fr, sub', c') \<in> set demo_updates)
     \<and> (\<forall>(now, fr, sub, c) \<in> set demo_updates. c \<le> c')"
proof (rule updates_converge)
  show "\<forall>(now, fr, sub, c) \<in> set demo_updates. event_valid ''sub1'' sub c demo_billing"
    by (simp add: demo_updates_def) (simp add: event_valid_def demo_sub_def has_owner_plan_def plan_by_id_def
        demo_billing_def demo_plan_def owner_error_def user_by_id_def demo_db_def demo_user_def)
qed (simp_all add: demo_updates_def demo_billing_def demo_db_def empty_db_def row_of_def)

end
