(* ===== verification/Login.thy ===== *)
theory Login
  imports Users Samples
begin

text \<open>
  Registration and password login of \<open>src/modules/auth/auth.service.js\<close>: the account lookup by
  normalised address, the lockout counter, the generic 401, the gates for banned and suspended
  accounts, the second-factor challenge and the issue of a session.  A handler reads the clock once;
  the source reads it again for some comparisons, a few milliseconds later.
\<close>

section \<open>Constants\<close>

definition VERIFICATION_TOKEN_TTL_MS :: int where
  "VERIFICATION_TOKEN_TTL_MS = 24 * 60 * 60 * 1000"

definition MAX_FAILED_ATTEMPTS :: nat where
  "MAX_FAILED_ATTEMPTS = 5"

definition LOCK_DURATION_MS :: int where
  "LOCK_DURATION_MS = 15 * 60 * 1000"

section \<open>Registration\<close>

text \<open>A row with the schema's column defaults.\<close>

definition new_user :: "int \<Rightarrow> string \<Rightarrow> string \<Rightarrow> user" where
  "new_user now i email =
     \<lparr>u_id = i, u_email = email, u_password = None, u_name = None, u_googleId = None, u_role = USER,
      u_emailVerified = False, u_emailVerificationToken = None, u_emailVerificationExpires = None,
      u_pendingEmail = None, u_passwordResetToken = None, u_passwordResetExpires = None,
      u_tokenVersion = 0, u_failedLoginAttempts = 0, u_lockedUntil = None, u_lastLoginAt = None,
      u_banned = False, u_bannedAt = None, u_suspendedUntil = None, u_deletedAt = None,
      u_twoFactorEnabled = False, u_twoFactorSecret = None, u_twoFactorBackupCodes = [],
      u_lastTotpTimeStep = None, u_createdAt = now, u_updatedAt = now,
      u_stripeCustomerId = None\<rparr>"

record auth_response =
  ar_user :: safe_user
  ar_token :: string
  ar_refreshToken :: string
  ar_emailVerificationToken :: "string option"

definition register ::
  "env \<Rightarrow> int \<Rightarrow> client \<Rightarrow> fresh \<Rightarrow> string \<Rightarrow> string \<Rightarrow> string \<Rightarrow> db \<Rightarrow> auth_response result \<times> db" where
  "register E now cl fr name email password d =
     (let normalizedEmail = normalizeEmail email
      in if live_user_by_email normalizedEmail d \<noteq> None
         then (Inl (httpError ''errors.emailAlreadyRegistered'' 409), d)
         else
           (let emailVerificationToken = fr_token fr;
                row = (new_user now (fr_id fr) normalizedEmail)
                        \<lparr>u_name := Some (js_trim name),
                         u_password := Some (hashPassword E (fr_salt fr) password),
                         u_emailVerificationToken := Some (hashToken E emailVerificationToken),
                         u_emailVerificationExpires := Some (now + VERIFICATION_TOKEN_TTL_MS)\<rparr>
            in case insert_row user_clash row (users d) of
                 Inl e \<Rightarrow>
                   (Inl (if e = P2002 then httpError ''errors.emailAlreadyRegistered'' 409 else e), d)
               | Inr us \<Rightarrow>
                   await (createRefreshTokenRecord E now cl fr (u_id row) (d\<lparr>users := us\<rparr>))
                     (\<lambda>refreshToken d2.
                        await (queueVerificationEmail E normalizedEmail emailVerificationToken
                                 (Some (js_trim name)) (reqLocale cl) d2)
                          (\<lambda>_ d3.
                             (Inr \<lparr>ar_user = userSelect row, ar_token = accessTokenFor E now row,
                                   ar_refreshToken = refreshToken,
                                   ar_emailVerificationToken =
                                     (if EXPOSE_DEV_TOKENS E then Some emailVerificationToken else None)\<rparr>, d3)))))"

section \<open>Login\<close>

datatype login_outcome =
    LoggedIn (lo_user: safe_user) (lo_token: string) (lo_refreshToken: string)
  | TwoFactorRequired (lo_challengeToken: string)

text \<open>
  \<open>isLocked\<close>, and the reset of a lock that has expired: the row is cleared in the database and in
  the copy the handler goes on with.
\<close>

definition is_locked :: "int \<Rightarrow> user option \<Rightarrow> bool" where
  "is_locked now user = (case user of None \<Rightarrow> False | Some u \<Rightarrow> after (u_lockedUntil u) now)"

definition clear_lock :: "user \<Rightarrow> user" where
  "clear_lock u = u\<lparr>u_failedLoginAttempts := 0, u_lockedUntil := None\<rparr>"

definition reset_expired_lock :: "int \<Rightarrow> user option \<Rightarrow> db \<Rightarrow> user option \<times> db" where
  "reset_expired_lock now user d =
     (case user of
        None \<Rightarrow> (None, d)
      | Some u \<Rightarrow>
          if u_lockedUntil u \<noteq> None \<and> \<not> after (u_lockedUntil u) now
          then (Some (clear_lock u), update_user now (u_id u) clear_lock d)
          else (Some u, d))"

definition password_valid :: "env \<Rightarrow> string \<Rightarrow> bool \<Rightarrow> user option \<Rightarrow> bool" where
  "password_valid E password locked user =
     (case user of
        None \<Rightarrow> False
      | Some u \<Rightarrow>
          truthy (u_password u) \<and> \<not> locked \<and> comparePassword E password (the (u_password u)))"

text \<open>The failure branch: count the attempt, lock at the limit, write the audit entry.\<close>

definition count_failed_login :: "int \<Rightarrow> user option \<Rightarrow> bool \<Rightarrow> db \<Rightarrow> db" where
  "count_failed_login now user locked d =
     (case user of
        None \<Rightarrow> d
      | Some u \<Rightarrow>
          if locked then d
          else
            (let d1 = update_user now (u_id u)
                        (\<lambda>x. x\<lparr>u_failedLoginAttempts := u_failedLoginAttempts x + 1\<rparr>) d;
                 attempts = (case user_by_id (u_id u) d1 of
                               None \<Rightarrow> 0 | Some x \<Rightarrow> u_failedLoginAttempts x)
             in if attempts \<ge> MAX_FAILED_ATTEMPTS
                then update_user now (u_id u)
                       (\<lambda>x. x\<lparr>u_lockedUntil := Some (now + LOCK_DURATION_MS)\<rparr>) d1
                else d1))"

definition login_failed ::
  "env \<Rightarrow> int \<Rightarrow> client \<Rightarrow> string \<Rightarrow> user option \<Rightarrow> bool \<Rightarrow> db \<Rightarrow> 'a result \<times> db" where
  "login_failed E now cl email user locked d =
     (Inl (httpError ''errors.invalidCredentials'' 401),
      auditLog E now USER_LOGIN_FAILED
        (no_audit_data\<lparr>ad_userId := map_option u_id user, ad_ipAddress := ipAddress cl,
                       ad_userAgent := userAgent cl,
                       ad_metadata := [(''email'', JStr (normalizeEmail email))]\<rparr>)
        (count_failed_login now user locked d))"

text \<open>The success branch: account gates, second factor, session.\<close>

definition start_session ::
  "env \<Rightarrow> int \<Rightarrow> client \<Rightarrow> fresh \<Rightarrow> user \<Rightarrow> db \<Rightarrow> login_outcome result \<times> db" where
  "start_session E now cl fr u d =
     await (createRefreshTokenRecord E now cl fr (u_id u) d) (\<lambda>refreshToken d1.
       let d2 = update_user now (u_id u)
                  (\<lambda>x. (clear_lock x)\<lparr>u_lastLoginAt := Some now\<rparr>) d1;
           safeUser = userSelect (case user_by_id (u_id u) d2 of None \<Rightarrow> u | Some x \<Rightarrow> x)
       in (Inr (LoggedIn safeUser (accessTokenFor E now u) refreshToken), d2))"

definition login_allowed ::
  "env \<Rightarrow> int \<Rightarrow> client \<Rightarrow> fresh \<Rightarrow> user \<Rightarrow> db \<Rightarrow> login_outcome result \<times> db" where
  "login_allowed E now cl fr u d =
     (if u_banned u then (Inl (httpError ''errors.accountBanned'' 403), d)
      else if after (u_suspendedUntil u) now
      then (Inl (accountSuspended (u_suspendedUntil u)), d)
      else if u_twoFactorEnabled u
      then await (createChallenge E now fr (u_id u) d)
             (\<lambda>challengeToken d1. (Inr (TwoFactorRequired challengeToken), d1))
      else start_session E now cl fr u d)"

definition login ::
  "env \<Rightarrow> int \<Rightarrow> client \<Rightarrow> fresh \<Rightarrow> string \<Rightarrow> string \<Rightarrow> db \<Rightarrow> login_outcome result \<times> db" where
  "login E now cl fr email password d =
     (let found = live_user_by_email (normalizeEmail email) d;
          locked = is_locked now found;
          (user, d1) = reset_expired_lock now found d
      in if \<not> password_valid E password locked user
         then login_failed E now cl email user locked d1
         else login_allowed E now cl fr (the user) d1)"

section \<open>The two outcomes of the password check\<close>

lemma reset_expired_lock_None [simp]: "reset_expired_lock now None d = (None, d)"
  by (simp add: reset_expired_lock_def)

lemma reset_expired_lock_Some:
  "fst (reset_expired_lock now (Some u) d) = Some u \<or>
   fst (reset_expired_lock now (Some u) d) = Some (clear_lock u)"
  by (simp add: reset_expired_lock_def)

lemma reset_expired_lock_unlocked [simp]:
  "u_lockedUntil u = None \<Longrightarrow> reset_expired_lock now (Some u) d = (Some u, d)"
  by (simp add: reset_expired_lock_def)

lemma clear_lock_sel [simp]:
  "u_id (clear_lock u) = u_id u" "u_password (clear_lock u) = u_password u"
  "u_email (clear_lock u) = u_email u" "u_role (clear_lock u) = u_role u"
  "u_tokenVersion (clear_lock u) = u_tokenVersion u" "u_banned (clear_lock u) = u_banned u"
  "u_suspendedUntil (clear_lock u) = u_suspendedUntil u"
  "u_twoFactorEnabled (clear_lock u) = u_twoFactorEnabled u"
  "u_deletedAt (clear_lock u) = u_deletedAt u"
  "u_failedLoginAttempts (clear_lock u) = 0" "u_lockedUntil (clear_lock u) = None"
  "user_key (clear_lock u) = user_key u"
  by (simp_all add: clear_lock_def user_key_def)

text \<open>The user the password belongs to, when the login may go on.\<close>

definition credentials_ok :: "env \<Rightarrow> int \<Rightarrow> string \<Rightarrow> string \<Rightarrow> db \<Rightarrow> user option" where
  "credentials_ok E now email password d =
     (case live_user_by_email (normalizeEmail email) d of
        None \<Rightarrow> None
      | Some u \<Rightarrow>
          if truthy (u_password u) \<and> comparePassword E password (the (u_password u))
             \<and> \<not> after (u_lockedUntil u) now
          then Some u else None)"

lemma login_cases:
  obtains (failed) d1 user where "credentials_ok E now email password d = None"
      "login E now cl fr email password d =
         login_failed E now cl email user (is_locked now (live_user_by_email (normalizeEmail email) d)) d1"
  | (allowed) u u' d1 where "credentials_ok E now email password d = Some u"
      "u' = u \<or> u' = clear_lock u" "users d1 = users d \<or> users d1 = users (update_user now (u_id u) clear_lock d)"
      "login E now cl fr email password d = login_allowed E now cl fr u' d1"
proof (cases "live_user_by_email (normalizeEmail email) d")
  case None
  then show ?thesis
    by (intro failed) (simp_all add: credentials_ok_def login_def password_valid_def)
next
  case (Some u)
  show ?thesis
  proof (cases "credentials_ok E now email password d")
    case None
    with Some show ?thesis
      by (intro failed [of "fst (reset_expired_lock now (Some u) d)" "snd (reset_expired_lock now (Some u) d)"])
        (auto simp: credentials_ok_def login_def password_valid_def is_locked_def
          reset_expired_lock_def split: if_splits)
  next
    case (Some u0)
    with \<open>live_user_by_email (normalizeEmail email) d = Some u\<close> show ?thesis
      by (intro allowed [of u "the (fst (reset_expired_lock now (Some u) d))"
            "snd (reset_expired_lock now (Some u) d)"])
        (auto simp: credentials_ok_def login_def password_valid_def is_locked_def
          reset_expired_lock_def split: if_splits)
  qed
qed

lemma login_failed_result [simp]:
  "fst (login_failed E now cl email user locked d) = Inl (httpError ''errors.invalidCredentials'' 401)"
  by (simp add: login_failed_def)

lemma createRefreshTokenRecord_Inl:
  "createRefreshTokenRecord E now cl fr uid d = (Inl e, d') \<Longrightarrow> e = P2002"
  by (auto simp: createRefreshTokenRecord_def Let_def split: sum.splits dest: insert_row_InlD)

lemma createChallenge_Inl: "createChallenge E now fr uid d = (Inl e, d') \<Longrightarrow> e = P2002"
  by (auto simp: createChallenge_def Let_def split: sum.splits dest: insert_row_InlD)

lemma login_allowed_not_401:
  "fst (login_allowed E now cl fr u d) \<noteq> Inl (httpError ''errors.invalidCredentials'' 401)"
  by (auto simp: login_allowed_def start_session_def accountSuspended_def httpError_def Let_def
      split: await_splits dest!: createRefreshTokenRecord_Inl createChallenge_Inl)

lemma login_allowed_LoggedIn:
  assumes "fst (login_allowed E now cl fr u d) = Inr (LoggedIn su t rt)"
  shows "\<not> u_banned u" "\<not> after (u_suspendedUntil u) now" "\<not> u_twoFactorEnabled u"
    "t = accessTokenFor E now u" "rt = signRefreshToken E now (fr_jti fr) (RefreshClaims (u_id u))"
  using assms
  by (auto simp: login_allowed_def start_session_def Let_def split: if_splits await_splits
      dest!: createRefreshTokenRecord_Inr(1))

lemma login_refused:
  assumes "credentials_ok E now email password d = None"
  shows "fst (login E now cl fr email password d) = Inl (httpError ''errors.invalidCredentials'' 401)"
  by (rule login_cases [of E now email password d cl fr]) (simp_all add: assms)

text \<open>C7: A login is refused with the generic 401 exactly when no live account has the normalised
  address, or it has no password, or the password is wrong, or the account is locked: the four cases
  give the same answer, and no other refusal of login uses it.\<close>

theorem login_401_iff:
  "fst (login E now cl fr email password d) = Inl (httpError ''errors.invalidCredentials'' 401)
     \<longleftrightarrow> credentials_ok E now email password d = None"
  by (rule login_cases [of E now email password d cl fr]) (simp_all add: login_allowed_not_401)

text \<open>C20: A login answers with a session only for the live account of the normalised address, with
  the right password, not locked, not banned, not suspended, and without a second factor; the
  access token carries that account's id and token version.\<close>

theorem login_session_sound:
  assumes "fst (login E now cl fr email password d) = Inr (LoggedIn su t rt)"
  shows "\<exists>u. live_user_by_email (normalizeEmail email) d = Some u
     \<and> comparePassword E password (the (u_password u)) \<and> \<not> after (u_lockedUntil u) now
     \<and> \<not> u_banned u \<and> \<not> after (u_suspendedUntil u) now \<and> \<not> u_twoFactorEnabled u
     \<and> t = accessTokenFor E now u"
proof (rule login_cases [of E now email password d cl fr])
  fix d1 user
  assume "login E now cl fr email password d = login_failed E now cl email user
    (is_locked now (live_user_by_email (normalizeEmail email) d)) d1"
  with assms show ?thesis by simp
next
  fix u u' d1
  assume ok: "credentials_ok E now email password d = Some u" and u': "u' = u \<or> u' = clear_lock u"
    and eq: "login E now cl fr email password d = login_allowed E now cl fr u' d1"
  from eq assms have *: "fst (login_allowed E now cl fr u' d1) = Inr (LoggedIn su t rt)" by simp
  have "accessTokenFor E now u' = accessTokenFor E now u"
    using u' by (auto simp: accessTokenFor_def)
  with login_allowed_LoggedIn [OF *] u' ok show ?thesis
    by (auto simp: credentials_ok_def split: option.splits if_splits)
qed

theorem login_session_sound_witness:
  "\<exists>u. live_user_by_email (normalizeEmail '' A@x'') demo_db = Some u
     \<and> comparePassword demo_env ''pw'' (the (u_password u)) \<and> \<not> after (u_lockedUntil u) 5
     \<and> \<not> u_banned u \<and> \<not> after (u_suspendedUntil u) 5 \<and> \<not> u_twoFactorEnabled u
     \<and> lo_token (projr (fst (login demo_env 5 demo_client (demo_fresh ''z'') '' A@x'' ''pw'' demo_db)))
         = accessTokenFor demo_env 5 u"
proof (rule login_session_sound)
  show "fst (login demo_env 5 demo_client (demo_fresh ''z'') '' A@x'' ''pw'' demo_db) =
      Inr (LoggedIn (userSelect (demo_user ''u1'' ''a@x''))
            (lo_token (projr (fst (login demo_env 5 demo_client (demo_fresh ''z'') '' A@x'' ''pw'' demo_db))))
            (lo_refreshToken (projr (fst (login demo_env 5 demo_client (demo_fresh ''z'') '' A@x'' ''pw'' demo_db)))))"
    by code_simp
qed

section \<open>Lockout\<close>

text \<open>A run of login attempts on one address: the database after them.\<close>

fun login_many ::
  "env \<Rightarrow> string \<Rightarrow> (int \<times> client \<times> fresh \<times> string) list \<Rightarrow> db \<Rightarrow> db" where
  "login_many E email [] d = d"
| "login_many E email ((now, cl, fr, password) # as) d =
     login_many E email as (snd (login E now cl fr email password d))"

lemma login_many_append:
  "login_many E email (as @ bs) d = login_many E email bs (login_many E email as d)"
  by (induction as arbitrary: d) auto

lemma user_key_counters [simp]:
  "user_key (u\<lparr>u_failedLoginAttempts := n\<rparr>) = user_key u"
  "user_key (u\<lparr>u_lockedUntil := t\<rparr>) = user_key u"
  "user_key (u\<lparr>u_lastLoginAt := t\<rparr>) = user_key u"
  by (simp_all add: user_key_def)

lemma count_failed_login_uniq:
  "uniq user_clash (users d) \<Longrightarrow> uniq user_clash (users (count_failed_login now user locked d))"
  by (auto simp: count_failed_login_def Let_def update_user_uniq split: option.splits)

text \<open>One wrong password on an unlocked account: the counter goes up, and at the limit locks.\<close>

lemma login_wrong_password:
  fixes now :: int and cl :: client and fr :: fresh
  assumes uniq: "uniq user_clash (users d)"
    and found: "live_user_by_email (normalizeEmail email) d = Some u"
    and unlocked: "u_lockedUntil u = None"
    and wrong: "\<not> comparePassword E password (the (u_password u))"
  defines "d' \<equiv> snd (login E now cl fr email password d)"
  shows "uniq user_clash (users d')"
    and "\<exists>u'. live_user_by_email (normalizeEmail email) d' = Some u' \<and> u_password u' = u_password u
           \<and> u_failedLoginAttempts u' = u_failedLoginAttempts u + 1
           \<and> u_lockedUntil u' = (if u_failedLoginAttempts u + 1 \<ge> MAX_FAILED_ATTEMPTS
                then Some (now + LOCK_DURATION_MS) else None)"
proof -
  have by_id: "user_by_id (u_id u) d = Some u"
    using live_user_by_email_user_by_id uniq found by blast
  have d': "users d' = users (count_failed_login now (Some u) False d)"
    using found unlocked wrong
    by (simp add: d'_def login_def password_valid_def is_locked_def login_failed_def)
  then show "uniq user_clash (users d')"
    using count_failed_login_uniq [OF uniq] by simp
  show "\<exists>u'. live_user_by_email (normalizeEmail email) d' = Some u' \<and> u_password u' = u_password u
           \<and> u_failedLoginAttempts u' = u_failedLoginAttempts u + 1
           \<and> u_lockedUntil u' = (if u_failedLoginAttempts u + 1 \<ge> MAX_FAILED_ATTEMPTS
                then Some (now + LOCK_DURATION_MS) else None)"
    using found unlocked by_id
    by (simp add: users_by_id_eq(3) [OF d'] count_failed_login_def Let_def user_by_id_update
        live_user_by_email_update)
qed

lemma login_many_locks:
  assumes "uniq user_clash (users d)" "live_user_by_email (normalizeEmail email) d = Some u"
    and "u_lockedUntil u = None" "as \<noteq> []"
    and "u_failedLoginAttempts u + length as = MAX_FAILED_ATTEMPTS"
    and "\<forall>(now, cl, fr, password) \<in> set as. \<not> comparePassword E password (the (u_password u))"
  shows "\<exists>u'. live_user_by_email (normalizeEmail email) (login_many E email as d) = Some u'
     \<and> u_lockedUntil u' = Some (fst (last as) + LOCK_DURATION_MS) \<and> uniq user_clash (users (login_many E email as d))"
  using assms
proof (induction as arbitrary: d u)
  case Nil
  then show ?case by simp
next
  case (Cons a as)
  obtain now cl fr pw where a: "a = (now, cl, fr, pw)" by (cases a)
  let ?d = "snd (login E now cl fr email pw d)"
  have wrong: "\<not> comparePassword E pw (the (u_password u))"
    using Cons.prems(6) by (simp add: a)
  note step = login_wrong_password [OF Cons.prems(1-3) wrong, where now = now and cl = cl and fr = fr]
  then obtain u1 where u1: "live_user_by_email (normalizeEmail email) ?d = Some u1"
      "u_password u1 = u_password u" "u_failedLoginAttempts u1 = u_failedLoginAttempts u + 1"
      "u_lockedUntil u1 = (if u_failedLoginAttempts u + 1 \<ge> MAX_FAILED_ATTEMPTS
         then Some (now + LOCK_DURATION_MS) else None)"
    by blast
  show ?case
  proof (cases "as = []")
    case True
    with Cons.prems(5) u1 step(1) show ?thesis by (simp add: a)
  next
    case False
    with Cons.prems(5) u1 have "u_lockedUntil u1 = None"
      by (cases as) (auto simp: MAX_FAILED_ATTEMPTS_def)
    with Cons.IH [OF step(1) u1(1) _ False] Cons.prems(5,6) u1(2,3) False show ?thesis
      by (simp add: a)
  qed
qed

text \<open>An account as it stands, and what leaves it so: writes to other accounts, and logins while it is locked.\<close>

definition stands :: "user \<Rightarrow> db \<Rightarrow> bool" where
  "stands u d \<longleftrightarrow> uniq user_clash (users d) \<and> live_user_by_email (u_email u) d = Some u"

lemma stands_users:
  assumes "users d' = users d"
  shows "stands u d' = stands u d"
  unfolding stands_def users_by_id_eq(3) [OF assms] assms ..

lemma stands_update:
  assumes "stands u d" "i \<noteq> u_id u" "\<And>x. user_key (f x) = user_key x"
  shows "stands u (update_user now i f d)"
proof -
  note st = assms(1) [unfolded stands_def]
  have "live_user_by_email (u_email u) (update_user now i f d) =
      map_option (\<lambda>x. if u_id x = i then (f x)\<lparr>u_updatedAt := now\<rparr> else x) (live_user_by_email (u_email u) d)"
  proof (rule live_user_by_email_update)
    fix x
    show "u_email (f x) = u_email x" "u_deletedAt (f x) = u_deletedAt x"
      using assms(3) [of x] unfolding user_key_eq_iff by blast+
  qed
  then have "live_user_by_email (u_email u) (update_user now i f d) = Some u"
    by (simp only: conjunct2 [OF st] option.map assms(2) [symmetric] if_False)
  moreover have "uniq user_clash (users (update_user now i f d))"
    by (rule update_user_uniq [OF conjunct1 [OF st] assms(3)])
  ultimately show ?thesis unfolding stands_def by blast
qed

lemma stands_count:
  "stands u d \<Longrightarrow> u_id v \<noteq> u_id u \<Longrightarrow> stands u (count_failed_login now (Some v) locked d)"
  by (auto simp: count_failed_login_def Let_def intro!: stands_update)

lemma stands_await:
  assumes "stands u (snd m)" "\<And>x d1. m = (Inr x, d1) \<Longrightarrow> stands u (snd (k x d1))"
  shows "stands u (snd (await m k))"
  using assms by (cases m; cases "fst m") auto

lemma stands_login_allowed:
  assumes "stands u d" "u_id v \<noteq> u_id u"
  shows "stands u (snd (login_allowed E now cl fr v d))"
proof -
  have token: "stands u (snd (createRefreshTokenRecord E now cl fr (u_id v) d))"
    using assms(1) by (rule stands_users [THEN iffD2, rotated]) (rule createRefreshTokenRecord_users)
  have challenge: "stands u (snd (createChallenge E now fr (u_id v) d))"
    using assms(1) by (rule stands_users [THEN iffD2, rotated]) (rule createChallenge_frame)
  have "stands u (snd (start_session E now cl fr v d))"
    unfolding start_session_def Let_def
  proof (rule stands_await [OF token])
    fix x d1
    assume "createRefreshTokenRecord E now cl fr (u_id v) d = (Inr x, d1)"
    with token have "stands u d1" by simp
    then have "stands u (update_user now (u_id v) (\<lambda>x. (clear_lock x)\<lparr>u_lastLoginAt := Some now\<rparr>) d1)"
      by (rule stands_update) (use assms(2) in simp_all)
    then show "stands u (snd (Inr (LoggedIn (userSelect (case user_by_id (u_id v)
          (update_user now (u_id v) (\<lambda>x. (clear_lock x)\<lparr>u_lastLoginAt := Some now\<rparr>) d1) of None \<Rightarrow> v | Some x \<Rightarrow> x))
        (accessTokenFor E now v) x), update_user now (u_id v) (\<lambda>x. (clear_lock x)\<lparr>u_lastLoginAt := Some now\<rparr>) d1))"
      by (simp only: snd_conv)
  qed
  moreover have "stands u (snd (await (createChallenge E now fr (u_id v) d) (\<lambda>c d1. (Inr (TwoFactorRequired c), d1))))"
    by (rule stands_await [OF challenge]) (use challenge in simp)
  ultimately show ?thesis using assms(1) by (simp add: login_allowed_def)
qed

lemma stands_login:
  assumes "stands u d" "after (u_lockedUntil u) now"
  shows "stands u (snd (login E now cl fr email password d))"
proof (cases "live_user_by_email (normalizeEmail email) d")
  case None
  with assms(1) show ?thesis
    by (simp add: login_def password_valid_def login_failed_def count_failed_login_def) (simp add: stands_def)
next
  case (Some v)
  show ?thesis
  proof (cases "u_id v = u_id u")
    case True
    have "v = u"
      using True assms(1) live_user_by_email_user_by_id Some unfolding stands_def by (metis option.inject)
    with Some assms show ?thesis
      by (auto simp: login_def is_locked_def reset_expired_lock_def password_valid_def login_failed_def
          count_failed_login_def stands_def)
  next
    case False
    obtain w d1 where r: "reset_expired_lock now (Some v) d = (Some w, d1)"
      using reset_expired_lock_Some [of now v d] by (cases "reset_expired_lock now (Some v) d") auto
    have w: "u_id w = u_id v" "stands u d1"
      using r assms(1) False by (auto simp: reset_expired_lock_def stands_update split: if_splits)
    with False Some r show ?thesis
      by (auto simp: login_def Let_def login_failed_def intro!: stands_login_allowed
          intro: stands_users [THEN iffD2, OF _ stands_count])
  qed
qed

text \<open>Logins on any addresses, one after the other.\<close>

fun logins :: "env \<Rightarrow> (string \<times> int \<times> client \<times> fresh \<times> string) list \<Rightarrow> db \<Rightarrow> db" where
  "logins E [] d = d"
| "logins E ((email, now, cl, fr, password) # as) d = logins E as (snd (login E now cl fr email password d))"

lemma stands_logins:
  "stands u d \<Longrightarrow> \<forall>(em, now, cl, fr, pw) \<in> set as. after (u_lockedUntil u) now \<Longrightarrow> stands u (logins E as d)"
  by (induction as arbitrary: d) (auto simp: stands_login)

text \<open>C4: Five wrong passwords on an account that was not locked lock it: until fifteen minutes after the fifth, every
  login on that address is refused with the generic 401, the right password included, whatever other logins on this or
  any other address come in between.\<close>

theorem lockout:
  assumes "uniq user_clash (users d)" "live_user_by_email (normalizeEmail email) d = Some u"
    and "u_lockedUntil u = None" "u_failedLoginAttempts u = 0"
    and "length as = 5"
    and "\<forall>(now, cl, fr, pw) \<in> set as. \<not> comparePassword E pw (the (u_password u))"
    and "\<forall>(em, now, cl, fr, pw) \<in> set bs. now < fst (last as) + LOCK_DURATION_MS"
    and "now' < fst (last as) + LOCK_DURATION_MS"
  shows "fst (login E now' cl' fr' email password' (logins E bs (login_many E email as d)))
           = Inl (httpError ''errors.invalidCredentials'' 401)"
proof -
  have "as \<noteq> []" "u_failedLoginAttempts u + length as = MAX_FAILED_ATTEMPTS"
    using assms(4,5) by (auto simp: MAX_FAILED_ATTEMPTS_def)
  then obtain u' where u': "live_user_by_email (normalizeEmail email) (login_many E email as d) = Some u'"
      "u_lockedUntil u' = Some (fst (last as) + LOCK_DURATION_MS)" "uniq user_clash (users (login_many E email as d))"
    using login_many_locks [OF assms(1-3) _ _ assms(6)] by blast
  from live_user_by_emailD(2) [OF u'(1)] have em: "u_email u' = normalizeEmail email" .
  with u' have "stands u' (login_many E email as d)" by (simp add: stands_def)
  then have "stands u' (logins E bs (login_many E email as d))"
    by (rule stands_logins) (use assms(7) u'(2) in auto)
  with em u'(2) assms(8) have "credentials_ok E now' email password' (logins E bs (login_many E email as d)) = None"
    by (simp add: credentials_ok_def stands_def)
  then show ?thesis by (rule login_refused)
qed

definition demo_attempts :: "(int \<times> client \<times> fresh \<times> string) list" where
  "demo_attempts = map (\<lambda>i. (i, demo_client, demo_fresh ''z'', ''no'')) [1, 2, 3, 4, 5]"

definition demo_between :: "(string \<times> int \<times> client \<times> fresh \<times> string) list" where
  "demo_between = [(''a@x'', 6, demo_client, demo_fresh ''y'', ''pw''), (''b@x'', 7, demo_client, demo_fresh ''w'', ''pw'')]"

theorem lockout_witness:
  "fst (login demo_env 900004 demo_client (demo_fresh ''z'') ''a@x'' ''pw''
          (logins demo_env demo_between (login_many demo_env ''a@x'' demo_attempts demo_db)))
     = Inl (httpError ''errors.invalidCredentials'' 401)"
proof (rule lockout)
  show "live_user_by_email (normalizeEmail ''a@x'') demo_db = Some (demo_user ''u1'' ''a@x'')"
    by code_simp
  show "uniq user_clash (users demo_db)"
    by (simp add: demo_defs user_clash_def)
  show "length demo_attempts = 5" by (simp add: demo_attempts_def)
  show "\<forall>(now, cl, fr, pw) \<in> set demo_attempts.
      \<not> comparePassword demo_env pw (the (u_password (demo_user ''u1'' ''a@x'')))"
    by (simp add: demo_attempts_def comparePassword_def demo_defs)
  show "\<forall>(em, now, cl, fr, pw) \<in> set demo_between. now < fst (last demo_attempts) + LOCK_DURATION_MS"
    by (simp add: demo_attempts_def demo_between_def LOCK_DURATION_MS_def)
  show "(900004::int) < fst (last demo_attempts) + LOCK_DURATION_MS"
    by (simp add: demo_attempts_def LOCK_DURATION_MS_def)
qed (simp_all add: demo_user_def)

section \<open>Registration and login agree\<close>

lemma find_first_append_None:
  "find_first q s = None \<Longrightarrow> find_first q (s @ t) = find_first q t"
  by (simp add: find_first_append)

lemma register_InrD:
  assumes "register E now cl fr name email password d = (Inr r, d')"
  shows "\<exists>u. live_user_by_email (normalizeEmail email) d' = Some u \<and> u_id u = fr_id fr
     \<and> users d' = users d @ [u]
     \<and> u_password u = Some (hashPassword E (fr_salt fr) password) \<and> u_lockedUntil u = None
     \<and> \<not> u_banned u \<and> u_suspendedUntil u = None \<and> \<not> u_twoFactorEnabled u \<and> u_role u = USER
     \<and> ar_user r = userSelect u"
  using assms
  by (auto simp: register_def Let_def new_user_def live_user_by_email_def find_first_append_None
      queueVerificationEmail_def split: if_splits sum.splits
      elim!: await_InrE dest!: insert_row_InrD createRefreshTokenRecord_Inr(3) enqueueEmailD)

lemma login_new_session:
  assumes ok: "credentials_ok E now email password d = Some u" "u_lockedUntil u = None"
    and "\<not> u_banned u" "\<not> after (u_suspendedUntil u) now" "\<not> u_twoFactorEnabled u"
    and fresh: "\<forall>t \<in> set (refreshTokens d). rt_id t \<noteq> fr_tokenId fr
       \<and> rt_token t \<noteq> hashToken E (signRefreshToken E now (fr_jti fr) (RefreshClaims (u_id u)))"
  shows "\<exists>su rt. fst (login E now cl fr email password d) = Inr (LoggedIn su (accessTokenFor E now u) rt)"
proof -
  have "login E now cl fr email password d = start_session E now cl fr u d"
    using assms(1-5)
    by (auto simp: login_def credentials_ok_def password_valid_def is_locked_def login_allowed_def
        split: option.splits if_splits)
  moreover have "\<exists>rt d1. createRefreshTokenRecord E now cl fr (u_id u) d = (Inr rt, d1)"
    using fresh
    by (auto simp: createRefreshTokenRecord_def Let_def insert_row_def list_ex_iff token_clash_def)
  ultimately show ?thesis by (auto simp: start_session_def Let_def)
qed

text \<open>C26: Whoever registers can log in: after a successful registration, a login with any spelling of
  the address that normalises to the same one and the same password opens a session for the new
  account.\<close>

theorem register_then_login:
  assumes "\<And>salt n p. bcrypt_compare E p (bcrypt_hash E salt n p)"
    and "\<And>salt n p. bcrypt_hash E salt n p \<noteq> []"
    and "register E now cl fr name email password d = (Inr r, d')"
    and "normalizeEmail email' = normalizeEmail email"
    and "\<forall>t \<in> set (refreshTokens d'). rt_id t \<noteq> fr_tokenId fr'
       \<and> rt_token t \<noteq> hashToken E (signRefreshToken E now' (fr_jti fr') (RefreshClaims (fr_id fr)))"
  shows "\<exists>u su rt. fst (login E now' cl' fr' email' password d') = Inr (LoggedIn su (accessTokenFor E now' u) rt)
     \<and> userSelect u = ar_user r"
proof -
  obtain u where u: "live_user_by_email (normalizeEmail email) d' = Some u" "u_id u = fr_id fr"
      "u_password u = Some (hashPassword E (fr_salt fr) password)" "u_lockedUntil u = None"
      "\<not> u_banned u" "u_suspendedUntil u = None" "\<not> u_twoFactorEnabled u" "ar_user r = userSelect u"
    using register_InrD [OF assms(3)] by blast
  have "credentials_ok E now' email' password d' = Some u"
    using u assms(1,2,4) by (simp add: credentials_ok_def comparePassword_def hashPassword_def)
  from login_new_session [OF this u(4,5) _ u(7), of fr' cl'] u assms(5) show ?thesis by auto
qed

theorem register_then_login_witness:
  "\<exists>u su rt. fst (login demo_env 9 demo_client (demo_fresh ''q'') '' C@x'' ''pw2''
       (snd (register demo_env 5 demo_client (demo_fresh ''z'') ''Carl'' ''c@X '' ''pw2'' demo_db)))
     = Inr (LoggedIn su (accessTokenFor demo_env 9 u) rt)
     \<and> userSelect u = ar_user (projr (fst (register demo_env 5 demo_client (demo_fresh ''z'') ''Carl'' ''c@X '' ''pw2'' demo_db)))"
proof (rule register_then_login)
  show "register demo_env 5 demo_client (demo_fresh ''z'') ''Carl'' ''c@X '' ''pw2'' demo_db =
     (Inr (projr (fst (register demo_env 5 demo_client (demo_fresh ''z'') ''Carl'' ''c@X '' ''pw2'' demo_db))),
      snd (register demo_env 5 demo_client (demo_fresh ''z'') ''Carl'' ''c@X '' ''pw2'' demo_db))"
    by code_simp
  show "normalizeEmail '' C@x'' = normalizeEmail ''c@X ''" by code_simp
  show "\<forall>t \<in> set (refreshTokens (snd (register demo_env 5 demo_client (demo_fresh ''z'') ''Carl'' ''c@X '' ''pw2'' demo_db))).
      rt_id t \<noteq> fr_tokenId (demo_fresh ''q'') \<and>
      rt_token t \<noteq> hashToken demo_env (signRefreshToken demo_env 9 (fr_jti (demo_fresh ''q'')) (RefreshClaims (fr_id (demo_fresh ''z''))))"
    by code_simp
qed (simp_all add: demo_env_def)

end
