(* ===== verification/Account.thy ===== *)
theory Account
  imports Sessions Login
begin

text \<open>
  Account self-service of \<open>auth.service.js\<close>: e-mail verification, the password reset, and the
  changes of password and address.
\<close>

definition RESET_TOKEN_TTL_MS :: int where
  "RESET_TOKEN_TTL_MS = 60 * 60 * 1000"

section \<open>E-mail verification\<close>

definition clear_verification :: "user \<Rightarrow> user" where
  "clear_verification u = u\<lparr>u_emailVerificationToken := None, u_emailVerificationExpires := None\<rparr>"

text \<open>\<open>updateData\<close>: a pending address becomes the address.  The empty string is falsy.\<close>

definition mark_verified :: "user \<Rightarrow> user \<Rightarrow> user" where
  "mark_verified user u =
     (let v = (clear_verification u)\<lparr>u_emailVerified := True\<rparr>
      in if truthy (u_pendingEmail user)
         then v\<lparr>u_email := the (u_pendingEmail user), u_pendingEmail := None\<rparr>
         else v)"

definition verifyEmail :: "env \<Rightarrow> int \<Rightarrow> string \<Rightarrow> db \<Rightarrow> string result \<times> db" where
  "verifyEmail E now token d =
     (case find_first (\<lambda>u. u_emailVerificationToken u = Some (hashToken E token)
                           \<and> u_deletedAt u = None) (users d) of
        None \<Rightarrow> (Inl (httpError ''errors.invalidOrExpiredVerificationToken'' 400), d)
      | Some user \<Rightarrow>
          if u_emailVerified user \<and> \<not> truthy (u_pendingEmail user)
          then (Inr ''messages.emailAlreadyVerified'', d)
          else if before (u_emailVerificationExpires user) now
          then (Inl (httpError ''errors.verificationTokenExpired'' 400),
                update_user now (u_id user) clear_verification d)
          else
            (case update_user_unique now (u_id user) (mark_verified user) d of
               Inl e \<Rightarrow>
                 (Inl (if e = P2002 then httpError ''errors.emailAlreadyInUseChangeEmail'' 409 else e), d)
             | Inr d' \<Rightarrow> (Inr ''messages.emailVerifiedSuccessfully'', d')))"

text \<open>
  A handler that mints a token answers with the message key and, in development and test, the token.
  The hash of a fresh token is written to a unique column, so the write may fail.
\<close>

definition resendVerification ::
  "env \<Rightarrow> int \<Rightarrow> client \<Rightarrow> fresh \<Rightarrow> string \<Rightarrow> db \<Rightarrow> (string \<times> string option) result \<times> db" where
  "resendVerification E now cl fr email d =
     (let normalizedEmail = normalizeEmail email
      in case live_user_by_email normalizedEmail d of
           None \<Rightarrow> (Inr (''messages.verificationEmailSent'', None), d)
         | Some user \<Rightarrow>
             if u_emailVerified user then (Inr (''messages.verificationEmailSent'', None), d)
             else
               (case update_user_unique now (u_id user)
                       (\<lambda>u. u\<lparr>u_emailVerificationToken := Some (hashToken E (fr_token fr)),
                              u_emailVerificationExpires := Some (now + VERIFICATION_TOKEN_TTL_MS)\<rparr>) d of
                  Inl e \<Rightarrow> (Inl e, d)
                | Inr d1 \<Rightarrow>
                    await (queueVerificationEmail E normalizedEmail (fr_token fr) (u_name user) (reqLocale cl) d1)
                      (\<lambda>_ d2. (Inr (''messages.verificationEmailSent'',
                          if EXPOSE_DEV_TOKENS E then Some (fr_token fr) else None), d2))))"

section \<open>Password reset\<close>

definition forgotPassword ::
  "env \<Rightarrow> int \<Rightarrow> client \<Rightarrow> fresh \<Rightarrow> string \<Rightarrow> db \<Rightarrow> (string \<times> string option) result \<times> db" where
  "forgotPassword E now cl fr email d =
     (let normalizedEmail = normalizeEmail email
      in case live_user_by_email normalizedEmail d of
           None \<Rightarrow> (Inr (''messages.passwordResetTokenSent'', None), d)
         | Some user \<Rightarrow>
             (case update_user_unique now (u_id user)
                     (\<lambda>u. u\<lparr>u_passwordResetToken := Some (hashToken E (fr_token fr)),
                            u_passwordResetExpires := Some (now + RESET_TOKEN_TTL_MS)\<rparr>) d of
                Inl e \<Rightarrow> (Inl e, d)
              | Inr d1 \<Rightarrow>
                  await (queuePasswordResetEmail E normalizedEmail (fr_token fr) (u_name user) (reqLocale cl) d1)
                    (\<lambda>_ d2. (Inr (''messages.passwordResetTokenSent'',
                        if EXPOSE_DEV_TOKENS E then Some (fr_token fr) else None), d2))))"

definition clear_reset :: "user \<Rightarrow> user" where
  "clear_reset u = u\<lparr>u_passwordResetToken := None, u_passwordResetExpires := None\<rparr>"

definition set_password :: "env \<Rightarrow> string \<Rightarrow> string \<Rightarrow> user \<Rightarrow> user" where
  "set_password E salt newPassword u =
     (bump_version u)\<lparr>u_password := Some (hashPassword E salt newPassword)\<rparr>"

definition resetPassword :: "env \<Rightarrow> int \<Rightarrow> fresh \<Rightarrow> string \<Rightarrow> string \<Rightarrow> db \<Rightarrow> string result \<times> db" where
  "resetPassword E now fr token newPassword d =
     (case find_first (\<lambda>u. u_passwordResetToken u = Some (hashToken E token)
                           \<and> u_deletedAt u = None) (users d) of
        None \<Rightarrow> (Inl (httpError ''errors.invalidOrExpiredResetToken'' 400), d)
      | Some user \<Rightarrow>
          if u_passwordResetExpires user = None \<or> before (u_passwordResetExpires user) now
          then (Inl (httpError ''errors.invalidOrExpiredResetToken'' 400),
                update_user now (u_id user) clear_reset d)
          else
            (Inr ''messages.passwordResetSuccess'',
             revokeAllRefreshTokens now (u_id user)
               (update_user now (u_id user)
                  (\<lambda>u. clear_reset (set_password E (fr_salt fr) newPassword u)) d)))"

definition changePassword ::
  "env \<Rightarrow> int \<Rightarrow> fresh \<Rightarrow> string \<Rightarrow> string \<Rightarrow> string \<Rightarrow> db \<Rightarrow> string result \<times> db" where
  "changePassword E now fr userId currentPassword newPassword d =
     (case live_user_by_id userId d of
        None \<Rightarrow> (Inl (httpError ''errors.userNotFound'' 404), d)
      | Some user \<Rightarrow>
          if \<not> truthy (u_password user) then (Inl (httpError ''errors.accountNoPassword'' 400), d)
          else if \<not> comparePassword E currentPassword (the (u_password user))
          then (Inl (httpError ''errors.currentPasswordIncorrect'' 401), d)
          else if comparePassword E newPassword (the (u_password user))
          then (Inl (httpError ''errors.newPasswordMustDiffer'' 400), d)
          else
            (Inr ''messages.passwordChangedSuccess'',
             revokeAllRefreshTokens now userId
               (update_user now userId (set_password E (fr_salt fr) newPassword) d)))"

section \<open>Change of address, own profile\<close>

definition changeEmail ::
  "env \<Rightarrow> int \<Rightarrow> client \<Rightarrow> fresh \<Rightarrow> string \<Rightarrow> string \<Rightarrow> string \<Rightarrow> db
   \<Rightarrow> (string \<times> string option) result \<times> db" where
  "changeEmail E now cl fr userId newEmail password d =
     (case live_user_by_id userId d of
        None \<Rightarrow> (Inl (httpError ''errors.userNotFound'' 404), d)
      | Some user \<Rightarrow>
          if \<not> truthy (u_password user) then (Inl (httpError ''errors.accountNoPassword'' 400), d)
          else if \<not> comparePassword E password (the (u_password user))
          then (Inl (httpError ''errors.passwordIncorrect'' 401), d)
          else
            (let normalizedNewEmail = normalizeEmail newEmail
             in if live_user_by_email normalizedNewEmail d \<noteq> None
                then (Inl (httpError ''errors.emailAlreadyInUse'' 409), d)
                else if exists_row (\<lambda>u. u_pendingEmail u = Some normalizedNewEmail
                                        \<and> u_deletedAt u = None \<and> u_id u \<noteq> userId) (users d)
                then (Inl (httpError ''errors.emailAlreadyInUse'' 409), d)
                else
                  (case update_user_unique now userId
                          (\<lambda>u. u\<lparr>u_pendingEmail := Some normalizedNewEmail,
                                 u_emailVerificationToken := Some (hashToken E (fr_token fr)),
                                 u_emailVerificationExpires := Some (now + VERIFICATION_TOKEN_TTL_MS)\<rparr>) d of
                     Inl e \<Rightarrow> (Inl e, d)
                   | Inr d1 \<Rightarrow>
                       await (queueVerificationEmail E normalizedNewEmail (fr_token fr) (u_name user)
                                (reqLocale cl) d1)
                         (\<lambda>_ d2. (Inr (''messages.verificationEmailSentToNewAddress'',
                             if EXPOSE_DEV_TOKENS E then Some (fr_token fr) else None), d2)))))"

definition getMe :: "string \<Rightarrow> db \<Rightarrow> safe_user result" where
  "getMe userId d =
     (case live_user_by_id userId d of
        None \<Rightarrow> Inl (httpError ''errors.userNotFound'' 404)
      | Some user \<Rightarrow> Inr (userSelect user))"

section \<open>Helper facts\<close>

text \<open>Clearing columns never makes two rows clash.\<close>

lemma user_clash_clear_reset:
  "user_clash (clear_reset x) y \<Longrightarrow> user_clash x y"
  "user_clash (clear_reset x) (clear_reset y) \<Longrightarrow> user_clash x y"
  by (auto simp: user_clash_def clear_reset_def)

lemma set_password_sel [simp]:
  "u_id (set_password E s p u) = u_id u" "user_key (set_password E s p u) = user_key u"
  "u_tokenVersion (set_password E s p u) = u_tokenVersion u + 1"
  "u_password (set_password E s p u) = Some (hashPassword E s p)"
  "u_email (set_password E s p u) = u_email u" "u_deletedAt (set_password E s p u) = u_deletedAt u"
  "u_lockedUntil (set_password E s p u) = u_lockedUntil u"
  by (simp_all add: set_password_def bump_version_def user_key_def)

lemma clear_reset_sel [simp]:
  "u_id (clear_reset u) = u_id u" "u_tokenVersion (clear_reset u) = u_tokenVersion u"
  "u_password (clear_reset u) = u_password u" "u_email (clear_reset u) = u_email u"
  "u_deletedAt (clear_reset u) = u_deletedAt u" "u_passwordResetToken (clear_reset u) = None"
  by (simp_all add: clear_reset_def)

lemma user_clash_key_left:
  "user_key x' = user_key x \<Longrightarrow> user_clash x' y = user_clash x y"
  by (rule user_clash_key) simp_all

lemma update_user_reset_uniq:
  assumes "uniq user_clash (users d)" "\<And>u. user_key (f u) = user_key (clear_reset u)"
  shows "uniq user_clash (users (update_user now i f d))"
proof -
  have key: "user_key (f u\<lparr>u_updatedAt := now\<rparr>) = user_key (clear_reset u)" for u
    using assms(2) by simp
  show ?thesis
    unfolding update_user_def
  proof simp
    show "uniq user_clash (update_where (\<lambda>u. u_id u = i) (\<lambda>u. f u\<lparr>u_updatedAt := now\<rparr>) (users d))"
    proof (rule user_ix.update_where_keeps [OF assms(1)])
      fix x y
      assume "user_clash (f x\<lparr>u_updatedAt := now\<rparr>) (f y\<lparr>u_updatedAt := now\<rparr>)"
      then show "user_clash x y"
        unfolding user_clash_key [OF key key] by (rule user_clash_clear_reset)
    next
      fix x y
      assume "user_clash (f x\<lparr>u_updatedAt := now\<rparr>) y"
      then show "user_clash x y"
        unfolding user_clash_key_left [OF key] by (rule user_clash_clear_reset)
    qed
  qed
qed

section \<open>What the operations promise\<close>

lemma resetPassword_InrD:
  assumes "resetPassword E now fr token newPassword d = (Inr m, d')"
  shows "\<exists>user. find_first (\<lambda>u. u_passwordResetToken u = Some (hashToken E token)
                           \<and> u_deletedAt u = None) (users d) = Some user
     \<and> \<not> before (u_passwordResetExpires user) now \<and> u_passwordResetExpires user \<noteq> None
     \<and> d' = revokeAllRefreshTokens now (u_id user)
               (update_user now (u_id user)
                  (\<lambda>u. clear_reset (set_password E (fr_salt fr) newPassword u)) d)"
  using assms by (auto simp: resetPassword_def split: option.splits if_splits)

lemma changePassword_InrD:
  assumes "changePassword E now fr userId cur newPassword d = (Inr m, d')"
  shows "\<exists>user. live_user_by_id userId d = Some user
     \<and> comparePassword E cur (the (u_password user))
     \<and> d' = revokeAllRefreshTokens now userId
               (update_user now userId (set_password E (fr_salt fr) newPassword) d)"
  using assms by (auto simp: changePassword_def split: option.splits if_splits)

text \<open>C21: A password reset succeeds only with the unexpired reset token of a live account; it ends every
  session of that account and spends the token: presenting it again is refused.\<close>

theorem resetPassword_effect:
  assumes "uniq user_clash (users d)"
    and "resetPassword E now fr token newPassword d = (Inr m, d')"
  shows "\<exists>user. user \<in> set (users d) \<and> u_deletedAt user = None
     \<and> u_passwordResetToken user = Some (hashToken E token)
     \<and> \<not> before (u_passwordResetExpires user) now
     \<and> no_session_survives E (u_id user) d d'
     \<and> user_by_id (u_id user) d' = Some ((clear_reset (set_password E (fr_salt fr) newPassword user))
           \<lparr>u_updatedAt := now\<rparr>)
     \<and> fst (resetPassword E now2 fr2 token pw2 d')
         = Inl (httpError ''errors.invalidOrExpiredResetToken'' 400)"
proof -
  let ?f = "\<lambda>u. clear_reset (set_password E (fr_salt fr) newPassword u)"
  from resetPassword_InrD [OF assms(2)] obtain user where
    found: "find_first (\<lambda>u. u_passwordResetToken u = Some (hashToken E token)
                           \<and> u_deletedAt u = None) (users d) = Some user"
    and fresh: "\<not> before (u_passwordResetExpires user) now"
    and d': "d' = revokeAllRefreshTokens now (u_id user) (update_user now (u_id user) ?f d)"
    by (elim exE conjE)
  note user = find_first_SomeD [OF found]
  have key: "user_key (?f u) = user_key (clear_reset u)" for u
    by (simp add: user_key_def clear_reset_def set_password_def bump_version_def)
  have us: "users d' = users (update_user now (u_id user) ?f d)"
    by (simp add: d')
  have "no_session_survives E (u_id user) d d'"
  proof (rule sessions_ended_survive)
    show "uniq user_clash (users d')"
      unfolding us by (rule update_user_reset_uniq [OF assms(1) key])
    show "sessions_ended (u_id user) d d'"
      unfolding d' by (rule sessions_ended_update_revoke) simp_all
  qed
  moreover have "user_by_id (u_id user) d' = Some ((?f user)\<lparr>u_updatedAt := now\<rparr>)"
    using user_by_id_unique [OF assms(1) user(1)]
    by (simp add: d' user_by_id_update_same)
  moreover have "fst (resetPassword E now2 fr2 token pw2 d')
         = Inl (httpError ''errors.invalidOrExpiredResetToken'' 400)"
  proof -
    have "u_passwordResetToken u \<noteq> Some (hashToken E token)"
      if u: "u \<in> set (users d')" "u_deletedAt u = None" for u
    proof
      assume tok: "u_passwordResetToken u = Some (hashToken E token)"
      from u(1) consider "u_passwordResetToken u = None" | "u \<in> set (users d)" "u_id u \<noteq> u_id user"
        unfolding us update_user_def by (auto elim: in_update_whereE)
      then show False
      proof cases
        case 1
        with tok show False by simp
      next
        case 2
        have "user_clash u user" using tok user(2) by (simp add: user_clash_def)
        with user_ix.members_apart [OF assms(1) 2(1) user(1)] 2(2) show False by simp
      qed
    qed
    then have "find_first (\<lambda>u. u_passwordResetToken u = Some (hashToken E token)
                           \<and> u_deletedAt u = None) (users d') = None"
      unfolding find_first_None_iff by blast
    then show ?thesis unfolding resetPassword_def by simp
  qed
  ultimately show ?thesis using user fresh by blast
qed

definition demo_reset :: db where
  "demo_reset = demo_sessions\<lparr>users :=
     [(demo_user ''u1'' ''a@x'')\<lparr>u_passwordResetToken := Some ''#tok'', u_passwordResetExpires := Some 100\<rparr>,
      demo_user ''u2'' ''b@x'']\<rparr>"

theorem resetPassword_effect_witness:
  "\<exists>user. user \<in> set (users demo_reset) \<and> u_deletedAt user = None
     \<and> u_passwordResetToken user = Some (hashToken demo_env ''tok'')
     \<and> \<not> before (u_passwordResetExpires user) 5
     \<and> no_session_survives demo_env (u_id user) demo_reset
         (snd (resetPassword demo_env 5 (demo_fresh ''z'') ''tok'' ''new'' demo_reset))
     \<and> user_by_id (u_id user) (snd (resetPassword demo_env 5 (demo_fresh ''z'') ''tok'' ''new'' demo_reset))
         = Some ((clear_reset (set_password demo_env (fr_salt (demo_fresh ''z'')) ''new'' user))
           \<lparr>u_updatedAt := 5\<rparr>)
     \<and> fst (resetPassword demo_env 6 (demo_fresh ''y'') ''tok'' ''p2''
         (snd (resetPassword demo_env 5 (demo_fresh ''z'') ''tok'' ''new'' demo_reset)))
         = Inl (httpError ''errors.invalidOrExpiredResetToken'' 400)"
proof (rule resetPassword_effect)
  show "uniq user_clash (users demo_reset)"
    by (simp add: demo_reset_def demo_defs user_clash_def)
  show "resetPassword demo_env 5 (demo_fresh ''z'') ''tok'' ''new'' demo_reset =
      (Inr ''messages.passwordResetSuccess'',
       snd (resetPassword demo_env 5 (demo_fresh ''z'') ''tok'' ''new'' demo_reset))"
    by code_simp
qed

text \<open>A change of password succeeds only for a live account that presents its current password, ends
  every session of the account, and from then on the login of that account takes the new password.\<close>

theorem changePassword_effect:
  assumes "uniq user_clash (users d)"
    and "changePassword E now fr uid cur newPassword d = (Inr m, d')"
  shows "no_session_survives E uid d d'
     \<and> (\<exists>user. live_user_by_id uid d = Some user \<and> comparePassword E cur (the (u_password user))
          \<and> user_by_id uid d' = Some ((set_password E (fr_salt fr) newPassword user)\<lparr>u_updatedAt := now\<rparr>))"
proof -
  from changePassword_InrD [OF assms(2)] obtain user where
    user: "live_user_by_id uid d = Some user" "comparePassword E cur (the (u_password user))"
    and d': "d' = revokeAllRefreshTokens now uid
               (update_user now uid (set_password E (fr_salt fr) newPassword) d)"
    by (elim exE conjE)
  have "no_session_survives E uid d d'"
  proof (rule sessions_ended_survive)
    show "uniq user_clash (users d')"
      by (simp add: d' update_user_uniq assms(1))
    show "sessions_ended uid d d'"
      unfolding d' by (rule sessions_ended_update_revoke) simp_all
  qed
  moreover have "user_by_id uid d' = Some ((set_password E (fr_salt fr) newPassword user)\<lparr>u_updatedAt := now\<rparr>)"
    using live_user_user_by_id [OF assms(1) user(1)] by (simp add: d' user_by_id_update_same)
  ultimately show ?thesis using user by blast
qed

theorem changePassword_effect_witness:
  "no_session_survives demo_env ''u1'' demo_sessions
      (snd (changePassword demo_env 5 (demo_fresh ''z'') ''u1'' ''pw'' ''new'' demo_sessions))
   \<and> (\<exists>user. live_user_by_id ''u1'' demo_sessions = Some user
          \<and> comparePassword demo_env ''pw'' (the (u_password user))
          \<and> user_by_id ''u1'' (snd (changePassword demo_env 5 (demo_fresh ''z'') ''u1'' ''pw'' ''new'' demo_sessions))
              = Some ((set_password demo_env (fr_salt (demo_fresh ''z'')) ''new'' user)\<lparr>u_updatedAt := 5\<rparr>))"
proof (rule changePassword_effect)
  show "uniq user_clash (users demo_sessions)"
    by (simp add: demo_sessions_def demo_defs user_clash_def)
  show "changePassword demo_env 5 (demo_fresh ''z'') ''u1'' ''pw'' ''new'' demo_sessions =
      (Inr ''messages.passwordChangedSuccess'',
       snd (changePassword demo_env 5 (demo_fresh ''z'') ''u1'' ''pw'' ''new'' demo_sessions))"
    by code_simp
qed

end
