(* ===== verification/OauthState.thy ===== *)
theory OauthState
  imports Runtime
begin

text \<open>
  \<open>src/utils/oauthState.js\<close>: the stateless \<open>state\<close> token of the Google sign-in, a nonce and an
  expiry time signed with HMAC-SHA-256 under \<open>JWT_SECRET\<close>.  The HMAC is a parameter.
\<close>

definition STATE_TTL_MS :: int where
  "STATE_TTL_MS = 10 * 60 * 1000"

definition getSecret :: "env \<Rightarrow> string result" where
  "getSecret E =
     (if JWT_SECRET E = [] then Inl (OtherError ''JWT_SECRET must be set to create an OAuth state token'')
      else Inr (JWT_SECRET E))"

definition sign_state :: "env \<Rightarrow> string \<Rightarrow> string result" where
  "sign_state E payload =
     (case getSecret E of Inl e \<Rightarrow> Inl e | Inr secret \<Rightarrow> Inr (hmac_sha256_hex E secret payload))"

text \<open>The nonce is the hex text of \<open>randomBytes(16)\<close>; times are never negative.\<close>

definition createOAuthState :: "env \<Rightarrow> int \<Rightarrow> string \<Rightarrow> string result" where
  "createOAuthState E now nonce =
     (let expiresAt = now + STATE_TTL_MS;
          payload = nonce @ ''.'' @ show_nat (nat expiresAt)
      in case sign_state E payload of
           Inl e \<Rightarrow> Inl e
         | Inr sig \<Rightarrow> Inr (payload @ ''.'' @ sig))"

definition verifyOAuthState :: "env \<Rightarrow> int \<Rightarrow> string \<Rightarrow> bool result" where
  "verifyOAuthState E now state =
     (case js_split (CHR ''.'') state of
        [nonce, expiresAtRaw, signature] \<Rightarrow>
          (let payload = nonce @ ''.'' @ expiresAtRaw
           in case sign_state E payload of
                Inl e \<Rightarrow> Inl e
              | Inr expected \<Rightarrow>
                  if signature \<noteq> expected then Inr False
                  else case js_number expiresAtRaw of
                         Fin expiresAt \<Rightarrow> Inr (\<not> expiresAt < of_int now)
                       | _ \<Rightarrow> Inr False)
      | _ \<Rightarrow> Inr False)"

lemma dot_not_digit: "\<not> is_digit (CHR ''.'')"
  by code_simp

lemma verifyOAuthState_created:
  assumes "JWT_SECRET E \<noteq> []" "0 \<le> now"
    and "CHR ''.'' \<notin> set nonce" "\<And>k p. CHR ''.'' \<notin> set (hmac_sha256_hex E k p)"
    and "createOAuthState E now nonce = Inr state"
  shows "verifyOAuthState E later state = Inr (later \<le> now + STATE_TTL_MS)"
proof -
  define n where "n = nat (now + STATE_TTL_MS)"
  define payload where "payload = nonce @ ''.'' @ show_nat n"
  define sig where "sig = hmac_sha256_hex E (JWT_SECRET E) payload"
  have st: "state = js_join ''.'' [nonce, show_nat n, sig]"
    using assms(1,5)
    by (simp add: createOAuthState_def sign_state_def getSecret_def Let_def n_def payload_def sig_def)
  have "CHR ''.'' \<notin> set (show_nat n)"
    using show_nat_digits dot_not_digit by blast
  then have split: "js_split (CHR ''.'') state = [nonce, show_nat n, sig]"
    unfolding st using assms(3,4) by (intro js_split_join) (auto simp: sig_def)
  have n: "(of_nat n :: rat) = of_int (now + STATE_TTL_MS)"
    using assms(2) by (simp add: n_def STATE_TTL_MS_def)
  have "verifyOAuthState E later state = Inr (\<not> (of_nat n :: rat) < of_int later)"
    using assms(1) unfolding verifyOAuthState_def split
    by (simp add: sign_state_def getSecret_def Let_def js_number_show_nat sig_def payload_def)
  also have "(\<not> (of_nat n :: rat) < of_int later) = (later \<le> now + STATE_TTL_MS)"
    unfolding n by linarith
  finally show ?thesis .
qed

lemma verifyOAuthState_signed:
  assumes "verifyOAuthState E now state = Inr True"
  shows "\<exists>nonce raw. state = nonce @ ''.'' @ raw @ ''.'' @
           hmac_sha256_hex E (JWT_SECRET E) (nonce @ ''.'' @ raw)"
proof -
  obtain nonce raw sig where parts: "js_split (CHR ''.'') state = [nonce, raw, sig]"
    using assms by (auto simp: verifyOAuthState_def split: list.splits)
  have "sig = hmac_sha256_hex E (JWT_SECRET E) (nonce @ ''.'' @ raw)"
    using assms unfolding verifyOAuthState_def parts
    by (auto simp: sign_state_def getSecret_def Let_def split: if_splits)
  moreover have "state = js_join ''.'' [nonce, raw, sig]"
    using js_join_split [of "CHR ''.''" state] parts by simp
  ultimately show ?thesis by auto
qed

end
