(* ===== verification/GoogleLogin.thy ===== *)
theory GoogleLogin
  imports Login OauthState
begin

text \<open>
  Sign-in with Google (\<open>getGoogleAuthUrl\<close> and \<open>googleLogin\<close> of \<open>auth.service.js\<close>, and
  \<open>src/config/google.js\<close>): the state check, the exchange of the code, the account the identity
  belongs to, and the same gates as the password login.
\<close>

definition isGoogleConfigured :: "env \<Rightarrow> bool" where
  "isGoogleConfigured E \<longleftrightarrow> truthy (GOOGLE_CLIENT_ID E) \<and> truthy (GOOGLE_CLIENT_SECRET E)"

definition getGoogleAuthUrl :: "env \<Rightarrow> int \<Rightarrow> fresh \<Rightarrow> (string \<times> string) result" where
  "getGoogleAuthUrl E now fr =
     (if \<not> isGoogleConfigured E then Inl (httpError ''errors.googleNotConfigured'' 503)
      else case createOAuthState E now (fr_token fr) of
             Inl e \<Rightarrow> Inl e
           | Inr state \<Rightarrow> Inr (google_auth_url E state, state))"

text \<open>The identity behind the code, once Google has vouched for its address.\<close>

definition google_identity :: "env \<Rightarrow> string \<Rightarrow> (string \<times> string \<times> string option) result" where
  "google_identity E code =
     (case google_verify E code (GOOGLE_CLIENT_ID E) of
        None \<Rightarrow> Inl (httpError ''errors.googleAuthFailed'' 401)
      | Some None \<Rightarrow> Inl (httpError ''errors.googleNoProfileInfo'' 400)
      | Some (Some p) \<Rightarrow>
          if \<not> truthy (gp_sub p) \<or> \<not> truthy (gp_email p)
          then Inl (httpError ''errors.googleNoProfileInfo'' 400)
          else if \<not> gp_email_verified p then Inl (httpError ''errors.googleEmailNotVerified'' 401)
          else Inr (the (gp_sub p), normalizeEmail (the (gp_email p)), gp_name p))"

text \<open>
  Steps 1 to 3: the linked account, else the account of the address (linking it), else a new one.
\<close>

definition google_create ::
  "int \<Rightarrow> fresh \<Rightarrow> string \<Rightarrow> string \<Rightarrow> string option \<Rightarrow> db \<Rightarrow> user result \<times> db" where
  "google_create now fr googleId email name d =
     (let row = (new_user now (fr_id fr) email)
                  \<lparr>u_name := name, u_googleId := Some googleId, u_emailVerified := True\<rparr>
      in case insert_row user_clash row (users d) of
           Inr us \<Rightarrow> (Inr row, d\<lparr>users := us\<rparr>)
         | Inl e \<Rightarrow>
             if e \<noteq> P2002 then (Inl e, d)
             else
               (case find_first (\<lambda>u. (u_googleId u = Some googleId \<or> u_email u = email)
                                     \<and> u_deletedAt u = None) (users d) of
                  None \<Rightarrow> (Inl e, d)
                | Some u \<Rightarrow> (Inr u, d)))"

definition google_account ::
  "int \<Rightarrow> fresh \<Rightarrow> string \<Rightarrow> string \<Rightarrow> string option \<Rightarrow> db \<Rightarrow> user result \<times> db" where
  "google_account now fr googleId email name d =
     (case find_first (\<lambda>u. u_googleId u = Some googleId \<and> u_deletedAt u = None) (users d) of
        Some u \<Rightarrow> (Inr u, d)
      | None \<Rightarrow>
          (case live_user_by_email email d of
             None \<Rightarrow> google_create now fr googleId email name d
           | Some u \<Rightarrow>
               if truthy (u_googleId u) \<and> u_googleId u \<noteq> Some googleId
               then (Inl (httpError ''errors.emailLinkedToAnotherGoogle'' 409), d)
               else
                 (let link = (\<lambda>u. u\<lparr>u_googleId := Some googleId, u_emailVerified := True\<rparr>)
                  in case update_user_unique now (u_id u) link d of
                       Inl e \<Rightarrow> (Inl e, d)
                     | Inr d1 \<Rightarrow> (Inr ((link u)\<lparr>u_updatedAt := now\<rparr>), d1))))"

definition google_session ::
  "env \<Rightarrow> int \<Rightarrow> client \<Rightarrow> fresh \<Rightarrow> user \<Rightarrow> db \<Rightarrow> login_outcome result \<times> db" where
  "google_session E now cl fr user d =
     (if u_banned user then (Inl (httpError ''errors.accountBanned'' 403), d)
      else if after (u_suspendedUntil user) now
      then (Inl (accountSuspended (u_suspendedUntil user)), d)
      else if u_twoFactorEnabled user
      then await (createChallenge E now fr (u_id user) d)
             (\<lambda>challengeToken d1. (Inr (TwoFactorRequired challengeToken), d1))
      else
        (let d1 = update_user now (u_id user) (\<lambda>u. u\<lparr>u_lastLoginAt := Some now\<rparr>) d;
             fetched = (case user_by_id (u_id user) d1 of None \<Rightarrow> user | Some u \<Rightarrow> u)
         in await (createRefreshTokenRecord E now cl fr (u_id user) d1) (\<lambda>refreshToken d2.
              (Inr (LoggedIn (userSelect fetched)
                      (signToken E now (AccessClaims (u_id user) (u_email user) (u_role user)
                         (u_tokenVersion fetched)))
                      refreshToken), d2))))"

definition googleLogin ::
  "env \<Rightarrow> int \<Rightarrow> client \<Rightarrow> fresh \<Rightarrow> string \<Rightarrow> string \<Rightarrow> db \<Rightarrow> login_outcome result \<times> db" where
  "googleLogin E now cl fr code state d =
     (if \<not> isGoogleConfigured E then (Inl (httpError ''errors.googleNotConfigured'' 503), d)
      else case verifyOAuthState E now state of
             Inl e \<Rightarrow> (Inl e, d)
           | Inr ok \<Rightarrow>
               if \<not> ok then (Inl (httpError ''errors.invalidOrExpiredOAuthState'' 401), d)
               else case google_identity E code of
                      Inl e \<Rightarrow> (Inl e, d)
                    | Inr (googleId, email, name) \<Rightarrow>
                        await (google_account now fr googleId email name d)
                          (\<lambda>user d1. google_session E now cl fr user d1))"

section \<open>Which account an identity reaches\<close>

lemma update_user_unique_Inr:
  assumes "update_user_unique now i f d = Inr d'"
  shows "d' = update_user now i f d" "uniq user_clash (users d')"
  using assms
  by (auto simp: update_user_unique_def update_user_def split: sum.splits dest: update_row_InrD)

lemma google_create_Inr:
  assumes "google_create now fr gid email name d = (Inr u, d')"
  shows "u_deletedAt u = None \<and> (u_googleId u = Some gid \<or> u_email u = email)"
  using assms
  by (auto simp: google_create_def new_user_def Let_def split: sum.splits if_splits option.splits
      dest!: find_first_SomeD(2))

lemma google_account_Inr:
  assumes "google_account now fr gid email name d = (Inr u, d')"
  shows "u_deletedAt u = None \<and> (u_googleId u = Some gid \<or> u_email u = email)"
  using assms
  by (auto simp: google_account_def Let_def live_user_by_email_def
      split: option.splits if_splits sum.splits
      dest!: find_first_SomeD(2) google_create_Inr)

lemma google_session_LoggedIn:
  assumes "google_session E now cl fr user d = (Inr (LoggedIn su t rt), d')"
  shows "\<not> u_banned user \<and> \<not> after (u_suspendedUntil user) now \<and> \<not> u_twoFactorEnabled user"
  using assms
  by (auto simp: google_session_def Let_def split: if_splits elim!: await_InrE)

lemma googleLogin_InrD:
  assumes "googleLogin E now cl fr code state d = (Inr r, d')"
  shows "\<exists>gid email name user d1. verifyOAuthState E now state = Inr True
     \<and> google_identity E code = Inr (gid, email, name)
     \<and> google_account now fr gid email name d = (Inr user, d1)
     \<and> google_session E now cl fr user d1 = (Inr r, d')"
  using assms
  by (auto simp: googleLogin_def split: if_splits sum.splits prod.splits elim!: await_InrE)

lemma google_identity_InrD:
  assumes "google_identity E code = Inr (gid, email, name)"
  shows "\<exists>p. google_verify E code (GOOGLE_CLIENT_ID E) = Some (Some p) \<and> gp_email_verified p
     \<and> gp_sub p = Some gid \<and> gid \<noteq> [] \<and> (\<exists>e. gp_email p = Some e \<and> email = normalizeEmail e)"
  using assms
  by (auto simp: google_identity_def truthy_def split: option.splits if_splits)

text \<open>A Google sign-in that opens a session has passed the state check with a state this server
  signed, an identity whose address Google calls verified, and an account that carries this Google id
  or this address, is neither deleted, banned nor suspended, and has no second factor.\<close>

theorem googleLogin_session_sound:
  assumes "googleLogin E now cl fr code state d = (Inr (LoggedIn su t rt), d')"
  shows "(\<exists>nonce raw. state = nonce @ ''.'' @ raw @ ''.'' @
            hmac_sha256_hex E (JWT_SECRET E) (nonce @ ''.'' @ raw))
     \<and> (\<exists>p gid e (user :: user). google_verify E code (GOOGLE_CLIENT_ID E) = Some (Some p) \<and> gp_email_verified p
          \<and> gp_sub p = Some gid \<and> gp_email p = Some e
          \<and> (u_googleId user = Some gid \<or> u_email user = normalizeEmail e)
          \<and> u_deletedAt user = None \<and> \<not> u_banned user \<and> \<not> after (u_suspendedUntil user) now
          \<and> \<not> u_twoFactorEnabled user)"
proof -
  from googleLogin_InrD [OF assms] obtain gid email name user d1 where
    st: "verifyOAuthState E now state = Inr True"
    and idn: "google_identity E code = Inr (gid, email, name)"
    and acc: "google_account now fr gid email name d = (Inr user, d1)"
    and ses: "google_session E now cl fr user d1 = (Inr (LoggedIn su t rt), d')"
    by (elim exE conjE)
  from google_identity_InrD [OF idn] obtain p e where
    p: "google_verify E code (GOOGLE_CLIENT_ID E) = Some (Some p)" "gp_email_verified p"
      "gp_sub p = Some gid" "gp_email p = Some e" "email = normalizeEmail e"
    by (elim exE conjE)
  from google_account_Inr [OF acc] google_session_LoggedIn [OF ses] p
  have "google_verify E code (GOOGLE_CLIENT_ID E) = Some (Some p) \<and> gp_email_verified p
          \<and> gp_sub p = Some gid \<and> gp_email p = Some e
          \<and> (u_googleId user = Some gid \<or> u_email user = normalizeEmail e)
          \<and> u_deletedAt user = None \<and> \<not> u_banned user \<and> \<not> after (u_suspendedUntil user) now
          \<and> \<not> u_twoFactorEnabled user"
    by simp
  then have "\<exists>p gid e (user :: user). google_verify E code (GOOGLE_CLIENT_ID E) = Some (Some p)
          \<and> gp_email_verified p \<and> gp_sub p = Some gid \<and> gp_email p = Some e
          \<and> (u_googleId user = Some gid \<or> u_email user = normalizeEmail e)
          \<and> u_deletedAt user = None \<and> \<not> u_banned user \<and> \<not> after (u_suspendedUntil user) now
          \<and> \<not> u_twoFactorEnabled user"
    by (intro exI)
  with verifyOAuthState_signed [OF st] show ?thesis by (rule conjI)
qed

definition demo_state :: string where
  "demo_state = projr (createOAuthState demo_env 0 ''n'')"

lemma demo_state_ok: "verifyOAuthState demo_env 5 demo_state = Inr True"
proof -
  have "createOAuthState demo_env 0 ''n'' = Inr demo_state"
    by (simp add: demo_state_def createOAuthState_def sign_state_def getSecret_def demo_env_def)
  from verifyOAuthState_created [OF _ _ _ _ this, of 5] show ?thesis
    by (simp add: demo_env_def STATE_TTL_MS_def)
qed

lemma demo_google_run:
  "google_identity demo_env ''gid'' = Inr (''gid'', ''a@x'', None)"
  "fst (google_account 5 (demo_fresh ''z'') ''gid'' ''a@x'' None demo_db) =
     Inr ((demo_user ''u1'' ''a@x'')\<lparr>u_googleId := Some ''gid'', u_updatedAt := 5\<rparr>)"
  "fst (google_session demo_env 5 demo_client (demo_fresh ''z'')
      ((demo_user ''u1'' ''a@x'')\<lparr>u_googleId := Some ''gid'', u_updatedAt := 5\<rparr>)
      (snd (google_account 5 (demo_fresh ''z'') ''gid'' ''a@x'' None demo_db))) =
     Inr (LoggedIn (userSelect (demo_user ''u1'' ''a@x'')) ''Aku10'' ''Rru1z'')"
  "isGoogleConfigured demo_env"
  by code_simp+

lemma demo_google_login:
  "fst (googleLogin demo_env 5 demo_client (demo_fresh ''z'') ''gid'' demo_state demo_db) =
     Inr (LoggedIn (userSelect (demo_user ''u1'' ''a@x'')) ''Aku10'' ''Rru1z'')"
proof -
  obtain r d1 where "google_account 5 (demo_fresh ''z'') ''gid'' ''a@x'' None demo_db = (r, d1)"
    by (rule prod.exhaust)
  with demo_google_run demo_state_ok show ?thesis by (simp add: googleLogin_def)
qed

theorem googleLogin_session_sound_witness:
  "(\<exists>nonce raw. demo_state = nonce @ ''.'' @ raw @ ''.'' @
            hmac_sha256_hex demo_env (JWT_SECRET demo_env) (nonce @ ''.'' @ raw))
     \<and> (\<exists>p gid e (user :: user). google_verify demo_env ''gid'' (GOOGLE_CLIENT_ID demo_env) = Some (Some p)
          \<and> gp_email_verified p \<and> gp_sub p = Some gid \<and> gp_email p = Some e
          \<and> (u_googleId user = Some gid \<or> u_email user = normalizeEmail e)
          \<and> u_deletedAt user = None \<and> \<not> u_banned user \<and> \<not> after (u_suspendedUntil user) (5::int)
          \<and> \<not> u_twoFactorEnabled user)"
proof (rule googleLogin_session_sound)
  show "googleLogin demo_env 5 demo_client (demo_fresh ''z'') ''gid'' demo_state demo_db =
      (Inr (LoggedIn (userSelect (demo_user ''u1'' ''a@x'')) ''Aku10'' ''Rru1z''),
       snd (googleLogin demo_env 5 demo_client (demo_fresh ''z'') ''gid'' demo_state demo_db))"
    by (simp add: prod_eq_iff demo_google_login)
qed

end
