(* ===== verification/SecretCrypto.thy ===== *)
theory SecretCrypto
  imports Runtime
begin

text \<open>
  \<open>src/utils/secretCrypto.js\<close>: AES-256-GCM encryption of application secrets at rest.  The cipher
  and SHA-256 are parameters (fields of \<open>env\<close>); the stored format \<open>enc:v1:\<close> followed by the
  base64 of nonce, tag and ciphertext is modelled down to the bits, with Node's lenient base64
  decoder, and shown to read back what was written.
\<close>

section \<open>Base64\<close>

text \<open>The standard alphabet: letters, digits, \<open>+\<close> and \<open>/\<close>.\<close>

definition b64_char :: "nat \<Rightarrow> char" where
  "b64_char v =
     (if v < 26 then char_of (v + 65) else if v < 52 then char_of (v + 71)
      else if v < 62 then char_of (v - 4) else if v = 62 then CHR ''+'' else CHR ''/'')"

text \<open>
  The value of a character for the decoder: Node also takes the URL-safe \<open>-\<close> and \<open>_\<close>, and skips
  every other character.
\<close>

definition b64_value :: "char \<Rightarrow> nat option" where
  "b64_value c =
     (let n = char_code c in
      if 65 \<le> n \<and> n \<le> 90 then Some (n - 65)
      else if 97 \<le> n \<and> n \<le> 122 then Some (n - 71)
      else if 48 \<le> n \<and> n \<le> 57 then Some (n + 4)
      else if n = 43 \<or> n = 45 then Some 62
      else if n = 47 \<or> n = 95 then Some 63
      else None)"

fun b64_encode :: "string \<Rightarrow> string" where
  "b64_encode [] = []"
| "b64_encode [a] =
     (let x = char_code a in [b64_char (x div 4), b64_char (x mod 4 * 16), CHR ''='', CHR ''=''])"
| "b64_encode [a, b] =
     (let x = char_code a; y = char_code b
      in [b64_char (x div 4), b64_char (x mod 4 * 16 + y div 16), b64_char (y mod 16 * 4), CHR ''=''])"
| "b64_encode (a # b # c # s) =
     (let x = char_code a; y = char_code b; z = char_code c
      in [b64_char (x div 4), b64_char (x mod 4 * 16 + y div 16),
          b64_char (y mod 16 * 4 + z div 64), b64_char (z mod 64)] @ b64_encode s)"

fun b64_bytes :: "nat list \<Rightarrow> string" where
  "b64_bytes (p # q # r # t # vs) =
     [char_of (p * 4 + q div 16), char_of (q mod 16 * 16 + r div 4), char_of (r mod 4 * 64 + t)]
       @ b64_bytes vs"
| "b64_bytes [p, q, r] = [char_of (p * 4 + q div 16), char_of (q mod 16 * 16 + r div 4)]"
| "b64_bytes [p, q] = [char_of (p * 4 + q div 16)]"
| "b64_bytes [p] = []"
| "b64_bytes [] = []"

definition b64_decode :: "string \<Rightarrow> string" where
  "b64_decode s = b64_bytes (List.map_filter b64_value s)"

lemma b64_value_char [simp]: "v < 64 \<Longrightarrow> b64_value (b64_char v) = Some v"
  by (auto simp: b64_value_def b64_char_def Let_def char_code_def)

lemma b64_value_pad [simp]: "b64_value (CHR ''='') = None"
  by code_simp

lemma char_code_recombine:
  "char_of (char_code a div 4 * 4 + char_code a mod 4) = a"
  "x < 4 \<Longrightarrow> y < 16 \<Longrightarrow> (x * 16 + y) div 16 = x \<and> (x * 16 + y) mod 16 = (y::nat)"
  "x < 16 \<Longrightarrow> y < 4 \<Longrightarrow> (x * 4 + y) div 4 = x \<and> (x * 4 + y) mod 4 = (y::nat)"
  by (simp_all add: char_code_def)

lemma char_of_code [simp]: "char_of (char_code a) = a"
  by (simp add: char_code_def)

lemma div_mod_16: "y < 256 \<Longrightarrow> y div 16 < (16::nat)" "y < 256 \<Longrightarrow> y div 64 < (4::nat)"
  "y < 256 \<Longrightarrow> y div 4 < (64::nat)"
  by auto

lemma b64_decode_encode: "b64_decode (b64_encode s) = s"
proof -
  have "b64_bytes (List.map_filter b64_value (b64_encode s)) = s"
  proof (induction s rule: b64_encode.induct)
    case 1
    then show ?case by (simp add: List.map_filter_simps)
  next
    case (2 a)
    have "char_code a div 4 < 64" "char_code a mod 4 * 16 < 64"
      using char_code_less [of a] by linarith+
    then show ?case by (simp add: Let_def List.map_filter_simps)
  next
    case (3 a b)
    have "char_code a div 4 < 64" "char_code a mod 4 * 16 + char_code b div 16 < 64"
      "char_code b mod 16 * 4 < 64"
      using char_code_less [of a] char_code_less [of b] by linarith+
    then show ?case
      using char_code_less [of b] by (simp add: Let_def List.map_filter_simps char_code_recombine div_mod_16)
  next
    case (4 a b c s)
    have "char_code a div 4 < 64" "char_code a mod 4 * 16 + char_code b div 16 < 64"
      "char_code b mod 16 * 4 + char_code c div 64 < 64"
      using char_code_less [of a] char_code_less [of b] char_code_less [of c] by linarith+
    with 4 show ?case
      using char_code_less [of b] char_code_less [of c]
      by (simp add: Let_def List.map_filter_simps char_code_recombine div_mod_16)
  qed
  then show ?thesis by (simp add: b64_decode_def)
qed

section \<open>Encryption at rest\<close>

definition ENC_PREFIX :: string where
  "ENC_PREFIX = ''enc:v1:''"

definition IV_LENGTH :: nat where
  "IV_LENGTH = 12"

definition TAG_LENGTH :: nat where
  "TAG_LENGTH = 16"

text \<open>\<open>getKey\<close>: \<open>||\<close> also skips an empty \<open>SECRET_ENCRYPTION_KEY\<close>.\<close>

definition getKey :: "env \<Rightarrow> string result" where
  "getKey E =
     (let source = (if truthy (SECRET_ENCRYPTION_KEY E) then the (SECRET_ENCRYPTION_KEY E)
                    else JWT_SECRET E)
      in if source = []
         then Inl (OtherError ''SECRET_ENCRYPTION_KEY or JWT_SECRET must be set to encrypt secrets'')
         else Inr (sha256_bytes E source))"

definition encryptSecret :: "env \<Rightarrow> string \<Rightarrow> string \<Rightarrow> string result" where
  "encryptSecret E iv plaintext =
     (case getKey E of
        Inl e \<Rightarrow> Inl e
      | Inr key \<Rightarrow>
          (let (encrypted, tag) = aes_gcm_encrypt E key iv plaintext
           in Inr (ENC_PREFIX @ b64_encode (iv @ tag @ encrypted))))"

text \<open>A value without the prefix is legacy plain text; a failed authentication throws.\<close>

definition decryptSecret :: "env \<Rightarrow> string \<Rightarrow> string result" where
  "decryptSecret E stored =
     (if \<not> starts_with stored ENC_PREFIX then Inr stored
      else let raw = b64_decode (drop (length ENC_PREFIX) stored);
               iv = take IV_LENGTH raw;
               tag = take TAG_LENGTH (drop IV_LENGTH raw);
               ciphertext = drop (IV_LENGTH + TAG_LENGTH) raw
           in case getKey E of
                Inl e \<Rightarrow> Inl e
              | Inr key \<Rightarrow>
                  (case aes_gcm_decrypt E key iv tag ciphertext of
                     None \<Rightarrow> Inl (OtherError ''Unsupported state or unable to authenticate data'')
                   | Some p \<Rightarrow> Inr p))"

text \<open>What Node documents of the cipher: a 16-byte tag, and decryption undoes encryption.\<close>

definition gcm_ok :: "env \<Rightarrow> bool" where
  "gcm_ok E \<longleftrightarrow> (\<forall>key iv p ct tag. aes_gcm_encrypt E key iv p = (ct, tag) \<longrightarrow>
     length tag = TAG_LENGTH \<and> aes_gcm_decrypt E key iv tag ct = Some p)"

lemma decrypt_encrypt:
  assumes "gcm_ok E" "length iv = IV_LENGTH" "encryptSecret E iv p = Inr stored"
  shows "decryptSecret E stored = Inr p"
proof -
  obtain key where key: "getKey E = Inr key"
    using assms(3) by (auto simp: encryptSecret_def split: sum.splits)
  obtain ct tag where enc: "aes_gcm_encrypt E key iv p = (ct, tag)" by fastforce
  have stored: "stored = ENC_PREFIX @ b64_encode (iv @ tag @ ct)"
    using assms(3) key enc by (simp add: encryptSecret_def)
  have "length tag = TAG_LENGTH" "aes_gcm_decrypt E key iv tag ct = Some p"
    using assms(1) enc unfolding gcm_ok_def by blast+
  then show ?thesis
    using assms(2) key by (simp add: decryptSecret_def stored b64_decode_encode Let_def)
qed

lemma legacy_plaintext: "\<not> starts_with s ENC_PREFIX \<Longrightarrow> decryptSecret E s = Inr s"
  by (simp add: decryptSecret_def)

end
