(* ===== verification/TwoFactor.thy ===== *)
theory TwoFactor
  imports Sessions SecretCrypto
begin

text \<open>
  \<open>src/modules/auth/twofa.service.js\<close>: TOTP set-up, enabling and disabling the second factor, and
  the login challenge with its attempt limit, its one-time claim and the backup codes.  A handler
  reads the clock once.
\<close>

section \<open>Constants and backup codes\<close>

definition BACKUP_CODE_COUNT :: nat where
  "BACKUP_CODE_COUNT = 10"

definition MAX_CHALLENGE_ATTEMPTS :: nat where
  "MAX_CHALLENGE_ATTEMPTS = 5"

definition ISSUER :: "env \<Rightarrow> string" where
  "ISSUER E = (if truthy (APP_NAME E) then the (APP_NAME E) else ''SaaS Boilerplate'')"

definition TOTP_EPOCH_TOLERANCE :: "int \<times> int" where
  "TOTP_EPOCH_TOLERANCE = (30, 0)"

definition hashBackupCode :: "env \<Rightarrow> string \<Rightarrow> string" where
  "hashBackupCode E code = sha256_hex E code"

text \<open>\<open>Buffer.from(s, 'hex')\<close>: the bytes up to the first pair that is not two hex digits.\<close>

definition hex_digit :: "char \<Rightarrow> nat option" where
  "hex_digit c = radix_digit c"

fun hex_bytes :: "string \<Rightarrow> nat list" where
  "hex_bytes (a # b # s) =
     (case (hex_digit a, hex_digit b) of
        (Some x, Some y) \<Rightarrow> (16 * x + y) # hex_bytes s
      | _ \<Rightarrow> [])"
| "hex_bytes _ = []"

definition compareBackupCode :: "env \<Rightarrow> string \<Rightarrow> string \<Rightarrow> bool" where
  "compareBackupCode E code hashed =
     (if starts_with hashed ''$2'' then bcrypt_compare E code hashed
      else hex_bytes (hashBackupCode E code) = hex_bytes hashed)"

section \<open>Set-up, enable, disable\<close>

definition twofaSetup ::
  "env \<Rightarrow> int \<Rightarrow> string \<Rightarrow> string \<Rightarrow> string \<Rightarrow> db \<Rightarrow> (string \<times> string \<times> string) result \<times> db" where
  "twofaSetup E now secret iv userId d =
     (case live_user_by_id userId d of
        None \<Rightarrow> (Inl (httpError ''errors.userNotFound'' 404), d)
      | Some user \<Rightarrow>
          if u_twoFactorEnabled user then (Inl (httpError ''errors.twoFactorAlreadyEnabled'' 400), d)
          else
            (let otpauth = otp_uri E secret (u_email user) (ISSUER E)
             in case encryptSecret E iv secret of
                  Inl e \<Rightarrow> (Inl e, d)
                | Inr stored \<Rightarrow>
                    (Inr (secret, qr_code E otpauth, otpauth),
                     update_user now userId (\<lambda>u. u\<lparr>u_twoFactorSecret := Some stored\<rparr>) d)))"

text \<open>
  The code check of \<open>enable\<close>: an exception, from a code of the wrong shape or a secret that does
  not decrypt, counts as invalid.
\<close>

definition totp_check :: "env \<Rightarrow> int \<Rightarrow> string \<Rightarrow> string option \<Rightarrow> int option \<Rightarrow> int option" where
  "totp_check E now code secret afterStep =
     (case secret of
        None \<Rightarrow> None
      | Some stored \<Rightarrow>
          (case decryptSecret E stored of
             Inl _ \<Rightarrow> None
           | Inr s \<Rightarrow>
               (case totp_verify E code s TOTP_EPOCH_TOLERANCE afterStep now of
                  TotpThrows \<Rightarrow> None
                | TotpResult valid step \<Rightarrow> if valid then Some step else None)))"

text \<open>\<open>codes\<close>: the hex texts of the \<open>BACKUP_CODE_COUNT\<close> calls of \<open>randomBytes(6)\<close>.\<close>

definition twofaEnable ::
  "env \<Rightarrow> int \<Rightarrow> string list \<Rightarrow> string \<Rightarrow> string \<Rightarrow> db
   \<Rightarrow> (string \<times> string list) result \<times> db" where
  "twofaEnable E now codes userId code d =
     (case live_user_by_id userId d of
        None \<Rightarrow> (Inl (httpError ''errors.userNotFound'' 404), d)
      | Some user \<Rightarrow>
          if u_twoFactorEnabled user then (Inl (httpError ''errors.twoFactorAlreadyEnabled'' 400), d)
          else if \<not> truthy (u_twoFactorSecret user)
          then (Inl (httpError ''errors.twoFactorSetupFirst'' 400), d)
          else if totp_check E now code (u_twoFactorSecret user) None = None
          then (Inl (httpError ''errors.invalidVerificationCode'' 400), d)
          else
            (let backupCodes = take BACKUP_CODE_COUNT codes;
                 hashedCodes = map (hashBackupCode E) backupCodes;
                 d1 = update_user now userId
                        (\<lambda>u. (bump_version u)\<lparr>u_twoFactorEnabled := True,
                               u_twoFactorBackupCodes := hashedCodes\<rparr>) d;
                 d2 = revokeAllRefreshTokens now userId d1
             in (Inr (''messages.twoFactorEnabled'', backupCodes), d2)))"

definition twofaDisable :: "env \<Rightarrow> int \<Rightarrow> string \<Rightarrow> string \<Rightarrow> db \<Rightarrow> string result \<times> db" where
  "twofaDisable E now userId password d =
     (case live_user_by_id userId d of
        None \<Rightarrow> (Inl (httpError ''errors.userNotFound'' 404), d)
      | Some user \<Rightarrow>
          if \<not> u_twoFactorEnabled user then (Inl (httpError ''errors.twoFactorNotEnabled'' 400), d)
          else if \<not> truthy (u_password user) then (Inl (httpError ''errors.accountNoPassword'' 400), d)
          else if \<not> comparePassword E password (the (u_password user))
          then (Inl (httpError ''errors.passwordIncorrect'' 401), d)
          else
            (let d1 = update_user now userId
                        (\<lambda>u. (bump_version u)\<lparr>u_twoFactorEnabled := False, u_twoFactorSecret := None,
                               u_twoFactorBackupCodes := [], u_lastTotpTimeStep := None\<rparr>) d;
                 d2 = revokeAllRefreshTokens now userId d1
             in (Inr ''messages.twoFactorDisabled'', d2)))"

section \<open>The login challenge\<close>

record login_success =
  ls_user :: safe_user
  ls_token :: string
  ls_refreshToken :: string
  ls_backupCodeUsed :: bool

text \<open>Writes to one challenge row.\<close>

definition update_challenge ::
  "(two_factor_challenge \<Rightarrow> bool) \<Rightarrow> (two_factor_challenge \<Rightarrow> two_factor_challenge) \<Rightarrow> db \<Rightarrow> db" where
  "update_challenge p f d =
     d\<lparr>twoFactorChallenges := update_where p f (twoFactorChallenges d)\<rparr>"

text \<open>A failed code: count it, and refuse the challenge for good at the limit.\<close>

definition challenge_failed :: "two_factor_challenge \<Rightarrow> db \<Rightarrow> 'a result \<times> db" where
  "challenge_failed stored d =
     (let d1 = update_challenge (\<lambda>c. ch_id c = ch_id stored) (\<lambda>c. c\<lparr>ch_attempts := ch_attempts c + 1\<rparr>) d;
          attempts = (case find_first (\<lambda>c. ch_id c = ch_id stored) (twoFactorChallenges d1) of
                        None \<Rightarrow> 0 | Some c \<Rightarrow> ch_attempts c)
      in if attempts \<ge> MAX_CHALLENGE_ATTEMPTS
         then (Inl (httpError ''errors.tooManyVerificationAttempts'' 401), d1)
         else (Inl (httpError ''errors.invalidVerificationCode'' 401), d1))"

text \<open>
  A correct code: claim the challenge with an update guarded by \<open>used: false\<close>, consume the backup
  code if one was used, reset the lockout counters, pin the TOTP step, and issue the session.
\<close>

definition challenge_claim ::
  "env \<Rightarrow> int \<Rightarrow> client \<Rightarrow> fresh \<Rightarrow> two_factor_challenge \<Rightarrow> user \<Rightarrow> int option \<Rightarrow> string option \<Rightarrow> db
   \<Rightarrow> login_success result \<times> db" where
  "challenge_claim E now cl fr stored user totpTimeStep matchedBackupHash d =
     (let claimable = (\<lambda>c. ch_id c = ch_id stored \<and> \<not> ch_used c);
          claimed = count_where claimable (twoFactorChallenges d);
          d1 = update_challenge claimable (\<lambda>c. c\<lparr>ch_used := True\<rparr>) d
      in if claimed = 0 then (Inl (httpError ''errors.challengeAlreadyUsed'' 401), d1)
         else
           (let d2 = (case matchedBackupHash of
                        None \<Rightarrow> d1
                      | Some h \<Rightarrow>
                          update_user now (u_id user)
                            (\<lambda>u. u\<lparr>u_twoFactorBackupCodes :=
                                     filter (\<lambda>x. x \<noteq> h) (u_twoFactorBackupCodes user)\<rparr>) d1);
                d3 = update_user now (u_id user)
                       (\<lambda>u. u\<lparr>u_failedLoginAttempts := 0, u_lockedUntil := None,
                              u_lastLoginAt := Some now,
                              u_lastTotpTimeStep :=
                                (case totpTimeStep of None \<Rightarrow> u_lastTotpTimeStep u | Some s \<Rightarrow> Some s)\<rparr>) d2;
                safeUser = userSelect (case user_by_id (u_id user) d3 of None \<Rightarrow> user | Some u \<Rightarrow> u)
            in await (createRefreshTokenRecord E now cl fr (u_id user) d3) (\<lambda>refreshToken d4.
                 (Inr \<lparr>ls_user = safeUser,
                       ls_token = accessTokenFor E now user,
                       ls_refreshToken = refreshToken,
                       ls_backupCodeUsed = (matchedBackupHash \<noteq> None)\<rparr>, d4))))"

definition verifyChallenge ::
  "env \<Rightarrow> int \<Rightarrow> client \<Rightarrow> fresh \<Rightarrow> string \<Rightarrow> string \<Rightarrow> db \<Rightarrow> login_success result \<times> db" where
  "verifyChallenge E now cl fr challengeToken code d =
     (case find_first (\<lambda>c. ch_token c = hashToken E challengeToken) (twoFactorChallenges d) of
        None \<Rightarrow> (Inl (httpError ''errors.invalidOrExpiredChallenge'' 401), d)
      | Some stored \<Rightarrow>
          if ch_used stored then (Inl (httpError ''errors.challengeAlreadyUsed'' 401), d)
          else if ch_attempts stored \<ge> MAX_CHALLENGE_ATTEMPTS
          then (Inl (httpError ''errors.tooManyVerificationAttempts'' 401), d)
          else if ch_expiresAt stored < now
          then (Inl (httpError ''errors.challengeExpired'' 401),
                d\<lparr>twoFactorChallenges :=
                    delete_where (\<lambda>c. ch_id c = ch_id stored) (twoFactorChallenges d)\<rparr>)
          else
            (case user_by_id (ch_userId stored) d of
               None \<Rightarrow> (Inl (OtherError ''Inconsistent query result: user is required''), d)
             | Some user \<Rightarrow>
                 if u_deletedAt user \<noteq> None
                 then (Inl (httpError ''errors.invalidOrExpiredChallenge'' 401), d)
                 else if u_banned user then (Inl (httpError ''errors.accountBanned'' 403), d)
                 else if after (u_suspendedUntil user) now
                 then (Inl (accountSuspended (u_suspendedUntil user)), d)
                 else
                   (let totp = totp_check E now code (u_twoFactorSecret user) (u_lastTotpTimeStep user);
                        matched = (if totp \<noteq> None then None
                                   else find_first (compareBackupCode E code)
                                          (u_twoFactorBackupCodes user));
                        matchedBackupHash = (if truthy matched then matched else None)
                    in if totp = None \<and> matchedBackupHash = None then challenge_failed stored d
                       else challenge_claim E now cl fr stored user totp matchedBackupHash d)))"

section \<open>Enabling and disabling end every session\<close>

lemma sessions_ended_update_after:
  assumes "uniq user_clash (users d)" "\<And>u. u_id (f u) = u_id u"
    and "\<And>u. user_key (f u) = user_key u" "\<And>u. u_tokenVersion (f u) = u_tokenVersion u + 1"
  shows "no_session_survives E uid d (revokeAllRefreshTokens now uid (update_user now uid f d))"
  by (rule sessions_ended_survive)
    (simp_all add: update_user_uniq assms sessions_ended_update_revoke)

text \<open>C33: Turning the second factor on or off ends every session the account had: a session stolen
  before the change does not outlive it.\<close>

theorem twofa_change_kills:
  assumes "uniq user_clash (users d)"
    and "twofaEnable E now codes uid code d = (Inr m, d') \<or> twofaDisable E now uid password d = (Inr m', d')"
  shows "no_session_survives E uid d d'"
  using assms(2)
proof
  assume "twofaEnable E now codes uid code d = (Inr m, d')"
  then have "d' = revokeAllRefreshTokens now uid (update_user now uid
      (\<lambda>u. (bump_version u)\<lparr>u_twoFactorEnabled := True, u_twoFactorBackupCodes :=
         map (hashBackupCode E) (take BACKUP_CODE_COUNT codes)\<rparr>) d)"
    by (auto simp: twofaEnable_def Let_def split: option.splits if_splits)
  then show ?thesis
    using assms(1)
    by (simp add: sessions_ended_update_after bump_version_def user_key_def)
next
  assume "twofaDisable E now uid password d = (Inr m', d')"
  then have "d' = revokeAllRefreshTokens now uid (update_user now uid
      (\<lambda>u. (bump_version u)\<lparr>u_twoFactorEnabled := False, u_twoFactorSecret := None,
              u_twoFactorBackupCodes := [], u_lastTotpTimeStep := None\<rparr>) d)"
    by (auto simp: twofaDisable_def Let_def split: option.splits if_splits)
  then show ?thesis
    using assms(1)
    by (simp add: sessions_ended_update_after bump_version_def user_key_def)
qed

definition demo_2fa_user :: user where
  "demo_2fa_user = (demo_user ''u1'' ''a@x'')\<lparr>u_twoFactorEnabled := True,
     u_twoFactorSecret := Some ''sec'', u_twoFactorBackupCodes := [''$2bk'']\<rparr>"

definition demo_2fa :: db where
  "demo_2fa = demo_sessions\<lparr>users := [demo_2fa_user, demo_user ''u2'' ''b@x''],
     twoFactorChallenges := [\<lparr>ch_id = ''c1'', ch_token = ''#ct'', ch_userId = ''u1'', ch_expiresAt = 100,
       ch_used = False, ch_attempts = 0, ch_createdAt = 0\<rparr>]\<rparr>"

theorem twofa_change_kills_witness:
  "no_session_survives demo_env ''u1'' demo_2fa (snd (twofaDisable demo_env 5 ''u1'' ''pw'' demo_2fa))"
proof (rule twofa_change_kills)
  show "uniq user_clash (users demo_2fa)"
    by (simp add: demo_2fa_def demo_2fa_user_def demo_defs user_clash_def)
  have "fst (twofaDisable demo_env 5 ''u1'' ''pw'' demo_2fa) = Inr ''messages.twoFactorDisabled''"
    by code_simp
  then show "twofaEnable demo_env 5 [] ''u1'' [] demo_2fa =
        (Inr undefined, snd (twofaDisable demo_env 5 ''u1'' ''pw'' demo_2fa))
      \<or> twofaDisable demo_env 5 ''u1'' ''pw'' demo_2fa =
        (Inr ''messages.twoFactorDisabled'', snd (twofaDisable demo_env 5 ''u1'' ''pw'' demo_2fa))"
    by (simp add: prod_eq_iff)
qed

section \<open>What a verified challenge has checked\<close>

text \<open>The backup-code hash the code matches, when there is one.\<close>

definition matched_backup :: "env \<Rightarrow> string \<Rightarrow> user \<Rightarrow> string option" where
  "matched_backup E code user =
     (let m = find_first (compareBackupCode E code) (u_twoFactorBackupCodes user)
      in if truthy m then m else None)"

definition code_accepted :: "env \<Rightarrow> int \<Rightarrow> user \<Rightarrow> string \<Rightarrow> bool" where
  "code_accepted E now user code \<longleftrightarrow>
     totp_check E now code (u_twoFactorSecret user) (u_lastTotpTimeStep user) \<noteq> None
   \<or> matched_backup E code user \<noteq> None"

lemma verifyChallenge_InrD:
  assumes "verifyChallenge E now cl fr c code d = (Inr r, d')"
  shows "\<exists>stored user. find_first (\<lambda>x. ch_token x = hashToken E c) (twoFactorChallenges d) = Some stored
     \<and> \<not> ch_used stored \<and> ch_attempts stored < MAX_CHALLENGE_ATTEMPTS \<and> now \<le> ch_expiresAt stored
     \<and> user_by_id (ch_userId stored) d = Some user \<and> u_deletedAt user = None \<and> \<not> u_banned user
     \<and> \<not> after (u_suspendedUntil user) now \<and> code_accepted E now user code
     \<and> challenge_claim E now cl fr stored user
          (totp_check E now code (u_twoFactorSecret user) (u_lastTotpTimeStep user))
          (if totp_check E now code (u_twoFactorSecret user) (u_lastTotpTimeStep user) \<noteq> None then None
           else matched_backup E code user) d = (Inr r, d')"
  using assms
  by (auto simp: verifyChallenge_def challenge_failed_def code_accepted_def matched_backup_def Let_def
      split: option.splits if_splits)

lemma createRefreshTokenRecord_tables:
  "createRefreshTokenRecord E now cl fr uid d = (Inr rt, d') \<Longrightarrow>
   users d' = users d \<and> twoFactorChallenges d' = twoFactorChallenges d"
  using createRefreshTokenRecord_Inr(3,4) by blast

lemma challenge_claim_InrD:
  assumes "challenge_claim E now cl fr stored user step backup d = (Inr r, d')"
  shows "twoFactorChallenges d' = update_where (\<lambda>c. ch_id c = ch_id stored \<and> \<not> ch_used c)
           (\<lambda>c. c\<lparr>ch_used := True\<rparr>) (twoFactorChallenges d)"
    and "ls_backupCodeUsed r = (backup \<noteq> None)"
    and "users d' = users (update_user now (u_id user)
            (\<lambda>u. u\<lparr>u_failedLoginAttempts := 0, u_lockedUntil := None, u_lastLoginAt := Some now,
                   u_lastTotpTimeStep := (case step of None \<Rightarrow> u_lastTotpTimeStep u | Some s \<Rightarrow> Some s)\<rparr>)
            (case backup of None \<Rightarrow> d
             | Some h \<Rightarrow> update_user now (u_id user)
                 (\<lambda>u. u\<lparr>u_twoFactorBackupCodes := filter (\<lambda>x. x \<noteq> h) (u_twoFactorBackupCodes user)\<rparr>) d))"
  using assms
  by (auto simp: challenge_claim_def Let_def update_challenge_def update_user_def
      split: if_splits option.splits elim!: await_InrE
      dest!: createRefreshTokenRecord_tables)

lemma verifyChallenge_used:
  assumes "find_first (\<lambda>x. ch_token x = hashToken E c) (twoFactorChallenges d) = Some stored"
    and "ch_used stored"
  shows "fst (verifyChallenge E now cl fr c code d) = Inl (httpError ''errors.challengeAlreadyUsed'' 401)"
  using assms by (simp add: verifyChallenge_def)

text \<open>A login challenge opens a session only while unused, unexpired and below five failed codes,
  for a live account in good standing, and only for an accepted code; and it opens at most one: from
  then on every use of the challenge is refused.\<close>

theorem challenge_one_session:
  assumes "verifyChallenge E now cl fr c code d = (Inr r, d')"
  shows "\<exists>stored user. stored \<in> set (twoFactorChallenges d) \<and> ch_token stored = hashToken E c
     \<and> \<not> ch_used stored \<and> ch_attempts stored < 5 \<and> now \<le> ch_expiresAt stored
     \<and> user_by_id (ch_userId stored) d = Some user \<and> u_deletedAt user = None \<and> \<not> u_banned user
     \<and> \<not> after (u_suspendedUntil user) now \<and> code_accepted E now user code
     \<and> fst (verifyChallenge E now' cl' fr' c code' d')
         = Inl (httpError ''errors.challengeAlreadyUsed'' 401)"
proof -
  from verifyChallenge_InrD [OF assms] obtain stored user where
    st: "find_first (\<lambda>x. ch_token x = hashToken E c) (twoFactorChallenges d) = Some stored"
    and ok: "\<not> ch_used stored" "ch_attempts stored < MAX_CHALLENGE_ATTEMPTS" "now \<le> ch_expiresAt stored"
    and us: "user_by_id (ch_userId stored) d = Some user" "u_deletedAt user = None" "\<not> u_banned user"
     "\<not> after (u_suspendedUntil user) now" "code_accepted E now user code"
    and claim: "challenge_claim E now cl fr stored user
          (totp_check E now code (u_twoFactorSecret user) (u_lastTotpTimeStep user))
          (if totp_check E now code (u_twoFactorSecret user) (u_lastTotpTimeStep user) \<noteq> None then None
           else matched_backup E code user) d = (Inr r, d')"
    by (elim exE conjE)
  have "find_first (\<lambda>x. ch_token x = hashToken E c) (twoFactorChallenges d') =
      Some (stored\<lparr>ch_used := True\<rparr>)"
    unfolding challenge_claim_InrD(1) [OF claim] using st ok(1)
    by (simp add: find_first_update_where)
  then have "fst (verifyChallenge E now' cl' fr' c code' d')
         = Inl (httpError ''errors.challengeAlreadyUsed'' 401)"
    by (rule verifyChallenge_used) simp
  with find_first_SomeD [OF st] ok us show ?thesis
    unfolding MAX_CHALLENGE_ATTEMPTS_def by blast
qed

lemma demo_2fa_run:
  "fst (verifyChallenge demo_env 5 demo_client (demo_fresh ''z'') ''ct'' ''2bk'' demo_2fa) =
     Inr \<lparr>ls_user = userSelect demo_2fa_user, ls_token = ''Aku10'', ls_refreshToken = ''Rru1z'',
          ls_backupCodeUsed = True\<rparr>"
  "fst (verifyChallenge demo_env 5 demo_client (demo_fresh ''z'') ''ct'' ''sec'' demo_2fa) =
     Inr \<lparr>ls_user = userSelect demo_2fa_user, ls_token = ''Aku10'', ls_refreshToken = ''Rru1z'',
          ls_backupCodeUsed = False\<rparr>"
  by code_simp+

lemma demo_2fa_pair:
  "verifyChallenge demo_env 5 demo_client (demo_fresh ''z'') ''ct'' ''2bk'' demo_2fa =
     (Inr \<lparr>ls_user = userSelect demo_2fa_user, ls_token = ''Aku10'', ls_refreshToken = ''Rru1z'',
          ls_backupCodeUsed = True\<rparr>,
      snd (verifyChallenge demo_env 5 demo_client (demo_fresh ''z'') ''ct'' ''2bk'' demo_2fa))"
  "verifyChallenge demo_env 5 demo_client (demo_fresh ''z'') ''ct'' ''sec'' demo_2fa =
     (Inr \<lparr>ls_user = userSelect demo_2fa_user, ls_token = ''Aku10'', ls_refreshToken = ''Rru1z'',
          ls_backupCodeUsed = False\<rparr>,
      snd (verifyChallenge demo_env 5 demo_client (demo_fresh ''z'') ''ct'' ''sec'' demo_2fa))"
  using demo_2fa_run by (simp_all add: prod_eq_iff)

theorem challenge_one_session_witness:
  "\<exists>stored user. stored \<in> set (twoFactorChallenges demo_2fa) \<and> ch_token stored = hashToken demo_env ''ct''
     \<and> \<not> ch_used stored \<and> ch_attempts stored < 5 \<and> 5 \<le> ch_expiresAt stored
     \<and> user_by_id (ch_userId stored) demo_2fa = Some user \<and> u_deletedAt user = None \<and> \<not> u_banned user
     \<and> \<not> after (u_suspendedUntil user) 5 \<and> code_accepted demo_env 5 user ''sec''
     \<and> fst (verifyChallenge demo_env 6 demo_client (demo_fresh ''y'') ''ct'' ''sec''
          (snd (verifyChallenge demo_env 5 demo_client (demo_fresh ''z'') ''ct'' ''sec'' demo_2fa)))
         = Inl (httpError ''errors.challengeAlreadyUsed'' 401)"
  by (rule challenge_one_session [OF demo_2fa_pair(2)])

section \<open>The attempt limit\<close>

fun challenge_many ::
  "env \<Rightarrow> string \<Rightarrow> (int \<times> client \<times> fresh \<times> string) list \<Rightarrow> db \<Rightarrow> db" where
  "challenge_many E c [] d = d"
| "challenge_many E c ((now, cl, fr, code) # as) d =
     challenge_many E c as (snd (verifyChallenge E now cl fr c code d))"

lemma challenge_failed_snd:
  "snd (challenge_failed stored d) =
     update_challenge (\<lambda>c. ch_id c = ch_id stored) (\<lambda>c. c\<lparr>ch_attempts := ch_attempts c + 1\<rparr>) d"
  by (simp add: challenge_failed_def Let_def)

lemma challenge_wrong_code:
  fixes cl :: client and fr :: fresh
  assumes "find_first (\<lambda>x. ch_token x = hashToken E c) (twoFactorChallenges d) = Some stored"
    and "\<not> ch_used stored" "ch_attempts stored < MAX_CHALLENGE_ATTEMPTS" "now \<le> ch_expiresAt stored"
    and "user_by_id (ch_userId stored) d = Some user" "u_deletedAt user = None" "\<not> u_banned user"
    and "u_suspendedUntil user = None" "\<not> code_accepted E now user code"
  defines "d' \<equiv> snd (verifyChallenge E now cl fr c code d)"
  shows "find_first (\<lambda>x. ch_token x = hashToken E c) (twoFactorChallenges d') =
           Some (stored\<lparr>ch_attempts := ch_attempts stored + 1\<rparr>)"
    and "users d' = users d"
proof -
  have "d' = update_challenge (\<lambda>x. ch_id x = ch_id stored) (\<lambda>x. x\<lparr>ch_attempts := ch_attempts x + 1\<rparr>) d"
    using assms(1-9)
    by (auto simp: d'_def verifyChallenge_def code_accepted_def matched_backup_def Let_def
        challenge_failed_snd split: if_splits)
  then show "find_first (\<lambda>x. ch_token x = hashToken E c) (twoFactorChallenges d') =
           Some (stored\<lparr>ch_attempts := ch_attempts stored + 1\<rparr>)" "users d' = users d"
    using assms(1) by (simp_all add: update_challenge_def find_first_update_where)
qed

lemma challenge_many_counts:
  assumes "find_first (\<lambda>x. ch_token x = hashToken E c) (twoFactorChallenges d) = Some stored"
    and "\<not> ch_used stored" "ch_attempts stored + length as = MAX_CHALLENGE_ATTEMPTS"
    and "user_by_id (ch_userId stored) d = Some user" "u_deletedAt user = None" "\<not> u_banned user"
    and "u_suspendedUntil user = None"
    and "\<forall>(now, cl, fr, code) \<in> set as. now \<le> ch_expiresAt stored \<and> \<not> code_accepted E now user code"
  shows "\<exists>stored'. find_first (\<lambda>x. ch_token x = hashToken E c)
            (twoFactorChallenges (challenge_many E c as d)) = Some stored'
          \<and> \<not> ch_used stored' \<and> ch_attempts stored' = MAX_CHALLENGE_ATTEMPTS"
  using assms
proof (induction as arbitrary: d stored)
  case Nil
  then show ?case by simp
next
  case (Cons a as)
  obtain now cl fr code where a: "a = (now, cl, fr, code)" by (cases a)
  have n: "ch_attempts stored < MAX_CHALLENGE_ATTEMPTS" "now \<le> ch_expiresAt stored"
    "\<not> code_accepted E now user code"
    using Cons.prems(3,8) by (simp_all add: a)
  note step = challenge_wrong_code [OF Cons.prems(1,2) n(1,2) Cons.prems(4-7) n(3), where cl = cl and fr = fr]
  have "user_by_id (ch_userId stored) (snd (verifyChallenge E now cl fr c code d)) = Some user"
    using Cons.prems(4) step(2) by (simp add: user_by_id_def)
  with Cons.IH [OF step(1)] Cons.prems(2-8) show ?case by (simp add: a)
qed

text \<open>C14: Brute force is capped: after five wrong codes on a login challenge every further attempt on it is
  refused, a right code included.\<close>

theorem challenge_attempts_capped:
  assumes "find_first (\<lambda>x. ch_token x = hashToken E c) (twoFactorChallenges d) = Some stored"
    and "\<not> ch_used stored" "ch_attempts stored = 0" "length as = 5"
    and "user_by_id (ch_userId stored) d = Some user" "u_deletedAt user = None" "\<not> u_banned user"
    and "u_suspendedUntil user = None"
    and "\<forall>(now, cl, fr, code) \<in> set as. now \<le> ch_expiresAt stored \<and> \<not> code_accepted E now user code"
  shows "fst (verifyChallenge E now' cl' fr' c code' (challenge_many E c as d))
           = Inl (httpError ''errors.tooManyVerificationAttempts'' 401)"
proof -
  from challenge_many_counts [OF assms(1,2) _ assms(5-9)] assms(3,4)
  obtain stored' where "find_first (\<lambda>x. ch_token x = hashToken E c)
            (twoFactorChallenges (challenge_many E c as d)) = Some stored'"
     "\<not> ch_used stored'" "ch_attempts stored' = MAX_CHALLENGE_ATTEMPTS"
    by (auto simp: MAX_CHALLENGE_ATTEMPTS_def)
  then show ?thesis by (simp add: verifyChallenge_def)
qed

definition demo_codes :: "(int \<times> client \<times> fresh \<times> string) list" where
  "demo_codes = map (\<lambda>i. (i, demo_client, demo_fresh ''z'', ''no'')) [1, 2, 3, 4, 5]"

theorem challenge_attempts_capped_witness:
  "fst (verifyChallenge demo_env 6 demo_client (demo_fresh ''y'') ''ct'' ''sec''
       (challenge_many demo_env ''ct'' demo_codes demo_2fa))
     = Inl (httpError ''errors.tooManyVerificationAttempts'' 401)"
proof (rule challenge_attempts_capped)
  show "find_first (\<lambda>x. ch_token x = hashToken demo_env ''ct'') (twoFactorChallenges demo_2fa) =
      Some (hd (twoFactorChallenges demo_2fa))"
    by code_simp
  show "user_by_id (ch_userId (hd (twoFactorChallenges demo_2fa))) demo_2fa = Some demo_2fa_user"
    by code_simp
  show "\<forall>(now, cl, fr, code) \<in> set demo_codes. now \<le> ch_expiresAt (hd (twoFactorChallenges demo_2fa))
      \<and> \<not> code_accepted demo_env now demo_2fa_user code"
    by code_simp
qed (simp_all add: demo_2fa_def demo_2fa_user_def demo_user_def demo_codes_def)

section \<open>Codes are used once\<close>

lemma claim_user_row:
  assumes claim: "challenge_claim E now cl fr stored user step backup d = (Inr r, d')"
    and user: "user_by_id uid d = Some user"
  shows "\<exists>user'. user_by_id uid d' = Some user'
     \<and> u_lastTotpTimeStep user' = (case step of None \<Rightarrow> u_lastTotpTimeStep user | Some s \<Rightarrow> Some s)
     \<and> u_twoFactorBackupCodes user' = (case backup of None \<Rightarrow> u_twoFactorBackupCodes user
          | Some h \<Rightarrow> filter (\<lambda>x. x \<noteq> h) (u_twoFactorBackupCodes user))"
proof -
  have uid: "u_id user = uid" using user_by_idD(2) [OF user] .
  note users = users_by_id_eq(1) [OF challenge_claim_InrD(3) [OF claim], of uid, unfolded uid]
  show ?thesis
  proof (cases backup)
    case None
    then show ?thesis using users user by (cases step) (simp_all add: user_by_id_update_same)
  next
    case (Some h)
    then show ?thesis using users user by (cases step) (simp_all add: user_by_id_update_same)
  qed
qed

text \<open>C15: A code that opened a session is spent: a backup code is no longer among the account's codes, and
  a TOTP code pins its time step, which is later than the one pinned before, so no code of that step or
  an earlier one is accepted again (given that \<open>otplib\<close> honours \<open>afterTimeStep\<close>).\<close>

theorem codes_single_use:
  assumes law: "\<And>code s tol a now' step. totp_verify E code s tol (Some a) now' = TotpResult True step \<Longrightarrow> a < step"
    and ok: "verifyChallenge E now cl fr c code d = (Inr r, d')"
  shows "\<exists>uid user user'. user_by_id uid d = Some user \<and> user_by_id uid d' = Some user'
     \<and> (if ls_backupCodeUsed r
        then \<exists>h. h \<in> set (u_twoFactorBackupCodes user) \<and> compareBackupCode E code h
               \<and> u_twoFactorBackupCodes user' = filter (\<lambda>x. x \<noteq> h) (u_twoFactorBackupCodes user)
        else \<exists>step. u_lastTotpTimeStep user' = Some step \<and> \<not> after (u_lastTotpTimeStep user) (step - 1)
               \<and> (\<forall>later code' step'. totp_check E later code' (u_twoFactorSecret user)
                     (u_lastTotpTimeStep user') = Some step' \<longrightarrow> step < step'))"
proof -
  from verifyChallenge_InrD [OF ok] obtain stored user where
    us: "user_by_id (ch_userId stored) d = Some user" and acc: "code_accepted E now user code"
    and claim: "challenge_claim E now cl fr stored user
          (totp_check E now code (u_twoFactorSecret user) (u_lastTotpTimeStep user))
          (if totp_check E now code (u_twoFactorSecret user) (u_lastTotpTimeStep user) \<noteq> None then None
           else matched_backup E code user) d = (Inr r, d')"
    by (elim exE conjE)
  have later: "a < step'" if "totp_check E n cd sec (Some a) = Some step'" for a n cd sec step'
    using that law by (auto simp: totp_check_def split: option.splits sum.splits totp_result.splits if_splits)
  from claim_user_row [OF claim us] obtain user' where
    us': "user_by_id (ch_userId stored) d' = Some user'"
    and step': "u_lastTotpTimeStep user' = (case totp_check E now code (u_twoFactorSecret user) (u_lastTotpTimeStep user)
        of None \<Rightarrow> u_lastTotpTimeStep user | Some s \<Rightarrow> Some s)"
    and codes': "u_twoFactorBackupCodes user' = (case (if totp_check E now code (u_twoFactorSecret user)
          (u_lastTotpTimeStep user) \<noteq> None then None else matched_backup E code user)
        of None \<Rightarrow> u_twoFactorBackupCodes user | Some h \<Rightarrow> filter (\<lambda>x. x \<noteq> h) (u_twoFactorBackupCodes user))"
    by (elim exE conjE)
  note used = challenge_claim_InrD(2) [OF claim]
  have row: "if ls_backupCodeUsed r
        then \<exists>h. h \<in> set (u_twoFactorBackupCodes user) \<and> compareBackupCode E code h
               \<and> u_twoFactorBackupCodes user' = filter (\<lambda>x. x \<noteq> h) (u_twoFactorBackupCodes user)
        else \<exists>step. u_lastTotpTimeStep user' = Some step \<and> \<not> after (u_lastTotpTimeStep user) (step - 1)
               \<and> (\<forall>later code' step'. totp_check E later code' (u_twoFactorSecret user)
                     (u_lastTotpTimeStep user') = Some step' \<longrightarrow> step < step')"
  proof (cases "totp_check E now code (u_twoFactorSecret user) (u_lastTotpTimeStep user)")
    case None
    with acc obtain h where h: "matched_backup E code user = Some h"
      by (auto simp: code_accepted_def)
    then have "find_first (compareBackupCode E code) (u_twoFactorBackupCodes user) = Some h"
      by (auto simp: matched_backup_def Let_def split: if_splits)
    from find_first_SomeD [OF this] None h codes' used show ?thesis by auto
  next
    case (Some s)
    then have "\<not> after (u_lastTotpTimeStep user) (s - 1)"
      by (cases "u_lastTotpTimeStep user") (auto dest: later)
    with Some step' used later show ?thesis by auto
  qed
  with us us' show ?thesis by blast
qed

theorem codes_single_use_witness:
  "\<exists>uid user user'. user_by_id uid demo_2fa = Some user
     \<and> user_by_id uid (snd (verifyChallenge demo_env 5 demo_client (demo_fresh ''z'') ''ct'' ''2bk'' demo_2fa)) = Some user'
     \<and> (if ls_backupCodeUsed \<lparr>ls_user = userSelect demo_2fa_user, ls_token = ''Aku10'',
            ls_refreshToken = ''Rru1z'', ls_backupCodeUsed = True\<rparr>
        then \<exists>h. h \<in> set (u_twoFactorBackupCodes user) \<and> compareBackupCode demo_env ''2bk'' h
               \<and> u_twoFactorBackupCodes user' = filter (\<lambda>x. x \<noteq> h) (u_twoFactorBackupCodes user)
        else \<exists>step. u_lastTotpTimeStep user' = Some step \<and> \<not> after (u_lastTotpTimeStep user) (step - 1)
               \<and> (\<forall>later code' step'. totp_check demo_env later code' (u_twoFactorSecret user)
                     (u_lastTotpTimeStep user') = Some step' \<longrightarrow> step < step'))"
  by (rule codes_single_use [OF _ demo_2fa_pair(1)])
    (auto simp: demo_env_def split: if_splits)

end
