(* ===== verification/ApiKeys.thy ===== *)
theory ApiKeys
  imports Guards Query Samples
begin

text \<open>
  \<open>src/modules/apikey/apikey.service.js\<close> and \<open>src/middleware/apiKey.middleware.js\<close>: the life of an API
  key, of which only the hash is stored, and the authentication of a request by one.
\<close>

definition KEY_PREFIX :: string where
  "KEY_PREFIX = ''sk_''"

definition LAST_USED_REFRESH_MS :: int where
  "LAST_USED_REFRESH_MS = 60 * 1000"

definition hashKey :: "env \<Rightarrow> string \<Rightarrow> string" where
  "hashKey E key = sha256_hex E key"

text \<open>\<open>hex\<close> is the text of \<open>randomBytes(KEY_BYTES)\<close>.\<close>

definition generateRawKey :: "string \<Rightarrow> string" where
  "generateRawKey hex = KEY_PREFIX @ hex"

definition update_key :: "int \<Rightarrow> string \<Rightarrow> (api_key \<Rightarrow> api_key) \<Rightarrow> db \<Rightarrow> db" where
  "update_key now i f d =
     d\<lparr>apiKeys := update_where (\<lambda>k. k_id k = i) (\<lambda>k. (f k)\<lparr>k_updatedAt := now\<rparr>) (apiKeys d)\<rparr>"

definition createApiKey ::
  "env \<Rightarrow> int \<Rightarrow> fresh \<Rightarrow> string \<Rightarrow> string \<Rightarrow> string list \<Rightarrow> int option \<Rightarrow> db
   \<Rightarrow> (api_key \<times> string) result \<times> db" where
  "createApiKey E now fr userId name scopes expiresAt d =
     (let rawKey = generateRawKey (fr_token fr);
          row = \<lparr>k_id = fr_id fr, k_name = name, k_keyHash = hashKey E rawKey,
                 k_keyPrefix = take 10 rawKey, k_userId = userId, k_scopes = scopes,
                 k_lastUsedAt = None, k_expiresAt = expiresAt, k_revokedAt = None,
                 k_deletedAt = None, k_createdAt = now, k_updatedAt = now\<rparr>
      in case insert_row key_clash row (apiKeys d) of
           Inl e \<Rightarrow> (Inl e, d)
         | Inr ks \<Rightarrow> (Inr (row, rawKey), d\<lparr>apiKeys := ks\<rparr>))"

definition key_column :: "api_key \<Rightarrow> string list \<Rightarrow> string option" where
  "key_column k path =
     (if path = [''name''] then Some (k_name k)
      else if path = [''keyPrefix''] then Some (k_keyPrefix k) else None)"

definition listApiKeys ::
  "(string \<Rightarrow> string \<Rightarrow> bool) \<Rightarrow> ((string \<times> string) option \<Rightarrow> api_key list \<Rightarrow> api_key list)
   \<Rightarrow> string \<Rightarrow> list_query \<Rightarrow> db \<Rightarrow> api_key list \<times> pagination_meta" where
  "listApiKeys like ob userId q d =
     (let clauses = buildSearch (lq_search q) [''name'', ''keyPrefix''];
          p = (\<lambda>k. k_userId k = userId \<and> k_revokedAt k = None \<and> k_deletedAt k = None
                   \<and> search_ok like key_column clauses k)
      in list_page (ob (parseSort (lq_sort q) (lq_order q) [''createdAt'', ''name'', ''lastUsedAt'']))
           p (page_of q) (limit_of q) (apiKeys d))"

definition own_key :: "string \<Rightarrow> string \<Rightarrow> (api_key \<Rightarrow> bool) \<Rightarrow> db \<Rightarrow> api_key option" where
  "own_key userId keyId p d =
     find_first (\<lambda>k. k_id k = keyId \<and> k_userId k = userId \<and> p k) (apiKeys d)"

definition getApiKey :: "string \<Rightarrow> string \<Rightarrow> db \<Rightarrow> api_key result" where
  "getApiKey userId keyId d =
     (case own_key userId keyId (\<lambda>k. k_deletedAt k = None) d of
        None \<Rightarrow> Inl (httpError ''errors.apiKeyNotFound'' 404)
      | Some k \<Rightarrow> Inr k)"

definition revokeApiKey :: "int \<Rightarrow> string \<Rightarrow> string \<Rightarrow> db \<Rightarrow> api_key result \<times> db" where
  "revokeApiKey now userId keyId d =
     (case own_key userId keyId (\<lambda>k. k_revokedAt k = None \<and> k_deletedAt k = None) d of
        None \<Rightarrow> (Inl (httpError ''errors.apiKeyNotFoundOrRevoked'' 404), d)
      | Some k \<Rightarrow> (Inr (k\<lparr>k_revokedAt := Some now, k_updatedAt := now\<rparr>),
                   update_key now keyId (\<lambda>k. k\<lparr>k_revokedAt := Some now\<rparr>) d))"

definition deleteApiKey :: "int \<Rightarrow> string \<Rightarrow> string \<Rightarrow> db \<Rightarrow> string result \<times> db" where
  "deleteApiKey now userId keyId d =
     (case own_key userId keyId (\<lambda>k. k_deletedAt k = None) d of
        None \<Rightarrow> (Inl (httpError ''errors.apiKeyNotFound'' 404), d)
      | Some k \<Rightarrow> (Inr ''messages.apiKeyDeletedSuccessfully'',
                   update_key now keyId (\<lambda>k. k\<lparr>k_deletedAt := Some now\<rparr>) d))"

definition restoreApiKey :: "int \<Rightarrow> string \<Rightarrow> string \<Rightarrow> db \<Rightarrow> api_key result \<times> db" where
  "restoreApiKey now userId keyId d =
     (case own_key userId keyId (\<lambda>k. k_deletedAt k \<noteq> None) d of
        None \<Rightarrow> (Inl (httpError ''errors.deletedApiKeyNotFound'' 404), d)
      | Some k \<Rightarrow> (Inr (k\<lparr>k_deletedAt := None, k_updatedAt := now\<rparr>),
                   update_key now keyId (\<lambda>k. k\<lparr>k_deletedAt := None\<rparr>) d))"

record key_context =
  kc_id :: string
  kc_userId :: string
  kc_scopes :: "string list"
  kc_user :: user

definition key_stale :: "int \<Rightarrow> api_key \<Rightarrow> bool" where
  "key_stale now k =
     (case k_lastUsedAt k of None \<Rightarrow> True | Some t \<Rightarrow> now - t \<ge> LAST_USED_REFRESH_MS)"

definition verifyApiKey :: "env \<Rightarrow> int \<Rightarrow> string option \<Rightarrow> db \<Rightarrow> key_context option result \<times> db" where
  "verifyApiKey E now rawKey d =
     (if \<not> truthy rawKey \<or> \<not> starts_with (the rawKey) KEY_PREFIX then (Inr None, d)
      else
        (case find_first (\<lambda>k. k_keyHash k = hashKey E (the rawKey) \<and> k_deletedAt k = None) (apiKeys d) of
           None \<Rightarrow> (Inr None, d)
         | Some k \<Rightarrow>
             (case user_by_id (k_userId k) d of
                None \<Rightarrow> (Inl (OtherError ''Inconsistent query result: user is required''), d)
              | Some u \<Rightarrow>
                  if k_revokedAt k \<noteq> None then (Inr None, d)
                  else if k_expiresAt k \<noteq> None \<and> \<not> after (k_expiresAt k) now then (Inr None, d)
                  else if u_banned u then (Inr None, d)
                  else if u_deletedAt u \<noteq> None then (Inr None, d)
                  else if after (u_suspendedUntil u) now then (Inr None, d)
                  else
                    (Inr (Some \<lparr>kc_id = k_id k, kc_userId = k_userId k, kc_scopes = k_scopes k, kc_user = u\<rparr>),
                     if key_stale now k
                     then update_key now (k_id k) (\<lambda>k. k\<lparr>k_lastUsedAt := Some now\<rparr>) d
                     else d))))"

section \<open>\<open>apiKey.middleware.js\<close>\<close>

text \<open>\<open>req.user\<close> and \<open>req.apiKey\<close>.\<close>

definition authenticateApiKey ::
  "env \<Rightarrow> int \<Rightarrow> string option \<Rightarrow> db \<Rightarrow> ((string \<times> string \<times> role) \<times> (string \<times> string list)) result \<times> db" where
  "authenticateApiKey E now rawKey d =
     (if \<not> truthy rawKey then (Inl (httpError ''errors.noApiKeyProvided'' 401), d)
      else await (verifyApiKey E now rawKey d) (\<lambda>r d1.
             case r of
               None \<Rightarrow> (Inl (httpError ''errors.invalidOrExpiredApiKey'' 401), d1)
             | Some c \<Rightarrow>
                 (Inr ((u_id (kc_user c), u_email (kc_user c), u_role (kc_user c)),
                       (kc_id c, kc_scopes c)), d1)))"

definition requireScope :: "string list \<Rightarrow> (string \<times> string list) option \<Rightarrow> unit result" where
  "requireScope scopes key =
     (case key of
        None \<Rightarrow> Inl (httpError ''errors.noApiKeyContext'' 401)
      | Some (_, granted) \<Rightarrow>
          if \<not> list_ex (\<lambda>s. s \<in> set granted) scopes
          then Inl (HttpError ''errors.requiredScope'' 403 [(''scopes'', PStr (js_join '' or '' scopes))])
          else Inr ())"

section \<open>What a verified key has shown\<close>

lemma verifyApiKey_SomeD:
  assumes "verifyApiKey E now raw d = (Inr (Some c), d')"
  shows "\<exists>key k u. raw = Some key \<and> starts_with key KEY_PREFIX \<and> k \<in> set (apiKeys d)
     \<and> k_keyHash k = hashKey E key \<and> k_deletedAt k = None \<and> k_revokedAt k = None
     \<and> (k_expiresAt k = None \<or> after (k_expiresAt k) now)
     \<and> user_by_id (k_userId k) d = Some u \<and> \<not> u_banned u \<and> u_deletedAt u = None
     \<and> \<not> after (u_suspendedUntil u) now
     \<and> c = \<lparr>kc_id = k_id k, kc_userId = k_userId k, kc_scopes = k_scopes k, kc_user = u\<rparr>"
  using assms
  by (cases raw) (auto simp: verifyApiKey_def split: if_splits option.splits dest: find_first_SomeD)

lemma verifyApiKey_keeps: "verifyApiKey E now raw d = (r, d') \<Longrightarrow>
    d' = d \<or> (\<exists>i. d' = update_key now i (\<lambda>k. k\<lparr>k_lastUsedAt := Some now\<rparr>) d)"
  by (auto simp: verifyApiKey_def split: if_splits option.splits)

text \<open>C24: A request is authenticated by an API key only if a key with the hash of the presented text exists
  that is neither deleted, revoked nor expired, and its owner is live, not banned and not suspended; the
  request then acts as that owner with exactly the key's scopes.\<close>

theorem apiKey_sound:
  assumes "authenticateApiKey E now raw d = (Inr (user, key), d')"
  shows "\<exists>rawKey k u. raw = Some rawKey \<and> k \<in> set (apiKeys d) \<and> k_keyHash k = sha256_hex E rawKey
     \<and> k_deletedAt k = None \<and> k_revokedAt k = None \<and> (k_expiresAt k = None \<or> after (k_expiresAt k) now)
     \<and> user_by_id (k_userId k) d = Some u \<and> \<not> u_banned u \<and> u_deletedAt u = None
     \<and> \<not> after (u_suspendedUntil u) now
     \<and> user = (u_id u, u_email u, u_role u) \<and> key = (k_id k, k_scopes k)"
proof -
  from assms obtain c where "verifyApiKey E now raw d = (Inr (Some c), d')"
    and ctx: "user = (u_id (kc_user c), u_email (kc_user c), u_role (kc_user c))" "key = (kc_id c, kc_scopes c)"
    by (auto simp: authenticateApiKey_def split: if_splits option.splits elim!: await_InrE)
  from verifyApiKey_SomeD [OF this(1)] obtain rawKey k u where
    "raw = Some rawKey" "k \<in> set (apiKeys d)" "k_keyHash k = hashKey E rawKey" "k_deletedAt k = None"
    "k_revokedAt k = None" "k_expiresAt k = None \<or> after (k_expiresAt k) now"
    "user_by_id (k_userId k) d = Some u" "\<not> u_banned u" "u_deletedAt u = None"
    "\<not> after (u_suspendedUntil u) now"
    "c = \<lparr>kc_id = k_id k, kc_userId = k_userId k, kc_scopes = k_scopes k, kc_user = u\<rparr>"
    by (elim exE conjE)
  with ctx show ?thesis unfolding hashKey_def by (intro exI [of _ rawKey] exI [of _ k] exI [of _ u]) simp
qed

definition demo_keys :: db where
  "demo_keys = snd (createApiKey demo_env 1 (demo_fresh ''abc'') ''u1'' ''ci'' [''projects:read''] None demo_db)"

lemma demo_key_run:
  "fst (authenticateApiKey demo_env 5 (Some ''sk_abc'') demo_keys) =
     Inr ((''u1'', ''a@x'', USER), (''abc'', [''projects:read'']))"
  by code_simp

theorem apiKey_sound_witness:
  "\<exists>rawKey k u. Some ''sk_abc'' = Some rawKey \<and> k \<in> set (apiKeys demo_keys) \<and> k_keyHash k = sha256_hex demo_env rawKey
     \<and> k_deletedAt k = None \<and> k_revokedAt k = None \<and> (k_expiresAt k = None \<or> after (k_expiresAt k) 5)
     \<and> user_by_id (k_userId k) demo_keys = Some u \<and> \<not> u_banned u \<and> u_deletedAt u = None
     \<and> \<not> after (u_suspendedUntil u) 5
     \<and> (''u1'', ''a@x'', USER) = (u_id u, u_email u, u_role u)
     \<and> (''abc'', [''projects:read'']) = (k_id k, k_scopes k)"
  by (rule apiKey_sound [where d' = "snd (authenticateApiKey demo_env 5 (Some ''sk_abc'') demo_keys)"])
    (simp add: prod_eq_iff demo_key_run)

text \<open>A key that its owner revokes or deletes authenticates nothing from then on: the raw key that went
  with it is refused at every later time.\<close>

theorem revoked_key_dead:
  assumes "uniq key_clash (apiKeys d)" "k \<in> set (apiKeys d)" "k_keyHash k = hashKey E rawKey"
    and "(\<exists>k'. revokeApiKey now uid (k_id k) d = (Inr k', d'))
       \<or> (\<exists>m. deleteApiKey now uid (k_id k) d = (Inr m, d'))"
  shows "\<not> is_ok (fst (authenticateApiKey E later (Some rawKey) d'))"
proof
  assume "is_ok (fst (authenticateApiKey E later (Some rawKey) d'))"
  then obtain c d2 where ok: "verifyApiKey E later (Some rawKey) d' = (Inr (Some c), d2)"
    by (auto simp: is_ok_iff authenticateApiKey_def await_def split: if_splits prod.splits sum.splits option.splits)
  from verifyApiKey_SomeD [OF ok] obtain k2 where
    k2: "k2 \<in> set (apiKeys d')" "k_keyHash k2 = hashKey E rawKey" "k_deletedAt k2 = None" "k_revokedAt k2 = None"
    by auto
  from assms(4) consider
      "d' = update_key now (k_id k) (\<lambda>k. k\<lparr>k_revokedAt := Some now\<rparr>) d"
    | "d' = update_key now (k_id k) (\<lambda>k. k\<lparr>k_deletedAt := Some now\<rparr>) d"
    by (auto simp: revokeApiKey_def deleteApiKey_def split: option.splits)
  then have "k2 \<in> set (apiKeys d) \<and> k_id k2 \<noteq> k_id k"
  proof cases
    case 1
    from k2(1) have "k2 \<in> set (update_where (\<lambda>x. k_id x = k_id k)
        (\<lambda>x. x\<lparr>k_revokedAt := Some now, k_updatedAt := now\<rparr>) (apiKeys d))"
      by (simp add: 1 update_key_def)
    then show ?thesis by (rule in_update_whereE) (use k2(4) in simp_all)
  next
    case 2
    from k2(1) have "k2 \<in> set (update_where (\<lambda>x. k_id x = k_id k)
        (\<lambda>x. x\<lparr>k_deletedAt := Some now, k_updatedAt := now\<rparr>) (apiKeys d))"
      by (simp add: 2 update_key_def)
    then show ?thesis by (rule in_update_whereE) (use k2(3) in simp_all)
  qed
  moreover have "key_clash k2 k" using k2(2) assms(3) by (simp add: key_clash_def)
  ultimately show False using key_ix.members_apart [OF assms(1) _ assms(2)] by blast
qed

theorem revoked_key_dead_witness:
  "\<not> is_ok (fst (authenticateApiKey demo_env 9 (Some ''sk_abc'') (snd (revokeApiKey 5 ''u1'' ''abc'' demo_keys))))"
proof -
  let ?k = "hd (apiKeys demo_keys)"
  have k: "apiKeys demo_keys = [?k]" "k_id ?k = ''abc''" "k_keyHash ?k = hashKey demo_env ''sk_abc''"
    by code_simp+
  have "is_ok (fst (revokeApiKey 5 ''u1'' ''abc'' demo_keys))" by code_simp
  then have rv: "\<exists>k'. revokeApiKey 5 ''u1'' (k_id ?k) demo_keys = (Inr k', snd (revokeApiKey 5 ''u1'' ''abc'' demo_keys))"
    by (auto simp: is_ok_iff k(2) prod_eq_iff)
  have "uniq key_clash (apiKeys demo_keys)" by (subst k(1)) simp
  moreover have "?k \<in> set (apiKeys demo_keys)" by (subst (2) k(1)) simp
  ultimately show ?thesis using k(3) rv by (intro revoked_key_dead) auto
qed

end
