(* ===== verification/JsJson.thy ===== *)
theory JsJson
  imports Schema JsNumber
begin

text \<open>
  What the code does with a JSON document as a JavaScript value: truthiness, property access,
  building an object from another, and its nesting.
\<close>

definition js_truthy :: "json \<Rightarrow> bool" where
  "js_truthy j =
     (case j of JNull \<Rightarrow> False | JBool b \<Rightarrow> b | JNum n \<Rightarrow> n \<noteq> 0 | JStr s \<Rightarrow> s \<noteq> [] | _ \<Rightarrow> True)"

text \<open>\<open>value?.p\<close>: absent on anything but an object that has the key.\<close>

definition js_prop :: "json \<Rightarrow> string \<Rightarrow> json option" where
  "js_prop j p = (case j of JObj kvs \<Rightarrow> map_of kvs p | _ \<Rightarrow> None)"

text \<open>\<open>typeof v === 'object'\<close> and not null.\<close>

fun is_container :: "json \<Rightarrow> bool" where
  "is_container (JArr _) = True"
| "is_container (JObj _) = True"
| "is_container _ = False"

text \<open>\<open>o[k] = v\<close>: in place when the key exists, at the end otherwise.\<close>

definition obj_put :: "string \<Rightarrow> 'v \<Rightarrow> (string \<times> 'v) list \<Rightarrow> (string \<times> 'v) list" where
  "obj_put k v kvs =
     (if k \<in> fst ` set kvs then map (\<lambda>e. if fst e = k then (k, v) else e) kvs else kvs @ [(k, v)])"

lemma map_of_obj_put: "map_of (obj_put k v kvs) j = (if j = k then Some v else map_of kvs j)"
proof (cases "k \<in> fst ` set kvs")
  case True
  have "map_of (map (\<lambda>e. if fst e = k then (k, v) else e) kvs) j =
      (if j = k \<and> k \<in> set (map fst kvs) then Some v else map_of kvs j)"
    by (induction kvs) (auto simp del: set_map split: if_splits)
  with True show ?thesis by (simp add: obj_put_def)
next
  case False
  then have "map_of kvs k = None" by (simp add: map_of_eq_None_iff)
  with False show ?thesis by (auto simp: obj_put_def map_add_def split: option.splits)
qed

section \<open>Nesting\<close>

lemma size_json_child [termination_simp]:
  "(k, v) \<in> set kvs \<Longrightarrow> size v < Suc (size_list (size_prod (\<lambda>_. 0) size) kvs)"
  by (induction kvs) auto

text \<open>How many arrays and objects are nested in each other.\<close>

fun json_depth :: "json \<Rightarrow> nat" where
  "json_depth (JArr xs) = Suc (foldr max (map json_depth xs) 0)"
| "json_depth (JObj kvs) = Suc (foldr max (map (\<lambda>(k, v). json_depth v) kvs) 0)"
| "json_depth _ = 0"

lemma le_foldr_max: "x \<in> set ns \<Longrightarrow> x \<le> foldr max ns (0 :: nat)"
  by (induction ns) auto

lemma json_depth_child:
  "v \<in> set xs \<Longrightarrow> json_depth v < json_depth (JArr xs)"
  "(k, v) \<in> set kvs \<Longrightarrow> json_depth v < json_depth (JObj kvs)"
  by (force intro!: le_imp_less_Suc le_foldr_max)+

end
