(* ===== verification/FeatureFlags.thy ===== *)
theory FeatureFlags
  imports Guards Query JsJson Samples
begin

text \<open>
  \<open>src/modules/featureflag/featureflag.service.js\<close> and \<open>src/middleware/featureflag.middleware.js\<close>:
  flags, their overrides per organization, and their evaluation.  The digest \<open>sha256_bytes\<close> of the
  rollout bucket is a parameter; \<open>value\<close> columns are JSON documents the schemas let through unchecked,
  so the evaluation follows JavaScript's conversions on any document.
\<close>

section \<open>JavaScript on a JSON document\<close>

text \<open>
  The number a comparison converts a value to.  An array is converted through its text: the empty
  one is 0, a singleton of a string, number or null is what its element is, any other is \<open>NaN\<close>.
\<close>

definition to_number :: "json \<Rightarrow> js_num" where
  "to_number j =
     (case j of
        JNull \<Rightarrow> Fin 0 | JBool b \<Rightarrow> Fin (if b then 1 else 0) | JNum n \<Rightarrow> Fin n | JStr s \<Rightarrow> js_number s
      | JArr [] \<Rightarrow> Fin 0
      | JArr [JNum n] \<Rightarrow> Fin n | JArr [JStr s] \<Rightarrow> js_number s | JArr [JNull] \<Rightarrow> Fin 0
      | _ \<Rightarrow> NaN)"

definition num_le_zero :: "js_num \<Rightarrow> bool" where
  "num_le_zero x = (case x of NaN \<Rightarrow> False | Infinite neg \<Rightarrow> neg | Fin n \<Rightarrow> n \<le> 0)"

definition num_ge_100 :: "js_num \<Rightarrow> bool" where
  "num_ge_100 x = (case x of NaN \<Rightarrow> False | Infinite neg \<Rightarrow> \<not> neg | Fin n \<Rightarrow> n \<ge> 100)"

definition nat_less_num :: "nat \<Rightarrow> js_num \<Rightarrow> bool" where
  "nat_less_num b x = (case x of NaN \<Rightarrow> False | Infinite neg \<Rightarrow> \<not> neg | Fin n \<Rightarrow> of_nat b < n)"

section \<open>Administration\<close>

definition flag_by_id :: "string \<Rightarrow> db \<Rightarrow> feature_flag option" where
  "flag_by_id i d = find_first (\<lambda>f. f_id f = i) (featureFlags d)"

definition flag_by_key :: "string \<Rightarrow> db \<Rightarrow> feature_flag option" where
  "flag_by_key key d = find_first (\<lambda>f. f_key f = key) (featureFlags d)"

definition override_for :: "string \<Rightarrow> string \<Rightarrow> db \<Rightarrow> organization_feature_flag option" where
  "override_for flagId orgId d =
     find_first (\<lambda>v. ov_featureFlagId v = flagId \<and> ov_organizationId v = orgId) (flagOverrides d)"

definition createFlag ::
  "int \<Rightarrow> fresh \<Rightarrow> string \<Rightarrow> string \<Rightarrow> string option \<Rightarrow> flag_type \<Rightarrow> json \<Rightarrow> bool \<Rightarrow> db
   \<Rightarrow> feature_flag result \<times> db" where
  "createFlag now fr key name description ty v active d =
     (if flag_by_key key d \<noteq> None then (Inl (httpError ''errors.flagKeyAlreadyExists'' 409), d)
      else
        (let row = \<lparr>f_id = fr_id fr, f_key = key, f_name = name, f_description = description,
                    f_type = ty, f_value = v, f_active = active, f_createdAt = now,
                    f_updatedAt = now\<rparr>
         in case insert_row flag_clash row (featureFlags d) of
              Inl e \<Rightarrow> (Inl e, d)
            | Inr fs \<Rightarrow> (Inr row, d\<lparr>featureFlags := fs\<rparr>)))"

definition flag_column :: "feature_flag \<Rightarrow> string list \<Rightarrow> string option" where
  "flag_column f path =
     (if path = [''name''] then Some (f_name f) else if path = [''key''] then Some (f_key f)
      else if path = [''description''] then f_description f else None)"

definition listFlags ::
  "(string \<Rightarrow> string \<Rightarrow> bool) \<Rightarrow> ((string \<times> string) option \<Rightarrow> feature_flag list \<Rightarrow> feature_flag list)
   \<Rightarrow> list_query \<Rightarrow> flag_type option \<Rightarrow> string option \<Rightarrow> db \<Rightarrow> feature_flag list \<times> pagination_meta" where
  "listFlags like ob q ty active d =
     (let clauses = buildSearch (lq_search q) [''name'', ''key'', ''description''];
          p = (\<lambda>f. (case ty of None \<Rightarrow> True | Some t \<Rightarrow> f_type f = t)
                   \<and> (case active of None \<Rightarrow> True | Some a \<Rightarrow> f_active f = (a = ''true''))
                   \<and> search_ok like flag_column clauses f)
      in list_page (ob (parseSort (lq_sort q) (lq_order q) [''createdAt'', ''name'', ''key'', ''type'']))
           p (page_of q) (limit_of q) (featureFlags d))"

definition getFlag :: "string \<Rightarrow> db \<Rightarrow> (feature_flag \<times> organization_feature_flag list) result" where
  "getFlag flagId d =
     (case flag_by_id flagId d of
        None \<Rightarrow> Inl (httpError ''errors.featureFlagNotFound'' 404)
      | Some f \<Rightarrow> Inr (f, find_many (\<lambda>v. ov_featureFlagId v = flagId) (flagOverrides d)))"

record flag_patch =
  fp_name :: "string option"
  fp_description :: "string option"
  fp_type :: "flag_type option"
  fp_value :: "json option"
  fp_active :: "bool option"

definition patch_flag :: "int \<Rightarrow> flag_patch \<Rightarrow> feature_flag \<Rightarrow> feature_flag" where
  "patch_flag now p f =
     f\<lparr>f_name := (case fp_name p of None \<Rightarrow> f_name f | Some x \<Rightarrow> x),
       f_description := (case fp_description p of None \<Rightarrow> f_description f | Some x \<Rightarrow> Some x),
       f_type := (case fp_type p of None \<Rightarrow> f_type f | Some x \<Rightarrow> x),
       f_value := (case fp_value p of None \<Rightarrow> f_value f | Some x \<Rightarrow> x),
       f_active := (case fp_active p of None \<Rightarrow> f_active f | Some x \<Rightarrow> x),
       f_updatedAt := now\<rparr>"

definition updateFlag :: "int \<Rightarrow> string \<Rightarrow> flag_patch \<Rightarrow> db \<Rightarrow> feature_flag result \<times> db" where
  "updateFlag now flagId p d =
     (case flag_by_id flagId d of
        None \<Rightarrow> (Inl (httpError ''errors.featureFlagNotFound'' 404), d)
      | Some f \<Rightarrow>
          (Inr (patch_flag now p f),
           d\<lparr>featureFlags := update_where (\<lambda>f. f_id f = flagId) (patch_flag now p) (featureFlags d)\<rparr>))"

text \<open>Deleting a flag deletes its overrides (\<open>onDelete: Cascade\<close>).\<close>

definition deleteFlag :: "string \<Rightarrow> db \<Rightarrow> string result \<times> db" where
  "deleteFlag flagId d =
     (if flag_by_id flagId d = None then (Inl (httpError ''errors.featureFlagNotFound'' 404), d)
      else (Inr ''messages.featureFlagDeletedSuccessfully'',
            d\<lparr>featureFlags := delete_where (\<lambda>f. f_id f = flagId) (featureFlags d),
              flagOverrides := delete_where (\<lambda>v. ov_featureFlagId v = flagId) (flagOverrides d)\<rparr>))"

definition setOverride ::
  "int \<Rightarrow> fresh \<Rightarrow> string \<Rightarrow> string \<Rightarrow> bool \<Rightarrow> json \<Rightarrow> db \<Rightarrow> organization_feature_flag result \<times> db" where
  "setOverride now fr flagId orgId enabled v d =
     (if flag_by_id flagId d = None then (Inl (httpError ''errors.featureFlagNotFound'' 404), d)
      else if \<not> exists_row (\<lambda>x. o_id x = orgId \<and> o_deletedAt x = None) (organizations d)
      then (Inl (httpError ''errors.organizationNotFoundForFlag'' 404), d)
      else
        (let write = (\<lambda>x. x\<lparr>ov_enabled := enabled, ov_value := v, ov_updatedAt := now\<rparr>)
         in case override_for flagId orgId d of
              Some x \<Rightarrow>
                (Inr (write x),
                 d\<lparr>flagOverrides := update_where
                     (\<lambda>x. ov_featureFlagId x = flagId \<and> ov_organizationId x = orgId) write
                     (flagOverrides d)\<rparr>)
            | None \<Rightarrow>
                (let row = \<lparr>ov_id = fr_id fr, ov_featureFlagId = flagId, ov_organizationId = orgId,
                            ov_enabled = enabled, ov_value = v, ov_createdAt = now,
                            ov_updatedAt = now\<rparr>
                 in case insert_row override_clash row (flagOverrides d) of
                      Inl e \<Rightarrow> (Inl e, d)
                    | Inr vs \<Rightarrow> (Inr row, d\<lparr>flagOverrides := vs\<rparr>))))"

definition removeOverride :: "string \<Rightarrow> string \<Rightarrow> db \<Rightarrow> string result \<times> db" where
  "removeOverride flagId orgId d =
     (case override_for flagId orgId d of
        None \<Rightarrow> (Inl (httpError ''errors.overrideNotFound'' 404), d)
      | Some v \<Rightarrow> (Inr ''messages.overrideRemovedSuccessfully'',
                   d\<lparr>flagOverrides := delete_where (\<lambda>x. ov_id x = ov_id v) (flagOverrides d)\<rparr>))"

section \<open>Evaluation\<close>

text \<open>\<open>hash.readUInt32BE(0) % 100\<close> of the digest of \<open>orgId:flagKey\<close>.\<close>

definition read_u32_be :: "string \<Rightarrow> nat" where
  "read_u32_be bytes = foldl (\<lambda>a c. 256 * a + char_code c) 0 (take 4 bytes)"

definition deterministicBucket :: "env \<Rightarrow> string \<Rightarrow> string \<Rightarrow> nat" where
  "deterministicBucket E flagKey orgId = read_u32_be (sha256_bytes E (orgId @ '':'' @ flagKey)) mod 100"

text \<open>\<open>plans.length === 0\<close> and \<open>plans.includes(planCode)\<close>; a value without the method throws.\<close>

definition is_infix :: "string \<Rightarrow> string \<Rightarrow> bool" where
  "is_infix a s = list_ex (\<lambda>i. starts_with (drop i s) a) [0..<Suc (length s)]"

definition plan_listed :: "json \<Rightarrow> string option \<Rightarrow> bool result" where
  "plan_listed pls planCode =
     (let missing = (if truthy planCode then Inl (OtherError ''TypeError'') else Inr False)
      in case pls of
           JArr xs \<Rightarrow>
             if xs = [] then Inr True
             else Inr (truthy planCode \<and> JStr (the planCode) \<in> set xs)
         | JStr s \<Rightarrow>
             if s = [] then Inr True else Inr (truthy planCode \<and> is_infix (the planCode) s)
         | JObj kvs \<Rightarrow> if map_of kvs ''length'' = Some (JNum 0) then Inr True else missing
         | _ \<Rightarrow> missing)"

definition nullish :: "json option \<Rightarrow> json \<Rightarrow> json" where
  "nullish j dflt = (case j of None \<Rightarrow> dflt | Some JNull \<Rightarrow> dflt | Some x \<Rightarrow> x)"

definition evaluateByType ::
  "env \<Rightarrow> flag_type \<Rightarrow> json \<Rightarrow> bool \<Rightarrow> string option \<Rightarrow> string \<Rightarrow> string option \<Rightarrow> bool result" where
  "evaluateByType E ty v enabled planCode flagKey orgId =
     (if \<not> enabled then Inr False
      else case ty of
        FLAG_BOOLEAN \<Rightarrow> Inr (case js_prop v ''enabled'' of None \<Rightarrow> False | Some x \<Rightarrow> js_truthy x)
      | FLAG_PERCENTAGE \<Rightarrow>
          (let pct = to_number (nullish (js_prop v ''percentage'') (JNum 0))
           in if num_le_zero pct then Inr False
              else if num_ge_100 pct then Inr True
              else Inr (nat_less_num
                     (deterministicBucket E flagKey (case orgId of None \<Rightarrow> ''global'' | Some i \<Rightarrow> i)) pct))
      | FLAG_PLAN \<Rightarrow> plan_listed (nullish (js_prop v ''plans'') (JArr [])) planCode)"

datatype flag_reason = FLAG_NOT_FOUND_OR_INACTIVE | OVERRIDE | DEFAULT

definition evaluateFlag ::
  "env \<Rightarrow> string \<Rightarrow> string option \<Rightarrow> string option \<Rightarrow> db \<Rightarrow> (bool \<times> flag_reason) result" where
  "evaluateFlag E key orgId planCode d =
     (case flag_by_key key d of
        None \<Rightarrow> Inr (False, FLAG_NOT_FOUND_OR_INACTIVE)
      | Some f \<Rightarrow>
          if \<not> f_active f then Inr (False, FLAG_NOT_FOUND_OR_INACTIVE)
          else
            (let override = (if truthy orgId then override_for (f_id f) (the orgId) d else None)
             in case override of
                  Some v \<Rightarrow>
                    (case evaluateByType E (f_type f) (ov_value v) (ov_enabled v) planCode key orgId of
                       Inl e \<Rightarrow> Inl e | Inr b \<Rightarrow> Inr (b, OVERRIDE))
                | None \<Rightarrow>
                    (case evaluateByType E (f_type f) (f_value f) True planCode key orgId of
                       Inl e \<Rightarrow> Inl e | Inr b \<Rightarrow> Inr (b, DEFAULT))))"

definition requireFeatureFlag ::
  "env \<Rightarrow> string \<Rightarrow> tenant option \<Rightarrow> string option \<Rightarrow> db \<Rightarrow> (bool \<times> flag_reason) result" where
  "requireFeatureFlag E key tn planCode d =
     (case evaluateFlag E key (map_option tn_id tn) (if truthy planCode then planCode else None) d of
        Inl e \<Rightarrow> Inl e
      | Inr (enabled, reason) \<Rightarrow>
          if \<not> enabled then Inl (HttpError ''errors.featureNotEnabled'' 403 [(''key'', PStr key)])
          else Inr (enabled, reason))"

section \<open>What a rollout promises\<close>

lemma find_first_key_id:
  assumes "uniq flag_clash fs" "find_first (\<lambda>f. f_key f = key) fs = Some f"
  shows "find_first (\<lambda>f. f_id f = f_id f') fs = Some f' \<Longrightarrow> f_id f' = f_id f \<Longrightarrow> f' = f"
  using find_first_SomeD [OF assms(2)] find_first_SomeD(1) [of _ fs f']
    flag_ix.members_apart [OF assms(1), of f' f] by (auto simp: flag_clash_def)

lemma flag_by_key_update:
  assumes "flag_by_id i d \<noteq> None"
  shows "flag_by_key key (snd (updateFlag now i p d)) =
     map_option (\<lambda>f. if f_id f = i then patch_flag now p f else f) (flag_by_key key d)"
  using assms
  by (auto simp: updateFlag_def flag_by_key_def find_first_update_where patch_flag_def split: option.splits)

definition percent_of :: "rat \<Rightarrow> json" where
  "percent_of x = JObj [(''percentage'', JNum x)]"

lemma evaluate_percent:
  "evaluateByType E FLAG_PERCENTAGE (percent_of x) True planCode key orgId =
     Inr (x > 0 \<and> (x \<ge> 100 \<or> of_nat (deterministicBucket E key (case orgId of None \<Rightarrow> ''global'' | Some i \<Rightarrow> i)) < x))"
  by (simp add: evaluateByType_def percent_of_def js_prop_def nullish_def to_number_def num_le_zero_def
      num_ge_100_def nat_less_num_def Let_def)

definition set_percent :: "rat \<Rightarrow> flag_patch" where
  "set_percent x = \<lparr>fp_name = None, fp_description = None, fp_type = None, fp_value = Some (percent_of x),
     fp_active = None\<rparr>"

text \<open>C25: Raising the percentage of a rollout never takes the feature away: whoever had it, through the
  default or an override, still has it after the update.\<close>

theorem rollout_monotone:
  assumes "flag_by_key key d = Some f" "f_type f = FLAG_PERCENTAGE" "f_value f = percent_of x" "x \<le> y"
    and "evaluateFlag E key orgId planCode d = Inr (True, reason)"
  shows "evaluateFlag E key orgId planCode (snd (updateFlag now (f_id f) (set_percent y) d)) = Inr (True, reason)"
proof -
  let ?d = "snd (updateFlag now (f_id f) (set_percent y) d)"
  have ex: "flag_by_id (f_id f) d \<noteq> None"
    using find_first_SomeD(1) [OF assms(1) [unfolded flag_by_key_def]]
    by (auto simp: flag_by_id_def find_first_None_iff)
  have f': "flag_by_key key ?d = Some (patch_flag now (set_percent y) f)"
    unfolding flag_by_key_update [OF ex] using assms(1) by simp
  have ov: "override_for i j ?d = override_for i j d" for i j
    by (simp add: override_for_def updateFlag_def split: option.splits)
  have sel: "f_active (patch_flag now (set_percent y) f) = f_active f"
    "f_type (patch_flag now (set_percent y) f) = FLAG_PERCENTAGE"
    "f_value (patch_flag now (set_percent y) f) = percent_of y"
    "f_id (patch_flag now (set_percent y) f) = f_id f"
    using assms(2) by (simp_all add: patch_flag_def set_percent_def)
  have act: "f_active f" using assms(1,5) by (auto simp: evaluateFlag_def split: if_splits)
  show ?thesis
  proof (cases "if truthy orgId then override_for (f_id f) (the orgId) d else None")
    case (Some v)
    then show ?thesis
      using assms(1,2,5) act by (auto simp: evaluateFlag_def f' ov sel split: if_splits)
  next
    case None
    then show ?thesis
      using assms(1-5) act
      by (auto simp: evaluateFlag_def f' ov sel evaluate_percent assms(3))
  qed
qed

definition demo_flags :: db where
  "demo_flags = demo_db\<lparr>featureFlags := [\<lparr>f_id = ''f1'', f_key = ''beta'', f_name = ''Beta'',
     f_description = None, f_type = FLAG_PERCENTAGE, f_value = percent_of 60, f_active = True,
     f_createdAt = 0, f_updatedAt = 0\<rparr>]\<rparr>"

theorem rollout_monotone_witness:
  "evaluateFlag demo_env ''beta'' (Some ''acme'') None
     (snd (updateFlag 5 (f_id (hd (featureFlags demo_flags))) (set_percent 80) demo_flags)) = Inr (True, DEFAULT)"
proof (rule rollout_monotone [where x = 60])
  show "flag_by_key ''beta'' demo_flags = Some (hd (featureFlags demo_flags))"
    by (simp add: demo_flags_def flag_by_key_def)
  have "deterministicBucket demo_env ''beta'' ''acme'' = 5"
    by (simp add: deterministicBucket_def read_u32_be_def demo_env_def demo_sha_def char_code_def)
  then show "evaluateFlag demo_env ''beta'' (Some ''acme'') None demo_flags = Inr (True, DEFAULT)"
    by (simp add: evaluateFlag_def demo_flags_def flag_by_key_def override_for_def evaluate_percent
        demo_db_def empty_db_def)
qed (simp_all add: demo_flags_def)

end
