(* ===== verification/Projects.thy ===== *)
theory Projects
  imports Guards Query FeatureFlags ApiKeys
begin

text \<open>
  \<open>src/modules/project/project.service.js\<close> and the guard chains of \<open>project.router.js\<close>: every lookup is
  scoped to the organization the tenant guard has admitted the caller to.
\<close>

section \<open>The service\<close>

definition SORT_FIELDS :: "string list" where
  "SORT_FIELDS = [''createdAt'', ''updatedAt'', ''name'', ''status'']"

definition findLive :: "string \<Rightarrow> string \<Rightarrow> db \<Rightarrow> project result" where
  "findLive organizationId projectId d =
     (case find_first (\<lambda>p. p_id p = projectId \<and> p_organizationId p = organizationId
                           \<and> p_deletedAt p = None) (projects d) of
        None \<Rightarrow> Inl (httpError ''errors.projectNotFound'' 404)
      | Some p \<Rightarrow> Inr p)"

definition project_column :: "project \<Rightarrow> string list \<Rightarrow> string option" where
  "project_column p path =
     (if path = [''name''] then Some (p_name p)
      else if path = [''description''] then p_description p else None)"

definition listProjects ::
  "(string \<Rightarrow> string \<Rightarrow> bool) \<Rightarrow> ((string \<times> string) option \<Rightarrow> project list \<Rightarrow> project list)
   \<Rightarrow> string \<Rightarrow> list_query \<Rightarrow> project_status option \<Rightarrow> db \<Rightarrow> project list \<times> pagination_meta" where
  "listProjects like ob organizationId q status d =
     (let clauses = buildSearch (lq_search q) [''name'', ''description''];
          w = (\<lambda>p. p_organizationId p = organizationId \<and> p_deletedAt p = None
                   \<and> (case status of None \<Rightarrow> True | Some s \<Rightarrow> p_status p = s)
                   \<and> search_ok like project_column clauses p)
      in list_page (ob (parseSort (lq_sort q) (lq_order q) SORT_FIELDS)) w (page_of q) (limit_of q)
           (projects d))"

definition getProject :: "string \<Rightarrow> string \<Rightarrow> db \<Rightarrow> project result" where
  "getProject organizationId projectId d = findLive organizationId projectId d"

definition createProject ::
  "int \<Rightarrow> fresh \<Rightarrow> string \<Rightarrow> string \<Rightarrow> string \<Rightarrow> string option \<Rightarrow> db \<Rightarrow> project result \<times> db" where
  "createProject now fr organizationId userId name description d =
     (let row = \<lparr>p_id = fr_id fr, p_organizationId = organizationId, p_createdById = userId,
                 p_name = js_trim name, p_description = map_option js_trim description,
                 p_status = PROJECT_ACTIVE, p_deletedAt = None, p_createdAt = now,
                 p_updatedAt = now\<rparr>
      in case insert_row project_clash row (projects d) of
           Inl e \<Rightarrow> (Inl e, d)
         | Inr ps \<Rightarrow> (Inr row, d\<lparr>projects := ps\<rparr>))"

text \<open>A body field that is absent is \<open>None\<close>; \<open>description\<close> may be present and null.\<close>

record project_patch =
  pp_name :: "string option"
  pp_description :: "string option option"
  pp_status :: "project_status option"

definition patch_project :: "int \<Rightarrow> project_patch \<Rightarrow> project \<Rightarrow> project" where
  "patch_project now b p =
     p\<lparr>p_name := (case pp_name b of None \<Rightarrow> p_name p | Some n \<Rightarrow> js_trim n),
       p_description := (case pp_description b of None \<Rightarrow> p_description p
                         | Some x \<Rightarrow> map_option js_trim x),
       p_status := (case pp_status b of None \<Rightarrow> p_status p | Some s \<Rightarrow> s),
       p_updatedAt := now\<rparr>"

definition updateProject ::
  "int \<Rightarrow> string \<Rightarrow> string \<Rightarrow> project_patch \<Rightarrow> db \<Rightarrow> project result \<times> db" where
  "updateProject now organizationId projectId b d =
     (case findLive organizationId projectId d of
        Inl e \<Rightarrow> (Inl e, d)
      | Inr p \<Rightarrow>
          (Inr (patch_project now b p),
           d\<lparr>projects := update_where (\<lambda>p. p_id p = projectId) (patch_project now b) (projects d)\<rparr>))"

definition deleteProject :: "int \<Rightarrow> string \<Rightarrow> string \<Rightarrow> db \<Rightarrow> string result \<times> db" where
  "deleteProject now organizationId projectId d =
     (case findLive organizationId projectId d of
        Inl e \<Rightarrow> (Inl e, d)
      | Inr p \<Rightarrow>
          (Inr ''messages.projectDeleted'',
           d\<lparr>projects := update_where (\<lambda>p. p_id p = projectId)
                           (\<lambda>p. p\<lparr>p_deletedAt := Some now, p_updatedAt := now\<rparr>) (projects d)\<rparr>))"

definition exportProjects :: "string \<Rightarrow> db \<Rightarrow> project list" where
  "exportProjects organizationId d =
     rev (sort_key p_createdAt
       (rev (find_many (\<lambda>p. p_organizationId p = organizationId \<and> p_deletedAt p = None) (projects d))))"

definition getProjectAnalytics :: "string \<Rightarrow> db \<Rightarrow> nat \<times> (project_status \<times> nat) list" where
  "getProjectAnalytics organizationId d =
     (let live = (\<lambda>p. p_organizationId p = organizationId \<and> p_deletedAt p = None);
          n = (\<lambda>s. count_where (\<lambda>p. live p \<and> p_status p = s) (projects d))
      in (count_where live (projects d),
          filter (\<lambda>r. snd r \<noteq> 0) [(PROJECT_ACTIVE, n PROJECT_ACTIVE), (PROJECT_ARCHIVED, n PROJECT_ARCHIVED)]))"

section \<open>The routes\<close>

text \<open>\<open>router.use(authenticate, requireVerifiedEmail, requireTenant)\<close>.\<close>

definition project_guards ::
  "env \<Rightarrow> int \<Rightarrow> string option \<Rightarrow> string \<Rightarrow> db \<Rightarrow> (auth_user \<times> tenant) result" where
  "project_guards E now hdr orgId d =
     (case authenticate E now hdr d of
        Inl e \<Rightarrow> Inl e
      | Inr a \<Rightarrow>
          (case requireVerifiedEmail (Some (au_id a, Some (au_emailVerified a))) d of
             Inl e \<Rightarrow> Inl e
           | Inr _ \<Rightarrow>
               (case requireTenant orgId (au_id a) d of
                  Inl e \<Rightarrow> Inl e
                | Inr t \<Rightarrow> Inr (a, t))))"

definition GET_projects ::
  "env \<Rightarrow> (string \<Rightarrow> string \<Rightarrow> bool) \<Rightarrow> ((string \<times> string) option \<Rightarrow> project list \<Rightarrow> project list)
   \<Rightarrow> int \<Rightarrow> string option \<Rightarrow> string \<Rightarrow> list_query \<Rightarrow> project_status option \<Rightarrow> db
   \<Rightarrow> (project list \<times> pagination_meta) result" where
  "GET_projects E like ob now hdr orgId q status d =
     (case project_guards E now hdr orgId d of
        Inl e \<Rightarrow> Inl e
      | Inr (a, t) \<Rightarrow> Inr (listProjects like ob (tn_id t) q status d))"

definition GET_project ::
  "env \<Rightarrow> int \<Rightarrow> string option \<Rightarrow> string \<Rightarrow> string \<Rightarrow> db \<Rightarrow> project result" where
  "GET_project E now hdr orgId projectId d =
     (case project_guards E now hdr orgId d of
        Inl e \<Rightarrow> Inl e
      | Inr (a, t) \<Rightarrow> getProject (tn_id t) projectId d)"

text \<open>The paywall stack of \<open>/export\<close>: personal subscription, plan, feature flag.\<close>

definition GET_export :: "env \<Rightarrow> int \<Rightarrow> string option \<Rightarrow> string \<Rightarrow> db \<Rightarrow> project list result" where
  "GET_export E now hdr orgId d =
     (case project_guards E now hdr orgId d of
        Inl e \<Rightarrow> Inl e
      | Inr (a, t) \<Rightarrow>
          (case requireSubscription (Some (au_id a)) d of
             Inl e \<Rightarrow> Inl e
           | Inr s \<Rightarrow>
               (case requirePlan [''pro'', ''enterprise''] (Some s) d of
                  Inl e \<Rightarrow> Inl e
                | Inr _ \<Rightarrow>
                    (case requireFeatureFlag E ''projects_export'' (Some t)
                            (map_option pl_code (plan_by_id (s_planId s) d)) d of
                       Inl e \<Rightarrow> Inl e
                     | Inr _ \<Rightarrow> Inr (exportProjects (tn_id t) d)))))"

definition GET_analytics ::
  "env \<Rightarrow> int \<Rightarrow> string option \<Rightarrow> string \<Rightarrow> db \<Rightarrow> (nat \<times> (project_status \<times> nat) list) result" where
  "GET_analytics E now hdr orgId d =
     (case project_guards E now hdr orgId d of
        Inl e \<Rightarrow> Inl e
      | Inr (a, t) \<Rightarrow>
          (case requireOrgSubscription (Some t) d of
             Inl e \<Rightarrow> Inl e
           | Inr s \<Rightarrow>
               (case requirePlan [''pro'', ''enterprise''] (Some s) d of
                  Inl e \<Rightarrow> Inl e
                | Inr _ \<Rightarrow> Inr (getProjectAnalytics (tn_id t) d))))"

text \<open>
  The writing routes run their controller (\<open>project.controller.js\<close>): the service, and after it the
  audit entry.
\<close>

definition project_audit ::
  "env \<Rightarrow> int \<Rightarrow> client \<Rightarrow> audit_action \<Rightarrow> auth_user \<Rightarrow> tenant \<Rightarrow> (string \<times> json) list \<Rightarrow> db \<Rightarrow> db" where
  "project_audit E now cl action a t meta d =
     auditLog E now action
       (no_audit_data\<lparr>ad_userId := Some (au_id a), ad_organizationId := Some (tn_id t),
          ad_ipAddress := ipAddress cl, ad_userAgent := userAgent cl, ad_metadata := meta\<rparr>) d"

text \<open>\<open>Object.keys\<close> of the body: the fields that are present, in the order of the schema.\<close>

definition patch_fields :: "project_patch \<Rightarrow> string list" where
  "patch_fields b =
     (if pp_name b = None then [] else [''name'']) @
     (if pp_description b = None then [] else [''description'']) @
     (if pp_status b = None then [] else [''status''])"

definition POST_project ::
  "env \<Rightarrow> int \<Rightarrow> client \<Rightarrow> fresh \<Rightarrow> string option \<Rightarrow> string \<Rightarrow> string \<Rightarrow> string option \<Rightarrow> db
   \<Rightarrow> project result \<times> db" where
  "POST_project E now cl fr hdr orgId name description d =
     (case project_guards E now hdr orgId d of
        Inl e \<Rightarrow> (Inl e, d)
      | Inr (a, t) \<Rightarrow>
          (case requireOrgRole [OWNER, ORG_ADMIN] (Some t) of
             Inl e \<Rightarrow> (Inl e, d)
           | Inr _ \<Rightarrow>
               await (createProject now fr (tn_id t) (au_id a) name description d) (\<lambda>p d1.
                 (Inr p, project_audit E now cl PROJECT_CREATED a t
                           [(''projectId'', JStr (p_id p)), (''name'', JStr (p_name p))] d1))))"

definition PATCH_project ::
  "env \<Rightarrow> int \<Rightarrow> client \<Rightarrow> string option \<Rightarrow> string \<Rightarrow> string \<Rightarrow> project_patch \<Rightarrow> db
   \<Rightarrow> project result \<times> db" where
  "PATCH_project E now cl hdr orgId projectId b d =
     (case project_guards E now hdr orgId d of
        Inl e \<Rightarrow> (Inl e, d)
      | Inr (a, t) \<Rightarrow>
          (case requireOrgRole [OWNER, ORG_ADMIN] (Some t) of
             Inl e \<Rightarrow> (Inl e, d)
           | Inr _ \<Rightarrow>
               await (updateProject now (tn_id t) projectId b d) (\<lambda>p d1.
                 (Inr p, project_audit E now cl PROJECT_UPDATED a t
                           [(''projectId'', JStr projectId),
                            (''fields'', JArr (map JStr (patch_fields b)))] d1))))"

definition DELETE_project ::
  "env \<Rightarrow> int \<Rightarrow> client \<Rightarrow> string option \<Rightarrow> string \<Rightarrow> string \<Rightarrow> db \<Rightarrow> string result \<times> db" where
  "DELETE_project E now cl hdr orgId projectId d =
     (case project_guards E now hdr orgId d of
        Inl e \<Rightarrow> (Inl e, d)
      | Inr (a, t) \<Rightarrow>
          (case requireOrgRole [OWNER] (Some t) of
             Inl e \<Rightarrow> (Inl e, d)
           | Inr _ \<Rightarrow>
               await (deleteProject now (tn_id t) projectId d) (\<lambda>m d1.
                 (Inr m, project_audit E now cl PROJECT_DELETED a t
                           [(''projectId'', JStr projectId)] d1))))"

lemma projects_project_audit [simp]: "projects (project_audit E now cl act a t meta d) = projects d"
  by (simp add: project_audit_def)

text \<open>\<open>apiKeyRouter\<close>: an API key with the scope \<open>projects:read\<close> instead of a session.\<close>

definition key_guards :: "env \<Rightarrow> int \<Rightarrow> string option \<Rightarrow> string \<Rightarrow> db \<Rightarrow> tenant result \<times> db" where
  "key_guards E now rawKey orgId d =
     await (authenticateApiKey E now rawKey d) (\<lambda>(user, key) d1.
       case requireScope [''projects:read''] (Some key) of
         Inl e \<Rightarrow> (Inl e, d1)
       | Inr _ \<Rightarrow> (requireTenant orgId (fst user) d1, d1))"

definition KEY_projects ::
  "env \<Rightarrow> int \<Rightarrow> string option \<Rightarrow> string \<Rightarrow> list_query \<Rightarrow> project_status option \<Rightarrow> db
   \<Rightarrow> (project list \<times> pagination_meta) result \<times> db" where
  "KEY_projects E now rawKey orgId q status d =
     await (key_guards E now rawKey orgId d)
       (\<lambda>t d1. (Inr (listProjects (ilike (pg E)) (order_projects (pg E)) (tn_id t) q status d1), d1))"

definition KEY_project ::
  "env \<Rightarrow> int \<Rightarrow> string option \<Rightarrow> string \<Rightarrow> string \<Rightarrow> db \<Rightarrow> project result \<times> db" where
  "KEY_project E now rawKey orgId projectId d =
     await (key_guards E now rawKey orgId d) (\<lambda>t d1. (getProject (tn_id t) projectId d1, d1))"

section \<open>Isolation of tenants\<close>

lemma findLive_InrD:
  assumes "findLive org pid d = Inr p"
  shows "p \<in> set (projects d)" "p_id p = pid" "p_organizationId p = org" "p_deletedAt p = None"
  using find_first_SomeD [of "\<lambda>p. p_id p = pid \<and> p_organizationId p = org \<and> p_deletedAt p = None" "projects d" p]
    assms by (auto simp: findLive_def split: option.splits)

lemma project_guards_InrD:
  assumes "project_guards E now hdr orgId d = Inr (a, t)"
  shows "authenticate E now hdr d = Inr a" "au_emailVerified a" "requireTenant orgId (au_id a) d = Inr t"
    "tn_id t = orgId" "\<exists>m. membership orgId (au_id a) d = Some m \<and> m_role m = tn_role t"
proof -
  show g: "authenticate E now hdr d = Inr a" "au_emailVerified a" "requireTenant orgId (au_id a) d = Inr t"
    using assms by (auto simp: project_guards_def requireVerifiedEmail_def split: sum.splits if_splits)
  from requireTenant_InrD [OF g(3)] obtain m x where
    mx: "membership orgId (au_id a) d = Some m" "org_by_id (m_organizationId m) d = Some x" "t = tenant_of x m"
    by blast
  then show "tn_id t = orgId"
    using membershipD(2) [OF mx(1)] org_by_idD(2) [OF mx(2)] by (simp add: tenant_of_def)
  show "\<exists>m. membership orgId (au_id a) d = Some m \<and> m_role m = tn_role t"
    using mx by (simp add: tenant_of_def)
qed

text \<open>The projects of all organizations but one.\<close>

definition foreign_projects :: "string \<Rightarrow> db \<Rightarrow> project list" where
  "foreign_projects org d = filter (\<lambda>p. p_organizationId p \<noteq> org) (projects d)"

lemma update_where_foreign:
  assumes "uniq project_clash ps" "p0 \<in> set ps" "p_organizationId p0 = org"
    and "\<And>p. p_organizationId (f p) = p_organizationId p"
  shows "filter (\<lambda>p. p_organizationId p \<noteq> org) (update_where (\<lambda>p. p_id p = p_id p0) f ps) =
         filter (\<lambda>p. p_organizationId p \<noteq> org) ps"
proof -
  have same: "p_organizationId p = org" if "p \<in> set ps" "p_id p = p_id p0" for p
    using project_ix.members_apart [OF assms(1) that(1) assms(2)] that(2) assms(3)
    by (simp add: project_clash_def)
  have "filter (\<lambda>p. p_organizationId p \<noteq> org) (update_where (\<lambda>p. p_id p = i) f qs) =
      filter (\<lambda>p. p_organizationId p \<noteq> org) qs"
    if "\<forall>p \<in> set qs. p_id p = i \<longrightarrow> p_organizationId p = org" for qs i
    using that assms(4) by (induction qs) auto
  with same show ?thesis by blast
qed

text \<open>C8: Tenant isolation of reads: whatever project a session route answers with belongs to the
  organization of the URL, is live, and the caller is a verified, authenticated member of it; and a
  member who asks for the id of another tenant's project gets a 404, as for an id that does not
  exist.\<close>

theorem project_reads_isolated:
  assumes "uniq project_clash (projects d)"
  shows "(\<forall>p. GET_project E now hdr orgId pid d = Inr p \<longrightarrow>
            p \<in> set (projects d) \<and> p_id p = pid \<and> p_organizationId p = orgId \<and> p_deletedAt p = None
          \<and> (\<exists>a m. authenticate E now hdr d = Inr a \<and> au_emailVerified a \<and> m \<in> set (members d)
               \<and> m_organizationId m = orgId \<and> m_userId m = au_id a))
     \<and> (\<forall>q \<in> set (projects d). p_id q = pid \<longrightarrow> p_organizationId q \<noteq> orgId \<longrightarrow>
          is_ok (project_guards E now hdr orgId d) \<longrightarrow>
          GET_project E now hdr orgId pid d = Inl (httpError ''errors.projectNotFound'' 404))"
proof (intro conjI allI ballI impI)
  fix p assume "GET_project E now hdr orgId pid d = Inr p"
  then obtain a t where g: "project_guards E now hdr orgId d = Inr (a, t)" and l: "findLive (tn_id t) pid d = Inr p"
    by (auto simp: GET_project_def getProject_def split: sum.splits prod.splits)
  note gd = project_guards_InrD [OF g]
  from gd(5) obtain m where m: "membership orgId (au_id a) d = Some m" by blast
  show "p \<in> set (projects d)" "p_id p = pid" "p_organizationId p = orgId" "p_deletedAt p = None"
    using findLive_InrD [OF l] gd(4) by simp_all
  show "\<exists>a m. authenticate E now hdr d = Inr a \<and> au_emailVerified a \<and> m \<in> set (members d)
      \<and> m_organizationId m = orgId \<and> m_userId m = au_id a"
    using gd(1,2) membershipD [OF m] by blast
next
  fix q assume q: "q \<in> set (projects d)" "p_id q = pid" "p_organizationId q \<noteq> orgId"
    and "is_ok (project_guards E now hdr orgId d)"
  then obtain a t where g: "project_guards E now hdr orgId d = Inr (a, t)"
    by (auto simp: is_ok_def split: sum.splits)
  note gd = project_guards_InrD [OF g]
  have "find_first (\<lambda>p. p_id p = pid \<and> p_organizationId p = tn_id t \<and> p_deletedAt p = None) (projects d) = None"
  proof (rule ccontr)
    assume "\<not> ?thesis"
    then obtain p where p: "findLive (tn_id t) pid d = Inr p" by (auto simp: findLive_def)
    from findLive_InrD [OF this] project_ix.members_apart [OF assms findLive_InrD(1) [OF p] q(1)] q gd(4)
    show False by (auto simp: project_clash_def)
  qed
  then show "GET_project E now hdr orgId pid d = Inl (httpError ''errors.projectNotFound'' 404)"
    by (simp add: GET_project_def getProject_def findLive_def g)
qed

text \<open>C5: Tenant isolation of writes: creating, changing or deleting a project through a session route leaves
  the projects of every other organization exactly as they were, whatever ids the request names, and
  it changes anything only for an owner or administrator (for a deletion: the owner) of the
  organization.\<close>

theorem project_writes_isolated:
  assumes "uniq project_clash (projects d)"
    and "(\<exists>r cl fr name descr. POST_project E now cl fr hdr orgId name descr d = (r, d'))
       \<or> (\<exists>r cl b. PATCH_project E now cl hdr orgId pid b d = (r, d'))
       \<or> (\<exists>r cl. DELETE_project E now cl hdr orgId pid d = (r, d'))"
  shows "foreign_projects orgId d' = foreign_projects orgId d
     \<and> (d' \<noteq> d \<longrightarrow> (\<exists>a m. authenticate E now hdr d = Inr a \<and> membership orgId (au_id a) d = Some m
          \<and> m_role m \<in> {OWNER, ORG_ADMIN}))
     \<and> (d' \<noteq> d \<longrightarrow> (\<exists>r cl. DELETE_project E now cl hdr orgId pid d = (r, d')) \<longrightarrow>
          (\<exists>a m. authenticate E now hdr d = Inr a \<and> membership orgId (au_id a) d = Some m \<and> m_role m = OWNER))"
proof (cases "d' = d")
  case True
  then show ?thesis by simp
next
  case False
  then have "\<exists>a t. project_guards E now hdr orgId d = Inr (a, t) \<and> tn_role t \<in> {OWNER, ORG_ADMIN}
     \<and> ((\<exists>row. projects d' = projects d @ [row] \<and> p_organizationId row = tn_id t)
      \<or> (\<exists>p f. findLive (tn_id t) pid d = Inr p \<and> (\<forall>p. p_organizationId (f p) = p_organizationId p)
           \<and> projects d' = update_where (\<lambda>p. p_id p = pid) f (projects d)))"
    using assms(2)
  proof (elim disjE exE)
    fix r cl fr name descr assume "POST_project E now cl fr hdr orgId name descr d = (r, d')"
    with False show ?thesis
      by (auto simp: POST_project_def createProject_def requireOrgRole_def await_def Let_def
          split: sum.splits prod.splits if_splits dest!: insert_row_InrD)
  next
    fix r cl b assume "PATCH_project E now cl hdr orgId pid b d = (r, d')"
    with False show ?thesis
      by (auto simp: PATCH_project_def updateProject_def requireOrgRole_def await_def patch_project_def
          split: sum.splits prod.splits if_splits intro!: exI [of _ "patch_project now b"])
  next
    fix r cl assume "DELETE_project E now cl hdr orgId pid d = (r, d')"
    with False show ?thesis
      by (auto simp: DELETE_project_def deleteProject_def requireOrgRole_def await_def
          split: sum.splits prod.splits if_splits
          intro!: exI [of _ "\<lambda>p. p\<lparr>p_deletedAt := Some now, p_updatedAt := now\<rparr>"])
  qed
  then obtain a t where g: "project_guards E now hdr orgId d = Inr (a, t)" and role: "tn_role t \<in> {OWNER, ORG_ADMIN}"
    and w: "(\<exists>row. projects d' = projects d @ [row] \<and> p_organizationId row = tn_id t)
      \<or> (\<exists>p f. findLive (tn_id t) pid d = Inr p \<and> (\<forall>p. p_organizationId (f p) = p_organizationId p)
           \<and> projects d' = update_where (\<lambda>p. p_id p = pid) f (projects d))"
    by blast
  note gd = project_guards_InrD [OF g]
  have "foreign_projects orgId d' = foreign_projects orgId d"
    using w
  proof (elim disjE exE conjE)
    fix row assume "projects d' = projects d @ [row]" "p_organizationId row = tn_id t"
    then show ?thesis using gd(4) by (simp add: foreign_projects_def)
  next
    fix p f
    assume l: "findLive (tn_id t) pid d = Inr p" and f: "\<forall>p. p_organizationId (f p) = p_organizationId p"
      and up: "projects d' = update_where (\<lambda>p. p_id p = pid) f (projects d)"
    note p = findLive_InrD [OF l]
    from update_where_foreign [OF assms(1) p(1), of orgId f] p(2,3) f gd(4) show ?thesis
      by (simp add: foreign_projects_def up)
  qed
  moreover have "\<exists>a m. authenticate E now hdr d = Inr a \<and> membership orgId (au_id a) d = Some m \<and> m_role m = OWNER"
    if "DELETE_project E now cl hdr orgId pid d = (r, d')" for r cl
  proof -
    from that False g have "tn_role t = OWNER"
      by (auto simp: DELETE_project_def requireOrgRole_def split: if_splits)
    with gd(1,5) show ?thesis by auto
  qed
  ultimately show ?thesis using gd(1,5) role by (auto simp del: insert_iff)
qed

definition demo_projects :: db where
  "demo_projects = demo_db\<lparr>organizations := [\<lparr>o_id = ''o1'', o_name = ''Acme'', o_slug = ''acme'', o_ownerId = ''u1'',
       o_stripeCustomerId = None, o_deletedAt = None, o_createdAt = 0, o_updatedAt = 0\<rparr>],
     members := [\<lparr>m_id = ''m1'', m_organizationId = ''o1'', m_userId = ''u1'', m_role = OWNER, m_createdAt = 0,
       m_updatedAt = 0\<rparr>],
     projects := [\<lparr>p_id = ''p1'', p_organizationId = ''o1'', p_createdById = ''u1'', p_name = ''One'',
       p_description = None, p_status = PROJECT_ACTIVE, p_deletedAt = None, p_createdAt = 0, p_updatedAt = 0\<rparr>,
       \<lparr>p_id = ''p2'', p_organizationId = ''o2'', p_createdById = ''u2'', p_name = ''Two'',
       p_description = None, p_status = PROJECT_ACTIVE, p_deletedAt = None, p_createdAt = 0, p_updatedAt = 0\<rparr>]\<rparr>"

lemma demo_projects_uniq: "uniq project_clash (projects demo_projects)"
  by (simp add: demo_projects_def project_clash_def)

text \<open>The first project is answered, the second, another tenant's, is not.\<close>

theorem project_reads_isolated_witness:
  "p_organizationId (hd (projects demo_projects)) = ''o1''
   \<and> (\<exists>a m. authenticate demo_env 5 (Some ''Bearer Ax'') demo_projects = Inr a \<and> au_emailVerified a
        \<and> m \<in> set (members demo_projects) \<and> m_organizationId m = ''o1'' \<and> m_userId m = au_id a)
   \<and> GET_project demo_env 5 (Some ''Bearer Ax'') ''o1'' ''p2'' demo_projects
        = Inl (httpError ''errors.projectNotFound'' 404)"
proof -
  have "GET_project demo_env 5 (Some ''Bearer Ax'') ''o1'' ''p1'' demo_projects
      = Inr (hd (projects demo_projects))"
    by code_simp
  note reads = project_reads_isolated [OF demo_projects_uniq, THEN conjunct1, rule_format, OF this]
  have "is_ok (project_guards demo_env 5 (Some ''Bearer Ax'') ''o1'' demo_projects)"
    by code_simp
  then have "GET_project demo_env 5 (Some ''Bearer Ax'') ''o1'' ''p2'' demo_projects
      = Inl (httpError ''errors.projectNotFound'' 404)"
    using project_reads_isolated [OF demo_projects_uniq, THEN conjunct2, rule_format,
        of "projects demo_projects ! 1" "''p2''" "''o1''" demo_env 5 "Some ''Bearer Ax''"]
    by (simp add: demo_projects_def)
  with reads show ?thesis by blast
qed

theorem project_writes_isolated_witness:
  "foreign_projects ''o1'' (snd (DELETE_project demo_env 5 demo_client (Some ''Bearer Ax'') ''o1'' ''p1'' demo_projects))
     = foreign_projects ''o1'' demo_projects
   \<and> (\<exists>a m. authenticate demo_env 5 (Some ''Bearer Ax'') demo_projects = Inr a
        \<and> membership ''o1'' (au_id a) demo_projects = Some m \<and> m_role m = OWNER)"
proof -
  let ?d' = "snd (DELETE_project demo_env 5 demo_client (Some ''Bearer Ax'') ''o1'' ''p1'' demo_projects)"
  have del: "\<exists>r cl. DELETE_project demo_env 5 cl (Some ''Bearer Ax'') ''o1'' ''p1'' demo_projects = (r, ?d')"
    by (metis prod.collapse)
  have "map p_deletedAt (projects ?d') \<noteq> map p_deletedAt (projects demo_projects)"
    by code_simp
  then have "?d' \<noteq> demo_projects" by metis
  with del project_writes_isolated [OF demo_projects_uniq disjI2 [OF disjI2 [OF del]]]
  show ?thesis by blast
qed

end
