(* ===== verification/Notifications.thy ===== *)
theory Notifications
  imports Query Users
begin

text \<open>
  \<open>src/modules/notification/notification.service.js\<close> and the reading side of
  \<open>src/modules/audit/audit.service.js\<close>.
\<close>

section \<open>Notifications\<close>

definition preference_of :: "string \<Rightarrow> db \<Rightarrow> notification_preference option" where
  "preference_of userId d = find_first (\<lambda>p. np_userId p = userId) (notificationPreferences d)"

definition createNotification ::
  "int \<Rightarrow> fresh \<Rightarrow> string \<Rightarrow> notification_type \<Rightarrow> string \<Rightarrow> string \<Rightarrow> json \<Rightarrow> db
   \<Rightarrow> notification option result \<times> db" where
  "createNotification now fr userId ty title message data d =
     (let muted = (case preference_of userId d of
                     None \<Rightarrow> False
                   | Some p \<Rightarrow> \<not> np_inAppEnabled p \<or> ty \<in> set (np_mutedTypes p));
          row = \<lparr>n_id = fr_id fr, n_userId = userId, n_type = ty, n_title = title,
                 n_message = message, n_data = data, n_readAt = None, n_createdAt = now\<rparr>
      in if muted then (Inr None, d)
         else case insert_row notification_clash row (notifications d) of
                Inl e \<Rightarrow> (Inl e, d)
              | Inr ns \<Rightarrow> (Inr (Some row), d\<lparr>notifications := ns\<rparr>))"

definition notification_column :: "notification \<Rightarrow> string list \<Rightarrow> string option" where
  "notification_column n path =
     (if path = [''title''] then Some (n_title n)
      else if path = [''message''] then Some (n_message n) else None)"

definition listNotifications ::
  "(string \<Rightarrow> string \<Rightarrow> bool) \<Rightarrow> ((string \<times> string) option \<Rightarrow> notification list \<Rightarrow> notification list)
   \<Rightarrow> string \<Rightarrow> list_query \<Rightarrow> notification_type option \<Rightarrow> bool \<Rightarrow> db
   \<Rightarrow> notification list \<times> nat \<times> pagination_meta" where
  "listNotifications like ob userId q ty unreadOnly d =
     (let clauses = buildSearch (lq_search q) [''title'', ''message''];
          p = (\<lambda>n. n_userId n = userId \<and> (case ty of None \<Rightarrow> True | Some t \<Rightarrow> n_type n = t)
                   \<and> (unreadOnly \<longrightarrow> n_readAt n = None) \<and> search_ok like notification_column clauses n);
          r = list_page (ob (parseSort (lq_sort q) (lq_order q) [''createdAt'', ''type'', ''readAt'']))
                p (page_of q) (limit_of q) (notifications d)
      in (fst r, count_where (\<lambda>n. n_userId n = userId \<and> n_readAt n = None) (notifications d), snd r))"

definition own_notification :: "string \<Rightarrow> string \<Rightarrow> db \<Rightarrow> notification option" where
  "own_notification userId notificationId d =
     find_first (\<lambda>n. n_id n = notificationId \<and> n_userId n = userId) (notifications d)"

definition markAsRead :: "int \<Rightarrow> string \<Rightarrow> string \<Rightarrow> db \<Rightarrow> string result \<times> db" where
  "markAsRead now userId notificationId d =
     (case own_notification userId notificationId d of
        None \<Rightarrow> (Inl (httpError ''errors.notificationNotFound'' 404), d)
      | Some n \<Rightarrow>
          if n_readAt n \<noteq> None then (Inr ''messages.notificationAlreadyRead'', d)
          else (Inr ''messages.notificationMarkedAsRead'',
                d\<lparr>notifications := update_where (\<lambda>n. n_id n = notificationId)
                                     (\<lambda>n. n\<lparr>n_readAt := Some now\<rparr>) (notifications d)\<rparr>))"

definition markAllAsRead :: "int \<Rightarrow> string \<Rightarrow> db \<Rightarrow> nat \<times> db" where
  "markAllAsRead now userId d =
     (let p = (\<lambda>n. n_userId n = userId \<and> n_readAt n = None)
      in (count_where p (notifications d),
          d\<lparr>notifications := update_where p (\<lambda>n. n\<lparr>n_readAt := Some now\<rparr>) (notifications d)\<rparr>))"

definition deleteNotification :: "string \<Rightarrow> string \<Rightarrow> db \<Rightarrow> string result \<times> db" where
  "deleteNotification userId notificationId d =
     (case own_notification userId notificationId d of
        None \<Rightarrow> (Inl (httpError ''errors.notificationNotFound'' 404), d)
      | Some n \<Rightarrow>
          (Inr ''messages.notificationDeleted'',
           d\<lparr>notifications := delete_where (\<lambda>n. n_id n = notificationId) (notifications d)\<rparr>))"

section \<open>Preferences\<close>

text \<open>A row with the schema's defaults.\<close>

definition new_preference :: "int \<Rightarrow> string \<Rightarrow> string \<Rightarrow> notification_preference" where
  "new_preference now i userId =
     \<lparr>np_id = i, np_userId = userId, np_emailEnabled = True, np_pushEnabled = True,
      np_inAppEnabled = True, np_mutedTypes = [], np_createdAt = now, np_updatedAt = now\<rparr>"

definition getPreferences :: "int \<Rightarrow> fresh \<Rightarrow> string \<Rightarrow> db \<Rightarrow> notification_preference result \<times> db" where
  "getPreferences now fr userId d =
     (case preference_of userId d of
        Some p \<Rightarrow> (Inr p, d)
      | None \<Rightarrow>
          (let row = new_preference now (fr_id fr) userId
           in case insert_row preference_clash row (notificationPreferences d) of
                Inl e \<Rightarrow> (Inl e, d)
              | Inr ps \<Rightarrow> (Inr row, d\<lparr>notificationPreferences := ps\<rparr>)))"

record preference_patch =
  pr_email :: "bool option"
  pr_push :: "bool option"
  pr_inApp :: "bool option"
  pr_muted :: "notification_type list option"

definition patch_preference ::
  "int \<Rightarrow> preference_patch \<Rightarrow> notification_preference \<Rightarrow> notification_preference" where
  "patch_preference now u p =
     p\<lparr>np_emailEnabled := (case pr_email u of None \<Rightarrow> np_emailEnabled p | Some x \<Rightarrow> x),
       np_pushEnabled := (case pr_push u of None \<Rightarrow> np_pushEnabled p | Some x \<Rightarrow> x),
       np_inAppEnabled := (case pr_inApp u of None \<Rightarrow> np_inAppEnabled p | Some x \<Rightarrow> x),
       np_mutedTypes := (case pr_muted u of None \<Rightarrow> np_mutedTypes p | Some x \<Rightarrow> x),
       np_updatedAt := now\<rparr>"

definition updatePreferences ::
  "int \<Rightarrow> fresh \<Rightarrow> string \<Rightarrow> preference_patch \<Rightarrow> db \<Rightarrow> notification_preference result \<times> db" where
  "updatePreferences now fr userId u d =
     (case preference_of userId d of
        Some p \<Rightarrow>
          (Inr (patch_preference now u p),
           d\<lparr>notificationPreferences := update_where (\<lambda>p. np_userId p = userId) (patch_preference now u)
                                          (notificationPreferences d)\<rparr>)
      | None \<Rightarrow>
          (let row = patch_preference now u (new_preference now (fr_id fr) userId)
           in case insert_row preference_clash row (notificationPreferences d) of
                Inl e \<Rightarrow> (Inl e, d)
              | Inr ps \<Rightarrow> (Inr row, d\<lparr>notificationPreferences := ps\<rparr>)))"

section \<open>Audit logs\<close>

record audit_filter =
  af_action :: "audit_action option"
  af_userId :: "string option"
  af_targetUserId :: "string option"
  af_organizationId :: "string option"

definition audit_matches :: "audit_filter \<Rightarrow> audit_log \<Rightarrow> bool" where
  "audit_matches f a \<longleftrightarrow>
     (case af_action f of None \<Rightarrow> True | Some x \<Rightarrow> a_action a = x)
   \<and> (truthy (af_userId f) \<longrightarrow> a_userId a = af_userId f)
   \<and> (truthy (af_targetUserId f) \<longrightarrow> a_targetUserId a = af_targetUserId f)
   \<and> (truthy (af_organizationId f) \<longrightarrow> a_organizationId a = af_organizationId f)"

type_synonym audit_order = "(string \<times> string) option \<Rightarrow> audit_log list \<Rightarrow> audit_log list"

definition listAuditLogs ::
  "audit_order \<Rightarrow> int \<Rightarrow> int \<Rightarrow> string \<Rightarrow> string \<Rightarrow> audit_filter \<Rightarrow> db \<Rightarrow> audit_log list \<times> pagination_meta" where
  "listAuditLogs ob page limit srt order f d =
     list_page (ob (parseSort srt order [''createdAt'', ''action''])) (audit_matches f) page limit (auditLogs d)"

definition listUserAuditLogs ::
  "audit_order \<Rightarrow> string \<Rightarrow> int \<Rightarrow> int \<Rightarrow> string \<Rightarrow> string \<Rightarrow> db \<Rightarrow> audit_log list \<times> pagination_meta" where
  "listUserAuditLogs ob userId page limit srt order d =
     list_page (ob (parseSort srt order [''createdAt'', ''action'']))
       (\<lambda>a. a_userId a = Some userId \<or> a_targetUserId a = Some userId) page limit (auditLogs d)"

end
