(* ===== verification/Jobs.thy ===== *)
theory Jobs
  imports TwoFactor Invitation
begin

text \<open>
  The background jobs of \<open>src/modules/jobs\<close>: the retention clean-ups of \<open>maintenance.worker.js\<close> and
  their schedule (\<open>maintenance.producer.js\<close>), and the dead-letter table (\<open>deadLetter.js\<close>).  BullMQ
  runs them; what it promises is that the \<open>failed\<close> event fires after every failed attempt, with the
  number of attempts made so far.
\<close>

section \<open>Retention windows\<close>

record retention =
  AUDIT_LOG_RETENTION_DAYS :: "string option"
  NOTIFICATION_RETENTION_DAYS :: "string option"
  INVITATION_RETENTION_DAYS :: "string option"
  FAILED_JOB_RETENTION_DAYS :: "string option"
  WEBHOOK_EVENT_RETENTION_DAYS :: "string option"

text \<open>\<open>Number(process.env.X ?? fallback)\<close>: an empty variable is the number 0, other text NaN.\<close>

definition retention_days :: "string option \<Rightarrow> nat \<Rightarrow> js_num" where
  "retention_days v fallback = (case v of None \<Rightarrow> Fin (of_nat fallback) | Some s \<Rightarrow> js_number s)"

text \<open>
  \<open>daysAgo\<close>: the time value is cut to whole milliseconds, and outside of 8.64e15 milliseconds
  around the epoch the date is invalid.  Prisma refuses a query with an invalid date.
\<close>

definition truncate_rat :: "rat \<Rightarrow> int" where
  "truncate_rat x = (if x < 0 then \<lceil>x\<rceil> else \<lfloor>x\<rfloor>)"

definition daysAgo :: "int \<Rightarrow> js_num \<Rightarrow> int result" where
  "daysAgo now days =
     (case days of
        Fin x \<Rightarrow>
          (let t = of_int now - x * 24 * 60 * 60 * 1000
           in if \<bar>t\<bar> > 8640000000000000 then Inl (OtherError ''Provided Date object is invalid'')
              else Inr (truncate_rat t))
      | _ \<Rightarrow> Inl (OtherError ''Provided Date object is invalid''))"

section \<open>The clean-ups\<close>

definition cleanupRefreshTokens :: "int \<Rightarrow> db \<Rightarrow> nat result \<times> db" where
  "cleanupRefreshTokens now d =
     (case daysAgo now (Fin 7) of
        Inl e \<Rightarrow> (Inl e, d)
      | Inr cutoff \<Rightarrow>
          (let old = (\<lambda>t. rt_expiresAt t < now \<or> rt_revoked t \<and> rt_updatedAt t < cutoff)
           in (Inr (count_where old (refreshTokens d)),
               d\<lparr>refreshTokens := delete_where old (refreshTokens d)\<rparr>)))"

definition cleanupTwoFactorChallenges :: "int \<Rightarrow> db \<Rightarrow> nat result \<times> db" where
  "cleanupTwoFactorChallenges now d =
     (let old = (\<lambda>c. ch_expiresAt c < now)
      in (Inr (count_where old (twoFactorChallenges d)),
          d\<lparr>twoFactorChallenges := delete_where old (twoFactorChallenges d)\<rparr>))"

definition cleanupAuditLogs :: "retention \<Rightarrow> int \<Rightarrow> db \<Rightarrow> nat result \<times> db" where
  "cleanupAuditLogs R now d =
     (case daysAgo now (retention_days (AUDIT_LOG_RETENTION_DAYS R) 365) of
        Inl e \<Rightarrow> (Inl e, d)
      | Inr cutoff \<Rightarrow>
          (let old = (\<lambda>a. a_createdAt a < cutoff)
           in (Inr (count_where old (auditLogs d)), d\<lparr>auditLogs := delete_where old (auditLogs d)\<rparr>)))"

definition cleanupNotifications :: "retention \<Rightarrow> int \<Rightarrow> db \<Rightarrow> nat result \<times> db" where
  "cleanupNotifications R now d =
     (case daysAgo now (retention_days (NOTIFICATION_RETENTION_DAYS R) 90) of
        Inl e \<Rightarrow> (Inl e, d)
      | Inr cutoff \<Rightarrow>
          (let old = (\<lambda>n. n_createdAt n < cutoff)
           in (Inr (count_where old (notifications d)),
               d\<lparr>notifications := delete_where old (notifications d)\<rparr>)))"

definition cleanupTerminalInvitations :: "retention \<Rightarrow> int \<Rightarrow> db \<Rightarrow> nat result \<times> db" where
  "cleanupTerminalInvitations R now d =
     (case daysAgo now (retention_days (INVITATION_RETENTION_DAYS R) 30) of
        Inl e \<Rightarrow> (Inl e, d)
      | Inr cutoff \<Rightarrow>
          (let old = (\<lambda>i. i_status i \<in> {INV_ACCEPTED, INV_DECLINED, INV_EXPIRED, INV_CANCELED}
                          \<and> i_updatedAt i < cutoff)
           in (Inr (count_where old (invitations d)),
               d\<lparr>invitations := delete_where old (invitations d)\<rparr>)))"

definition cleanupFailedJobs :: "retention \<Rightarrow> int \<Rightarrow> db \<Rightarrow> nat result \<times> db" where
  "cleanupFailedJobs R now d =
     (case daysAgo now (retention_days (FAILED_JOB_RETENTION_DAYS R) 90) of
        Inl e \<Rightarrow> (Inl e, d)
      | Inr cutoff \<Rightarrow>
          (let old = (\<lambda>j. fj_failedAt j < cutoff)
           in (Inr (count_where old (failedJobs d)), d\<lparr>failedJobs := delete_where old (failedJobs d)\<rparr>)))"

definition cleanupProcessedWebhookEvents :: "retention \<Rightarrow> int \<Rightarrow> db \<Rightarrow> nat result \<times> db" where
  "cleanupProcessedWebhookEvents R now d =
     (case daysAgo now (retention_days (WEBHOOK_EVENT_RETENTION_DAYS R) 30) of
        Inl e \<Rightarrow> (Inl e, d)
      | Inr cutoff \<Rightarrow>
          (let old = (\<lambda>w. we_createdAt w < cutoff)
           in (Inr (count_where old (webhookEvents d)),
               d\<lparr>webhookEvents := delete_where old (webhookEvents d)\<rparr>)))"

text \<open>The worker: an unknown job is logged and done (\<open>undefined\<close>, here \<open>None\<close>).\<close>

definition processMaintenanceJob ::
  "retention \<Rightarrow> int \<Rightarrow> string \<Rightarrow> db \<Rightarrow> nat option result \<times> db" where
  "processMaintenanceJob R now name d =
     (let done = (\<lambda>r. await r (\<lambda>n d'. (Inr (Some n), d')))
      in if name = ''cleanupRefreshTokens'' then done (cleanupRefreshTokens now d)
         else if name = ''cleanupTwoFactorChallenges'' then done (cleanupTwoFactorChallenges now d)
         else if name = ''cleanupAuditLogs'' then done (cleanupAuditLogs R now d)
         else if name = ''cleanupNotifications'' then done (cleanupNotifications R now d)
         else if name = ''cleanupTerminalInvitations'' then done (cleanupTerminalInvitations R now d)
         else if name = ''cleanupFailedJobs'' then done (cleanupFailedJobs R now d)
         else if name = ''cleanupProcessedWebhookEvents'' then done (cleanupProcessedWebhookEvents R now d)
         else (Inr None, d))"

section \<open>The schedule\<close>

text \<open>What the two schedulers of \<open>maintenance.producer.js\<close> add to the queue: name, \<open>jobId\<close> and cron pattern.\<close>

definition OTHER_CLEANUP_JOB_NAMES :: "string list" where
  "OTHER_CLEANUP_JOB_NAMES = [''cleanupTwoFactorChallenges'', ''cleanupAuditLogs'', ''cleanupNotifications'',
     ''cleanupTerminalInvitations'', ''cleanupFailedJobs'', ''cleanupProcessedWebhookEvents'']"

definition CLEANUP_CRON :: "string option \<Rightarrow> string" where
  "CLEANUP_CRON v = (case v of None \<Rightarrow> ''0 3 * * *'' | Some s \<Rightarrow> s)"

definition scheduleRefreshTokenCleanup :: "env \<Rightarrow> string option \<Rightarrow> (string \<times> string \<times> string) list" where
  "scheduleRefreshTokenCleanup E cron =
     (if queue_disabled E then []
      else [(''cleanupRefreshTokens'', ''cleanupRefreshTokens'', CLEANUP_CRON cron)])"

definition scheduleDataRetentionCleanup :: "env \<Rightarrow> string option \<Rightarrow> (string \<times> string \<times> string) list" where
  "scheduleDataRetentionCleanup E cron =
     (if queue_disabled E then []
      else map (\<lambda>jobName. (jobName, jobName, CLEANUP_CRON cron)) OTHER_CLEANUP_JOB_NAMES)"

section \<open>What a clean-up may take away\<close>

text \<open>
  The contract of every maintenance job towards the rest of the program: accounts, organizations and
  memberships stay, and only refresh tokens that are revoked or expired, challenges that are expired
  and invitations that are settled disappear.
\<close>

definition swept :: "int \<Rightarrow> db \<Rightarrow> db \<Rightarrow> bool" where
  "swept now d d' \<longleftrightarrow>
     users d' = users d \<and> members d' = members d \<and> organizations d' = organizations d
   \<and> (\<exists>p. refreshTokens d' = delete_where p (refreshTokens d)
        \<and> (\<forall>t. p t \<longrightarrow> rt_revoked t \<or> rt_expiresAt t < now))
   \<and> (\<exists>p. twoFactorChallenges d' = delete_where p (twoFactorChallenges d)
        \<and> (\<forall>c. p c \<longrightarrow> ch_expiresAt c < now))
   \<and> (\<exists>p. invitations d' = delete_where p (invitations d) \<and> (\<forall>i. p i \<longrightarrow> i_status i \<noteq> INV_PENDING))"

lemma delete_none [simp]: "delete_where (\<lambda>_. False) t = t"
  by (simp add: delete_where_def)

lemma swept_same: "swept now d d"
  unfolding swept_def
  by (intro conjI exI [of _ "\<lambda>_. False"]) simp_all

lemma swept_frame:
  assumes "users d' = users d" "members d' = members d" "organizations d' = organizations d"
    and "refreshTokens d' = refreshTokens d" "twoFactorChallenges d' = twoFactorChallenges d"
    and "invitations d' = invitations d"
  shows "swept now d d'"
  using assms swept_same [of now d] by (simp add: swept_def)

lemma sweeps:
  "swept now d (snd (cleanupRefreshTokens now d))"
  "swept now d (snd (cleanupTwoFactorChallenges now d))"
  "swept now d (snd (cleanupTerminalInvitations R now d))"
proof -
  note none = exI [of _ "\<lambda>_. False"]
  show "swept now d (snd (cleanupRefreshTokens now d))"
    unfolding cleanupRefreshTokens_def swept_def Let_def
    by (auto split: sum.splits intro: none)
  show "swept now d (snd (cleanupTwoFactorChallenges now d))"
    unfolding cleanupTwoFactorChallenges_def swept_def Let_def
    by (auto intro: none)
  show "swept now d (snd (cleanupTerminalInvitations R now d))"
    unfolding cleanupTerminalInvitations_def swept_def Let_def
    by (auto split: sum.splits intro: none)
qed

lemma sweeps_elsewhere:
  "swept now d (snd (cleanupAuditLogs R now d))"
  "swept now d (snd (cleanupNotifications R now d))"
  "swept now d (snd (cleanupFailedJobs R now d))"
  "swept now d (snd (cleanupProcessedWebhookEvents R now d))"
  unfolding cleanupAuditLogs_def cleanupNotifications_def cleanupFailedJobs_def
    cleanupProcessedWebhookEvents_def Let_def
  by (auto split: sum.splits intro!: swept_frame swept_same)

lemma snd_await_tag [simp]: "snd (await r (\<lambda>n d'. (Inr (g n), d'))) = snd r"
  by (simp add: await_def split: prod.splits sum.splits)

lemma processMaintenanceJob_swept: "swept now d (snd (processMaintenanceJob R now name d))"
  by (simp add: processMaintenanceJob_def Let_def sweeps sweeps_elsewhere swept_same)

lemma swept_users: "swept now d d' \<Longrightarrow> users d' = users d"
  by (simp add: swept_def)

lemma find_first_delete_keep:
  "find_first q t = Some r \<Longrightarrow> \<not> p r \<Longrightarrow> find_first q (delete_where p t) = Some r"
  by (induction t) (auto split: if_splits)

lemma swept_token:
  assumes "swept now d d'" "find_first q (refreshTokens d) = Some t" "\<not> rt_revoked t" "now \<le> rt_expiresAt t"
  shows "find_first q (refreshTokens d') = Some t"
  using assms by (fastforce simp: swept_def intro: find_first_delete_keep)

lemma swept_challenge:
  assumes "swept now d d'" "find_first q (twoFactorChallenges d) = Some c" "now \<le> ch_expiresAt c"
  shows "find_first q (twoFactorChallenges d') = Some c"
  using assms by (fastforce simp: swept_def intro: find_first_delete_keep)

lemma swept_invitation:
  assumes "swept now d d'" "find_first q (invitations d) = Some i" "i_status i = INV_PENDING"
  shows "find_first q (invitations d') = Some i"
  using assms by (fastforce simp: swept_def intro: find_first_delete_keep)

lemma swept_tokens_subset: "swept now d d' \<Longrightarrow> set (refreshTokens d') \<subseteq> set (refreshTokens d)"
  by (auto simp: swept_def)

text \<open>A token row that could be inserted can still be inserted when fewer rows are in the way.\<close>

lemma createRefreshTokenRecord_fewer:
  assumes "createRefreshTokenRecord E now cl fr uid d = (Inr rt, x)"
    and "\<And>t'. t' \<in> set (refreshTokens d') \<Longrightarrow>
           \<exists>t \<in> set (refreshTokens d). rt_id t = rt_id t' \<and> rt_token t = rt_token t'"
  shows "fst (createRefreshTokenRecord E now cl fr uid d') = Inr rt"
  using assms
  by (fastforce simp: createRefreshTokenRecord_def Let_def insert_row_def list_ex_iff token_clash_def
      split: if_splits)

lemma revoke_tokens_subset:
  assumes "set (refreshTokens d') \<subseteq> set (refreshTokens d)" "t' \<in> set (refreshTokens (revoke_tokens now p d'))"
  shows "\<exists>t \<in> set (refreshTokens (revoke_tokens now p d)). rt_id t = rt_id t' \<and> rt_token t = rt_token t'"
  using assms(2)
proof (rule in_revoke_tokensE)
  fix t assume t: "t \<in> set (refreshTokens d')" "p t" "t' = t\<lparr>rt_revoked := True, rt_updatedAt := now\<rparr>"
  with assms(1) have "t' \<in> set (refreshTokens (revoke_tokens now p d))"
    by (auto simp: revoke_tokens_def set_update_where)
  then show ?thesis by blast
next
  assume "t' \<in> set (refreshTokens d')" "\<not> p t'"
  with assms(1) have "t' \<in> set (refreshTokens (revoke_tokens now p d))"
    by (auto simp: revoke_tokens_def set_update_where)
  then show ?thesis by blast
qed

lemma swept_refresh:
  assumes "swept now d d'" "now \<le> later" "fst (refresh E later cl fr token d) = Inr r"
  shows "fst (refresh E later cl fr token d') = Inr r"
proof -
  from assms(3) obtain x where x: "refresh E later cl fr token d = (Inr r, x)"
    by (metis prod.collapse)
  let ?old = "\<lambda>t s. rt_id s = rt_id t"
  from x obtain t u rt where
    ver: "verifyRefreshToken E later token \<noteq> None"
    and t: "find_first (\<lambda>t. rt_token t = hashToken E token) (refreshTokens d) = Some t"
    and u: "user_by_id (rt_userId t) d = Some u"
    and ok: "\<not> rt_revoked t" "later \<le> rt_expiresAt t" "u_deletedAt u = None" "\<not> u_banned u"
      "\<not> after (u_suspendedUntil u) later"
    and row: "createRefreshTokenRecord E later cl fr (u_id u) (revoke_tokens later (?old t) d) = (Inr rt, x)"
    and r: "r = (accessTokenFor E later u, rt)"
    by (auto simp: refresh_def split: if_splits option.splits elim!: await_InrE)
  from ok(2) assms(2) have "now \<le> rt_expiresAt t" by simp
  from swept_token [OF assms(1) t ok(1) this]
  have t': "find_first (\<lambda>t. rt_token t = hashToken E token) (refreshTokens d') = Some t" .
  have u': "user_by_id (rt_userId t) d' = Some u"
    using u swept_users [OF assms(1)] by (simp add: user_by_id_def)
  have "fst (createRefreshTokenRecord E later cl fr (u_id u) (revoke_tokens later (?old t) d')) = Inr rt"
    using row revoke_tokens_subset [OF swept_tokens_subset [OF assms(1)]]
    by (rule createRefreshTokenRecord_fewer)
  then obtain y where
    "createRefreshTokenRecord E later cl fr (u_id u) (revoke_tokens later (?old t) d') = (Inr rt, y)"
    by (metis prod.collapse)
  with ver t' u' ok r show ?thesis by (auto simp: refresh_def)
qed

lemma swept_claim:
  assumes "swept now d d'" "stored \<in> set (twoFactorChallenges d')" "\<not> ch_used stored"
    and "challenge_claim E later cl fr stored user step backup d = (Inr r, x)"
  shows "fst (challenge_claim E later cl fr stored user step backup d') = Inr r"
proof -
  let ?open = "\<lambda>c. ch_id c = ch_id stored \<and> \<not> ch_used c"
  define W where "W = (\<lambda>e. update_user later (u_id user)
     (\<lambda>u. u\<lparr>u_failedLoginAttempts := 0, u_lockedUntil := None, u_lastLoginAt := Some later,
            u_lastTotpTimeStep := (case step of None \<Rightarrow> u_lastTotpTimeStep u | Some s \<Rightarrow> Some s)\<rparr>)
     (case backup of None \<Rightarrow> update_challenge ?open (\<lambda>c. c\<lparr>ch_used := True\<rparr>) e
      | Some h \<Rightarrow> update_user later (u_id user)
          (\<lambda>u. u\<lparr>u_twoFactorBackupCodes := filter (\<lambda>x. x \<noteq> h) (u_twoFactorBackupCodes user)\<rparr>)
          (update_challenge ?open (\<lambda>c. c\<lparr>ch_used := True\<rparr>) e)))"
  define answer where "answer = (\<lambda>e rt. \<lparr>ls_user = userSelect (case user_by_id (u_id user) (W e) of
       None \<Rightarrow> user | Some u \<Rightarrow> u), ls_token = accessTokenFor E later user, ls_refreshToken = rt,
     ls_backupCodeUsed = (backup \<noteq> None)\<rparr>)"
  have claim: "challenge_claim E later cl fr stored user step backup e =
      await (createRefreshTokenRecord E later cl fr (u_id user) (W e)) (\<lambda>rt d4. (Inr (answer e rt), d4))"
    if "count_where ?open (twoFactorChallenges e) \<noteq> 0" for e
    using that by (simp add: challenge_claim_def Let_def W_def answer_def)
  have W: "refreshTokens (W e) = refreshTokens e" for e
    by (simp add: W_def update_challenge_def split: option.split)
  have Wu: "users (W d') = users (W d)"
    using swept_users [OF assms(1)]
    by (simp add: W_def update_challenge_def update_user_def split: option.split)
  from assms(4) have "count_where ?open (twoFactorChallenges d) \<noteq> 0"
    by (cases "count_where ?open (twoFactorChallenges d) = 0") (simp_all add: challenge_claim_def)
  with assms(4) obtain rt where row: "createRefreshTokenRecord E later cl fr (u_id user) (W d) = (Inr rt, x)"
    and r: "r = answer d rt"
    by (auto simp: claim elim!: await_InrE)
  have "fst (createRefreshTokenRecord E later cl fr (u_id user) (W d')) = Inr rt"
    using row by (rule createRefreshTokenRecord_fewer) (use swept_tokens_subset [OF assms(1)] W in auto)
  then obtain y where "createRefreshTokenRecord E later cl fr (u_id user) (W d') = (Inr rt, y)"
    by (metis prod.collapse)
  moreover have "count_where ?open (twoFactorChallenges d') \<noteq> 0"
    using assms(2,3) by (auto simp: count_where_0_iff)
  moreover have "answer d' rt = r"
    using Wu by (simp add: answer_def r user_by_id_def)
  ultimately show ?thesis by (simp add: claim)
qed

lemma swept_challenge_login:
  assumes "swept now d d'" "now \<le> later" "fst (verifyChallenge E later cl fr ct code d) = Inr r"
  shows "fst (verifyChallenge E later cl fr ct code d') = Inr r"
proof -
  from assms(3) obtain x where "verifyChallenge E later cl fr ct code d = (Inr r, x)"
    by (metis prod.collapse)
  from verifyChallenge_InrD [OF this] obtain c user where
    c: "find_first (\<lambda>x. ch_token x = hashToken E ct) (twoFactorChallenges d) = Some c" "\<not> ch_used c"
      "ch_attempts c < MAX_CHALLENGE_ATTEMPTS" "later \<le> ch_expiresAt c"
    and u: "user_by_id (ch_userId c) d = Some user" "u_deletedAt user = None" "\<not> u_banned user"
      "\<not> after (u_suspendedUntil user) later" "code_accepted E later user code"
    and claim: "challenge_claim E later cl fr c user
          (totp_check E later code (u_twoFactorSecret user) (u_lastTotpTimeStep user))
          (if totp_check E later code (u_twoFactorSecret user) (u_lastTotpTimeStep user) \<noteq> None then None
           else matched_backup E code user) d = (Inr r, x)"
    by (elim exE conjE)
  from c(4) assms(2) have "now \<le> ch_expiresAt c" by simp
  from swept_challenge [OF assms(1) c(1) this]
  have c': "find_first (\<lambda>x. ch_token x = hashToken E ct) (twoFactorChallenges d') = Some c" .
  have u': "user_by_id (ch_userId c) d' = Some user"
    using u(1) swept_users [OF assms(1)] by (simp add: user_by_id_def)
  from swept_claim [OF assms(1) find_first_SomeD(1) [OF c'] c(2) claim] c' c(2-4) u' u(2-)
  show ?thesis
    by (auto simp: verifyChallenge_def code_accepted_def matched_backup_def Let_def split: if_splits option.splits)
qed

lemma swept_accept:
  assumes "swept now d d'" "fst (acceptInvitation E later fr uid token d) = Inr i"
  shows "fst (acceptInvitation E later fr uid token d') = Inr i"
proof -
  obtain j where j: "find_first (\<lambda>i. i_token i = hashToken E token) (invitations d) = Some j"
      "i_status j = INV_PENDING"
    using assms(2)
    by (auto simp: acceptInvitation_def open_invitation_def split: option.splits if_splits)
  from swept_invitation [OF assms(1) j]
  have "find_first (\<lambda>i. i_token i = hashToken E token) (invitations d') = Some j" .
  with assms j show ?thesis
    by (auto simp: acceptInvitation_def open_invitation_def swept_def live_user_by_id_def membership_def
        update_invitation_def Let_def split: option.splits if_splits sum.splits)
qed

lemma uniq_find_token:
  assumes "uniq token_clash ts" "t \<in> set ts" "rt_token t = h"
  shows "find_first (\<lambda>t. rt_token t = h) ts = Some t"
proof -
  have "uniq (\<lambda>x y. rt_token x = rt_token y) ts"
    using assms(1) by (rule uniq_mono) (simp add: token_clash_def)
  then have "distinct (map rt_token ts)" by (simp only: uniq_key_distinct)
  from distinct_map_find [OF this assms(2)] assms(3) show ?thesis by simp
qed

lemma createRefreshTokenRecord_cases:
  "fst (createRefreshTokenRecord E now cl fr uid d) = Inl P2002
   \<or> fst (createRefreshTokenRecord E now cl fr uid d) = Inr (signRefreshToken E now (fr_jti fr) (RefreshClaims uid))"
  by (auto simp: createRefreshTokenRecord_def Let_def split: sum.splits dest: insert_row_InlD)

lemma swept_refresh_back:
  assumes "swept now d d'" "uniq token_clash (refreshTokens d)" "fst (refresh E later cl fr token d') = Inr r"
  shows "fst (refresh E later cl fr token d) \<in> {Inr r, Inl P2002}"
proof -
  from assms(3) obtain x where "refresh E later cl fr token d' = (Inr r, x)"
    by (metis prod.collapse)
  then obtain t u rt where
    ver: "verifyRefreshToken E later token \<noteq> None"
    and t: "find_first (\<lambda>t. rt_token t = hashToken E token) (refreshTokens d') = Some t"
    and u: "user_by_id (rt_userId t) d' = Some u"
    and ok: "\<not> rt_revoked t" "\<not> rt_expiresAt t < later" "u_deletedAt u = None" "\<not> u_banned u"
      "\<not> after (u_suspendedUntil u) later"
    and row: "createRefreshTokenRecord E later cl fr (u_id u) (revoke_tokens later (\<lambda>s. rt_id s = rt_id t) d') = (Inr rt, x)"
    and r: "r = (accessTokenFor E later u, rt)"
    by (auto simp: refresh_def split: if_splits option.splits elim!: await_InrE)
  have t': "find_first (\<lambda>t. rt_token t = hashToken E token) (refreshTokens d) = Some t"
    using find_first_SomeD [OF t] swept_tokens_subset [OF assms(1)]
    by (intro uniq_find_token [OF assms(2)]) auto
  have u': "user_by_id (rt_userId t) d = Some u"
    using u swept_users [OF assms(1)] by (simp add: user_by_id_def)
  have rt: "rt = signRefreshToken E later (fr_jti fr) (RefreshClaims (u_id u))"
    by (rule createRefreshTokenRecord_Inr(1) [OF row])
  let ?row = "createRefreshTokenRecord E later cl fr (u_id u) (revoke_tokens later (\<lambda>s. rt_id s = rt_id t) d)"
  from createRefreshTokenRecord_cases [of E later cl fr "u_id u" "revoke_tokens later (\<lambda>s. rt_id s = rt_id t) d"]
  obtain y where "?row = (Inl P2002, y) \<or> ?row = (Inr rt, y)"
    unfolding rt [symmetric] by (metis prod.collapse)
  with ver t' u' ok r show ?thesis by (auto simp: refresh_def)
qed

text \<open>C35: The retention clean-ups are invisible to access control: after any maintenance job every request
  is authenticated and given its tenant as before, every refresh token, login challenge and invitation
  that would still have been accepted is accepted with the same answer, and no refresh token is
  accepted that was not (a collision of the new random token with a deleted row apart).\<close>

theorem maintenance_keeps_access:
  assumes "processMaintenanceJob R now name d = (r, d')" "now \<le> later"
    and "uniq token_clash (refreshTokens d)"
  shows "authenticate E later hdr d' = authenticate E later hdr d
    \<and> requireTenant orgId uid d' = requireTenant orgId uid d
    \<and> (\<forall>x. fst (refresh E later cl fr token d) = Inr x \<longrightarrow> fst (refresh E later cl fr token d') = Inr x)
    \<and> (\<forall>x. fst (refresh E later cl fr token d') = Inr x \<longrightarrow>
          fst (refresh E later cl fr token d) \<in> {Inr x, Inl P2002})
    \<and> (\<forall>x. fst (verifyChallenge E later cl fr token code d) = Inr x \<longrightarrow>
          fst (verifyChallenge E later cl fr token code d') = Inr x)
    \<and> (\<forall>x. fst (acceptInvitation E later fr uid token d) = Inr x \<longrightarrow>
          fst (acceptInvitation E later fr uid token d') = Inr x)"
proof -
  have sw: "swept now d d'"
    using processMaintenanceJob_swept [of now d R name] assms(1) by simp
  have same: "users d' = users d" "members d' = members d" "organizations d' = organizations d"
    using sw by (simp_all add: swept_def)
  have "authenticate E later hdr d' = authenticate E later hdr d"
    unfolding authenticate_def live_user_by_id_def same ..
  moreover have "requireTenant orgId uid d' = requireTenant orgId uid d"
    unfolding requireTenant_def membership_def org_by_id_def same ..
  ultimately show ?thesis
    by (intro conjI allI impI)
      (assumption | erule swept_refresh [OF sw assms(2)] | erule swept_refresh_back [OF sw assms(3)]
        | erule swept_challenge_login [OF sw assms(2)] | erule swept_accept [OF sw])+
qed

section \<open>Dead letters\<close>

text \<open>
  The part of a BullMQ job the handler reads.  \<open>handleJobFailure\<close> answers with the database and
  with what it reports to Sentry; the insert of the row may fail, which is only logged.
\<close>

record queue_job =
  qj_name :: string
  qj_data :: "json option"
  qj_attemptsMade :: "nat option"
  qj_attempts :: "nat option"

definition handleJobFailure ::
  "bool \<Rightarrow> int \<Rightarrow> string \<Rightarrow> string \<Rightarrow> queue_job option \<Rightarrow> string \<Rightarrow> db \<Rightarrow> string list \<times> db" where
  "handleJobFailure sentry now fresh_id queueName job err d =
     (case job of
        None \<Rightarrow> ([], d)
      | Some j \<Rightarrow>
          (let attemptsMade = (case qj_attemptsMade j of None \<Rightarrow> 0 | Some n \<Rightarrow> n);
               maxAttempts = (case qj_attempts j of None \<Rightarrow> 1 | Some n \<Rightarrow> n);
               exhausted = (attemptsMade \<ge> maxAttempts)
           in if \<not> exhausted then ([], d)
              else
                (let row = \<lparr>fj_id = fresh_id, fj_queue = queueName, fj_jobName = qj_name j,
                            fj_jobData = (case qj_data j of None \<Rightarrow> JObj [] | Some x \<Rightarrow> x),
                            fj_error = err, fj_attempts = attemptsMade, fj_failedAt = now\<rparr>
                 in (if sentry then [err] else [],
                     case insert_row (\<lambda>x y. fj_id x = fj_id y) row (failedJobs d) of
                       Inl _ \<Rightarrow> d
                     | Inr js \<Rightarrow> d\<lparr>failedJobs := js\<rparr>))))"

text \<open>The \<open>failed\<close> events of one job: one after each failed attempt, with its time, fresh id and error.\<close>

fun failed_events ::
  "bool \<Rightarrow> string \<Rightarrow> queue_job \<Rightarrow> nat \<Rightarrow> (int \<times> string \<times> string) list \<Rightarrow> db \<Rightarrow> string list \<times> db" where
  "failed_events sentry queueName j n [] d = ([], d)"
| "failed_events sentry queueName j n ((now, i, err) # es) d =
     (let (out, d1) = handleJobFailure sentry now i queueName
                        (Some (j\<lparr>qj_attemptsMade := Some (Suc n)\<rparr>)) err d;
          (out', d2) = failed_events sentry queueName j (Suc n) es d1
      in (out @ out', d2))"

lemma failed_early:
  assumes "n + length es < m" "qj_attempts j = Some m"
  shows "failed_events sentry q j n es d = ([], d)"
  using assms
  by (induction es arbitrary: n d) (auto simp: handleJobFailure_def split: prod.splits)

lemma failed_events_append:
  "failed_events sentry q j n (es @ fs) d =
     (let (out, d1) = failed_events sentry q j n es d;
          (out', d2) = failed_events sentry q j (n + length es) fs d1
      in (out @ out', d2))"
  by (induction es arbitrary: n d) (auto simp: Let_def split: prod.splits)

text \<open>A job is dead-lettered exactly once: while attempts are left its failures leave no trace, and
  the failure of its last attempt stores one row with its queue, name, data, error and number of
  attempts, and reports it once.\<close>

theorem dead_letter_once:
  assumes "qj_attempts j = Some (Suc m)" "length es = m"
    and "i \<notin> fj_id ` set (failedJobs d)"
  shows "failed_events sentry q j 0 es d = ([], d)
    \<and> failed_events sentry q j 0 (es @ [(now, i, err)]) d =
        (if sentry then [err] else [],
         d\<lparr>failedJobs := failedJobs d @
             [\<lparr>fj_id = i, fj_queue = q, fj_jobName = qj_name j,
               fj_jobData = (case qj_data j of None \<Rightarrow> JObj [] | Some x \<Rightarrow> x),
               fj_error = err, fj_attempts = Suc m, fj_failedAt = now\<rparr>]\<rparr>)"
proof -
  have early: "failed_events sentry q j 0 es d = ([], d)"
    using assms by (intro failed_early) simp_all
  with assms show ?thesis
    by (auto simp: failed_events_append handleJobFailure_def insert_row_def list_ex_iff image_iff)
qed

text \<open>The queue's jobs have three attempts (\<open>defaultJobOptions\<close> of \<open>queues.js\<close>).\<close>

definition demo_job :: queue_job where
  "demo_job = \<lparr>qj_name = ''sendVerificationEmail'', qj_data = None, qj_attemptsMade = None, qj_attempts = Some 3\<rparr>"

theorem dead_letter_once_witness:
  "failed_events True ''email'' demo_job 0 [(1, ''a'', ''e1''), (2, ''b'', ''e2'')] demo_db = ([], demo_db)
   \<and> fst (failed_events True ''email'' demo_job 0 ([(1, ''a'', ''e1''), (2, ''b'', ''e2'')] @ [(3, ''c'', ''e3'')]) demo_db)
       = [''e3'']"
  using dead_letter_once [of demo_job 2 "[(1, ''a'', ''e1''), (2, ''b'', ''e2'')]" "''c''" demo_db True "''email''" 3 "''e3''"]
  by (simp add: demo_job_def demo_db_def empty_db_def)

text \<open>A token that is valid, one that was rotated long ago, and a clean-up.\<close>

definition demo_retention :: retention where
  "demo_retention = \<lparr>AUDIT_LOG_RETENTION_DAYS = None, NOTIFICATION_RETENTION_DAYS = Some ''30'',
     INVITATION_RETENTION_DAYS = None, FAILED_JOB_RETENTION_DAYS = None, WEBHOOK_EVENT_RETENTION_DAYS = None\<rparr>"

definition demo_swept :: db where
  "demo_swept = snd (processMaintenanceJob demo_retention 5 ''cleanupRefreshTokens'' demo_sessions)"

lemma demo_refresh_ok: "fst (refresh demo_env 5 demo_client (demo_fresh ''z'') ''Rru1t2'' demo_sessions) = Inr (''Aku10'', ''Rru1z'')"
  by code_simp

theorem maintenance_keeps_access_witness:
  "fst (refresh demo_env 5 demo_client (demo_fresh ''z'') ''Rru1t2'' demo_swept) = Inr (''Aku10'', ''Rru1z'')"
proof -
  have "processMaintenanceJob demo_retention 5 ''cleanupRefreshTokens'' demo_sessions
      = (fst (processMaintenanceJob demo_retention 5 ''cleanupRefreshTokens'' demo_sessions), demo_swept)"
    by (simp add: demo_swept_def)
  moreover have "uniq token_clash (refreshTokens demo_sessions)" by code_simp
  ultimately show ?thesis
    using maintenance_keeps_access [where later = 5 and now = 5 and E = demo_env and cl = demo_client
        and fr = "demo_fresh ''z''" and token = "''Rru1t2''"] demo_refresh_ok
    by blast
qed

end
