(* ===== verification/JsRegex.thy ===== *)
theory JsRegex
  imports JsText "HOL-Library.Sublist"
begin

text \<open>
  \<open>s.replace(/re/g, f)\<close>.  A regular expression of the code is a matcher: given the rest of the
  text it says whether the expression matches at its front, with what the match is replaced by and what
  follows it.  Each of them is deterministic and never matches the empty text, so a global
  replacement is one pass from left to right, which goes on behind a match and steps over a character
  where there is none.
\<close>

type_synonym matcher = "string \<Rightarrow> (string \<times> string) option"

function replace_all :: "matcher \<Rightarrow> string \<Rightarrow> string" where
  "replace_all m [] = []"
| "replace_all m (c # s) =
     (case m (c # s) of
        None \<Rightarrow> c # replace_all m s
      | Some (rep, rest) \<Rightarrow>
          if length rest \<le> length s then rep @ replace_all m rest else c # replace_all m s)"
  by pat_completeness auto
termination
  by (relation "measure (\<lambda>(m, s). length s)") auto

text \<open>A literal text as an expression.\<close>

definition literal :: "string \<Rightarrow> string \<Rightarrow> matcher" where
  "literal pat rep s = (if starts_with s pat then Some (rep, drop (length pat) s) else None)"

section \<open>Laws\<close>

lemma replace_all_none:
  assumes "\<And>t. suffix t s \<Longrightarrow> m t = None"
  shows "replace_all m s = s"
  using assms
proof (induction s)
  case (Cons c s)
  then have "replace_all m s = s" by (meson suffix_ConsI)
  with Cons.prems show ?case by simp
qed simp

text \<open>A matcher that deletes what it matches leaves a subsequence of the text.\<close>

lemma replace_all_deletes:
  assumes "\<And>t rep rest. m t = Some (rep, rest) \<Longrightarrow> rep = [] \<and> suffix rest t"
  shows "subseq (replace_all m s) s"
proof (induction s rule: length_induct)
  case (1 s)
  show ?case
  proof (cases s)
    case (Cons c u)
    have less: "subseq (replace_all m x) x" if "length x \<le> length u" for x
      using 1 that Cons by auto
    show ?thesis
    proof (cases "m (c # u)")
      case None
      with less [of u] Cons show ?thesis by simp
    next
      case (Some a)
      then obtain rep rest where m: "m (c # u) = Some (rep, rest)" by (cases a) simp
      with assms have "rep = []" "suffix rest (c # u)" by blast+
      with m less Cons show ?thesis
        by (auto intro: subseq_order.order_trans suffix_imp_subseq)
    qed
  qed simp
qed

text \<open>Characters that neither the text nor the replacements have do not appear.\<close>

lemma replace_all_set:
  assumes "\<And>t rep rest. suffix t s \<Longrightarrow> m t = Some (rep, rest) \<Longrightarrow> set rep \<subseteq> A \<and> suffix rest t"
    and "set s \<subseteq> A"
  shows "set (replace_all m s) \<subseteq> A"
  using assms
proof (induction s rule: length_induct)
  case (1 s)
  show ?case
  proof (cases s)
    case (Cons c u)
    have less: "set (replace_all m x) \<subseteq> A" if "suffix x s" "length x \<le> length u" for x
    proof -
      have "set x \<subseteq> A" using that(1) 1(3) by (meson set_mono_suffix subset_trans)
      moreover have "\<And>t rep rest. suffix t x \<Longrightarrow> m t = Some (rep, rest) \<Longrightarrow> set rep \<subseteq> A \<and> suffix rest t"
        using 1(2) that(1) suffix_order.order_trans by blast
      ultimately show ?thesis using 1(1) that(2) Cons by auto
    qed
    have u: "suffix u s" using Cons by (simp add: suffix_Cons)
    have c: "c \<in> A" using 1(3) Cons by simp
    show ?thesis
    proof (cases "m (c # u)")
      case None
      with less [OF u] c Cons show ?thesis by simp
    next
      case (Some a)
      then obtain rep rest where m: "m (c # u) = Some (rep, rest)" by (cases a) simp
      with 1(2) [of "c # u" rep rest] Cons have "set rep \<subseteq> A" "suffix rest s" by simp_all
      with m less [OF u] less [of rest] c Cons show ?thesis by auto
    qed
  qed simp
qed

end
