(* ===== verification/I18n.thy ===== *)
theory I18n
  imports JsJson JsRegex Runtime
begin

text \<open>
  \<open>src/i18n/index.js\<close>, \<open>src/middleware/i18n.middleware.js\<close> and
  \<open>src/utils/i18nResponse.js\<close>: the lookup of a translation, the locale of a request, the message
  of a result.  The two dictionaries (\<open>locales/en.json\<close>, \<open>locales/fr.json\<close>) are an
  argument of the definitions, so what is shown holds for any contents of them.
\<close>

section \<open>Texts of values\<close>

definition pad :: "nat \<Rightarrow> nat \<Rightarrow> string" where
  "pad n x = replicate (n - length (show_nat x)) (CHR ''0'') @ show_nat x"

text \<open>The calendar date of a day, counted from 1970-01-01: year, month, day.\<close>

definition civil :: "int \<Rightarrow> int \<times> int \<times> int" where
  "civil days =
     (let z = days + 719468;
          era = z div 146097;
          doe = z mod 146097;
          yoe = (doe - doe div 1460 + doe div 36524 - doe div 146096) div 365;
          doy = doe - (365 * yoe + yoe div 4 - yoe div 100);
          mp = (5 * doy + 2) div 153;
          d = doy - (153 * mp + 2) div 5 + 1;
          m = (if mp < 10 then mp + 3 else mp - 9)
      in (yoe + era * 400 + (if m \<le> 2 then 1 else 0), m, d))"

text \<open>\<open>date.toISOString()\<close> for a time in milliseconds.\<close>

definition toISOString :: "int \<Rightarrow> string" where
  "toISOString ms =
     (case civil (ms div 86400000) of (y, m, d) \<Rightarrow>
       let r = ms mod 86400000;
           year = (if 0 \<le> y \<and> y \<le> 9999 then pad 4 (nat y)
                   else (if y < 0 then ''-'' else ''+'') @ pad 6 (nat (abs y)))
       in year @ ''-'' @ pad 2 (nat m) @ ''-'' @ pad 2 (nat d) @ ''T''
          @ pad 2 (nat (r div 3600000)) @ '':'' @ pad 2 (nat (r div 60000 mod 60)) @ '':''
          @ pad 2 (nat (r div 1000 mod 60)) @ ''.'' @ pad 3 (nat (r mod 1000)) @ ''Z'')"

lemma toISOString_epoch: "toISOString 0 = ''1970-01-01T00:00:00.000Z''"
  by code_simp

lemma toISOString_leap_day: "toISOString 1709210096789 = ''2024-02-29T12:34:56.789Z''"
  by code_simp

text \<open>The parameters of a message, as the texts \<open>String(params[name])\<close>.\<close>

fun param_text :: "param \<Rightarrow> string" where
  "param_text (PStr s) = s"
| "param_text (PTime t) = toISOString t"
| "param_text (PNat n) = show_nat n"

definition params_text :: "(string \<times> param) list \<Rightarrow> (string \<times> string) list" where
  "params_text ps = map (\<lambda>(k, p). (k, param_text p)) ps"

section \<open>Lookup and interpolation\<close>

definition SUPPORTED_LOCALES :: "string list" where
  "SUPPORTED_LOCALES = [''en'', ''fr'']"

text \<open>The numeric property names: \<open>0\<close>, \<open>1\<close>, \<open>2\<close> and so on, without a leading zero.\<close>

definition index_of_key :: "string \<Rightarrow> nat option" where
  "index_of_key p = (if list_all is_digit p \<and> show_nat (digits_val p) = p then Some (digits_val p) else None)"

text \<open>\<open>acc[part]\<close>: own properties only; texts and arrays have their indices and \<open>length\<close>.\<close>

definition js_member :: "json \<Rightarrow> string \<Rightarrow> json option" where
  "js_member j p =
     (let elem = (\<lambda>xs. if p = ''length'' then Some (JNum (of_nat (length xs)))
                       else case index_of_key p of
                              Some i \<Rightarrow> if i < length xs then Some (xs ! i) else None
                            | None \<Rightarrow> None)
      in case j of
           JObj kvs \<Rightarrow> map_of kvs p
         | JArr xs \<Rightarrow> elem xs
         | JStr s \<Rightarrow> elem (map (\<lambda>c. JStr [c]) s)
         | _ \<Rightarrow> None)"

text \<open>A value behind \<open>??\<close>: null counts as absent.\<close>

definition present :: "json option \<Rightarrow> json option" where
  "present v = (if v = Some JNull then None else v)"

definition getPath :: "json \<Rightarrow> string \<Rightarrow> json option" where
  "getPath obj key =
     foldl (\<lambda>acc part. case present acc of None \<Rightarrow> None | Some v \<Rightarrow> js_member v part)
       (Some obj) (js_split (CHR ''.'') key)"

text \<open>\<open>/\{(\w+)\}/\<close> with its replacement.\<close>

definition placeholder :: "(string \<times> string) list \<Rightarrow> matcher" where
  "placeholder params s =
     (case s of
        [] \<Rightarrow> None
      | c # r \<Rightarrow>
          (let name = takeWhile is_word r; rest = dropWhile is_word r
           in if c \<noteq> CHR ''{'' \<or> name = [] \<or> \<not> starts_with rest ''}'' then None
              else Some (case map_of params name of Some v \<Rightarrow> v | None \<Rightarrow> ''{'' @ name @ ''}'', drop 1 rest)))"

definition interpolate :: "json \<Rightarrow> (string \<times> string) list \<Rightarrow> json" where
  "interpolate str params =
     (case str of JStr s \<Rightarrow> JStr (replace_all (placeholder params) s) | _ \<Rightarrow> str)"

text \<open>The translate function \<open>t\<close>; \<open>locales\<close> are the dictionaries.\<close>

definition translate :: "(string \<Rightarrow> json) \<Rightarrow> string \<Rightarrow> string \<Rightarrow> (string \<times> string) list \<Rightarrow> json" where
  "translate locales key locale params =
     (let lang = (if locale \<in> set SUPPORTED_LOCALES then locale else DEFAULT_LOCALE);
          value = (case present (getPath (locales lang) key) of
                     Some v \<Rightarrow> v
                   | None \<Rightarrow> (case present (getPath (locales DEFAULT_LOCALE) key) of
                                Some v \<Rightarrow> v
                              | None \<Rightarrow> JStr key))
      in interpolate value params)"

section \<open>The locale of a request\<close>

record language =
  lg_lang :: string
  lg_q :: js_num

text \<open>\<open>b.q - a.q > 0\<close>; a difference that is not a number counts as equal.\<close>

fun weight_less :: "js_num \<Rightarrow> js_num \<Rightarrow> bool" where
  "weight_less (Fin a) (Fin b) = (a < b)"
| "weight_less (Infinite True) (Infinite False) = True"
| "weight_less (Infinite True) (Fin _) = True"
| "weight_less (Fin _) (Infinite False) = True"
| "weight_less _ _ = False"

definition parse_language :: "string \<Rightarrow> language" where
  "parse_language part =
     (let segments = js_split (CHR '';'') (js_trim part);
          tag = hd segments;
          qParam = List.find (\<lambda>p. starts_with (js_trim p) ''q='') (tl segments)
      in \<lparr>lg_lang = js_lower (hd (js_split (CHR ''-'') (js_trim tag))),
          lg_q = (case qParam of Some p \<Rightarrow> parseFloat (drop 2 (js_trim p)) | None \<Rightarrow> Fin 1)\<rparr>)"

text \<open>
  \<open>sort((a, b) => b.q - a.q)\<close>, a stable sort: insertion behind every entry that does not weigh
  less.  (Where a weight is not a number the comparison is not consistent, and the language leaves the
  order open.)
\<close>

fun insert_language :: "language \<Rightarrow> language list \<Rightarrow> language list" where
  "insert_language e [] = [e]"
| "insert_language e (x # xs) = (if weight_less (lg_q e) (lg_q x) then x # insert_language e xs else e # x # xs)"

definition by_weight :: "language list \<Rightarrow> language list" where
  "by_weight es = foldr insert_language es []"

definition parse_languages :: "string \<Rightarrow> language list" where
  "parse_languages h = filter (\<lambda>e. lg_lang e \<noteq> []) (map parse_language (js_split (CHR '','') h))"

definition supported :: "language \<Rightarrow> bool" where
  "supported e \<longleftrightarrow> lg_lang e \<in> set SUPPORTED_LOCALES"

definition resolveLocale :: "string option \<Rightarrow> string" where
  "resolveLocale acceptLanguage =
     (case acceptLanguage of
        None \<Rightarrow> DEFAULT_LOCALE
      | Some h \<Rightarrow>
          if h = [] then DEFAULT_LOCALE
          else case List.find supported (by_weight (parse_languages h)) of
                 Some e \<Rightarrow> lg_lang e
               | None \<Rightarrow> DEFAULT_LOCALE)"

text \<open>\<open>i18nMiddleware\<close>: \<open>req.lang\<close> from the headers \<open>x-lang\<close> and \<open>accept-language\<close>.\<close>

definition i18nMiddleware :: "string option \<Rightarrow> string option \<Rightarrow> string" where
  "i18nMiddleware x_lang acceptLanguage =
     (case x_lang of
        Some e \<Rightarrow> if length e \<ge> 2 then js_lower (take 2 e) else resolveLocale acceptLanguage
      | None \<Rightarrow> resolveLocale acceptLanguage)"

text \<open>
  \<open>translateResult\<close>.  Of the parameters of a message only texts and whole numbers have their
  \<open>String(v)\<close> here (the services pass nothing else); the placeholder of any other stays.
\<close>

definition json_text :: "json \<Rightarrow> string option" where
  "json_text v =
     (case v of
        JStr s \<Rightarrow> Some s
      | JNum r \<Rightarrow> (if r \<ge> 0 \<and> r = of_int \<lfloor>r\<rfloor> then Some (show_nat (nat \<lfloor>r\<rfloor>)) else None)
      | _ \<Rightarrow> None)"

definition translateResult :: "(string \<Rightarrow> json) \<Rightarrow> string \<Rightarrow> json \<Rightarrow> json" where
  "translateResult locales lang data =
     (case data of
        JObj kvs \<Rightarrow>
          (case map_of kvs ''messageKey'' of
             Some (JStr key) \<Rightarrow>
               if key = [] then data
               else (let params = (case map_of kvs ''params'' of
                                     Some (JObj ps) \<Rightarrow>
                                       List.map_filter (\<lambda>(k, v). map_option (Pair k) (json_text v)) ps
                                   | _ \<Rightarrow> []);
                         rest = filter (\<lambda>(k, v). k \<noteq> ''messageKey'' \<and> k \<noteq> ''params'') kvs
                     in JObj (obj_put ''message'' (translate locales key lang params) rest))
           | _ \<Rightarrow> data)
      | _ \<Rightarrow> data)"

section \<open>Laws\<close>

lemma placeholder_Some:
  assumes "placeholder params t = Some (rep, rest)"
  obtains name where "name \<noteq> []" "t = ''{'' @ name @ ''}'' @ rest"
    "rep = (case map_of params name of Some v \<Rightarrow> v | None \<Rightarrow> ''{'' @ name @ ''}'')"
    "\<forall>c \<in> set name. is_word c"
proof (cases t)
  case Nil
  with assms show ?thesis by (simp add: placeholder_def)
next
  case (Cons c r)
  let ?name = "takeWhile is_word r" and ?rest = "dropWhile is_word r"
  have *: "c = CHR ''{''" "?name \<noteq> []" "starts_with ?rest ''}''" "rest = drop 1 ?rest"
    "rep = (case map_of params ?name of Some v \<Rightarrow> v | None \<Rightarrow> ''{'' @ ?name @ ''}'')"
    using assms Cons by (simp_all only: placeholder_def list.case Let_def split: if_split_asm) simp_all
  from *(3) have "?rest = ''}'' @ drop 1 ?rest"
    by (elim starts_withE) simp
  then have "r = ?name @ ''}'' @ rest"
    using *(4) by (metis takeWhile_dropWhile_id)
  with * Cons show ?thesis by (intro that [of ?name]) (auto dest: set_takeWhileD)
qed

lemma placeholder_suffix: "placeholder params t = Some (rep, rest) \<Longrightarrow> suffix rest t"
  by (elim placeholder_Some) (simp add: suffix_def)

text \<open>A character of an interpolated text is one of the pattern or of a parameter.\<close>

lemma interpolate_set:
  assumes "set s \<subseteq> A" and "\<And>k v. (k, v) \<in> set params \<Longrightarrow> set v \<subseteq> A"
  shows "set (replace_all (placeholder params) s) \<subseteq> A"
proof (rule replace_all_set [OF _ assms(1)])
  fix t rep rest assume t: "suffix t s" and m: "placeholder params t = Some (rep, rest)"
  from m obtain name where "t = ''{'' @ name @ ''}'' @ rest"
    "rep = (case map_of params name of Some v \<Rightarrow> v | None \<Rightarrow> ''{'' @ name @ ''}'')"
    by (rule placeholder_Some)
  moreover from t have "set t \<subseteq> A" using assms(1) by (meson set_mono_suffix subset_trans)
  moreover have "map_of params name = Some v \<Longrightarrow> set v \<subseteq> A" for v
    by (rule assms(2)) (rule map_of_SomeD)
  ultimately show "set rep \<subseteq> A \<and> suffix rest t"
    using placeholder_suffix [OF m] by (cases "map_of params name") simp_all
qed

section \<open>The preferred locale\<close>

lemma weight_less_trans: "weight_less a b \<Longrightarrow> weight_less b c \<Longrightarrow> weight_less a c"
  by (cases "(a, b)" rule: weight_less.cases; cases c) (auto elim: weight_less.elims)

lemma weight_not_less_trans:
  "b \<noteq> NaN \<Longrightarrow> \<not> weight_less a b \<Longrightarrow> \<not> weight_less b c \<Longrightarrow> \<not> weight_less a c"
  by (cases a; cases b; cases c) (auto elim!: weight_less.elims)

lemma weight_not_less_refl [simp]: "\<not> weight_less a a"
  by (cases "(a, a)" rule: weight_less.cases) auto

definition numeric :: "language list \<Rightarrow> bool" where
  "numeric es \<longleftrightarrow> (\<forall>e \<in> set es. lg_q e \<noteq> NaN)"

definition heaviest_first :: "language list \<Rightarrow> bool" where
  "heaviest_first es \<longleftrightarrow> sorted_wrt (\<lambda>x y. \<not> weight_less (lg_q x) (lg_q y)) es"

lemma set_insert_language [simp]: "set (insert_language e xs) = insert e (set xs)"
  by (induction xs) auto

lemma set_by_weight [simp]: "set (by_weight es) = set es"
  by (induction es) (simp_all add: by_weight_def)

lemma weight_less_asym: "weight_less a b \<Longrightarrow> \<not> weight_less b a"
  using weight_less_trans weight_not_less_refl by blast

lemma insert_language_sorted:
  "numeric xs \<Longrightarrow> heaviest_first xs \<Longrightarrow> heaviest_first (insert_language e xs)"
proof (induction xs)
  case (Cons x xs)
  then show ?case
    unfolding numeric_def heaviest_first_def
    by (auto dest: weight_less_asym weight_not_less_trans [of "lg_q x" "lg_q e"])
qed (simp add: heaviest_first_def)

lemma by_weight_sorted: "numeric es \<Longrightarrow> heaviest_first (by_weight es)"
proof (induction es)
  case (Cons e es)
  then have "numeric (by_weight es)" "heaviest_first (by_weight es)"
    by (simp_all add: numeric_def)
  then show ?case by (simp add: by_weight_def insert_language_sorted)
qed (simp add: by_weight_def heaviest_first_def)

lemma find_insert_language:
  assumes "numeric xs" "heaviest_first xs"
  shows "List.find supported (insert_language e xs) =
    (if supported e
     then case List.find supported xs of
            Some y \<Rightarrow> Some (if weight_less (lg_q e) (lg_q y) then y else e)
          | None \<Rightarrow> Some e
     else List.find supported xs)"
  using assms
proof (induction xs)
  case (Cons x xs)
  have tail: "\<not> weight_less (lg_q e) (lg_q y)"
    if "\<not> weight_less (lg_q e) (lg_q x)" "List.find supported xs = Some y" for y
  proof -
    from that(2) have "y \<in> set xs" by (auto simp: find_Some_iff)
    then have "\<not> weight_less (lg_q x) (lg_q y)" "lg_q x \<noteq> NaN"
      using Cons.prems by (auto simp: heaviest_first_def numeric_def)
    with that(1) weight_not_less_trans show ?thesis by blast
  qed
  from Cons.prems have "numeric xs" "heaviest_first xs"
    by (simp_all add: heaviest_first_def numeric_def)
  with Cons.IH tail show ?case by (auto split: option.splits)
qed simp

text \<open>The entry the loop of \<open>resolveLocale\<close> stops at.\<close>

definition preferred :: "language list \<Rightarrow> language \<Rightarrow> bool" where
  "preferred es e \<longleftrightarrow>
     (\<exists>as bs. filter supported es = as @ e # bs \<and> (\<forall>a \<in> set as. weight_less (lg_q a) (lg_q e))
        \<and> (\<forall>b \<in> set bs. \<not> weight_less (lg_q e) (lg_q b)))"

lemma preferredI:
  "filter supported es = as @ e # bs \<Longrightarrow> (\<And>a. a \<in> set as \<Longrightarrow> weight_less (lg_q a) (lg_q e))
    \<Longrightarrow> (\<And>b. b \<in> set bs \<Longrightarrow> \<not> weight_less (lg_q e) (lg_q b)) \<Longrightarrow> preferred es e"
  unfolding preferred_def by blast

lemma preferred_cases:
  assumes "numeric es"
  shows "case List.find supported (by_weight es) of
           None \<Rightarrow> filter supported es = []
         | Some e \<Rightarrow> preferred es e"
  using assms
proof (induction es)
  case (Cons e es)
  then have n: "numeric es" "numeric (by_weight es)" by (simp_all add: numeric_def)
  note step = find_insert_language [OF n(2) by_weight_sorted [OF n(1)], of e]
  have bw: "by_weight (e # es) = insert_language e (by_weight es)" by (simp add: by_weight_def)
  show ?case
  proof (cases "List.find supported (by_weight es)")
    case None
    have "supported e \<Longrightarrow> preferred (e # es) e"
      using None Cons.IH n(1) by (intro preferredI [of _ "[]" _ "[]"]) simp_all
    with None Cons.IH n(1) step show ?thesis unfolding bw by simp
  next
    case (Some y)
    with Cons.IH n(1) obtain as bs where split: "filter supported es = as @ y # bs"
      and as: "\<And>a. a \<in> set as \<Longrightarrow> weight_less (lg_q a) (lg_q y)"
      and bs: "\<And>b. b \<in> set bs \<Longrightarrow> \<not> weight_less (lg_q y) (lg_q b)"
      unfolding preferred_def by auto
    consider "\<not> supported e" | "supported e" "weight_less (lg_q e) (lg_q y)"
      | "supported e" "\<not> weight_less (lg_q e) (lg_q y)" by blast
    then show ?thesis
    proof cases
      case 1
      then have "preferred (e # es) y" using split as bs by (intro preferredI) simp_all
      with 1 Some step show ?thesis unfolding bw by simp
    next
      case 2
      then have "preferred (e # es) y"
        using split as bs by (intro preferredI [of _ "e # as"]) auto
      with 2 Some step show ?thesis unfolding bw by simp
    next
      case 3
      have "y \<in> set (filter supported es)" unfolding split by simp
      then have y: "lg_q y \<noteq> NaN" using n(1) by (simp add: numeric_def)
      have "\<not> weight_less (lg_q e) (lg_q b)" if "b \<in> set (as @ y # bs)" for b
        using that 3(2) as bs weight_less_trans weight_not_less_trans [OF y 3(2)] by fastforce
      then have "preferred (e # es) e"
        using 3 split by (intro preferredI [of _ "[]"]) auto
      with 3 Some step show ?thesis unfolding bw by simp
    qed
  qed
qed (simp add: by_weight_def)

text \<open>The locale of a request is always one of the supported ones or the default, and when every weight of
  the header is a number it is the first of the supported languages of greatest weight; the default only
  when the header names no supported language.\<close>

theorem resolveLocale_preferred:
  assumes "h \<noteq> []" "\<forall>e \<in> set (parse_languages h). lg_q e \<noteq> NaN"
  shows "(resolveLocale (Some h) = ''en'' \<and> filter supported (parse_languages h) = [])
    \<or> (\<exists>as e bs. filter supported (parse_languages h) = as @ e # bs \<and> resolveLocale (Some h) = lg_lang e
          \<and> (\<forall>a \<in> set as. weight_less (lg_q a) (lg_q e))
          \<and> (\<forall>b \<in> set bs. \<not> weight_less (lg_q e) (lg_q b)))"
proof -
  have "numeric (parse_languages h)" using assms(2) by (simp add: numeric_def)
  then have *: "case List.find supported (by_weight (parse_languages h)) of
      None \<Rightarrow> filter supported (parse_languages h) = [] | Some e \<Rightarrow> preferred (parse_languages h) e"
    by (rule preferred_cases)
  show ?thesis
  proof (cases "List.find supported (by_weight (parse_languages h))")
    case None
    then show ?thesis using * assms(1) by (simp add: resolveLocale_def DEFAULT_LOCALE_def)
  next
    case (Some e)
    then have "preferred (parse_languages h) e" "resolveLocale (Some h) = lg_lang e"
      using * assms(1) by (simp_all add: resolveLocale_def)
    then show ?thesis unfolding preferred_def by metis
  qed
qed

theorem resolveLocale_preferred_witness:
  "resolveLocale (Some ''de, fr-FR;q=0.9, en'') = ''en'' \<and>
   filter supported (parse_languages ''de, fr-FR;q=0.9, en'') \<noteq> []"
proof -
  let ?h = "''de, fr-FR;q=0.9, en''"
  have es: "parse_languages ?h = [\<lparr>lg_lang = ''de'', lg_q = Fin 1\<rparr>, \<lparr>lg_lang = ''fr'', lg_q = Fin (9/10)\<rparr>,
      \<lparr>lg_lang = ''en'', lg_q = Fin 1\<rparr>]"
    by code_simp
  have f: "filter supported (parse_languages ?h) =
      [\<lparr>lg_lang = ''fr'', lg_q = Fin (9/10)\<rparr>, \<lparr>lg_lang = ''en'', lg_q = Fin 1\<rparr>]"
    unfolding es by (simp add: supported_def SUPPORTED_LOCALES_def)
  have "\<forall>e \<in> set (parse_languages ?h). lg_q e \<noteq> NaN" unfolding es by simp
  from resolveLocale_preferred [OF _ this] f show ?thesis
    by (auto simp: append_eq_Cons_conv Cons_eq_append_conv)
qed

end
