(* ===== verification/Sanitize.thy ===== *)
theory Sanitize
  imports JsJson JsRegex
begin

text \<open>
  \<open>src/middleware/sanitize.middleware.js\<close>: the three deletions on strings, and the two traversals of a
  request: \<open>sanitizeValue\<close>, which builds a cleaned copy (the query string), and \<open>sanitizeInPlace\<close>, which
  changes the object it is given (the body and the route parameters).
\<close>

section \<open>The patterns\<close>

definition DANGEROUS_KEYS :: "string set" where
  "DANGEROUS_KEYS = {''__proto__'', ''constructor'', ''prototype''}"

text \<open>\<open>/<\/?[a-zA-Z][^>]*>/\<close>\<close>

definition HTML_TAG_RE :: matcher where
  "HTML_TAG_RE s =
     (case s of
        [] \<Rightarrow> None
      | c # r \<Rightarrow>
          if c \<noteq> CHR ''<'' then None
          else (let r1 = (if starts_with r ''/'' then drop 1 r else r)
                in case r1 of
                     [] \<Rightarrow> None
                   | a # r2 \<Rightarrow>
                       if \<not> is_letter a then None
                       else case dropWhile (\<lambda>x. x \<noteq> CHR ''>'') r2 of
                              [] \<Rightarrow> None
                            | _ # rest \<Rightarrow> Some ([], rest)))"

text \<open>\<open>/javascript:/i\<close>\<close>

definition JS_URI_RE :: matcher where
  "JS_URI_RE s = (if js_lower (take 11 s) = ''javascript:'' then Some ([], drop 11 s) else None)"

text \<open>
  \<open>/\son\w+\s*=\s*(?:"[^"]*"|'[^']*'|[^\s]*)/i\<close>: the quantifiers are greedy, and giving a character
  back never helps, since \<open>\w\<close>, white space and the equals sign exclude each other.
\<close>

definition attribute_value :: "string \<Rightarrow> string" where
  "attribute_value s =
     (case s of
        [] \<Rightarrow> []
      | q # r \<Rightarrow>
          if (q = CHR ''\"'' \<or> q = CHR 0x27) \<and> q \<in> set r
          then tl (dropWhile (\<lambda>x. x \<noteq> q) r)
          else dropWhile (\<lambda>x. \<not> is_space x) s)"

definition ON_EVENT_RE :: matcher where
  "ON_EVENT_RE s =
     (case s of
        [] \<Rightarrow> None
      | c # r \<Rightarrow>
          if \<not> is_space c \<or> js_lower (take 2 r) \<noteq> ''on'' \<or> takeWhile is_word (drop 2 r) = [] then None
          else case dropWhile is_space (dropWhile is_word (drop 2 r)) of
                 [] \<Rightarrow> None
               | e # r1 \<Rightarrow>
                   if e \<noteq> CHR ''='' then None
                   else Some ([], attribute_value (dropWhile is_space r1)))"

definition sanitizeString :: "string \<Rightarrow> string" where
  "sanitizeString s =
     replace_all ON_EVENT_RE (replace_all JS_URI_RE (replace_all HTML_TAG_RE s))"

section \<open>The traversals\<close>

definition kept_key :: "string \<Rightarrow> bool" where
  "kept_key k \<longleftrightarrow> k \<notin> DANGEROUS_KEYS \<and> \<not> starts_with k ''$''"

fun sanitizeValue :: "nat \<Rightarrow> json \<Rightarrow> json" where
  "sanitizeValue depth (JStr s) = (if depth > 10 then JStr s else JStr (sanitizeString s))"
| "sanitizeValue depth (JArr xs) =
     (if depth > 10 then JArr xs else JArr (map (sanitizeValue (Suc depth)) xs))"
| "sanitizeValue depth (JObj kvs) =
     (if depth > 10 then JObj kvs
      else JObj (filter (\<lambda>(k, v). kept_key k) (map (\<lambda>(k, v). (k, sanitizeValue (Suc depth) v)) kvs)))"
| "sanitizeValue depth v = v"

text \<open>
  The document \<open>sanitizeInPlace\<close> leaves behind: a string in a container is replaced where it stands, a
  container is visited, everything else stays.
\<close>

fun sanitizeInPlace :: "nat \<Rightarrow> json \<Rightarrow> json" where
  "sanitizeInPlace depth (JArr xs) =
     (if depth > 10 then JArr xs
      else JArr (map (\<lambda>v. case v of JStr s \<Rightarrow> JStr (sanitizeString s)
                                  | _ \<Rightarrow> sanitizeInPlace (Suc depth) v) xs))"
| "sanitizeInPlace depth (JObj kvs) =
     (if depth > 10 then JObj kvs
      else JObj (filter (\<lambda>(k, v). kept_key k)
             (map (\<lambda>(k, v). (k, case v of JStr s \<Rightarrow> JStr (sanitizeString s)
                                         | _ \<Rightarrow> sanitizeInPlace (Suc depth) v)) kvs)))"
| "sanitizeInPlace depth v = v"

text \<open>\<open>sanitizeRequest\<close>: the body in place, the query as a sanitized copy.\<close>

definition sanitizeRequest :: "json option \<times> json option \<Rightarrow> json option \<times> json option" where
  "sanitizeRequest r =
     (case r of (body, query) \<Rightarrow>
        (map_option (\<lambda>b. if is_container b then sanitizeInPlace 0 b else b) body,
         map_option (\<lambda>q. if is_container q then sanitizeValue 0 q else q) query))"

section \<open>What is deleted\<close>

lemma suffix_behind: "dropWhile P s = x # r \<Longrightarrow> suffix r s"
  by (metis suffix_ConsD suffix_dropWhile)

lemma HTML_TAG_RE_Some: "HTML_TAG_RE t = Some (rep, rest) \<Longrightarrow> rep = [] \<and> suffix rest t"
proof (cases t)
  case (Cons c r)
  assume m: "HTML_TAG_RE t = Some (rep, rest)"
  define r1 where "r1 = (if starts_with r ''/'' then drop 1 r else r)"
  have lt: "c = CHR ''<''" using m Cons by (simp add: HTML_TAG_RE_def split: if_split_asm)
  have m1: "(case r1 of [] \<Rightarrow> None
      | a # r2 \<Rightarrow> if \<not> is_letter a then None
                  else case dropWhile (\<lambda>x. x \<noteq> CHR ''>'') r2 of [] \<Rightarrow> None | _ # rest \<Rightarrow> Some ([], rest))
      = Some (rep, rest)"
    using m lt Cons by (simp only: HTML_TAG_RE_def list.case Let_def r1_def if_False simp_thms)
  then obtain a r2 where r1: "r1 = a # r2" by (cases r1) simp_all
  with m1 have "is_letter a" by (simp split: if_split_asm)
  with m1 r1 obtain x where "dropWhile (\<lambda>x. x \<noteq> CHR ''>'') r2 = x # rest" and rep: "rep = []"
    by (cases "dropWhile (\<lambda>x. x \<noteq> CHR ''>'') r2") simp_all
  then have "suffix rest r2" by (simp only: suffix_behind)
  moreover have "suffix (a # r2) r"
    unfolding r1 [symmetric] r1_def by (simp add: suffix_drop)
  ultimately show ?thesis
    using rep Cons by (meson suffix_ConsD suffix_ConsI suffix_order.order_trans)
qed (simp add: HTML_TAG_RE_def)

lemma JS_URI_RE_Some: "JS_URI_RE t = Some (rep, rest) \<Longrightarrow> rep = [] \<and> suffix rest t"
  unfolding JS_URI_RE_def by (auto simp: suffix_drop simp del: take.simps split: if_split_asm)

lemma attribute_value_suffix: "suffix (attribute_value s) s"
proof (cases s)
  case (Cons q r)
  have "suffix (tl (dropWhile P r)) r" for P
    by (meson suffix_dropWhile suffix_order.order_trans suffix_tl)
  then show ?thesis
    using Cons by (simp add: attribute_value_def suffix_ConsI suffix_dropWhile)
qed (simp add: attribute_value_def)

lemma ON_EVENT_RE_Some: "ON_EVENT_RE t = Some (rep, rest) \<Longrightarrow> rep = [] \<and> suffix rest t"
proof (cases t)
  case (Cons c r)
  assume m: "ON_EVENT_RE t = Some (rep, rest)"
  let ?w = "dropWhile is_space (dropWhile is_word (drop 2 r))"
  have m1: "(case ?w of [] \<Rightarrow> None
      | e # r1 \<Rightarrow> if e \<noteq> CHR ''='' then None else Some ([], attribute_value (dropWhile is_space r1)))
      = Some (rep, rest)"
    using m Cons unfolding ON_EVENT_RE_def by (simp only: list.case split: if_split_asm) simp
  then obtain e r1 where w: "?w = e # r1" by (cases ?w) simp_all
  with m1 have rest: "rest = attribute_value (dropWhile is_space r1)" and rep: "rep = []"
    by (simp_all split: if_split_asm)
  have "suffix ?w r"
    by (meson suffix_dropWhile suffix_drop suffix_order.order_trans)
  then have "suffix r1 r" unfolding w by (rule suffix_ConsD)
  moreover have "suffix rest r1"
    unfolding rest by (meson attribute_value_suffix suffix_dropWhile suffix_order.order_trans)
  ultimately show ?thesis
    using rep Cons by (meson suffix_ConsI suffix_order.order_trans)
qed (simp add: ON_EVENT_RE_def)

lemma sanitizeString_subseq: "subseq (sanitizeString s) s"
proof -
  have html: "subseq (replace_all HTML_TAG_RE x) x" for x
    by (rule replace_all_deletes) (rule HTML_TAG_RE_Some)
  have uri: "subseq (replace_all JS_URI_RE x) x" for x
    by (rule replace_all_deletes) (rule JS_URI_RE_Some)
  have event: "subseq (replace_all ON_EVENT_RE x) x" for x
    by (rule replace_all_deletes) (rule ON_EVENT_RE_Some)
  show ?thesis
    unfolding sanitizeString_def
    by (rule subseq_order.order_trans [OF event subseq_order.order_trans [OF uri html]])
qed

lemma HTML_TAG_RE_needs: "CHR ''<'' \<notin> set t \<Longrightarrow> HTML_TAG_RE t = None"
  by (cases t) (auto simp: HTML_TAG_RE_def)

lemma js_lower_char_colon: "js_lower_char c = CHR '':'' \<Longrightarrow> c = CHR '':''"
proof -
  assume "js_lower_char c = CHR '':''"
  then have "char_code (js_lower_char c) = char_code (CHR '':'')" by simp
  moreover have "char_code (CHR '':'') = 58" by code_simp
  ultimately have "char_code c = char_code (CHR '':'')"
    by (auto simp: js_lower_char_code Let_def split: if_splits)
  then show ?thesis by (simp only: char_code_inj)
qed

lemma JS_URI_RE_needs: "CHR '':'' \<notin> set t \<Longrightarrow> JS_URI_RE t = None"
proof -
  assume n: "CHR '':'' \<notin> set t"
  have "js_lower (take 11 t) \<noteq> ''javascript:''"
  proof
    assume "js_lower (take 11 t) = ''javascript:''"
    then have "CHR '':'' \<in> set (js_lower (take 11 t))" by simp
    then obtain c where "c \<in> set t" "js_lower_char c = CHR '':''"
      by (auto simp: js_lower_def dest: in_set_takeD)
    with n js_lower_char_colon show False by blast
  qed
  then show ?thesis by (simp add: JS_URI_RE_def)
qed

lemma ON_EVENT_RE_needs: "CHR ''='' \<notin> set t \<Longrightarrow> ON_EVENT_RE t = None"
proof (cases t)
  case (Cons c r)
  assume n: "CHR ''='' \<notin> set t"
  let ?w = "dropWhile is_space (dropWhile is_word (drop 2 r))"
  have "set ?w \<subseteq> set r"
    by (meson set_dropWhileD set_drop_subset subset_code(1))
  with n Cons have w: "CHR ''='' \<notin> set ?w" by auto
  show ?thesis
  proof (cases ?w)
    case Nil
    with Cons show ?thesis unfolding ON_EVENT_RE_def by (simp only: list.case if_cancel)
  next
    case (Cons e r1)
    with w have "e \<noteq> CHR ''=''" by auto
    with Cons \<open>t = c # r\<close> show ?thesis unfolding ON_EVENT_RE_def by (simp only: list.case if_True if_cancel not_False_eq_True)
  qed
qed (simp add: ON_EVENT_RE_def)

lemma sanitizeString_plain:
  assumes "CHR ''<'' \<notin> set s" "CHR '':'' \<notin> set s" "CHR ''='' \<notin> set s"
  shows "sanitizeString s = s"
proof -
  note sub = set_mono_suffix [THEN subsetD]
  have "replace_all HTML_TAG_RE s = s" "replace_all JS_URI_RE s = s" "replace_all ON_EVENT_RE s = s"
    using assms by (blast intro!: replace_all_none HTML_TAG_RE_needs JS_URI_RE_needs ON_EVENT_RE_needs
        dest: sub)+
  then show ?thesis by (simp add: sanitizeString_def)
qed

section \<open>The two traversals\<close>

text \<open>What \<open>sanitizeInPlace\<close> puts in the place of an entry.\<close>

abbreviation entry_in_place :: "nat \<Rightarrow> json \<Rightarrow> json" where
  "entry_in_place depth v \<equiv>
     (case v of JStr s \<Rightarrow> JStr (sanitizeString s) | _ \<Rightarrow> sanitizeInPlace depth v)"

lemma entry_agrees:
  "depth + json_depth v \<le> 10 \<Longrightarrow> entry_in_place depth v = sanitizeValue depth v"
proof (induction depth v rule: sanitizeValue.induct)
  case (2 depth xs)
  have "entry_in_place (Suc depth) v = sanitizeValue (Suc depth) v" if "v \<in> set xs" for v
    using 2 that json_depth_child(1) [OF that] by simp
  with 2 show ?case by simp
next
  case (3 depth kvs)
  have "entry_in_place (Suc depth) v = sanitizeValue (Suc depth) v" if "(k, v) \<in> set kvs" for k v
    using 3 that json_depth_child(2) [OF that] by simp
  then have eq: "map (\<lambda>(k, v). (k, entry_in_place (Suc depth) v)) kvs =
      map (\<lambda>(k, v). (k, sanitizeValue (Suc depth) v)) kvs"
    by (intro map_cong) auto
  show ?case by (simp only: sanitizeInPlace.simps sanitizeValue.simps json.case eq)
qed simp_all

lemma sanitize_agree_containers:
  "json_depth v \<le> 10 \<Longrightarrow> is_container v \<Longrightarrow> sanitizeInPlace 0 v = sanitizeValue 0 v"
  using entry_agrees [of 0 v] by (cases v) simp_all

fun all_keys :: "json \<Rightarrow> string set" where
  "all_keys (JArr xs) = \<Union> (set (map all_keys xs))"
| "all_keys (JObj kvs) = fst ` set kvs \<union> \<Union> (set (map (\<lambda>(k, v). all_keys v) kvs))"
| "all_keys _ = {}"

lemma all_keys_no_container: "\<not> is_container v \<Longrightarrow> all_keys v = {}"
  by (cases v) simp_all

text \<open>The keys of a cleaned document are allowed keys of the document.\<close>

lemma sanitizeValue_keys:
  "depth + json_depth v \<le> 11 \<Longrightarrow> k \<in> all_keys (sanitizeValue depth v) \<Longrightarrow> kept_key k \<and> k \<in> all_keys v"
proof (induction depth v rule: sanitizeValue.induct)
  case (2 depth xs)
  then have d: "\<not> 10 < depth" by simp
  from 2(3) d obtain v where v: "v \<in> set xs" "k \<in> all_keys (sanitizeValue (Suc depth) v)" by auto
  have "Suc depth + json_depth v \<le> 11"
    using 2(2) json_depth_child(1) [OF v(1)] by simp
  with 2(1) v d have "kept_key k \<and> k \<in> all_keys v" by blast
  with v(1) show ?case by auto
next
  case (3 depth kvs)
  then have d: "\<not> 10 < depth" by simp
  from 3(3) d have "kept_key k \<and> k \<in> fst ` set kvs
      \<or> (\<exists>k' v. (k', v) \<in> set kvs \<and> k \<in> all_keys (sanitizeValue (Suc depth) v))"
    by force
  then show ?case
  proof (elim disjE exE conjE)
    fix k' v assume v: "(k', v) \<in> set kvs" "k \<in> all_keys (sanitizeValue (Suc depth) v)"
    have "Suc depth + json_depth v \<le> 11"
      using 3(2) json_depth_child(2) [OF v(1)] by simp
    with 3(1) [OF d v(1) refl] v(2) have "kept_key k \<and> k \<in> all_keys v" by blast
    with v(1) show ?thesis by auto
  qed simp
qed (auto split: if_splits)

lemma sanitizeInPlace_keys:
  "depth + json_depth v \<le> 11 \<Longrightarrow> k \<in> all_keys (sanitizeInPlace depth v) \<Longrightarrow> kept_key k \<and> k \<in> all_keys v"
proof (induction depth v rule: sanitizeInPlace.induct)
  case (1 depth xs)
  then have d: "\<not> 10 < depth" by simp
  from "1.prems"(2) d have "\<exists>v \<in> set xs. k \<in> all_keys (entry_in_place (Suc depth) v)" by force
  then obtain v where v: "v \<in> set xs" "k \<in> all_keys (entry_in_place (Suc depth) v)" ..
  from v(2) have "k \<in> all_keys (sanitizeInPlace (Suc depth) v)" by (cases v) simp_all
  moreover have "Suc depth + json_depth v \<le> 11"
    using "1.prems"(1) json_depth_child(1) [OF v(1)] by simp
  ultimately have "kept_key k \<and> k \<in> all_keys v"
    using "1.IH" [OF d v(1)] by (cases v) simp_all
  with v(1) show ?case by auto
next
  case (2 depth kvs)
  then have d: "\<not> 10 < depth" by simp
  from "2.prems"(2) d have "kept_key k \<and> k \<in> fst ` set kvs
      \<or> (\<exists>k' v. (k', v) \<in> set kvs \<and> k \<in> all_keys (entry_in_place (Suc depth) v))"
    by force
  then show ?case
  proof (elim disjE exE conjE)
    fix k' v assume v: "(k', v) \<in> set kvs" "k \<in> all_keys (entry_in_place (Suc depth) v)"
    from v(2) have "k \<in> all_keys (sanitizeInPlace (Suc depth) v)" by (cases v) simp_all
    moreover have "Suc depth + json_depth v \<le> 11"
      using "2.prems"(1) json_depth_child(2) [OF v(1)] by simp
    ultimately have "kept_key k \<and> k \<in> all_keys v"
      using "2.IH" [OF d v(1) refl] by (cases v) simp_all
    with v(1) show ?thesis by auto
  qed simp
qed simp_all

section \<open>Properties\<close>

text \<open>C31: The two traversals of \<open>sanitize.middleware.js\<close> compute the same document: on an object or array nested at
  most ten deep, what \<open>sanitizeInPlace\<close> (the body, the route parameters) leaves behind is the copy
  \<open>sanitizeValue\<close> (the query) builds.\<close>

theorem sanitize_agree:
  assumes "is_container v" "json_depth v \<le> 10"
  shows "sanitizeInPlace 0 v = sanitizeValue 0 v"
  using assms by (simp add: sanitize_agree_containers)

theorem sanitize_agree_witness:
  "\<exists>v. is_container v \<and> json_depth v \<le> 10 \<and> sanitizeInPlace 0 v = sanitizeValue 0 v
     \<and> sanitizeValue 0 v = JObj [(''name'', JArr [JStr ''Ada''])]"
proof (intro exI conjI)
  let ?v = "JObj [(''$where'', JNull), (''name'', JArr [JStr ''<i>Ada''])]"
  show "is_container ?v" by simp
  show "json_depth ?v \<le> 10" by simp
  show "sanitizeInPlace 0 ?v = sanitizeValue 0 ?v" by (rule sanitize_agree) simp_all
  show "sanitizeValue 0 ?v = JObj [(''name'', JArr [JStr ''Ada''])]" by code_simp
qed

text \<open>C30: Behind the sanitizer no object of the body or of the query has the key \<open>__proto__\<close>, \<open>constructor\<close> or
  \<open>prototype\<close> or a key that begins with a dollar sign, at any level, as long as the document is nested at
  most eleven deep; and no key appears that the client did not send.\<close>

theorem sanitized_request_keys:
  assumes run: "sanitizeRequest (body, query) = (body', query')"
    and depth: "\<forall>v \<in> set_option body \<union> set_option query. json_depth v \<le> 11"
    and k: "k \<in> \<Union> (all_keys ` (set_option body' \<union> set_option query'))"
  shows "k \<notin> {''__proto__'', ''constructor'', ''prototype''} \<and> \<not> starts_with k ''$''
    \<and> k \<in> \<Union> (all_keys ` (set_option body \<union> set_option query))"
proof -
  have "kept_key k \<and> k \<in> \<Union> (all_keys ` (set_option body \<union> set_option query))"
  proof (cases "k \<in> \<Union> (all_keys ` set_option body')")
    case True
    with run obtain b where b: "body = Some b" "k \<in> all_keys (if is_container b then sanitizeInPlace 0 b else b)"
      by (auto simp: sanitizeRequest_def)
    then have "is_container b" by (cases "is_container b") (simp_all add: all_keys_no_container)
    with b depth sanitizeInPlace_keys [of 0 b k] show ?thesis by auto
  next
    case False
    with run k obtain q where q: "query = Some q" "k \<in> all_keys (if is_container q then sanitizeValue 0 q else q)"
      by (auto simp: sanitizeRequest_def)
    then have "is_container q" by (cases "is_container q") (simp_all add: all_keys_no_container)
    with q depth sanitizeValue_keys [of 0 q k] show ?thesis by auto
  qed
  then show ?thesis by (simp add: kept_key_def DANGEROUS_KEYS_def)
qed

theorem sanitized_request_keys_witness:
  "\<exists>body' query'. sanitizeRequest (Some (JObj [(''$ne'', JNull), (''a'', JObj [(''__proto__'', JNull)])]), None)
       = (body', query') \<and> ''a'' \<in> \<Union> (all_keys ` (set_option body' \<union> set_option query'))
     \<and> \<not> starts_with ''a'' ''$''"
proof (intro exI conjI)
  show run: "sanitizeRequest (Some (JObj [(''$ne'', JNull), (''a'', JObj [(''__proto__'', JNull)])]), None)
      = (Some (JObj [(''a'', JObj [])]), None)" by code_simp
  show a: "''a'' \<in> \<Union> (all_keys ` (set_option (Some (JObj [(''a'', JObj [])])) \<union> set_option None))" by simp
  show "\<not> starts_with ''a'' ''$''"
    using sanitized_request_keys [OF run _ a] by simp
qed

text \<open>The sanitizer deletes in one pass, so what it deletes can put together what it looks for: two texts
  out of which a tag and a script URI come.\<close>

theorem sanitize_single_pass:
  "sanitizeString ''<<b>script>'' = ''<script>'' \<and>
   sanitizeString ''javajavascript:script:x'' = ''javascript:x'' \<and>
   sanitizeString (sanitizeString ''<<b>script>'') = []"
  by code_simp

fun nested :: "nat \<Rightarrow> json \<Rightarrow> json" where
  "nested 0 v = v"
| "nested (Suc n) v = JArr [nested n v]"

text \<open>The depth limit of the two traversals is not the same one: a string inside eleven arrays is cleaned in
  the body and not in the query, and behind eleven arrays a forbidden key goes through both.\<close>

theorem sanitize_depth_limit:
  "sanitizeInPlace 0 (nested 11 (JStr ''<b>'')) = nested 11 (JStr []) \<and>
   sanitizeValue 0 (nested 11 (JStr ''<b>'')) = nested 11 (JStr ''<b>'') \<and>
   sanitizeInPlace 0 (nested 11 (JObj [(''__proto__'', JNull)])) = nested 11 (JObj [(''__proto__'', JNull)]) \<and>
   sanitizeValue 0 (nested 11 (JObj [(''__proto__'', JNull)])) = nested 11 (JObj [(''__proto__'', JNull)])"
  by code_simp

end
