(* ===== verification/Responses.thy ===== *)
theory Responses
  imports I18n Sanitize
begin

text \<open>
  \<open>src/middleware/error.middleware.js\<close>: what a client learns of a thrown error; and
  \<open>src/middleware/validate.middleware.js\<close>: the answer to input a request schema refuses.
\<close>

section \<open>Thrown errors\<close>

text \<open>
  What the handler reads of a thrown value: \<open>statusCode\<close>, the key and parameters of
  \<open>i18n\<close>, \<open>message\<close>, \<open>stack\<close>, and the \<open>code\<close> of a
  \<open>PrismaClientKnownRequestError\<close>.
\<close>

record js_error =
  er_statusCode :: "nat option"
  er_i18n :: "(string \<times> (string \<times> param) list) option"
  er_message :: "string option"
  er_stack :: "string option"
  er_prismaCode :: "string option"

text \<open>The errors of the services as the handler receives them; \<open>stack\<close> is the trace of the throw.\<close>

fun thrown :: "string \<Rightarrow> api_error \<Rightarrow> js_error" where
  "thrown stack (HttpError key status params) =
     \<lparr>er_statusCode = Some status, er_i18n = Some (key, params), er_message = Some key,
      er_stack = Some stack, er_prismaCode = None\<rparr>"
| "thrown stack (PrismaError code) =
     \<lparr>er_statusCode = None, er_i18n = None, er_message = Some code, er_stack = Some stack,
      er_prismaCode = Some code\<rparr>"
| "thrown stack (OtherError msg) =
     \<lparr>er_statusCode = None, er_i18n = None, er_message = Some msg, er_stack = Some stack,
      er_prismaCode = None\<rparr>"

definition mapPrismaError :: "js_error \<Rightarrow> (nat \<times> string) option" where
  "mapPrismaError err =
     (case er_prismaCode err of
        None \<Rightarrow> None
      | Some code \<Rightarrow>
          if code = ''P2002'' then Some (409, ''errors.resourceConflict'')
          else if code = ''P2025'' then Some (404, ''errors.resourceNotFound'')
          else None)"

text \<open>The level of the log entry, and whether Sentry is given the error.\<close>

datatype log_level = LogError | LogWarn

record error_response =
  resp_status :: nat
  resp_json :: json
  resp_log :: log_level

definition errorHandler ::
  "string option \<Rightarrow> (string \<Rightarrow> json) \<Rightarrow> string option \<Rightarrow> js_error \<Rightarrow> error_response" where
  "errorHandler node_env locales lang err0 =
     (let prismaMapped = (if er_statusCode err0 = None then mapPrismaError err0 else None);
          err = (case prismaMapped of
                   Some (statusCode, key) \<Rightarrow>
                     err0\<lparr>er_statusCode := Some statusCode, er_i18n := Some (key, [])\<rparr>
                 | None \<Rightarrow> err0);
          statusCode = (case er_statusCode err of Some s \<Rightarrow> s | None \<Rightarrow> 500);
          locale = (case lang of Some l \<Rightarrow> l | None \<Rightarrow> DEFAULT_LOCALE);
          message =
            (case er_i18n err of
               Some (key, params) \<Rightarrow> translate locales key locale (params_text params)
             | None \<Rightarrow>
                 if node_env = Some ''development'' then
                   (case er_message err of
                      Some m \<Rightarrow> JStr m
                    | None \<Rightarrow> translate locales ''errors.internalServerError'' locale [])
                 else if statusCode \<ge> 500 then translate locales ''errors.internalServerError'' locale []
                 else translate locales ''errors.badRequest'' locale [])
      in \<lparr>resp_status = statusCode,
          resp_json = JObj ([(''success'', JBool False), (''message'', message)]
            @ (if node_env = Some ''development''
               then (case er_stack err of Some st \<Rightarrow> [(''stack'', JStr st)] | None \<Rightarrow> [])
               else [])),
          resp_log = (if statusCode \<ge> 500 then LogError else LogWarn)\<rparr>)"

section \<open>Refused input\<close>

datatype path_part = PathKey string | PathIndex nat

fun path_text :: "path_part \<Rightarrow> string" where
  "path_text (PathKey k) = k"
| "path_text (PathIndex i) = show_nat i"

record issue =
  issue_path :: "path_part list"
  issue_message :: string

definition fieldKey :: "path_part list \<Rightarrow> string" where
  "fieldKey path =
     (if length path = 0 then ''_''
      else if length path = 1 then path_text (hd path)
      else js_join ''.'' (map path_text (tl path)))"

definition translate_issue :: "(string \<Rightarrow> json) \<Rightarrow> string \<Rightarrow> string \<Rightarrow> json" where
  "translate_issue locales lang msg =
     (if CHR ''.'' \<in> set msg \<and> CHR '' '' \<notin> set msg then translate locales msg lang [] else JStr msg)"

text \<open>\<open>errors[key] = errors[key] || []; errors[key].push(m)\<close>\<close>

definition push_error :: "string \<Rightarrow> json \<Rightarrow> (string \<times> json list) list \<Rightarrow> (string \<times> json list) list" where
  "push_error key m errors =
     obj_put key ((case map_of errors key of Some ms \<Rightarrow> ms | None \<Rightarrow> []) @ [m]) errors"

definition field_errors :: "(issue \<Rightarrow> json) \<Rightarrow> issue list \<Rightarrow> (string \<times> json list) list" where
  "field_errors msg issues =
     foldl (\<lambda>errors i. push_error (fieldKey (issue_path i)) (msg i) errors) [] issues"

datatype 'v validated = Refused json | Validated 'v

text \<open>
  \<open>validate(schema)\<close>: the schema's \<open>safeParse\<close> is Zod's, an argument that gives the issues or
  the parsed value; it is given the body, the query and the sanitized route parameters.  The
  answer's status is 400 when it is \<open>Refused\<close>.
\<close>

definition validate ::
  "(json option \<times> json option \<times> json option \<Rightarrow> issue list + 'v) \<Rightarrow> (string \<Rightarrow> json) \<Rightarrow> string \<Rightarrow>
   json option \<times> json option \<times> json option \<Rightarrow> 'v validated" where
  "validate safeParse locales lang req =
     (case req of (body, query, params) \<Rightarrow>
        case safeParse (body, query, map_option (\<lambda>p. if is_container p then sanitizeInPlace 0 p else p) params) of
          Inl issues \<Rightarrow>
            Refused (JObj [(''success'', JBool False),
              (''errors'', JObj (map (\<lambda>(k, ms). (k, JArr ms))
                 (field_errors (\<lambda>i. translate_issue locales lang (issue_message i)) issues)))])
        | Inr data \<Rightarrow> Validated data)"

section \<open>Laws\<close>

lemma map_of_push_error:
  "map_of (push_error k m errors) j =
     (if j = k then Some ((case map_of errors k of Some ms \<Rightarrow> ms | None \<Rightarrow> []) @ [m]) else map_of errors j)"
  by (simp add: push_error_def map_of_obj_put)

lemma map_of_field_errors:
  "map_of (field_errors msg issues) k =
     (if k \<in> (fieldKey \<circ> issue_path) ` set issues
      then Some (map msg (filter (\<lambda>i. fieldKey (issue_path i) = k) issues))
      else None)"
proof (induction issues arbitrary: k rule: rev_induct)
  case (snoc i iss)
  have "field_errors msg (iss @ [i]) = push_error (fieldKey (issue_path i)) (msg i) (field_errors msg iss)"
    by (simp add: field_errors_def)
  then show ?case
    by (auto simp: map_of_push_error snoc.IH filter_empty_conv image_iff)
qed (simp add: field_errors_def)

section \<open>Properties\<close>

text \<open>C32: Outside development the answer to an error is the same for every message and stack trace the error
  may carry: two errors that agree on the status code, the translation key and the Prisma code cannot
  be told apart by the client.\<close>

theorem error_masks_internals:
  assumes "node_env \<noteq> Some ''development''"
    and "er_statusCode e = er_statusCode e'" "er_i18n e = er_i18n e'" "er_prismaCode e = er_prismaCode e'"
  shows "errorHandler node_env locales lang e = errorHandler node_env locales lang e'"
proof -
  have "mapPrismaError e = mapPrismaError e'" using assms by (simp add: mapPrismaError_def)
  with assms show ?thesis
    unfolding errorHandler_def by (auto simp: Let_def split: option.splits)
qed

theorem error_masks_internals_witness:
  "errorHandler (Some ''production'') (\<lambda>_. JObj []) None (thrown ''at /srv/app.js:1'' (OtherError ''boom'')) =
   errorHandler (Some ''production'') (\<lambda>_. JObj []) None (thrown ''at /srv/db.js:9'' (OtherError ''secret''))"
  by (rule error_masks_internals) simp_all

text \<open>The status of the answer to an error of a service: an \<open>httpError\<close> keeps its own, a violated unique
  index is 409, a missing record is 404, and everything else is 500; the answer is always marked as a
  failure, and a message that carries no key is the generic one.\<close>

theorem error_status:
  assumes "node_env \<noteq> Some ''development''"
  shows "\<exists>message. errorHandler node_env locales (Some l) (thrown stack e) =
      \<lparr>resp_status = (case e of
           HttpError key status params \<Rightarrow> status
         | PrismaError code \<Rightarrow> if code = ''P2002'' then 409 else if code = ''P2025'' then 404 else 500
         | OtherError msg \<Rightarrow> 500),
       resp_json = JObj [(''success'', JBool False), (''message'', message)],
       resp_log = (case e of
           HttpError key status params \<Rightarrow> if 500 \<le> status then LogError else LogWarn
         | PrismaError code \<Rightarrow> if code = ''P2002'' \<or> code = ''P2025'' then LogWarn else LogError
         | OtherError msg \<Rightarrow> LogError)\<rparr>
    \<and> message = (case e of
           HttpError key status params \<Rightarrow> translate locales key l (params_text params)
         | PrismaError code \<Rightarrow>
             translate locales (if code = ''P2002'' then ''errors.resourceConflict''
               else if code = ''P2025'' then ''errors.resourceNotFound'' else ''errors.internalServerError'') l []
         | OtherError msg \<Rightarrow> translate locales ''errors.internalServerError'' l [])"
  using assms by (cases e) (simp_all add: errorHandler_def mapPrismaError_def Let_def params_text_def)

theorem error_status_witness:
  "\<exists>r. errorHandler None (\<lambda>_. JObj []) (Some ''fr'') (thrown [] P2002) = r \<and> resp_status r = 409"
proof -
  obtain message where "errorHandler None (\<lambda>_. JObj []) (Some ''fr'') (thrown [] P2002) =
      \<lparr>resp_status = 409, resp_json = JObj [(''success'', JBool False), (''message'', message)],
       resp_log = LogWarn\<rparr>"
    using error_status [of None "\<lambda>_. JObj []" "''fr''" "[]" P2002] by auto
  then show ?thesis by simp
qed

text \<open>A request goes on exactly when its schema accepts it.  When the schema refuses it, the answer
  lists under each field the translated messages of that field's issues, all of them and in the schema's
  order, and under no other name.\<close>

theorem validate_reports_all:
  assumes "validate safeParse locales lang (body, query, params) = Refused answer"
  shows "\<exists>issues errors. safeParse (body, query,
        map_option (\<lambda>p. if is_container p then sanitizeInPlace 0 p else p) params) = Inl issues
    \<and> answer = JObj [(''success'', JBool False), (''errors'', JObj errors)]
    \<and> (\<forall>k. map_of errors k =
        (if \<exists>i \<in> set issues. fieldKey (issue_path i) = k
         then Some (JArr (map (\<lambda>i. translate_issue locales lang (issue_message i))
                (filter (\<lambda>i. fieldKey (issue_path i) = k) issues)))
         else None))"
proof -
  from assms obtain issues where issues: "safeParse (body, query,
      map_option (\<lambda>p. if is_container p then sanitizeInPlace 0 p else p) params) = Inl issues"
    and answer: "answer = JObj [(''success'', JBool False), (''errors'', JObj (map (\<lambda>(k, ms). (k, JArr ms))
                 (field_errors (\<lambda>i. translate_issue locales lang (issue_message i)) issues)))]"
    by (auto simp: validate_def split: sum.split_asm)
  let ?msg = "\<lambda>i. translate_issue locales lang (issue_message i)"
  have "\<forall>k. map_of (map (\<lambda>(k, ms). (k, JArr ms)) (field_errors ?msg issues)) k =
      (if \<exists>i \<in> set issues. fieldKey (issue_path i) = k
       then Some (JArr (map ?msg (filter (\<lambda>i. fieldKey (issue_path i) = k) issues))) else None)"
    by (auto simp: map_of_map map_of_field_errors)
  with issues answer show ?thesis by blast
qed

theorem validate_reports_all_witness:
  "\<exists>answer errors. validate (\<lambda>_. Inl [\<lparr>issue_path = [PathKey ''body'', PathKey ''items'', PathIndex 0], issue_message = ''Required''\<rparr>]
        :: issue list + unit) (\<lambda>_. JObj []) ''en'' (None, None, None) = Refused answer
     \<and> answer = JObj [(''success'', JBool False), (''errors'', JObj errors)]
     \<and> map_of errors ''items.0'' = Some (JArr [JStr ''Required''])"
proof -
  let ?i = "\<lparr>issue_path = [PathKey ''body'', PathKey ''items'', PathIndex 0], issue_message = ''Required''\<rparr>"
  let ?p = "\<lambda>_. Inl [?i] :: issue list + unit"
  obtain answer where v: "validate ?p (\<lambda>_. JObj []) ''en'' (None, None, None) = Refused answer"
    by (simp add: validate_def)
  have key: "fieldKey (issue_path ?i) = ''items.0''" by code_simp
  have msg: "translate_issue (\<lambda>_. JObj []) ''en'' ''Required'' = JStr ''Required''" by code_simp
  from validate_reports_all [OF v] obtain issues errors where "?p () = Inl issues"
    "answer = JObj [(''success'', JBool False), (''errors'', JObj errors)]"
    "map_of errors ''items.0'' = (if \<exists>i \<in> set issues. fieldKey (issue_path i) = ''items.0''
       then Some (JArr (map (\<lambda>i. translate_issue (\<lambda>_. JObj []) ''en'' (issue_message i))
              (filter (\<lambda>i. fieldKey (issue_path i) = ''items.0'') issues))) else None)"
    by auto
  with v key msg show ?thesis by fastforce
qed

end
