(* ===== verification/Emails.thy ===== *)
theory Emails
  imports I18n
begin

text \<open>
  \<open>src/modules/shared/email.service.js\<close>, with \<open>processEmailJob\<close> of
  \<open>src/modules/jobs/email.worker.js\<close>: what a mail says, and what happens when it cannot be sent.
\<close>

section \<open>Escaping\<close>

definition escapeHtml :: "string \<Rightarrow> string" where
  "escapeHtml value =
     replace_all (literal [CHR 0x27] ''&#39;'')
    (replace_all (literal [CHR 0x22] ''&quot;'')
    (replace_all (literal ''>'' ''&gt;'')
    (replace_all (literal ''<'' ''&lt;'')
    (replace_all (literal ''&'' ''&amp;'') value))))"

definition unescapeHtml :: "string \<Rightarrow> string" where
  "unescapeHtml value =
     replace_all (literal ''&#39;'' [CHR 0x27])
    (replace_all (literal ''&quot;'' [CHR 0x22])
    (replace_all (literal ''&gt;'' ''>'')
    (replace_all (literal ''&lt;'' ''<'')
    (replace_all (literal ''&amp;'' ''&'') value))))"

section \<open>The two parts of a mail\<close>

record mail_strings =
  heading :: string
  greeting :: string
  body_line :: string
  copyLink :: string
  footer :: string

definition newline :: string where
  "newline = [CHR 0x0A]"

definition buildEmailHtml :: "mail_strings \<Rightarrow> string \<Rightarrow> string \<Rightarrow> string" where
  \<open>buildEmailHtml strings url button =
     js_join newline
       [[],
        ''    <div style="font-family: Arial, sans-serif; max-width: 600px; margin: 0 auto; padding: 20px;">'',
        ''      <h2>'' @ heading strings @ ''</h2>'',
        ''      <p>'' @ greeting strings @ '',</p>'',
        ''      <p>'' @ body_line strings @ ''</p>'',
        ''      <a href="'' @ url @ ''"'',
        ''         style="display: inline-block; background: #4f46e5; color: #fff; padding: 12px 24px; border-radius: 6px; text-decoration: none; margin: 16px 0;">'',
        ''        '' @ button,
        ''      </a>'',
        ''      <p>'' @ copyLink strings @ ''</p>'',
        ''      <p><a href="'' @ url @ ''">'' @ url @ ''</a></p>'',
        ''      <p style="color: #6b7280; font-size: 14px; margin-top: 24px;">'',
        ''        '' @ footer strings,
        ''      </p>'',
        ''    </div>'',
        ''  '']\<close>

definition buildEmailText :: "mail_strings \<Rightarrow> string \<Rightarrow> string \<Rightarrow> string" where
  "buildEmailText strings url button =
     js_join (newline @ newline)
       (map unescapeHtml
         (filter (\<lambda>line. line \<noteq> [])
           [heading strings,
            (if greeting strings = [] then [] else greeting strings @ '',''),
            body_line strings,
            button @ '': '' @ url,
            copyLink strings,
            footer strings]))"

section \<open>Sending\<close>

record mail =
  mail_from :: string
  mail_to :: string
  mail_subject :: string
  mail_html :: string
  mail_text :: string

text \<open>
  \<open>APP_URL\<close>, \<open>FROM_EMAIL\<close>, and the client of the mail service: absent without
  \<open>RESEND_API_KEY\<close>, and otherwise a function that gives the error message of a mail that was
  refused.
\<close>

record mailer =
  APP_URL :: "string option"
  FROM_EMAIL :: "string option"
  resend :: "(mail \<Rightarrow> string option) option"

definition app_url :: "mailer \<Rightarrow> string" where
  "app_url m = (case APP_URL m of Some u \<Rightarrow> u | None \<Rightarrow> ''http://localhost:3000'')"

text \<open>
  A translation inside a template string.  The entries the mails use are texts; an object would be
  printed as JavaScript prints one.
\<close>

definition template_text :: "json \<Rightarrow> string" where
  "template_text v = (case v of JStr s \<Rightarrow> s | _ \<Rightarrow> ''[object Object]'')"

abbreviation translate_text ::
  "(string \<Rightarrow> json) \<Rightarrow> string \<Rightarrow> string \<Rightarrow> (string \<times> string) list \<Rightarrow> string" where
  "translate_text locales key locale params \<equiv> template_text (translate locales key locale params)"

text \<open>What a call ends with: the translated message of the thrown \<open>Error\<close>, or nothing; and the mails
  handed to the mail service.\<close>

type_synonym send_result = "string option \<times> mail list"

definition deliver :: "mailer \<Rightarrow> (string \<Rightarrow> json) \<Rightarrow> string \<Rightarrow> string \<Rightarrow> mail \<Rightarrow> send_result" where
  "deliver m locales failKey locale x =
     (case resend m of
        None \<Rightarrow> (None, [])
      | Some send \<Rightarrow>
          (case send x of
             None \<Rightarrow> (None, [x])
           | Some msg \<Rightarrow> (Some (translate_text locales failKey locale [(''message'', msg)]), [x])))"

definition build_mail :: "mailer \<Rightarrow> string \<Rightarrow> string \<Rightarrow> mail_strings \<Rightarrow> string \<Rightarrow> string \<Rightarrow> mail" where
  "build_mail m recipient subject strings url button =
     \<lparr>mail_from = (case FROM_EMAIL m of Some f \<Rightarrow> f | None \<Rightarrow> ''noreply@example.com''),
      mail_to = recipient, mail_subject = subject,
      mail_html = buildEmailHtml strings url button, mail_text = buildEmailText strings url button\<rparr>"

definition greeting_name :: "string option \<Rightarrow> string" where
  "greeting_name name =
     (case name of Some n \<Rightarrow> if n = [] then [] else '' '' @ escapeHtml n | None \<Rightarrow> [])"

definition sendVerificationEmail ::
  "mailer \<Rightarrow> (string \<Rightarrow> json) \<Rightarrow> string \<Rightarrow> string \<Rightarrow> string option \<Rightarrow> string \<Rightarrow> send_result" where
  "sendVerificationEmail m locales recipient token name locale =
     (let verifyUrl = app_url m @ ''/verify-email?token='' @ token;
          strings =
            \<lparr>heading = translate_text locales ''emails.verification.heading'' locale [],
             greeting = translate_text locales ''emails.verification.greeting'' locale
               [(''name'', greeting_name name)],
             body_line = translate_text locales ''emails.verification.body'' locale [],
             copyLink = translate_text locales ''emails.verification.copyLink'' locale [],
             footer = translate_text locales ''emails.verification.footer'' locale []\<rparr>;
          button = translate_text locales ''emails.verification.button'' locale [];
          subject = translate_text locales ''emails.verification.subject'' locale []
      in deliver m locales ''errors.failedToSendVerificationEmail'' locale
           (build_mail m recipient subject strings verifyUrl button))"

definition sendPasswordResetEmail ::
  "mailer \<Rightarrow> (string \<Rightarrow> json) \<Rightarrow> string \<Rightarrow> string \<Rightarrow> string option \<Rightarrow> string \<Rightarrow> send_result" where
  "sendPasswordResetEmail m locales recipient token name locale =
     (let resetUrl = app_url m @ ''/reset-password?token='' @ token;
          strings =
            \<lparr>heading = translate_text locales ''emails.passwordReset.heading'' locale [],
             greeting = translate_text locales ''emails.passwordReset.greeting'' locale
               [(''name'', greeting_name name)],
             body_line = translate_text locales ''emails.passwordReset.body'' locale [],
             copyLink = translate_text locales ''emails.passwordReset.copyLink'' locale [],
             footer = translate_text locales ''emails.passwordReset.footer'' locale []\<rparr>;
          button = translate_text locales ''emails.passwordReset.button'' locale [];
          subject = translate_text locales ''emails.passwordReset.subject'' locale []
      in deliver m locales ''errors.failedToSendPasswordResetEmail'' locale
           (build_mail m recipient subject strings resetUrl button))"

fun role_text :: "org_role \<Rightarrow> string" where
  "role_text OWNER = ''OWNER''"
| "role_text ORG_ADMIN = ''ADMIN''"
| "role_text MEMBER = ''MEMBER''"

definition sendOrgInvitationEmail ::
  "mailer \<Rightarrow> (string \<Rightarrow> json) \<Rightarrow> string \<Rightarrow> string \<Rightarrow> string \<Rightarrow> org_role \<Rightarrow> string \<Rightarrow> string \<Rightarrow> send_result" where
  "sendOrgInvitationEmail m locales recipient orgName inviterName role token locale =
     (let inviteUrl = app_url m @ ''/invitations/accept?token='' @ token;
          strings =
            \<lparr>heading = translate_text locales ''emails.orgInvitation.heading'' locale
               [(''orgName'', escapeHtml orgName)],
             greeting = [],
             body_line = translate_text locales ''emails.orgInvitation.body'' locale
               [(''inviterName'', escapeHtml inviterName), (''orgName'', escapeHtml orgName),
                (''role'', role_text role)],
             copyLink = translate_text locales ''emails.orgInvitation.copyLink'' locale [],
             footer = translate_text locales ''emails.orgInvitation.footer'' locale []\<rparr>;
          button = translate_text locales ''emails.orgInvitation.button'' locale [];
          subject = translate_text locales ''emails.orgInvitation.subject'' locale [(''orgName'', orgName)]
      in deliver m locales ''errors.failedToSendOrgInvitationEmail'' locale
           (build_mail m recipient subject strings inviteUrl button))"

text \<open>The worker: one call per job name.\<close>

fun processEmailJob :: "mailer \<Rightarrow> (string \<Rightarrow> json) \<Rightarrow> email_job \<Rightarrow> send_result" where
  "processEmailJob m locales (SendVerificationEmail recipient token name locale) =
     sendVerificationEmail m locales recipient token name locale"
| "processEmailJob m locales (SendPasswordResetEmail recipient token name locale) =
     sendPasswordResetEmail m locales recipient token name locale"
| "processEmailJob m locales (SendOrgInvitationEmail recipient orgName inviterName role token locale) =
     sendOrgInvitationEmail m locales recipient orgName inviterName role token locale"

section \<open>Escaping, character by character\<close>

text \<open>The entity of a special character, and a text in which the characters of a set are escaped.\<close>

definition entity :: "char \<Rightarrow> string" where
  "entity c =
     (if c = CHR ''&'' then ''&amp;'' else if c = CHR ''<'' then ''&lt;''
      else if c = CHR ''>'' then ''&gt;'' else if c = CHR 0x22 then ''&quot;'' else ''&#39;'')"

definition special :: "char set" where
  "special = {CHR ''&'', CHR ''<'', CHR ''>'', CHR 0x22, CHR 0x27}"

definition escaped :: "char set \<Rightarrow> string \<Rightarrow> string" where
  "escaped S s = concat (map (\<lambda>c. if c \<in> S then entity c else [c]) s)"

lemma escaped_simps [simp]:
  "escaped S [] = []"
  "escaped S (c # s) = (if c \<in> S then entity c else [c]) @ escaped S s"
  by (simp_all add: escaped_def)

lemma escaped_none [simp]: "escaped {} s = s"
  by (induction s) simp_all

lemma starts_with_Cons: "starts_with (c # s) (p # ps) \<longleftrightarrow> c = p \<and> starts_with s ps"
  by (auto simp: starts_with_def)

lemma starts_with_Nil [simp]: "starts_with s []"
  by (simp add: starts_with_def)

lemma replace_char_append:
  "replace_all (literal [x] r) (s @ t) = replace_all (literal [x] r) s @ replace_all (literal [x] r) t"
  by (induction s) (auto simp: literal_def starts_with_Cons)

lemma escapeHtml_append: "escapeHtml (s @ t) = escapeHtml s @ escapeHtml t"
  by (simp add: escapeHtml_def replace_char_append)

lemma escapeHtml_escaped: "escapeHtml s = escaped special s"
proof (induction s)
  case (Cons c s)
  have "escapeHtml [c] = (if c \<in> special then entity c else [c])"
    by (auto simp: escapeHtml_def special_def entity_def literal_def starts_with_Cons)
  with Cons escapeHtml_append [of "[c]" s] show ?case by simp
qed (simp add: escapeHtml_def)

lemma escapeHtml_set: "set (escapeHtml s) \<inter> {CHR ''<'', CHR ''>'', CHR 0x22, CHR 0x27} = {}"
  unfolding escapeHtml_escaped by (induction s) (auto simp: special_def entity_def)

section \<open>Unescaping\<close>

text \<open>A text that matches an entity after some characters are escaped matched it before.\<close>

lemma escaped_starts_with:
  assumes "CHR ''&'' \<notin> set pat" "S \<subseteq> special" "starts_with (escaped S s) pat"
    and "set pat \<inter> special = {}"
  shows "starts_with s pat"
  using assms
proof (induction pat arbitrary: s)
  case (Cons p ps)
  then show ?case
  proof (cases s)
    case Nil
    with Cons.prems(3) show ?thesis by (simp add: starts_with_def)
  next
    case (Cons c t)
    show ?thesis
    proof (cases "c \<in> S")
      case True
      then have "starts_with (entity c @ escaped S t) (p # ps)" using Cons.prems(3) Cons by simp
      then have "p = CHR ''&''" by (auto simp: entity_def starts_with_Cons split: if_split_asm)
      with Cons.prems(1) show ?thesis by simp
    next
      case False
      with Cons.prems Cons show ?thesis by (auto simp: starts_with_Cons intro: Cons.IH)
    qed
  qed
qed simp

lemma replace_block:
  "CHR ''&'' \<notin> set b \<Longrightarrow> replace_all (literal (CHR ''&'' # pat) r) (b @ s) = b @ replace_all (literal (CHR ''&'' # pat) r) s"
  by (induction b) (auto simp: literal_def starts_with_Cons)

lemma entity_split: "c \<in> special \<Longrightarrow> \<exists>t. entity c = CHR ''&'' # t \<and> set t \<inter> special = {} \<and> CHR ''&'' \<notin> set t"
  by (auto simp: special_def entity_def)

lemma entity_apart:
  "x \<in> special \<Longrightarrow> c \<in> special \<Longrightarrow> c \<noteq> x \<Longrightarrow> \<not> starts_with (entity c @ s) (entity x)"
  by (auto simp: special_def entity_def starts_with_Cons)

text \<open>One step of \<open>unescapeHtml\<close>: the entity of one character, in a text in which it is escaped.\<close>

lemma unescape_step:
  assumes S: "S \<subseteq> special" "x \<in> S"
    and fresh: "CHR ''&'' \<in> S \<or> (\<forall>t. suffix t s \<longrightarrow> \<not> starts_with t (entity x))"
  shows "replace_all (literal (entity x) [x]) (escaped S s) = escaped (S - {x}) s"
  using fresh
proof (induction s)
  case (Cons c s)
  have x: "x \<in> special" using S by auto
  obtain pat where pat: "entity x = CHR ''&'' # pat" "set pat \<inter> special = {}" "CHR ''&'' \<notin> set pat"
    using entity_split [OF x] by blast
  let ?m = "literal (entity x) [x]"
  have IH: "replace_all ?m (escaped S s) = escaped (S - {x}) s"
    using Cons by (auto simp: suffix_Cons)
  consider "c = x" | "c \<noteq> x" "c \<in> S" | "c \<notin> S" "c \<noteq> CHR ''&''" | "c \<notin> S" "c = CHR ''&''" by blast
  then show ?case
  proof cases
    case 1
    have "?m (entity x @ escaped S s) = Some ([x], escaped S s)" by (simp add: literal_def)
    with 1 S(2) IH show ?thesis by (simp add: pat(1))
  next
    case 2
    then have c: "c \<in> special" using S(1) by auto
    obtain u where u: "entity c = CHR ''&'' # u" "CHR ''&'' \<notin> set u" using entity_split [OF c] by blast
    have none: "?m (entity c @ escaped S s) = None"
      using entity_apart [OF x c 2(1)] by (simp add: literal_def)
    have "replace_all ?m (u @ escaped S s) = u @ replace_all ?m (escaped S s)"
      using u(2) unfolding pat(1) by (rule replace_block)
    with none have "replace_all ?m (entity c @ escaped S s) = entity c @ replace_all ?m (escaped S s)"
      by (simp add: u(1))
    with 2 IH show ?thesis by simp
  next
    case 3
    then have "c \<noteq> x" using S(2) by blast
    have "?m (c # escaped S s) = None"
      using 3(2) by (simp add: literal_def pat(1) starts_with_Cons)
    with 3 \<open>c \<noteq> x\<close> IH show ?thesis by simp
  next
    case 4
    have "\<not> starts_with (CHR ''&'' # escaped S s) (entity x)"
    proof
      assume "starts_with (CHR ''&'' # escaped S s) (entity x)"
      then have "starts_with s pat"
        using escaped_starts_with [OF pat(3) S(1) _ pat(2)] by (simp add: pat(1) starts_with_Cons)
      moreover have "\<not> starts_with (c # s) (entity x)"
        using Cons.prems 4 S by auto
      ultimately show False using 4 by (simp add: pat(1) starts_with_Cons)
    qed
    with 4(2) have "?m (c # escaped S s) = None" by (simp add: literal_def)
    with 4 S(2) IH show ?thesis by auto
  qed
qed simp

lemma unescapeHtml_entities:
  "unescapeHtml s =
     replace_all (literal (entity (CHR 0x27)) [CHR 0x27])
    (replace_all (literal (entity (CHR 0x22)) [CHR 0x22])
    (replace_all (literal (entity (CHR ''>'')) ''>'')
    (replace_all (literal (entity (CHR ''<'')) ''<'')
    (replace_all (literal (entity (CHR ''&'')) ''&'') s))))"
  by (simp add: unescapeHtml_def entity_def)

text \<open>C40: What the text part of a mail shows is what the user typed: \<open>unescapeHtml\<close> undoes
  \<open>escapeHtml\<close> on every text that does not itself contain one of the four entities of the markup
  characters.\<close>

theorem unescape_escape:
  assumes "\<forall>e \<in> {''&lt;'', ''&gt;'', ''&quot;'', ''&#39;''}. \<not> sublist e s"
  shows "unescapeHtml (escapeHtml s) = s"
proof -
  have fresh: "\<not> starts_with t (entity x)"
    if "x \<in> {CHR ''<'', CHR ''>'', CHR 0x22, CHR 0x27}" "suffix t s" for x t
  proof
    assume "starts_with t (entity x)"
    then obtain u where "t = entity x @ u" by (elim starts_withE)
    with that(2) have "sublist (entity x) s" by (auto simp: suffix_def sublist_def)
    with assms that(1) show False by (auto simp: entity_def)
  qed
  let ?S = "{CHR ''<'', CHR ''>'', CHR 0x22, CHR 0x27}"
  have amp: "replace_all (literal (entity (CHR ''&'')) ''&'') (escaped special s) = escaped ?S s"
    by (subst unescape_step) (auto simp: special_def intro: arg_cong [where f = "\<lambda>S. escaped S s"])
  have lt: "replace_all (literal (entity (CHR ''<'')) ''<'') (escaped ?S s) = escaped {CHR ''>'', CHR 0x22, CHR 0x27} s"
    by (subst unescape_step) (auto simp: special_def fresh intro: arg_cong [where f = "\<lambda>S. escaped S s"])
  have gt: "replace_all (literal (entity (CHR ''>'')) ''>'') (escaped {CHR ''>'', CHR 0x22, CHR 0x27} s) = escaped {CHR 0x22, CHR 0x27} s"
    by (subst unescape_step) (auto simp: special_def fresh intro: arg_cong [where f = "\<lambda>S. escaped S s"])
  have quot: "replace_all (literal (entity (CHR 0x22)) [CHR 0x22]) (escaped {CHR 0x22, CHR 0x27} s) = escaped {CHR 0x27} s"
    by (subst unescape_step) (auto simp: special_def fresh intro: arg_cong [where f = "\<lambda>S. escaped S s"])
  have apos: "replace_all (literal (entity (CHR 0x27)) [CHR 0x27]) (escaped {CHR 0x27} s) = escaped {} s"
    by (subst unescape_step) (auto simp: special_def fresh intro: arg_cong [where f = "\<lambda>S. escaped S s"])
  show ?thesis
    by (simp only: unescapeHtml_entities escapeHtml_escaped amp lt gt quot apos escaped_none)
qed

theorem unescape_escape_witness:
  "unescapeHtml (escapeHtml ''Tom & <Jerry> &amp; \"co\"'') = ''Tom & <Jerry> &amp; \"co\"''
   \<and> escapeHtml ''<b>'' = ''&lt;b&gt;''"
proof (intro conjI)
  show "unescapeHtml (escapeHtml ''Tom & <Jerry> &amp; \"co\"'') = ''Tom & <Jerry> &amp; \"co\"''"
    by (rule unescape_escape) code_simp
  show "escapeHtml ''<b>'' = ''&lt;b&gt;''" by code_simp
qed

text \<open>On a name that contains the entity of a markup character itself, it does not: the text part shows
  another name than the one the user has.\<close>

theorem unescape_not_inverse:
  "unescapeHtml (escapeHtml ''R&lt;D'') = ''R<D''"
  by code_simp

section \<open>Markup\<close>

text \<open>A character no parameter contains occurs as often for one set of values as for another.\<close>

lemma interpolate_count:
  assumes keys: "map fst ps = map fst ps'"
    and none: "\<And>k v. (k, v) \<in> set ps \<union> set ps' \<Longrightarrow> c \<notin> set v"
  shows "count_list (replace_all (placeholder ps) s) c = count_list (replace_all (placeholder ps') s) c"
proof (induction s rule: length_induct)
  case (1 s)
  have same: "count_list (case map_of ps n of Some v \<Rightarrow> v | None \<Rightarrow> d) c =
      count_list (case map_of ps' n of Some v \<Rightarrow> v | None \<Rightarrow> d) c" for n d
  proof -
    have "(map_of ps n = None) = (map_of ps' n = None)"
      using keys by (metis map_of_eq_None_iff set_map)
    moreover have "map_of qs n = Some v \<Longrightarrow> qs \<in> {ps, ps'} \<Longrightarrow> count_list v c = 0" for qs v
      using none by (auto simp: count_list_0_iff dest!: map_of_SomeD)
    ultimately show ?thesis by (cases "map_of ps n"; cases "map_of ps' n") simp_all
  qed
  show ?case
  proof (cases s)
    case (Cons d u)
    have less: "length x \<le> length u \<Longrightarrow> count_list (replace_all (placeholder ps) x) c =
        count_list (replace_all (placeholder ps') x) c" for x
      using 1 Cons by auto
    let ?name = "takeWhile is_word u" and ?rest = "dropWhile is_word u"
    show ?thesis
    proof (cases "d \<noteq> CHR ''{'' \<or> ?name = [] \<or> \<not> starts_with ?rest ''}''")
      case True
      then have "placeholder qs (d # u) = None" for qs by (simp only: placeholder_def list.case Let_def if_True)
      with less [of u] Cons show ?thesis by simp
    next
      case False
      then have "placeholder qs (d # u) =
          Some (case map_of qs ?name of Some v \<Rightarrow> v | None \<Rightarrow> ''{'' @ ?name @ ''}'', drop 1 ?rest)" for qs
        by (simp only: placeholder_def list.case Let_def if_False)
      moreover have "length (drop 1 ?rest) \<le> length u"
        by (simp add: le_diff_conv le_SucI length_dropWhile_le)
      ultimately show ?thesis using less [of "drop 1 ?rest"] same Cons by simp
    qed
  qed simp
qed

lemma translate_count:
  assumes "map fst ps = map fst ps'" "\<And>k v. (k, v) \<in> set ps \<union> set ps' \<Longrightarrow> c \<notin> set v"
  shows "count_list (translate_text locales key locale ps) c = count_list (translate_text locales key locale ps') c"
proof -
  have "count_list (template_text (interpolate v ps)) c = count_list (template_text (interpolate v ps')) c" for v
    using interpolate_count [OF assms] by (cases v) (simp_all add: interpolate_def template_text_def)
  then show ?thesis by (simp only: translate_def Let_def)
qed

lemma html_count:
  assumes "count_list (heading a) c = count_list (heading b) c" "count_list (greeting a) c = count_list (greeting b) c"
    "count_list (body_line a) c = count_list (body_line b) c" "copyLink a = copyLink b" "footer a = footer b"
  shows "count_list (buildEmailHtml a url button) c = count_list (buildEmailHtml b url button) c"
  unfolding buildEmailHtml_def by (simp only: js_join.simps count_list_append assms)

lemma deliver_mail: "deliver m locales failKey locale x = (r, [y]) \<Longrightarrow> y = x"
  by (auto simp: deliver_def split: option.splits)

definition markup :: "char set" where
  "markup = {CHR ''<'', CHR ''>'', CHR 0x22, CHR 0x27}"

lemma escapeHtml_free: "c \<in> markup \<Longrightarrow> c \<notin> set (escapeHtml n)"
  using escapeHtml_set unfolding markup_def by blast

lemma greeting_name_free: "c \<in> markup \<Longrightarrow> c \<notin> set (greeting_name n)"
proof (cases n)
  case (Some x)
  assume c: "c \<in> markup"
  then have "c \<noteq> CHR '' ''" by (auto simp: markup_def)
  with escapeHtml_free [OF c, of x] Some show ?thesis by (simp add: greeting_name_def)
qed (simp add: greeting_name_def)

lemma verification_html:
  "sendVerificationEmail m locales a t n l = (r, [x]) \<Longrightarrow>
   mail_html x = buildEmailHtml
     \<lparr>heading = translate_text locales ''emails.verification.heading'' l [],
      greeting = translate_text locales ''emails.verification.greeting'' l [(''name'', greeting_name n)],
      body_line = translate_text locales ''emails.verification.body'' l [],
      copyLink = translate_text locales ''emails.verification.copyLink'' l [],
      footer = translate_text locales ''emails.verification.footer'' l []\<rparr>
     (app_url m @ ''/verify-email?token='' @ t) (translate_text locales ''emails.verification.button'' l [])"
  unfolding sendVerificationEmail_def Let_def by (drule deliver_mail) (simp only: build_mail_def mail.select_convs)

lemma reset_html:
  "sendPasswordResetEmail m locales a t n l = (r, [x]) \<Longrightarrow>
   mail_html x = buildEmailHtml
     \<lparr>heading = translate_text locales ''emails.passwordReset.heading'' l [],
      greeting = translate_text locales ''emails.passwordReset.greeting'' l [(''name'', greeting_name n)],
      body_line = translate_text locales ''emails.passwordReset.body'' l [],
      copyLink = translate_text locales ''emails.passwordReset.copyLink'' l [],
      footer = translate_text locales ''emails.passwordReset.footer'' l []\<rparr>
     (app_url m @ ''/reset-password?token='' @ t) (translate_text locales ''emails.passwordReset.button'' l [])"
  unfolding sendPasswordResetEmail_def Let_def by (drule deliver_mail) (simp only: build_mail_def mail.select_convs)

lemma invitation_html:
  "sendOrgInvitationEmail m locales a on n r t l = (res, [x]) \<Longrightarrow>
   mail_html x = buildEmailHtml
     \<lparr>heading = translate_text locales ''emails.orgInvitation.heading'' l [(''orgName'', escapeHtml on)],
      greeting = [],
      body_line = translate_text locales ''emails.orgInvitation.body'' l
        [(''inviterName'', escapeHtml n), (''orgName'', escapeHtml on), (''role'', role_text r)],
      copyLink = translate_text locales ''emails.orgInvitation.copyLink'' l [],
      footer = translate_text locales ''emails.orgInvitation.footer'' l []\<rparr>
     (app_url m @ ''/invitations/accept?token='' @ t) (translate_text locales ''emails.orgInvitation.button'' l [])"
  unfolding sendOrgInvitationEmail_def Let_def by (drule deliver_mail) (simp only: build_mail_def mail.select_convs)

lemma role_text_free: "c \<in> markup \<Longrightarrow> c \<notin> set (role_text r)"
  by (cases r) (auto simp: markup_def)

lemma greeting_count:
  "c \<in> markup \<Longrightarrow> count_list (translate_text locales key l [(k, greeting_name n)]) c =
     count_list (translate_text locales key l [(k, greeting_name n')]) c"
  by (rule translate_count) (auto simp: greeting_name_free)

lemma orgName_count:
  "c \<in> markup \<Longrightarrow> count_list (translate_text locales key l [(k, escapeHtml n)]) c =
     count_list (translate_text locales key l [(k, escapeHtml n')]) c"
  by (rule translate_count) (auto simp: escapeHtml_free)

lemma invitation_count:
  "c \<in> markup \<Longrightarrow>
   count_list (translate_text locales key l [(i, escapeHtml a), (k, escapeHtml b), (j, role_text r)]) c =
   count_list (translate_text locales key l [(i, escapeHtml a'), (k, escapeHtml b'), (j, role_text r)]) c"
  by (rule translate_count) (auto simp: escapeHtml_free role_text_free)

text \<open>Two jobs that differ in nothing but the names of people and organizations.\<close>

fun same_but_names :: "email_job \<Rightarrow> email_job \<Rightarrow> bool" where
  "same_but_names (SendVerificationEmail a t n l) (SendVerificationEmail a' t' n' l') =
     (a = a' \<and> t = t' \<and> l = l')"
| "same_but_names (SendPasswordResetEmail a t n l) (SendPasswordResetEmail a' t' n' l') =
     (a = a' \<and> t = t' \<and> l = l')"
| "same_but_names (SendOrgInvitationEmail a on n r t l) (SendOrgInvitationEmail a' on' n' r' t' l') =
     (a = a' \<and> r = r' \<and> t = t' \<and> l = l')"
| "same_but_names _ _ = False"

text \<open>C34: A name cannot put markup into a mail: whatever the users and organizations are called, the HTML of
  a mail has the same number of angle brackets and quotes.\<close>

theorem names_add_no_markup:
  assumes "same_but_names j j'" "processEmailJob m locales j = (r, [x])" "processEmailJob m locales j' = (r', [x'])"
    and c: "c \<in> {CHR ''<'', CHR ''>'', CHR 0x22, CHR 0x27}"
  shows "count_list (mail_html x) c = count_list (mail_html x') c"
proof -
  have c: "c \<in> markup" using c by (simp add: markup_def)
  show ?thesis
    using assms(1-3)
  proof (induction j j' rule: same_but_names.induct)
    case (1 a t n l a' t' n' l')
    then have same: "a' = a" "t' = t" "l' = l" by simp_all
    from 1(2,3) have "sendVerificationEmail m locales a t n l = (r, [x])"
      "sendVerificationEmail m locales a t n' l = (r', [x'])" unfolding same by simp_all
    then show ?case
      by (simp only: verification_html, intro html_count)
        (simp_all only: mail_strings.select_convs greeting_count [OF c, of _ _ _ _ n n'])
  next
    case (2 a t n l a' t' n' l')
    then have same: "a' = a" "t' = t" "l' = l" by simp_all
    from 2(2,3) have "sendPasswordResetEmail m locales a t n l = (r, [x])"
      "sendPasswordResetEmail m locales a t n' l = (r', [x'])" unfolding same by simp_all
    then show ?case
      by (simp only: reset_html, intro html_count)
        (simp_all only: mail_strings.select_convs greeting_count [OF c, of _ _ _ _ n n'])
  next
    case (3 a on n rl t l a' on' n' rl' t' l')
    then have same: "a' = a" "rl' = rl" "t' = t" "l' = l" by simp_all
    from 3(2,3) have "sendOrgInvitationEmail m locales a on n rl t l = (r, [x])"
      "sendOrgInvitationEmail m locales a on' n' rl t l = (r', [x'])" unfolding same by simp_all
    then show ?case
      by (simp only: invitation_html, intro html_count)
        (simp_all only: mail_strings.select_convs orgName_count [OF c, of _ _ _ _ on on']
          invitation_count [OF c, of _ _ _ _ n _ on _ _ n' on'])
  qed simp_all
qed

definition greeting_dict :: json where
  "greeting_dict = JObj [(''emails'', JObj [(''verification'', JObj [(''greeting'', JStr ''Hi{name}'')])])]"

theorem names_add_no_markup_witness:
  "\<exists>x x'. processEmailJob \<lparr>APP_URL = None, FROM_EMAIL = None, resend = Some (\<lambda>_. None)\<rparr> (\<lambda>_. greeting_dict)
      (SendVerificationEmail ''a@b.c'' ''t'' (Some ''<script>'') ''en'') = (None, [x])
    \<and> processEmailJob \<lparr>APP_URL = None, FROM_EMAIL = None, resend = Some (\<lambda>_. None)\<rparr> (\<lambda>_. greeting_dict)
      (SendVerificationEmail ''a@b.c'' ''t'' None ''en'') = (None, [x'])
    \<and> count_list (mail_html x) (CHR ''<'') = count_list (mail_html x') (CHR ''<'')"
proof -
  let ?m = "\<lparr>APP_URL = None, FROM_EMAIL = None, resend = Some (\<lambda>_. None)\<rparr>"
  let ?j = "SendVerificationEmail ''a@b.c'' ''t'' (Some ''<script>'') ''en''"
  let ?j' = "SendVerificationEmail ''a@b.c'' ''t'' None ''en''"
  have "\<exists>x. processEmailJob ?m (\<lambda>_. greeting_dict) (SendVerificationEmail a t n l) = (None, [x])" for a t n l
    by (simp only: processEmailJob.simps sendVerificationEmail_def Let_def deliver_def mailer.select_convs
        option.case) blast
  then obtain x x' where x: "processEmailJob ?m (\<lambda>_. greeting_dict) ?j = (None, [x])"
    and x': "processEmailJob ?m (\<lambda>_. greeting_dict) ?j' = (None, [x'])" by metis
  then have "count_list (mail_html x) (CHR ''<'') = count_list (mail_html x') (CHR ''<'')"
    by (rule names_add_no_markup [rotated]) simp_all
  with x x' show ?thesis by blast
qed

end
