(* ===== verification/Boot.thy ===== *)
theory Boot
  imports Prelude JsText
begin

text \<open>
  \<open>src/config/validateEnv.js\<close>: the environments the server and the worker agree to start in.
\<close>

type_synonym environment = "string \<Rightarrow> string option"

text \<open>\<open>!!env[key]\<close>\<close>

definition env_set :: "environment \<Rightarrow> string \<Rightarrow> bool" where
  "env_set env key = (case env key of Some v \<Rightarrow> v \<noteq> [] | None \<Rightarrow> False)"

definition env_length :: "environment \<Rightarrow> string \<Rightarrow> nat" where
  "env_length env key = (case env key of Some v \<Rightarrow> length v | None \<Rightarrow> 0)"

definition REQUIRED_ENV :: "string list" where
  "REQUIRED_ENV = [''DATABASE_URL'', ''JWT_SECRET'', ''JWT_REFRESH_SECRET'']"

definition validateEnv :: "environment \<Rightarrow> string list" where
  "validateEnv env =
     (let missing = filter (\<lambda>key. \<not> env_set env key) REQUIRED_ENV
      in if missing \<noteq> [] then [''Missing required env vars: '' @ js_join '', '' missing]
         else if env ''NODE_ENV'' = Some ''production'' then
           map (\<lambda>key. key @ '' must be at least 32 characters in production'')
             (filter (\<lambda>key. env_length env key < 32) [''JWT_SECRET'', ''JWT_REFRESH_SECRET''])
           @ (if env ''JWT_SECRET'' = env ''JWT_REFRESH_SECRET''
              then [''JWT_SECRET and JWT_REFRESH_SECRET must be different in production''] else [])
           @ (if \<not> env_set env ''CORS_ORIGIN'' then [''CORS_ORIGIN must be set in production''] else [])
           @ (if \<not> env_set env ''APP_URL''
              then [''APP_URL must be set in production (used to build links in emails)''] else [])
           @ (if \<not> env_set env ''SECRET_ENCRYPTION_KEY''
              then [''SECRET_ENCRYPTION_KEY must be set in production (otherwise 2FA secrets are encrypted ''
                    @ ''under JWT_SECRET, and rotating JWT_SECRET later would lock out every 2FA user)'']
              else [])
         else [])"

section \<open>Properties\<close>

lemma env_set_length: "32 \<le> env_length env key \<Longrightarrow> env_set env key"
  by (auto simp: env_set_def env_length_def split: option.splits)

text \<open>\<open>validateEnv\<close> accepts an environment exactly when the database and both token secrets are
  set and, in production, the secrets are different and at least 32 characters long and the allowed
  origins, the address of the application and the encryption key are set.\<close>

theorem validateEnv_accepts:
  "(validateEnv env = []) =
     ((env_set env ''DATABASE_URL'' \<and> env_set env ''JWT_SECRET'' \<and> env_set env ''JWT_REFRESH_SECRET'') \<and>
      (env ''NODE_ENV'' \<noteq> Some ''production'' \<or>
       (32 \<le> env_length env ''JWT_SECRET'' \<and> 32 \<le> env_length env ''JWT_REFRESH_SECRET''
        \<and> env ''JWT_SECRET'' \<noteq> env ''JWT_REFRESH_SECRET'' \<and> env_set env ''CORS_ORIGIN''
        \<and> env_set env ''APP_URL'' \<and> env_set env ''SECRET_ENCRYPTION_KEY'')))"
  unfolding validateEnv_def REQUIRED_ENV_def Let_def
  by (simp add: not_less del: not_le)

theorem validateEnv_accepts_witness:
  "validateEnv ((\<lambda>_. None)(''DATABASE_URL'' := Some ''postgres:'', ''JWT_SECRET'' := Some ''a'',
     ''JWT_REFRESH_SECRET'' := Some ''a'')) = []"
  by (simp add: validateEnv_accepts env_set_def)

end
