(* ===== verification/Requests.thy ===== *)
theory Requests
  imports Guards
begin

text \<open>
  A request as the routers see it, the chains of guards they put before a controller, and what every
  controller does around its service: on success the audit entry and the answer, on an error
  \<open>next(err)\<close>, which the error handler of \<open>Responses\<close> answers.
\<close>

text \<open>
  \<open>rq_authorization\<close> and \<open>rq_apiKey\<close> are the headers \<open>Authorization\<close> and \<open>X-API-Key\<close>.  The last three are drawn by the set-up of a second factor: the secret, the initialization vector and
  the backup codes.
\<close>

record request =
  rq_env :: env
  rq_now :: int
  rq_client :: client
  rq_fresh :: fresh
  rq_authorization :: "string option"
  rq_apiKey :: "string option"
  rq_secret :: string
  rq_iv :: string
  rq_codes :: "string list"

text \<open>The status of the answer with its data, or the error handed to \<open>next\<close>; and the database.\<close>

type_synonym 'a answer = "(nat \<times> 'a) result \<times> db"

section \<open>Guards before a controller\<close>

definition guarded :: "'g result \<Rightarrow> ('g \<Rightarrow> db \<Rightarrow> 'a answer) \<Rightarrow> db \<Rightarrow> 'a answer" where
  "guarded g k d = (case g of Inl e \<Rightarrow> (Inl e, d) | Inr x \<Rightarrow> k x d)"

text \<open>\<open>router.use(authenticate)\<close>\<close>

definition signed_in :: "request \<Rightarrow> (auth_user \<Rightarrow> db \<Rightarrow> 'a answer) \<Rightarrow> db \<Rightarrow> 'a answer" where
  "signed_in rq k d = guarded (authenticate (rq_env rq) (rq_now rq) (rq_authorization rq) d) k d"

text \<open>\<open>router.use(authenticate, authorize('ADMIN'))\<close>\<close>

definition as_admin :: "request \<Rightarrow> (auth_user \<Rightarrow> db \<Rightarrow> 'a answer) \<Rightarrow> db \<Rightarrow> 'a answer" where
  "as_admin rq k = signed_in rq (\<lambda>a d. guarded (authorize [ADMIN] (Some a)) (\<lambda>_. k a) d)"

text \<open>\<open>authenticate\<close>, then \<open>requireTenant\<close>, then \<open>requireOrgRole\<close>\<close>

definition in_tenant :: "request \<Rightarrow> string \<Rightarrow> (auth_user \<Rightarrow> tenant \<Rightarrow> db \<Rightarrow> 'a answer) \<Rightarrow> db \<Rightarrow> 'a answer" where
  "in_tenant rq orgId k =
     signed_in rq (\<lambda>a d. guarded (requireTenant orgId (au_id a) d) (\<lambda>t. k a t) d)"

definition with_org_role ::
  "request \<Rightarrow> org_role list \<Rightarrow> string \<Rightarrow> (auth_user \<Rightarrow> tenant \<Rightarrow> db \<Rightarrow> 'a answer) \<Rightarrow> db \<Rightarrow> 'a answer" where
  "with_org_role rq roles orgId k =
     in_tenant rq orgId (\<lambda>a t d. guarded (requireOrgRole roles (Some t)) (\<lambda>_. k a t) d)"

text \<open>The same with \<open>requireTenantIncludeDeleted\<close>.\<close>

definition with_deleted_org_role ::
  "request \<Rightarrow> org_role list \<Rightarrow> string \<Rightarrow> (auth_user \<Rightarrow> tenant \<Rightarrow> db \<Rightarrow> 'a answer) \<Rightarrow> db \<Rightarrow> 'a answer" where
  "with_deleted_org_role rq roles orgId k =
     signed_in rq (\<lambda>a d. guarded (requireTenantIncludeDeleted orgId (au_id a) d)
       (\<lambda>t d. guarded (requireOrgRole roles (Some t)) (\<lambda>_. k a t) d) d)"

section \<open>Around a service\<close>

definition audit ::
  "request \<Rightarrow> audit_action \<Rightarrow> string option \<Rightarrow> string option \<Rightarrow> string option \<Rightarrow> (string \<times> json) list \<Rightarrow> db \<Rightarrow> db" where
  "audit rq action user target org meta d =
     auditLog (rq_env rq) (rq_now rq) action
       \<lparr>ad_userId = user, ad_targetUserId = target, ad_organizationId = org,
        ad_ipAddress = ipAddress (rq_client rq), ad_userAgent = userAgent (rq_client rq), ad_metadata = meta\<rparr> d"

text \<open>The answer to a service that succeeded, behind what the controller writes after it.\<close>

definition answer :: "nat \<Rightarrow> 'a result \<times> db \<Rightarrow> ('a \<Rightarrow> db \<Rightarrow> db) \<Rightarrow> 'a answer" where
  "answer status r after_service = await r (\<lambda>v d. (Inr (status, v), after_service v d))"

text \<open>The data of the answer left out: what a sequence of requests does does not depend on it.\<close>

definition outcome :: "'a answer \<Rightarrow> nat result \<times> db" where
  "outcome r = (map_sum id fst (fst r), snd r)"

section \<open>Laws\<close>

lemma guarded_simps [simp]: "guarded (Inl e) k d = (Inl e, d)" "guarded (Inr x) k d = k x d"
  by (simp_all add: guarded_def)

lemma answer_simps [simp]:
  "answer st (Inl e, d) f = (Inl e, d)" "answer st (Inr v, d) f = (Inr (st, v), f v d)"
  by (simp_all add: answer_def)

lemma snd_answer_id [simp]: "snd (answer st r (\<lambda>_ d. d)) = snd r"
  by (cases r; cases "fst r") simp_all

lemma answer_cases:
  assumes "answer st r f = (z, d')"
  obtains e where "r = (Inl e, d')" "z = Inl e"
  | v d1 where "r = (Inr v, d1)" "z = Inr (st, v)" "d' = f v d1"
  using assms by (cases r; cases "fst r") (auto simp: answer_def)

lemma outcome_simps [simp]:
  "outcome (Inl e, d) = (Inl e, d)" "outcome (Inr (st, v), d) = (Inr st, d)"
  by (simp_all add: outcome_def)

lemma snd_outcome [simp]: "snd (outcome r) = snd r"
  by (simp add: outcome_def)

text \<open>What the caller of a guarded controller is.\<close>

definition caller :: "request \<Rightarrow> db \<Rightarrow> auth_user \<Rightarrow> bool" where
  "caller rq d a \<longleftrightarrow> authenticate (rq_env rq) (rq_now rq) (rq_authorization rq) d = Inr a"

lemma signed_in_cases:
  assumes "signed_in rq k d = r"
  obtains e where "r = (Inl e, d)" | a where "caller rq d a" "r = k a d"
  using assms [symmetric] by (cases "authenticate (rq_env rq) (rq_now rq) (rq_authorization rq) d")
    (simp_all add: signed_in_def caller_def)

lemma as_admin_cases:
  assumes "as_admin rq k d = r"
  obtains e where "r = (Inl e, d)" | a where "caller rq d a" "au_role a = ADMIN" "r = k a d"
  using assms unfolding as_admin_def
  by (elim signed_in_cases) (auto simp: authorize_def split: if_splits)

lemma in_tenant_cases:
  assumes "in_tenant rq orgId k d = r"
  obtains e where "r = (Inl e, d)"
  | a t where "caller rq d a" "requireTenant orgId (au_id a) d = Inr t" "r = k a t d"
proof -
  from assms consider e where "r = (Inl e, d)"
    | a where "caller rq d a" "r = guarded (requireTenant orgId (au_id a) d) (\<lambda>t. k a t) d"
    unfolding in_tenant_def by (elim signed_in_cases) blast+
  then show ?thesis
  proof cases
    case (2 a)
    then show ?thesis by (cases "requireTenant orgId (au_id a) d") (auto intro: that)
  qed (rule that)
qed

lemma with_org_role_cases:
  assumes "with_org_role rq roles orgId k d = r"
  obtains e where "r = (Inl e, d)"
  | a t where "caller rq d a" "requireTenant orgId (au_id a) d = Inr t"
      "requireOrgRole roles (Some t) = Inr ()" "r = k a t d"
proof -
  from assms consider e where "r = (Inl e, d)"
    | a t where "caller rq d a" "requireTenant orgId (au_id a) d = Inr t"
        "r = guarded (requireOrgRole roles (Some t)) (\<lambda>_. k a t) d"
    unfolding with_org_role_def by (elim in_tenant_cases) blast+
  then show ?thesis
  proof cases
    case (2 a t)
    then show ?thesis by (cases "requireOrgRole roles (Some t)") (auto intro: that)
  qed (rule that)
qed

lemma with_deleted_org_role_cases:
  assumes "with_deleted_org_role rq roles orgId k d = r"
  obtains e where "r = (Inl e, d)"
  | a t where "caller rq d a" "requireTenantIncludeDeleted orgId (au_id a) d = Inr t"
      "requireOrgRole roles (Some t) = Inr ()" "r = k a t d"
proof -
  from assms consider e where "r = (Inl e, d)"
    | a where "caller rq d a" "r = guarded (requireTenantIncludeDeleted orgId (au_id a) d)
       (\<lambda>t d. guarded (requireOrgRole roles (Some t)) (\<lambda>_. k a t) d) d"
    unfolding with_deleted_org_role_def by (elim signed_in_cases) blast+
  then show ?thesis
  proof cases
    case (2 a)
    show ?thesis
    proof (cases "requireTenantIncludeDeleted orgId (au_id a) d")
      case (Inr t)
      with 2 show ?thesis by (cases "requireOrgRole roles (Some t)") (auto intro: that)
    qed (use 2 that(1) in simp)
  qed (rule that)
qed

lemmas guard_cases = signed_in_cases as_admin_cases in_tenant_cases with_org_role_cases with_deleted_org_role_cases

text \<open>The entry \<open>audit\<close> hands to the database, and what is in the log after it.\<close>

definition audit_entry ::
  "request \<Rightarrow> audit_action \<Rightarrow> string option \<Rightarrow> string option \<Rightarrow> string option \<Rightarrow> (string \<times> json) list \<Rightarrow> audit_log" where
  "audit_entry rq action user target org meta =
     \<lparr>a_action = action, a_userId = user, a_targetUserId = target, a_organizationId = org,
      a_ipAddress = ipAddress (rq_client rq), a_userAgent = userAgent (rq_client rq), a_metadata = meta,
      a_createdAt = rq_now rq\<rparr>"

lemma auditLogs_audit [simp]:
  "auditLogs (audit rq action user target org meta d) =
     auditLogs d @ filter (audit_insert (rq_env rq)) [audit_entry rq action user target org meta]"
  by (simp add: audit_def auditLog_def audit_row_def audit_entry_def)

end
