(* ===== verification/OrgRoutes.thy ===== *)
theory OrgRoutes
  imports Requests OrgInvariant
begin

text \<open>
  \<open>src/modules/org/org.controller.js\<close>, \<open>invitation.controller.js\<close> and their routers: the writing
  requests to the organizations and invitations of the server, each behind its whole chain of guards.
\<close>

section \<open>Controllers\<close>

definition role_name :: "org_role \<Rightarrow> string" where
  "role_name r = (case r of OWNER \<Rightarrow> ''OWNER'' | ORG_ADMIN \<Rightarrow> ''ADMIN'' | MEMBER \<Rightarrow> ''MEMBER'')"

definition createOrganization_ctrl :: "request \<Rightarrow> string \<Rightarrow> string \<Rightarrow> auth_user \<Rightarrow> db \<Rightarrow> org_view answer" where
  "createOrganization_ctrl rq name slug a d =
     answer 201 (createOrganization (rq_now rq) (rq_fresh rq) (au_id a) name slug d)
       (\<lambda>x. audit rq ORG_CREATED (Some (au_id a)) None (Some (ow_id x)) [])"

definition updateOrganization_ctrl ::
  "request \<Rightarrow> string option \<Rightarrow> string option \<Rightarrow> auth_user \<Rightarrow> tenant \<Rightarrow> db \<Rightarrow> org_view answer" where
  "updateOrganization_ctrl rq name slug a t d =
     answer 200 (updateOrganization (rq_now rq) (tn_id t) name slug d)
       (\<lambda>_. audit rq ORG_UPDATED (Some (au_id a)) None (Some (tn_id t)) [])"

text \<open>\<open>cancel\<close> says which subscription Stripe agrees to cancel.\<close>

definition deleteOrganization_ctrl ::
  "(string \<Rightarrow> bool) \<Rightarrow> request \<Rightarrow> auth_user \<Rightarrow> tenant \<Rightarrow> db \<Rightarrow> string answer" where
  "deleteOrganization_ctrl cancel rq a t d =
     answer 200 (deleteOrganization (rq_env rq) cancel (rq_now rq) (tn_id t) d)
       (\<lambda>_. audit rq ORG_DELETED (Some (au_id a)) None (Some (tn_id t)) [])"

definition restoreOrganization_ctrl :: "request \<Rightarrow> auth_user \<Rightarrow> tenant \<Rightarrow> db \<Rightarrow> string answer" where
  "restoreOrganization_ctrl rq a t d =
     answer 200 (restoreOrganization (rq_now rq) (tn_id t) d)
       (\<lambda>_. audit rq ORG_RESTORED (Some (au_id a)) None (Some (tn_id t)) [])"

definition transferOwnership_ctrl :: "request \<Rightarrow> string \<Rightarrow> auth_user \<Rightarrow> tenant \<Rightarrow> db \<Rightarrow> org_view answer" where
  "transferOwnership_ctrl rq newOwnerId a t d =
     answer 200 (transferOwnership (rq_now rq) (tn_id t) (au_id a) newOwnerId d)
       (\<lambda>_. audit rq ORG_OWNERSHIP_TRANSFERRED (Some (au_id a)) (Some newOwnerId) (Some (tn_id t)) [])"

definition updateMemberRole_ctrl ::
  "request \<Rightarrow> string \<Rightarrow> org_role \<Rightarrow> auth_user \<Rightarrow> tenant \<Rightarrow> db \<Rightarrow> member_view answer" where
  "updateMemberRole_ctrl rq userId role a t d =
     answer 200 (updateMemberRole (rq_now rq) (tn_id t) userId role d)
       (\<lambda>_. audit rq MEMBER_ROLE_CHANGED (Some (au_id a)) (Some userId) (Some (tn_id t))
              [(''newRole'', JStr (role_name role))])"

definition removeMember_ctrl :: "request \<Rightarrow> string \<Rightarrow> auth_user \<Rightarrow> tenant \<Rightarrow> db \<Rightarrow> string answer" where
  "removeMember_ctrl rq userId a t d =
     answer 200 (removeMember (tn_id t) userId d)
       (\<lambda>_. audit rq MEMBER_REMOVED (Some (au_id a)) (Some userId) (Some (tn_id t)) [])"

text \<open>The token goes into the mail only; the answer is the invitation without it.  A queue that refuses the
  mail is only logged.\<close>

definition createInvitation_ctrl ::
  "request \<Rightarrow> string \<Rightarrow> org_role \<Rightarrow> auth_user \<Rightarrow> tenant \<Rightarrow> db \<Rightarrow> organization_invitation answer" where
  "createInvitation_ctrl rq email role a t d =
     await (createInvitation (rq_env rq) (rq_now rq) (rq_fresh rq) (tn_id t) (au_id a) email role d)
       (\<lambda>(invitation, token) d1.
          (Inr (201, invitation),
           snd (queueOrgInvitationEmail (rq_env rq) (i_inviteeEmail invitation) (tn_name t)
             (case au_name a of Some n \<Rightarrow> n | None \<Rightarrow> au_email a) (i_role invitation) token
             (reqLocale (rq_client rq))
             (audit rq MEMBER_INVITED (Some (au_id a)) None (Some (tn_id t))
                [(''inviteeEmail'', JStr (i_inviteeEmail invitation)),
                 (''role'', JStr (role_name (i_role invitation)))] d1))))"

definition cancelInvitation_ctrl ::
  "request \<Rightarrow> string \<Rightarrow> auth_user \<Rightarrow> tenant \<Rightarrow> db \<Rightarrow> organization_invitation answer" where
  "cancelInvitation_ctrl rq invitationId a t d =
     answer 200 (cancelInvitation (rq_now rq) (tn_id t) invitationId d)
       (\<lambda>_. audit rq INVITATION_CANCELED (Some (au_id a)) None (Some (tn_id t))
              [(''invitationId'', JStr invitationId)])"

definition acceptInvitation_ctrl :: "request \<Rightarrow> string \<Rightarrow> auth_user \<Rightarrow> db \<Rightarrow> organization_invitation answer" where
  "acceptInvitation_ctrl rq token a d =
     answer 200 (acceptInvitation (rq_env rq) (rq_now rq) (rq_fresh rq) (au_id a) token d)
       (\<lambda>i d1.
          audit rq MEMBER_ADDED (Some (au_id a)) (Some (au_id a)) (Some (i_organizationId i))
            [(''role'', JStr (role_name (i_role i))), (''via'', JStr ''invitation'')]
            (audit rq INVITATION_ACCEPTED (Some (au_id a)) None (Some (i_organizationId i))
               [(''role'', JStr (role_name (i_role i)))] d1))"

definition declineInvitation_ctrl :: "request \<Rightarrow> string \<Rightarrow> auth_user \<Rightarrow> db \<Rightarrow> organization_invitation answer" where
  "declineInvitation_ctrl rq token a d =
     answer 200 (declineInvitation (rq_env rq) (rq_now rq) (au_id a) token d)
       (\<lambda>i. audit rq INVITATION_DECLINED (Some (au_id a)) None (Some (i_organizationId i)) [])"

section \<open>Routers\<close>

text \<open>The roles the schemas admit in a body.\<close>

datatype assignable_role = AssignAdmin | AssignMember

fun assigned :: "assignable_role \<Rightarrow> org_role" where
  "assigned AssignAdmin = ORG_ADMIN"
| "assigned AssignMember = MEMBER"

text \<open>The writing requests: the organization of the path, then the parameters and the body.\<close>

datatype org_request =
    PostOrganization string string
  | PatchOrganization string "string option" "string option"
  | DeleteOrganization string
  | RestoreOrganization string
  | TransferOwnership string string
  | PatchMember string string assignable_role
  | DeleteMember string string
  | PostInvitation string string assignable_role
  | DeleteInvitation string string
  | AcceptInvitation string
  | DeclineInvitation string

text \<open>\<open>org.router.js\<close> and \<open>invitation.router.js\<close>.\<close>

fun org_router :: "(string \<Rightarrow> bool) \<Rightarrow> request \<Rightarrow> org_request \<Rightarrow> db \<Rightarrow> nat result \<times> db" where
  "org_router cancel rq (PostOrganization name slug) d =
     outcome (signed_in rq (createOrganization_ctrl rq name slug) d)"
| "org_router cancel rq (PatchOrganization orgId name slug) d =
     outcome (with_org_role rq [OWNER, ORG_ADMIN] orgId (updateOrganization_ctrl rq name slug) d)"
| "org_router cancel rq (DeleteOrganization orgId) d =
     outcome (with_org_role rq [OWNER] orgId (deleteOrganization_ctrl cancel rq) d)"
| "org_router cancel rq (RestoreOrganization orgId) d =
     outcome (with_deleted_org_role rq [OWNER] orgId (restoreOrganization_ctrl rq) d)"
| "org_router cancel rq (TransferOwnership orgId newOwnerId) d =
     outcome (with_org_role rq [OWNER] orgId (transferOwnership_ctrl rq newOwnerId) d)"
| "org_router cancel rq (PatchMember orgId userId role) d =
     outcome (with_org_role rq [OWNER, ORG_ADMIN] orgId (updateMemberRole_ctrl rq userId (assigned role)) d)"
| "org_router cancel rq (DeleteMember orgId userId) d =
     outcome (with_org_role rq [OWNER, ORG_ADMIN] orgId (removeMember_ctrl rq userId) d)"
| "org_router cancel rq (PostInvitation orgId email role) d =
     outcome (with_org_role rq [OWNER, ORG_ADMIN] orgId (createInvitation_ctrl rq email (assigned role)) d)"
| "org_router cancel rq (DeleteInvitation orgId invitationId) d =
     outcome (with_org_role rq [OWNER, ORG_ADMIN] orgId (cancelInvitation_ctrl rq invitationId) d)"
| "org_router cancel rq (AcceptInvitation token) d =
     outcome (signed_in rq (acceptInvitation_ctrl rq token) d)"
| "org_router cancel rq (DeclineInvitation token) d =
     outcome (signed_in rq (declineInvitation_ctrl rq token) d)"

text \<open>The reading routes.\<close>

definition GET_organizations ::
  "request \<Rightarrow> (string \<Rightarrow> string \<Rightarrow> bool) \<Rightarrow> ((string \<times> string) option \<Rightarrow> organization_member list \<Rightarrow> organization_member list)
   \<Rightarrow> list_query \<Rightarrow> db \<Rightarrow> ((org_view option \<times> org_role) list \<times> pagination_meta) answer" where
  "GET_organizations rq like ob q =
     signed_in rq (\<lambda>a d. (Inr (200, listOrganizations like ob (au_id a) q d), d))"

definition GET_organization :: "request \<Rightarrow> string \<Rightarrow> db \<Rightarrow> org_view answer" where
  "GET_organization rq orgId =
     in_tenant rq orgId (\<lambda>a t d. answer 200 (getOrganization (tn_id t) d, d) (\<lambda>_ d. d))"

definition GET_members ::
  "request \<Rightarrow> (string \<Rightarrow> string \<Rightarrow> bool) \<Rightarrow> ((string \<times> string) option \<Rightarrow> organization_member list \<Rightarrow> organization_member list)
   \<Rightarrow> string \<Rightarrow> list_query \<Rightarrow> db \<Rightarrow> (member_view list \<times> pagination_meta) answer" where
  "GET_members rq like ob orgId q =
     in_tenant rq orgId (\<lambda>a t d. (Inr (200, listMembers like ob (tn_id t) q d), d))"

definition GET_invitations ::
  "request \<Rightarrow> (string \<Rightarrow> string \<Rightarrow> bool) \<Rightarrow> invitation_order \<Rightarrow> string \<Rightarrow> list_query \<Rightarrow> db
   \<Rightarrow> (organization_invitation list \<times> pagination_meta) answer" where
  "GET_invitations rq like ob orgId q =
     with_org_role rq [OWNER, ORG_ADMIN] orgId (\<lambda>a t d. (Inr (200, listInvitations like ob (tn_id t) q d), d))"

definition GET_my_invitations ::
  "request \<Rightarrow> (string \<Rightarrow> string \<Rightarrow> bool) \<Rightarrow> invitation_order \<Rightarrow> list_query \<Rightarrow> db
   \<Rightarrow> (organization_invitation list \<times> pagination_meta) answer" where
  "GET_my_invitations rq like ob q =
     signed_in rq (\<lambda>a d. guarded (requireVerifiedEmail (Some (au_id a, Some (au_emailVerified a))) d)
       (\<lambda>_ d. answer 200 (listMyInvitations like ob (au_id a) q d, d) (\<lambda>_ d. d)) d)"

section \<open>The routes are steps of the organization machine\<close>

lemma audit_steps: "(org_step E)\<^sup>*\<^sup>* d d1 \<Longrightarrow> (org_step E)\<^sup>*\<^sup>* d (audit rq action u x o' m d1)"
  unfolding audit_def by (erule rtranclp.rtrancl_into_rtrancl) (rule org_step.audit)

lemma mail_steps: "(org_step E)\<^sup>*\<^sup>* d d1 \<Longrightarrow>
    (org_step E)\<^sup>*\<^sup>* d (snd (queueOrgInvitationEmail E to orgName inviterName role token loc d1))"
  by (erule rtranclp.rtrancl_into_rtrancl) (rule org_step.mail)

lemma answer_steps:
  assumes "org_step E d (snd r)"
    and "\<And>v d1. (org_step E)\<^sup>*\<^sup>* d d1 \<Longrightarrow> (org_step E)\<^sup>*\<^sup>* d (f v d1)"
  shows "(org_step E)\<^sup>*\<^sup>* d (snd (answer st r f))"
  using assms by (cases r; cases "fst r") auto

lemma createInvitation_ctrl_steps:
  assumes "tenant_with [OWNER, ORG_ADMIN] orgId (au_id a) d t"
  shows "(org_step (rq_env rq))\<^sup>*\<^sup>* d (snd (createInvitation_ctrl rq email role a t d))"
proof (cases "createInvitation (rq_env rq) (rq_now rq) (rq_fresh rq) (tn_id t) (au_id a) email role d")
  case (Pair r d1)
  with assms have "org_step (rq_env rq) d d1" by (rule org_step.invite)
  then have "(org_step (rq_env rq))\<^sup>*\<^sup>* d d1" by simp
  with Pair show ?thesis
    by (cases r) (auto simp: createInvitation_ctrl_def intro!: mail_steps audit_steps)
qed

lemma tenant_withI:
  "requireTenant orgId uid d = Inr t \<Longrightarrow> requireOrgRole roles (Some t) = Inr () \<Longrightarrow> tenant_with roles orgId uid d t"
  by (simp add: tenant_with_def)

lemma deleted_tenant_withI:
  "requireTenantIncludeDeleted orgId uid d = Inr t \<Longrightarrow> requireOrgRole roles (Some t) = Inr ()
    \<Longrightarrow> deleted_tenant_with roles orgId uid d t"
  by (simp add: deleted_tenant_with_def)

lemma assigned_not_owner: "assigned r \<in> {ORG_ADMIN, MEMBER}"
  by (cases r) simp_all

text \<open>What a router does is what the controller behind its guards does, or nothing.\<close>

lemma signed_in_steps:
  assumes "\<And>a. caller rq d a \<Longrightarrow> R\<^sup>*\<^sup>* d (snd (k a d))"
  shows "R\<^sup>*\<^sup>* d (snd (outcome (signed_in rq k d)))"
  by (rule signed_in_cases [OF refl, of rq k d]) (use assms in simp_all)

lemma with_org_role_steps:
  assumes "\<And>a t. tenant_with roles orgId (au_id a) d t \<Longrightarrow> R\<^sup>*\<^sup>* d (snd (k a t d))"
  shows "R\<^sup>*\<^sup>* d (snd (outcome (with_org_role rq roles orgId k d)))"
  by (rule with_org_role_cases [OF refl, of rq roles orgId k d]) (use assms tenant_withI in simp_all)

lemma with_deleted_org_role_steps:
  assumes "\<And>a t. deleted_tenant_with roles orgId (au_id a) d t \<Longrightarrow> R\<^sup>*\<^sup>* d (snd (k a t d))"
  shows "R\<^sup>*\<^sup>* d (snd (outcome (with_deleted_org_role rq roles orgId k d)))"
  by (rule with_deleted_org_role_cases [OF refl, of rq roles orgId k d]) (use assms deleted_tenant_withI in simp_all)

lemmas org_route_steps = signed_in_steps with_org_role_steps with_deleted_org_role_steps answer_steps audit_steps

text \<open>Every request to the organization and invitation routes is a sequence of steps of the organization
  machine: the refinement that carries its invariants over to the server.\<close>

theorem org_router_refines:
  "(org_step (rq_env rq))\<^sup>*\<^sup>* d (snd (org_router cancel rq q d))"
proof (cases q)
  case (PostOrganization name slug)
  show ?thesis unfolding PostOrganization org_router.simps createOrganization_ctrl_def
    by (intro org_route_steps) (rule org_step.create [OF prod.collapse [symmetric]]; assumption)
next
  case (PatchOrganization orgId name slug)
  show ?thesis unfolding PatchOrganization org_router.simps updateOrganization_ctrl_def
    by (intro org_route_steps) (rule org_step.change [OF _ prod.collapse [symmetric]]; assumption)
next
  case (DeleteOrganization orgId)
  show ?thesis unfolding DeleteOrganization org_router.simps deleteOrganization_ctrl_def
    by (intro org_route_steps) (rule org_step.remove [OF _ prod.collapse [symmetric]]; assumption)
next
  case (RestoreOrganization orgId)
  show ?thesis unfolding RestoreOrganization org_router.simps restoreOrganization_ctrl_def
    by (intro org_route_steps) (rule org_step.restore [OF _ prod.collapse [symmetric]]; assumption)
next
  case (TransferOwnership orgId new)
  show ?thesis unfolding TransferOwnership org_router.simps transferOwnership_ctrl_def
    by (intro org_route_steps) (rule org_step.transfer [OF _ prod.collapse [symmetric]]; assumption)
next
  case (PatchMember orgId userId role)
  show ?thesis unfolding PatchMember org_router.simps updateMemberRole_ctrl_def
    by (intro org_route_steps) (rule org_step.member_role [OF _ assigned_not_owner prod.collapse [symmetric]]; assumption)
next
  case (DeleteMember orgId userId)
  show ?thesis unfolding DeleteMember org_router.simps removeMember_ctrl_def
    by (intro org_route_steps) (rule org_step.member_remove [OF _ prod.collapse [symmetric]]; assumption)
next
  case (DeleteInvitation orgId invitationId)
  show ?thesis unfolding DeleteInvitation org_router.simps cancelInvitation_ctrl_def
    by (intro org_route_steps) (rule org_step.cancel_invite [OF _ prod.collapse [symmetric]]; assumption)
next
  case (AcceptInvitation token)
  show ?thesis unfolding AcceptInvitation org_router.simps acceptInvitation_ctrl_def
    by (intro org_route_steps) (rule org_step.accept [OF prod.collapse [symmetric]]; assumption)
next
  case (DeclineInvitation token)
  show ?thesis unfolding DeclineInvitation org_router.simps declineInvitation_ctrl_def
    by (intro org_route_steps) (rule org_step.decline [OF prod.collapse [symmetric]]; assumption)
next
  case (PostInvitation orgId email role)
  show ?thesis unfolding PostInvitation org_router.simps
    by (intro with_org_role_steps createInvitation_ctrl_steps)
qed

end
