(* ===== verification/AdminRoutes.thy ===== *)
theory AdminRoutes
  imports Requests AdminProps FeatureFlags Notifications
begin

text \<open>
  \<open>src/modules/admin/admin.controller.js\<close>, \<open>gdpr.controller.js\<close>, \<open>featureflag.controller.js\<close> and
  \<open>audit.controller.js\<close> with their routers: what an administrator may ask for, and the export and
  erasure of one's own account.
\<close>

section \<open>Administration of users\<close>

fun role_json :: "role \<Rightarrow> json" where
  "role_json USER = JStr ''USER''"
| "role_json ADMIN = JStr ''ADMIN''"

text \<open>
  \<open>untilText\<close> is \<open>suspendedUntil\<close> as it stands in the body.  Each of the three entries is written
  for the field it is about, the first for a ban or its lifting.
\<close>

definition updateUser_ctrl ::
  "request \<Rightarrow> string \<Rightarrow> user_patch \<Rightarrow> string \<Rightarrow> auth_user \<Rightarrow> db \<Rightarrow> admin_view answer" where
  "updateUser_ctrl rq userId body untilText a d =
     answer 200 (updateUser (rq_now rq) userId body (au_id a) d)
       (\<lambda>_ d1.
          let entry = (\<lambda>action meta. audit rq action (Some (au_id a)) (Some userId) None meta);
              d2 = (case up_banned body of
                      Some True \<Rightarrow> entry USER_BANNED [] d1
                    | Some False \<Rightarrow> entry USER_UNBANNED [] d1
                    | None \<Rightarrow> d1);
              d3 = (case up_suspendedUntil body of
                      None \<Rightarrow> d2
                    | Some (Some _) \<Rightarrow> entry USER_SUSPENDED [(''until'', JStr untilText)] d2
                    | Some None \<Rightarrow> entry USER_UNSUSPENDED [] d2)
          in case up_role body of
               None \<Rightarrow> d3
             | Some r \<Rightarrow> entry USER_ROLE_CHANGED [(''newRole'', role_json r)] d3)"

definition deleteUser_ctrl :: "request \<Rightarrow> string \<Rightarrow> auth_user \<Rightarrow> db \<Rightarrow> string answer" where
  "deleteUser_ctrl rq userId a d =
     answer 200 (deleteUser (rq_now rq) userId (au_id a) d)
       (\<lambda>_. audit rq USER_DELETED (Some (au_id a)) (Some userId) None [])"

definition restoreUser_ctrl :: "request \<Rightarrow> string \<Rightarrow> auth_user \<Rightarrow> db \<Rightarrow> string answer" where
  "restoreUser_ctrl rq userId a d =
     answer 200 (restoreUser (rq_now rq) userId d)
       (\<lambda>_. audit rq USER_RESTORED (Some (au_id a)) (Some userId) None [])"

section \<open>One's own data\<close>

definition exportData_ctrl :: "request \<Rightarrow> string option \<Rightarrow> auth_user \<Rightarrow> db \<Rightarrow> data_export answer" where
  "exportData_ctrl rq password a d =
     answer 200 (exportData (rq_env rq) (rq_now rq) (au_id a) password d, d)
       (\<lambda>_. audit rq USER_DATA_EXPORTED (Some (au_id a)) None None [])"

definition deleteAccount_ctrl ::
  "(string \<Rightarrow> bool) \<Rightarrow> request \<Rightarrow> string \<Rightarrow> auth_user \<Rightarrow> db \<Rightarrow> (string \<times> string) answer" where
  "deleteAccount_ctrl cancel rq password a d =
     answer 200 (deleteAccount (rq_env rq) cancel (au_id a) password d)
       (\<lambda>(_, email). audit rq USER_DATA_DELETED None (Some (au_id a)) None [(''email'', JStr email)])"

section \<open>Feature flags\<close>

definition createFlag_ctrl ::
  "request \<Rightarrow> string \<Rightarrow> string \<Rightarrow> string option \<Rightarrow> flag_type \<Rightarrow> json \<Rightarrow> bool \<Rightarrow> auth_user \<Rightarrow> db \<Rightarrow> feature_flag answer" where
  "createFlag_ctrl rq key name description ty v active a d =
     answer 201 (createFlag (rq_now rq) (rq_fresh rq) key name description ty v active d)
       (\<lambda>_. audit rq FEATURE_FLAG_CREATED (Some (au_id a)) None None [(''key'', JStr key)])"

fun flag_type_json :: "flag_type \<Rightarrow> json" where
  "flag_type_json FLAG_BOOLEAN = JStr ''BOOLEAN''"
| "flag_type_json FLAG_PERCENTAGE = JStr ''PERCENTAGE''"
| "flag_type_json FLAG_PLAN = JStr ''PLAN''"

text \<open>The body of an update as a document: the fields that are present.\<close>

definition flag_changes :: "flag_patch \<Rightarrow> json" where
  "flag_changes b =
     JObj ((case fp_name b of None \<Rightarrow> [] | Some x \<Rightarrow> [(''name'', JStr x)])
          @ (case fp_description b of None \<Rightarrow> [] | Some x \<Rightarrow> [(''description'', JStr x)])
          @ (case fp_type b of None \<Rightarrow> [] | Some x \<Rightarrow> [(''type'', flag_type_json x)])
          @ (case fp_value b of None \<Rightarrow> [] | Some x \<Rightarrow> [(''value'', x)])
          @ (case fp_active b of None \<Rightarrow> [] | Some x \<Rightarrow> [(''active'', JBool x)]))"

definition updateFlag_ctrl :: "request \<Rightarrow> string \<Rightarrow> flag_patch \<Rightarrow> auth_user \<Rightarrow> db \<Rightarrow> feature_flag answer" where
  "updateFlag_ctrl rq flagId body a d =
     answer 200 (updateFlag (rq_now rq) flagId body d)
       (\<lambda>_. audit rq FEATURE_FLAG_UPDATED (Some (au_id a)) None None
              [(''flagId'', JStr flagId), (''changes'', flag_changes body)])"

definition deleteFlag_ctrl :: "request \<Rightarrow> string \<Rightarrow> auth_user \<Rightarrow> db \<Rightarrow> string answer" where
  "deleteFlag_ctrl rq flagId a d =
     answer 200 (deleteFlag flagId d)
       (\<lambda>_. audit rq FEATURE_FLAG_DELETED (Some (au_id a)) None None [(''flagId'', JStr flagId)])"

definition setOverride_ctrl ::
  "request \<Rightarrow> string \<Rightarrow> string \<Rightarrow> bool \<Rightarrow> json \<Rightarrow> auth_user \<Rightarrow> db \<Rightarrow> organization_feature_flag answer" where
  "setOverride_ctrl rq flagId orgId enabled v a d =
     answer 200 (setOverride (rq_now rq) (rq_fresh rq) flagId orgId enabled v d)
       (\<lambda>_. audit rq FEATURE_FLAG_OVERRIDE_SET (Some (au_id a)) None (Some orgId)
              [(''flagId'', JStr flagId), (''enabled'', JBool enabled)])"

definition removeOverride_ctrl :: "request \<Rightarrow> string \<Rightarrow> string \<Rightarrow> auth_user \<Rightarrow> db \<Rightarrow> string answer" where
  "removeOverride_ctrl rq flagId orgId a d =
     answer 200 (removeOverride flagId orgId d)
       (\<lambda>_. audit rq FEATURE_FLAG_OVERRIDE_REMOVED (Some (au_id a)) None (Some orgId)
              [(''flagId'', JStr flagId)])"

text \<open>
  \<open>evaluateFlag\<close> of the controller: the plan of the organization's newest live subscription, or
  else of its owner's; any signed-in user may ask for any organization.
\<close>

definition plan_code :: "subscription \<Rightarrow> db \<Rightarrow> string option" where
  "plan_code s d = map_option pl_code (plan_by_id (s_planId s) d)"

definition flag_plan :: "string option \<Rightarrow> db \<Rightarrow> string option" where
  "flag_plan orgId d =
     (case orgId of
        None \<Rightarrow> None
      | Some i \<Rightarrow>
          if i = [] then None
          else
            (let live = (\<lambda>s. s_status s \<in> {SUB_ACTIVE, SUB_TRIALING})
             in case find_latest s_createdAt (\<lambda>s. s_organizationId s = Some i \<and> live s) (subscriptions d) of
                  Some s \<Rightarrow> plan_code s d
                | None \<Rightarrow>
                    (case find_latest s_createdAt
                        (\<lambda>s. (\<exists>x \<in> set (organizations d). o_id x = i \<and> s_userId s = Some (o_ownerId x)) \<and> live s)
                        (subscriptions d) of
                       Some s \<Rightarrow> plan_code s d
                     | None \<Rightarrow> None)))"

definition GET_evaluate :: "request \<Rightarrow> string \<Rightarrow> string option \<Rightarrow> db \<Rightarrow> (bool \<times> flag_reason) answer" where
  "GET_evaluate rq key orgId =
     signed_in rq (\<lambda>a d. answer 200 (evaluateFlag (rq_env rq) key orgId (flag_plan orgId d) d, d) (\<lambda>_ d. d))"

section \<open>Routers\<close>

datatype admin_request =
    PatchUser string user_patch string
  | DeleteUser string
  | RestoreUser string
  | PostFlag string string "string option" flag_type json bool
  | PatchFlag string flag_patch
  | DeleteFlag string
  | PostOverride string string bool json
  | DeleteOverride string string

text \<open>\<open>admin.router.js\<close> and the guarded part of \<open>featureflag.router.js\<close>: every request as \<open>ADMIN\<close>.\<close>

fun admin_router :: "request \<Rightarrow> admin_request \<Rightarrow> db \<Rightarrow> nat result \<times> db" where
  "admin_router rq (PatchUser userId body untilText) d =
     outcome (as_admin rq (updateUser_ctrl rq userId body untilText) d)"
| "admin_router rq (DeleteUser userId) d = outcome (as_admin rq (deleteUser_ctrl rq userId) d)"
| "admin_router rq (RestoreUser userId) d = outcome (as_admin rq (restoreUser_ctrl rq userId) d)"
| "admin_router rq (PostFlag key name description ty v active) d =
     outcome (as_admin rq (createFlag_ctrl rq key name description ty v active) d)"
| "admin_router rq (PatchFlag flagId body) d = outcome (as_admin rq (updateFlag_ctrl rq flagId body) d)"
| "admin_router rq (DeleteFlag flagId) d = outcome (as_admin rq (deleteFlag_ctrl rq flagId) d)"
| "admin_router rq (PostOverride flagId orgId enabled v) d =
     outcome (as_admin rq (setOverride_ctrl rq flagId orgId enabled v) d)"
| "admin_router rq (DeleteOverride flagId orgId) d =
     outcome (as_admin rq (removeOverride_ctrl rq flagId orgId) d)"

datatype gdpr_request =
    PostDataExport "string option"
  | DeleteAccount string

text \<open>The two GDPR routes of \<open>auth.router.js\<close>.\<close>

fun gdpr_router :: "(string \<Rightarrow> bool) \<Rightarrow> request \<Rightarrow> gdpr_request \<Rightarrow> db \<Rightarrow> nat result \<times> db" where
  "gdpr_router cancel rq (PostDataExport password) d = outcome (signed_in rq (exportData_ctrl rq password) d)"
| "gdpr_router cancel rq (DeleteAccount password) d =
     outcome (signed_in rq (deleteAccount_ctrl cancel rq password) d)"

text \<open>The reading routes.\<close>

definition GET_users ::
  "request \<Rightarrow> (string \<Rightarrow> string \<Rightarrow> bool) \<Rightarrow> ((string \<times> string) option \<Rightarrow> user list \<Rightarrow> user list)
   \<Rightarrow> list_query \<Rightarrow> role option \<Rightarrow> user_status option \<Rightarrow> db \<Rightarrow> (admin_view list \<times> pagination_meta) answer" where
  "GET_users rq like ob q r st =
     as_admin rq (\<lambda>a d. (Inr (200, listUsers like ob (rq_now rq) q r st d), d))"

definition GET_user :: "request \<Rightarrow> string \<Rightarrow> db \<Rightarrow> admin_view answer" where
  "GET_user rq userId = as_admin rq (\<lambda>a d. answer 200 (getUser userId d, d) (\<lambda>_ d. d))"

definition GET_flags ::
  "request \<Rightarrow> (string \<Rightarrow> string \<Rightarrow> bool) \<Rightarrow> ((string \<times> string) option \<Rightarrow> feature_flag list \<Rightarrow> feature_flag list)
   \<Rightarrow> list_query \<Rightarrow> flag_type option \<Rightarrow> string option \<Rightarrow> db \<Rightarrow> (feature_flag list \<times> pagination_meta) answer" where
  "GET_flags rq like ob q ty active =
     as_admin rq (\<lambda>a d. (Inr (200, listFlags like ob q ty active d), d))"

definition GET_flag ::
  "request \<Rightarrow> string \<Rightarrow> db \<Rightarrow> (feature_flag \<times> organization_feature_flag list) answer" where
  "GET_flag rq flagId = as_admin rq (\<lambda>a d. answer 200 (getFlag flagId d, d) (\<lambda>_ d. d))"

definition GET_audit_logs ::
  "request \<Rightarrow> audit_order \<Rightarrow> int \<Rightarrow> int \<Rightarrow> string \<Rightarrow> string \<Rightarrow> audit_filter \<Rightarrow> db
   \<Rightarrow> (audit_log list \<times> pagination_meta) answer" where
  "GET_audit_logs rq ob page limit srt order f =
     as_admin rq (\<lambda>a d. (Inr (200, listAuditLogs ob page limit srt order f d), d))"

definition GET_my_audit_logs ::
  "request \<Rightarrow> audit_order \<Rightarrow> int \<Rightarrow> int \<Rightarrow> string \<Rightarrow> string \<Rightarrow> db \<Rightarrow> (audit_log list \<times> pagination_meta) answer" where
  "GET_my_audit_logs rq ob page limit srt order =
     signed_in rq (\<lambda>a d. (Inr (200, listUserAuditLogs ob (au_id a) page limit srt order d), d))"

end
