(* ===== verification/AccountRoutes.thy ===== *)
theory AccountRoutes
  imports Requests Account GoogleLogin TwoFactor ApiKeys Notifications Billing
begin

text \<open>
  What a user does with an account of their own: \<open>auth.controller.js\<close>, \<open>session.controller.js\<close>,
  \<open>apikey.controller.js\<close>, \<open>notification.controller.js\<close> and \<open>billing.controller.js\<close>, with their
  routers.
\<close>

section \<open>Authentication\<close>

text \<open>The entry of a signed-in user, who is also the only one it concerns.\<close>

abbreviation own_entry :: "request \<Rightarrow> audit_action \<Rightarrow> auth_user \<Rightarrow> (string \<times> json) list \<Rightarrow> db \<Rightarrow> db" where
  "own_entry rq action a meta \<equiv> audit rq action (Some (au_id a)) None None meta"

definition register_ctrl :: "request \<Rightarrow> string \<Rightarrow> string \<Rightarrow> string \<Rightarrow> db \<Rightarrow> auth_response answer" where
  "register_ctrl rq name email password d =
     answer 201 (register (rq_env rq) (rq_now rq) (rq_client rq) (rq_fresh rq) name email password d)
       (\<lambda>r. audit rq USER_REGISTER (Some (su_id (ar_user r))) None None [])"

definition login_ctrl :: "request \<Rightarrow> string \<Rightarrow> string \<Rightarrow> db \<Rightarrow> login_outcome answer" where
  "login_ctrl rq email password d =
     answer 200 (login (rq_env rq) (rq_now rq) (rq_client rq) (rq_fresh rq) email password d)
       (\<lambda>r d1. case r of
          LoggedIn user _ _ \<Rightarrow> audit rq USER_LOGIN (Some (su_id user)) None None [] d1
        | TwoFactorRequired _ \<Rightarrow> d1)"

definition googleLogin_ctrl :: "request \<Rightarrow> string \<Rightarrow> string \<Rightarrow> db \<Rightarrow> login_outcome answer" where
  "googleLogin_ctrl rq code state d =
     answer 200 (googleLogin (rq_env rq) (rq_now rq) (rq_client rq) (rq_fresh rq) code state d)
       (\<lambda>r d1. case r of
          LoggedIn user _ _ \<Rightarrow>
            audit rq USER_OAUTH_LOGIN (Some (su_id user)) None None [(''provider'', JStr ''google'')] d1
        | TwoFactorRequired _ \<Rightarrow> d1)"

definition verifyTwoFactor_ctrl :: "request \<Rightarrow> string \<Rightarrow> string \<Rightarrow> db \<Rightarrow> login_success answer" where
  "verifyTwoFactor_ctrl rq challengeToken code d =
     answer 200 (verifyChallenge (rq_env rq) (rq_now rq) (rq_client rq) (rq_fresh rq) challengeToken code d)
       (\<lambda>r. audit rq USER_LOGIN (Some (su_id (ls_user r))) None None
              [(''twoFactor'', JBool True), (''backupCode'', JBool (ls_backupCodeUsed r))])"

definition changePassword_ctrl :: "request \<Rightarrow> string \<Rightarrow> string \<Rightarrow> auth_user \<Rightarrow> db \<Rightarrow> string answer" where
  "changePassword_ctrl rq currentPassword newPassword a d =
     answer 200 (changePassword (rq_env rq) (rq_now rq) (rq_fresh rq) (au_id a) currentPassword newPassword d)
       (\<lambda>_. own_entry rq USER_PASSWORD_CHANGED a [])"

definition changeEmail_ctrl ::
  "request \<Rightarrow> string \<Rightarrow> string \<Rightarrow> auth_user \<Rightarrow> db \<Rightarrow> (string \<times> string option) answer" where
  "changeEmail_ctrl rq newEmail password a d =
     answer 200 (changeEmail (rq_env rq) (rq_now rq) (rq_client rq) (rq_fresh rq) (au_id a) newEmail password d)
       (\<lambda>_. own_entry rq USER_EMAIL_CHANGED a [(''newEmail'', JStr newEmail)])"

definition logout_ctrl :: "request \<Rightarrow> string option \<Rightarrow> auth_user \<Rightarrow> db \<Rightarrow> string answer" where
  "logout_ctrl rq refreshToken a d =
     answer 200 (logout (rq_env rq) (rq_now rq) (au_id a) refreshToken d)
       (\<lambda>_. own_entry rq USER_LOGOUT a [])"

definition setupTwoFactor_ctrl :: "request \<Rightarrow> auth_user \<Rightarrow> db \<Rightarrow> (string \<times> string \<times> string) answer" where
  "setupTwoFactor_ctrl rq a d =
     answer 200 (twofaSetup (rq_env rq) (rq_now rq) (rq_secret rq) (rq_iv rq) (au_id a) d) (\<lambda>_ d. d)"

definition enableTwoFactor_ctrl :: "request \<Rightarrow> string \<Rightarrow> auth_user \<Rightarrow> db \<Rightarrow> (string \<times> string list) answer" where
  "enableTwoFactor_ctrl rq code a d =
     answer 200 (twofaEnable (rq_env rq) (rq_now rq) (rq_codes rq) (au_id a) code d)
       (\<lambda>_. own_entry rq TWO_FACTOR_ENABLED a [])"

definition disableTwoFactor_ctrl :: "request \<Rightarrow> string \<Rightarrow> auth_user \<Rightarrow> db \<Rightarrow> string answer" where
  "disableTwoFactor_ctrl rq password a d =
     answer 200 (twofaDisable (rq_env rq) (rq_now rq) (au_id a) password d)
       (\<lambda>_. own_entry rq TWO_FACTOR_DISABLED a [])"

text \<open>The requests without a token, and those of a signed-in user.\<close>

datatype auth_request =
    Register string string string
  | Login string string
  | Refresh string
  | VerifyEmail string
  | ResendVerification string
  | ForgotPassword string
  | ResetPassword string string
  | GoogleSignIn string string
  | VerifyTwoFactor string string
  | SetupTwoFactor
  | EnableTwoFactor string
  | DisableTwoFactor string
  | ChangePassword string string
  | ChangeEmail string string
  | Logout "string option"

text \<open>\<open>auth.router.js\<close>\<close>

fun auth_router :: "request \<Rightarrow> auth_request \<Rightarrow> db \<Rightarrow> nat result \<times> db" where
  "auth_router rq (Register name email password) d = outcome (register_ctrl rq name email password d)"
| "auth_router rq (Login email password) d = outcome (login_ctrl rq email password d)"
| "auth_router rq (Refresh token) d =
     outcome (answer 200 (refresh (rq_env rq) (rq_now rq) (rq_client rq) (rq_fresh rq) token d) (\<lambda>_ d. d))"
| "auth_router rq (VerifyEmail token) d =
     outcome (answer 200 (verifyEmail (rq_env rq) (rq_now rq) token d) (\<lambda>_ d. d))"
| "auth_router rq (ResendVerification email) d =
     outcome (answer 200 (resendVerification (rq_env rq) (rq_now rq) (rq_client rq) (rq_fresh rq) email d) (\<lambda>_ d. d))"
| "auth_router rq (ForgotPassword email) d =
     outcome (answer 200 (forgotPassword (rq_env rq) (rq_now rq) (rq_client rq) (rq_fresh rq) email d) (\<lambda>_ d. d))"
| "auth_router rq (ResetPassword token newPassword) d =
     outcome (answer 200 (resetPassword (rq_env rq) (rq_now rq) (rq_fresh rq) token newPassword d) (\<lambda>_ d. d))"
| "auth_router rq (GoogleSignIn code state) d = outcome (googleLogin_ctrl rq code state d)"
| "auth_router rq (VerifyTwoFactor challengeToken code) d = outcome (verifyTwoFactor_ctrl rq challengeToken code d)"
| "auth_router rq SetupTwoFactor d = outcome (signed_in rq (setupTwoFactor_ctrl rq) d)"
| "auth_router rq (EnableTwoFactor code) d = outcome (signed_in rq (enableTwoFactor_ctrl rq code) d)"
| "auth_router rq (DisableTwoFactor password) d = outcome (signed_in rq (disableTwoFactor_ctrl rq password) d)"
| "auth_router rq (ChangePassword current new) d = outcome (signed_in rq (changePassword_ctrl rq current new) d)"
| "auth_router rq (ChangeEmail newEmail password) d = outcome (signed_in rq (changeEmail_ctrl rq newEmail password) d)"
| "auth_router rq (Logout token) d = outcome (signed_in rq (logout_ctrl rq token) d)"

definition GET_me :: "request \<Rightarrow> db \<Rightarrow> safe_user answer" where
  "GET_me rq = signed_in rq (\<lambda>a d. answer 200 (getMe (au_id a) d, d) (\<lambda>_ d. d))"

definition GET_google :: "request \<Rightarrow> db \<Rightarrow> (string \<times> string) answer" where
  "GET_google rq d = answer 200 (getGoogleAuthUrl (rq_env rq) (rq_now rq) (rq_fresh rq), d) (\<lambda>_ d. d)"

section \<open>Sessions, API keys and notifications\<close>

definition revokeSession_ctrl :: "request \<Rightarrow> string \<Rightarrow> auth_user \<Rightarrow> db \<Rightarrow> session_view answer" where
  "revokeSession_ctrl rq sessionId a d =
     answer 200 (revokeSession (rq_now rq) (au_id a) sessionId d)
       (\<lambda>_. own_entry rq SESSION_REVOKED a [(''sessionId'', JStr sessionId)])"

definition revokeAllSessions_ctrl :: "request \<Rightarrow> auth_user \<Rightarrow> db \<Rightarrow> nat answer" where
  "revokeAllSessions_ctrl rq a d =
     answer 200 (revokeAllSessions (rq_now rq) (au_id a) d) (\<lambda>_. own_entry rq SESSIONS_REVOKED_ALL a [])"

definition createApiKey_ctrl ::
  "request \<Rightarrow> string \<Rightarrow> string list \<Rightarrow> int option \<Rightarrow> auth_user \<Rightarrow> db \<Rightarrow> (api_key \<times> string) answer" where
  "createApiKey_ctrl rq name scopes expiresAt a d =
     answer 201 (createApiKey (rq_env rq) (rq_now rq) (rq_fresh rq) (au_id a) name scopes expiresAt d)
       (\<lambda>_. own_entry rq API_KEY_CREATED a [(''name'', JStr name)])"

definition revokeApiKey_ctrl :: "request \<Rightarrow> string \<Rightarrow> auth_user \<Rightarrow> db \<Rightarrow> api_key answer" where
  "revokeApiKey_ctrl rq keyId a d =
     answer 200 (revokeApiKey (rq_now rq) (au_id a) keyId d)
       (\<lambda>_. own_entry rq API_KEY_REVOKED a [(''keyId'', JStr keyId)])"

definition deleteApiKey_ctrl :: "request \<Rightarrow> string \<Rightarrow> auth_user \<Rightarrow> db \<Rightarrow> string answer" where
  "deleteApiKey_ctrl rq keyId a d =
     answer 200 (deleteApiKey (rq_now rq) (au_id a) keyId d)
       (\<lambda>_. own_entry rq API_KEY_DELETED a [(''keyId'', JStr keyId)])"

definition restoreApiKey_ctrl :: "request \<Rightarrow> string \<Rightarrow> auth_user \<Rightarrow> db \<Rightarrow> api_key answer" where
  "restoreApiKey_ctrl rq keyId a d =
     answer 200 (restoreApiKey (rq_now rq) (au_id a) keyId d)
       (\<lambda>_. own_entry rq API_KEY_RESTORED a [(''keyId'', JStr keyId)])"

definition markAsRead_ctrl :: "request \<Rightarrow> string \<Rightarrow> auth_user \<Rightarrow> db \<Rightarrow> string answer" where
  "markAsRead_ctrl rq notificationId a d =
     answer 200 (markAsRead (rq_now rq) (au_id a) notificationId d) (\<lambda>_ d. d)"

definition markAllAsRead_ctrl :: "request \<Rightarrow> auth_user \<Rightarrow> db \<Rightarrow> nat answer" where
  "markAllAsRead_ctrl rq a d =
     (case markAllAsRead (rq_now rq) (au_id a) d of (n, d') \<Rightarrow> (Inr (200, n), d'))"

definition deleteNotification_ctrl :: "request \<Rightarrow> string \<Rightarrow> auth_user \<Rightarrow> db \<Rightarrow> string answer" where
  "deleteNotification_ctrl rq notificationId a d =
     answer 200 (deleteNotification (au_id a) notificationId d) (\<lambda>_ d. d)"

definition getPreferences_ctrl :: "request \<Rightarrow> auth_user \<Rightarrow> db \<Rightarrow> notification_preference answer" where
  "getPreferences_ctrl rq a d =
     answer 200 (getPreferences (rq_now rq) (rq_fresh rq) (au_id a) d) (\<lambda>_ d. d)"

definition updatePreferences_ctrl ::
  "request \<Rightarrow> preference_patch \<Rightarrow> auth_user \<Rightarrow> db \<Rightarrow> notification_preference answer" where
  "updatePreferences_ctrl rq body a d =
     answer 200 (updatePreferences (rq_now rq) (rq_fresh rq) (au_id a) body d) (\<lambda>_ d. d)"

datatype own_request =
    RevokeSession string
  | RevokeAllSessions
  | PostApiKey string "string list" "int option"
  | RevokeApiKey string
  | DeleteApiKey string
  | RestoreApiKey string
  | ReadNotification string
  | ReadAllNotifications
  | DeleteNotification string
  | GetPreferences
  | PatchPreferences preference_patch

text \<open>\<open>session.router.js\<close>, \<open>apikey.router.js\<close> and \<open>notification.router.js\<close>\<close>

fun own_router :: "request \<Rightarrow> own_request \<Rightarrow> db \<Rightarrow> nat result \<times> db" where
  "own_router rq (RevokeSession i) d = outcome (signed_in rq (revokeSession_ctrl rq i) d)"
| "own_router rq RevokeAllSessions d = outcome (signed_in rq (revokeAllSessions_ctrl rq) d)"
| "own_router rq (PostApiKey name scopes expiresAt) d =
     outcome (signed_in rq (createApiKey_ctrl rq name scopes expiresAt) d)"
| "own_router rq (RevokeApiKey i) d = outcome (signed_in rq (revokeApiKey_ctrl rq i) d)"
| "own_router rq (DeleteApiKey i) d = outcome (signed_in rq (deleteApiKey_ctrl rq i) d)"
| "own_router rq (RestoreApiKey i) d = outcome (signed_in rq (restoreApiKey_ctrl rq i) d)"
| "own_router rq (ReadNotification i) d = outcome (signed_in rq (markAsRead_ctrl rq i) d)"
| "own_router rq ReadAllNotifications d = outcome (signed_in rq (markAllAsRead_ctrl rq) d)"
| "own_router rq (DeleteNotification i) d = outcome (signed_in rq (deleteNotification_ctrl rq i) d)"
| "own_router rq GetPreferences d = outcome (signed_in rq (getPreferences_ctrl rq) d)"
| "own_router rq (PatchPreferences body) d = outcome (signed_in rq (updatePreferences_ctrl rq body) d)"

text \<open>The reading routes.\<close>

definition GET_sessions ::
  "request \<Rightarrow> ((string \<times> string) option \<Rightarrow> refresh_token list \<Rightarrow> refresh_token list) \<Rightarrow> int \<Rightarrow> int \<Rightarrow> string \<Rightarrow> string
   \<Rightarrow> db \<Rightarrow> (session_view list \<times> pagination_meta) answer" where
  "GET_sessions rq ob page limit srt order =
     signed_in rq (\<lambda>a d. (Inr (200, listSessions ob (au_id a) page limit srt order d), d))"

definition GET_api_keys ::
  "request \<Rightarrow> (string \<Rightarrow> string \<Rightarrow> bool) \<Rightarrow> ((string \<times> string) option \<Rightarrow> api_key list \<Rightarrow> api_key list)
   \<Rightarrow> list_query \<Rightarrow> db \<Rightarrow> (api_key list \<times> pagination_meta) answer" where
  "GET_api_keys rq like ob q = signed_in rq (\<lambda>a d. (Inr (200, listApiKeys like ob (au_id a) q d), d))"

definition GET_api_key :: "request \<Rightarrow> string \<Rightarrow> db \<Rightarrow> api_key answer" where
  "GET_api_key rq keyId = signed_in rq (\<lambda>a d. answer 200 (getApiKey (au_id a) keyId d, d) (\<lambda>_ d. d))"

definition GET_notifications ::
  "request \<Rightarrow> (string \<Rightarrow> string \<Rightarrow> bool) \<Rightarrow> ((string \<times> string) option \<Rightarrow> notification list \<Rightarrow> notification list)
   \<Rightarrow> list_query \<Rightarrow> notification_type option \<Rightarrow> bool \<Rightarrow> db \<Rightarrow> (notification list \<times> nat \<times> pagination_meta) answer" where
  "GET_notifications rq like ob q ty unreadOnly =
     signed_in rq (\<lambda>a d. (Inr (200, listNotifications like ob (au_id a) q ty unreadOnly d), d))"

section \<open>Billing\<close>

definition createCheckout_ctrl ::
  "stripe_api \<Rightarrow> request \<Rightarrow> string \<Rightarrow> string \<Rightarrow> string \<Rightarrow> auth_user \<Rightarrow> db \<Rightarrow> (string \<times> string) answer" where
  "createCheckout_ctrl S rq planId successUrl cancelUrl a d =
     answer 200 (createCheckoutSession (rq_env rq) S (rq_now rq) (au_id a) planId successUrl cancelUrl d)
       (\<lambda>_. own_entry rq CHECKOUT_STARTED a [(''planId'', JStr planId)])"

definition createPortal_ctrl :: "stripe_api \<Rightarrow> request \<Rightarrow> string \<Rightarrow> auth_user \<Rightarrow> db \<Rightarrow> string answer" where
  "createPortal_ctrl S rq returnUrl a d =
     answer 200 (createPortalSession (rq_env rq) S (au_id a) returnUrl d, d)
       (\<lambda>_. own_entry rq PORTAL_OPENED a [])"

definition cancelSubscription_ctrl :: "stripe_api \<Rightarrow> request \<Rightarrow> auth_user \<Rightarrow> db \<Rightarrow> subscription answer" where
  "cancelSubscription_ctrl S rq a d =
     answer 200 (cancelSubscription (rq_env rq) S (rq_now rq) (au_id a) d)
       (\<lambda>_. own_entry rq SUBSCRIPTION_CANCELED a [])"

definition createOrgCheckout_ctrl ::
  "stripe_api \<Rightarrow> request \<Rightarrow> string \<Rightarrow> string \<Rightarrow> string \<Rightarrow> auth_user \<Rightarrow> tenant \<Rightarrow> db \<Rightarrow> (string \<times> string) answer" where
  "createOrgCheckout_ctrl S rq planId successUrl cancelUrl a t d =
     answer 200 (createOrgCheckoutSession (rq_env rq) S (rq_now rq) (tn_id t) planId successUrl cancelUrl d)
       (\<lambda>_. audit rq CHECKOUT_STARTED (Some (au_id a)) None (Some (tn_id t)) [(''planId'', JStr planId)])"

definition createOrgPortal_ctrl ::
  "stripe_api \<Rightarrow> request \<Rightarrow> string \<Rightarrow> auth_user \<Rightarrow> tenant \<Rightarrow> db \<Rightarrow> string answer" where
  "createOrgPortal_ctrl S rq returnUrl a t d =
     answer 200 (createOrgPortalSession (rq_env rq) S (tn_id t) returnUrl d, d)
       (\<lambda>_. audit rq PORTAL_OPENED (Some (au_id a)) None (Some (tn_id t)) [])"

definition cancelOrgSubscription_ctrl ::
  "stripe_api \<Rightarrow> request \<Rightarrow> auth_user \<Rightarrow> tenant \<Rightarrow> db \<Rightarrow> subscription answer" where
  "cancelOrgSubscription_ctrl S rq a t d =
     answer 200 (cancelOrgSubscription (rq_env rq) S (rq_now rq) (tn_id t) d)
       (\<lambda>_. audit rq SUBSCRIPTION_CANCELED (Some (au_id a)) None (Some (tn_id t)) [])"

text \<open>\<open>webhook\<close>: the raw body and the header \<open>stripe-signature\<close>.\<close>

definition webhook_ctrl :: "stripe_api \<Rightarrow> request \<Rightarrow> string \<Rightarrow> string option \<Rightarrow> db \<Rightarrow> string answer" where
  "webhook_ctrl S rq body signature d =
     answer 200 (handleWebhook (rq_env rq) S (rq_now rq) (rq_fresh rq) body signature d) (\<lambda>_ d. d)"

datatype billing_request =
    Checkout string string string
  | Portal string
  | CancelSubscription
  | OrgCheckout string string string string
  | OrgPortal string string
  | CancelOrgSubscription string
  | Webhook string "string option"

text \<open>The two routers of \<open>billing.router.js\<close>, and the webhook route of \<open>app.js\<close>.\<close>

fun billing_router :: "stripe_api \<Rightarrow> request \<Rightarrow> billing_request \<Rightarrow> db \<Rightarrow> nat result \<times> db" where
  "billing_router S rq (Checkout planId successUrl cancelUrl) d =
     outcome (signed_in rq (createCheckout_ctrl S rq planId successUrl cancelUrl) d)"
| "billing_router S rq (Portal returnUrl) d = outcome (signed_in rq (createPortal_ctrl S rq returnUrl) d)"
| "billing_router S rq CancelSubscription d = outcome (signed_in rq (cancelSubscription_ctrl S rq) d)"
| "billing_router S rq (OrgCheckout orgId planId successUrl cancelUrl) d =
     outcome (with_org_role rq [OWNER, ORG_ADMIN] orgId (createOrgCheckout_ctrl S rq planId successUrl cancelUrl) d)"
| "billing_router S rq (OrgPortal orgId returnUrl) d =
     outcome (with_org_role rq [OWNER, ORG_ADMIN] orgId (createOrgPortal_ctrl S rq returnUrl) d)"
| "billing_router S rq (CancelOrgSubscription orgId) d =
     outcome (with_org_role rq [OWNER, ORG_ADMIN] orgId (cancelOrgSubscription_ctrl S rq) d)"
| "billing_router S rq (Webhook body signature) d = outcome (webhook_ctrl S rq body signature d)"

definition GET_plans ::
  "((string \<times> string) option \<Rightarrow> plan list \<Rightarrow> plan list) \<Rightarrow> int \<Rightarrow> int \<Rightarrow> string \<Rightarrow> string \<Rightarrow> plan_interval option \<Rightarrow> db
   \<Rightarrow> (plan list \<times> pagination_meta) answer" where
  "GET_plans ob page limit srt order iv d = (Inr (200, listPlans ob page limit srt order iv d), d)"

definition GET_subscription :: "request \<Rightarrow> db \<Rightarrow> subscription option answer" where
  "GET_subscription rq = signed_in rq (\<lambda>a d. (Inr (200, getSubscription (au_id a) d), d))"

definition GET_org_subscription :: "request \<Rightarrow> string \<Rightarrow> db \<Rightarrow> subscription option answer" where
  "GET_org_subscription rq orgId =
     in_tenant rq orgId (\<lambda>a t d. (Inr (200, getOrgSubscription (tn_id t) d), d))"

end
