(* ===== verification/Api.thy ===== *)
theory Api
  imports OrgRoutes AdminRoutes AccountRoutes Projects
begin

text \<open>
  The whole interface of the server under \<open>/api\<close>: one request of any router.  Who may change the database
  with it is stated on the tables, independently of the guards.
\<close>

section \<open>One request\<close>

datatype project_request =
    PostProject string string "string option"
  | PatchProject string string project_patch
  | DeleteProject string string

text \<open>The writing routes of \<open>project.router.js\<close>.\<close>

fun project_router :: "request \<Rightarrow> project_request \<Rightarrow> db \<Rightarrow> nat result \<times> db" where
  "project_router rq (PostProject orgId name description) d =
     outcome (answer 201 (POST_project (rq_env rq) (rq_now rq) (rq_client rq) (rq_fresh rq) (rq_authorization rq)
       orgId name description d) (\<lambda>_ d. d))"
| "project_router rq (PatchProject orgId projectId body) d =
     outcome (answer 200 (PATCH_project (rq_env rq) (rq_now rq) (rq_client rq) (rq_authorization rq)
       orgId projectId body d) (\<lambda>_ d. d))"
| "project_router rq (DeleteProject orgId projectId) d =
     outcome (answer 200 (DELETE_project (rq_env rq) (rq_now rq) (rq_client rq) (rq_authorization rq)
       orgId projectId d) (\<lambda>_ d. d))"

text \<open>\<open>apiKeyRouter\<close> of \<open>project.router.js\<close>, mounted under \<open>/api/integrations\<close>.\<close>

datatype integration_request =
    KeyProjects string list_query "project_status option"
  | KeyProject string string

fun integration_router :: "request \<Rightarrow> integration_request \<Rightarrow> db \<Rightarrow> nat result \<times> db" where
  "integration_router rq (KeyProjects orgId q status) d =
     outcome (answer 200 (KEY_projects (rq_env rq) (rq_now rq) (rq_apiKey rq) orgId q status d) (\<lambda>_ d. d))"
| "integration_router rq (KeyProject orgId projectId) d =
     outcome (answer 200 (KEY_project (rq_env rq) (rq_now rq) (rq_apiKey rq) orgId projectId d) (\<lambda>_ d. d))"

text \<open>The reading routes of all routers.\<close>

datatype read_request =
    GetGoogleUrl
  | GetMe
  | GetSessions int int string string
  | GetApiKeys list_query
  | GetApiKey string
  | GetNotifications list_query "notification_type option" bool
  | GetPlans int int string string "plan_interval option"
  | GetSubscription
  | GetOrgSubscription string
  | GetOrganizations list_query
  | GetOrganization string
  | GetMembers string list_query
  | GetOrgInvitations string list_query
  | GetMyInvitations list_query
  | GetUsers list_query "role option" "user_status option"
  | GetUser string
  | GetAuditLogs int int string string audit_filter
  | GetMyAuditLogs int int string string
  | GetEvaluation string "string option"
  | GetFlags list_query "flag_type option" "string option"
  | GetFlag string
  | GetProjects string list_query "project_status option"
  | GetProject string string
  | GetExport string
  | GetAnalytics string

definition project_read :: "'a result \<Rightarrow> db \<Rightarrow> nat result \<times> db" where
  "project_read r d = outcome (answer 200 (r, d) (\<lambda>_ d. d))"

abbreviation like_of :: "request \<Rightarrow> string \<Rightarrow> string \<Rightarrow> bool" where
  "like_of rq \<equiv> ilike (pg (rq_env rq))"

abbreviation ordered :: "request \<Rightarrow> (postgres \<Rightarrow> 'o) \<Rightarrow> 'o" where
  "ordered rq table \<equiv> table (pg (rq_env rq))"

fun read_router :: "request \<Rightarrow> read_request \<Rightarrow> db \<Rightarrow> nat result \<times> db" where
  "read_router rq GetGoogleUrl d = outcome (GET_google rq d)"
| "read_router rq GetMe d = outcome (GET_me rq d)"
| "read_router rq (GetSessions page limit srt order) d =
     outcome (GET_sessions rq (ordered rq order_sessions) page limit srt order d)"
| "read_router rq (GetApiKeys q) d = outcome (GET_api_keys rq (like_of rq) (ordered rq order_keys) q d)"
| "read_router rq (GetApiKey i) d = outcome (GET_api_key rq i d)"
| "read_router rq (GetNotifications q ty unreadOnly) d =
     outcome (GET_notifications rq (like_of rq) (ordered rq order_notifications) q ty unreadOnly d)"
| "read_router rq (GetPlans page limit srt order iv) d =
     outcome (GET_plans (ordered rq order_plans) page limit srt order iv d)"
| "read_router rq GetSubscription d = outcome (GET_subscription rq d)"
| "read_router rq (GetOrgSubscription orgId) d = outcome (GET_org_subscription rq orgId d)"
| "read_router rq (GetOrganizations q) d =
     outcome (GET_organizations rq (like_of rq) (ordered rq order_members) q d)"
| "read_router rq (GetOrganization orgId) d = outcome (GET_organization rq orgId d)"
| "read_router rq (GetMembers orgId q) d =
     outcome (GET_members rq (like_of rq) (ordered rq order_members) orgId q d)"
| "read_router rq (GetOrgInvitations orgId q) d =
     outcome (GET_invitations rq (like_of rq) (ordered rq order_invitations) orgId q d)"
| "read_router rq (GetMyInvitations q) d =
     outcome (GET_my_invitations rq (like_of rq) (ordered rq order_invitations) q d)"
| "read_router rq (GetUsers q r st) d = outcome (GET_users rq (like_of rq) (ordered rq order_users) q r st d)"
| "read_router rq (GetUser i) d = outcome (GET_user rq i d)"
| "read_router rq (GetAuditLogs page limit srt order f) d =
     outcome (GET_audit_logs rq (ordered rq order_audit) page limit srt order f d)"
| "read_router rq (GetMyAuditLogs page limit srt order) d =
     outcome (GET_my_audit_logs rq (ordered rq order_audit) page limit srt order d)"
| "read_router rq (GetEvaluation key orgId) d = outcome (GET_evaluate rq key orgId d)"
| "read_router rq (GetFlags q ty active) d =
     outcome (GET_flags rq (like_of rq) (ordered rq order_flags) q ty active d)"
| "read_router rq (GetFlag i) d = outcome (GET_flag rq i d)"
| "read_router rq (GetProjects orgId q status) d =
     project_read (GET_projects (rq_env rq) (like_of rq) (ordered rq order_projects) (rq_now rq) (rq_authorization rq)
       orgId q status d) d"
| "read_router rq (GetProject orgId i) d =
     project_read (GET_project (rq_env rq) (rq_now rq) (rq_authorization rq) orgId i d) d"
| "read_router rq (GetExport orgId) d =
     project_read (GET_export (rq_env rq) (rq_now rq) (rq_authorization rq) orgId d) d"
| "read_router rq (GetAnalytics orgId) d =
     project_read (GET_analytics (rq_env rq) (rq_now rq) (rq_authorization rq) orgId d) d"

datatype api_request =
    AuthRequest auth_request
  | OwnRequest own_request
  | OrgRequest org_request
  | AdminRequest admin_request
  | GdprRequest gdpr_request
  | BillingRequest billing_request
  | ProjectRequest project_request
  | IntegrationRequest integration_request
  | ReadRequest read_request

text \<open>The routers as \<open>app.js\<close> mounts them.\<close>

fun api :: "stripe_api \<Rightarrow> request \<Rightarrow> api_request \<Rightarrow> db \<Rightarrow> nat result \<times> db" where
  "api S rq (AuthRequest q) d = auth_router rq q d"
| "api S rq (OwnRequest q) d = own_router rq q d"
| "api S rq (OrgRequest q) d = org_router (sub_cancel S) rq q d"
| "api S rq (AdminRequest q) d = admin_router rq q d"
| "api S rq (GdprRequest q) d = gdpr_router (sub_cancel S) rq q d"
| "api S rq (BillingRequest q) d = billing_router S rq q d"
| "api S rq (ProjectRequest q) d = project_router rq q d"
| "api S rq (IntegrationRequest q) d = integration_router rq q d"
| "api S rq (ReadRequest q) d = read_router rq q d"

section \<open>Who may change what\<close>

text \<open>The request carries an access token of this live account, of its current generation.\<close>

definition account_of :: "request \<Rightarrow> db \<Rightarrow> user \<Rightarrow> bool" where
  "account_of rq d u \<longleftrightarrow>
     u \<in> set (users d) \<and> u_deletedAt u = None \<and> \<not> u_banned u \<and> \<not> after (u_suspendedUntil u) (rq_now rq)
   \<and> (\<exists>token e r. bearer_token (rq_authorization rq) = Some token
        \<and> verifyToken (rq_env rq) (rq_now rq) token = Some (AccessClaims (u_id u) e r (u_tokenVersion u)))"

text \<open>The request carries an API key of this live account that is neither deleted, revoked nor expired.\<close>

definition key_holder :: "request \<Rightarrow> db \<Rightarrow> user \<Rightarrow> bool" where
  "key_holder rq d u \<longleftrightarrow>
     (\<exists>raw k. rq_apiKey rq = Some raw \<and> k \<in> set (apiKeys d) \<and> k_keyHash k = sha256_hex (rq_env rq) raw
        \<and> k_userId k = u_id u \<and> k_deletedAt k = None \<and> k_revokedAt k = None
        \<and> (k_expiresAt k = None \<or> after (k_expiresAt k) (rq_now rq)))
   \<and> u \<in> set (users d) \<and> u_deletedAt u = None \<and> \<not> u_banned u \<and> \<not> after (u_suspendedUntil u) (rq_now rq)"

text \<open>The account is a member of the organization with one of the roles, and the organization is there.\<close>

definition holds_role :: "org_role list \<Rightarrow> string \<Rightarrow> bool \<Rightarrow> user \<Rightarrow> db \<Rightarrow> bool" where
  "holds_role roles orgId live u d \<longleftrightarrow>
     (\<exists>m \<in> set (members d). m_organizationId m = orgId \<and> m_userId m = u_id u \<and> m_role m \<in> set roles)
   \<and> (\<exists>x \<in> set (organizations d). o_id x = orgId \<and> (live \<longrightarrow> o_deletedAt x = None))"

fun org_permits :: "org_request \<Rightarrow> user \<Rightarrow> db \<Rightarrow> bool" where
  "org_permits (PostOrganization _ _) u d = True"
| "org_permits (PatchOrganization orgId _ _) u d = holds_role [OWNER, ORG_ADMIN] orgId True u d"
| "org_permits (DeleteOrganization orgId) u d = holds_role [OWNER] orgId True u d"
| "org_permits (RestoreOrganization orgId) u d = holds_role [OWNER] orgId False u d"
| "org_permits (TransferOwnership orgId _) u d = holds_role [OWNER] orgId True u d"
| "org_permits (PatchMember orgId _ _) u d = holds_role [OWNER, ORG_ADMIN] orgId True u d"
| "org_permits (DeleteMember orgId _) u d = holds_role [OWNER, ORG_ADMIN] orgId True u d"
| "org_permits (PostInvitation orgId _ _) u d = holds_role [OWNER, ORG_ADMIN] orgId True u d"
| "org_permits (DeleteInvitation orgId _) u d = holds_role [OWNER, ORG_ADMIN] orgId True u d"
| "org_permits (AcceptInvitation _) u d = True"
| "org_permits (DeclineInvitation _) u d = True"

fun project_permits :: "project_request \<Rightarrow> user \<Rightarrow> db \<Rightarrow> bool" where
  "project_permits (PostProject orgId _ _) u d = (u_emailVerified u \<and> holds_role [OWNER, ORG_ADMIN] orgId True u d)"
| "project_permits (PatchProject orgId _ _) u d = (u_emailVerified u \<and> holds_role [OWNER, ORG_ADMIN] orgId True u d)"
| "project_permits (DeleteProject orgId _) u d = (u_emailVerified u \<and> holds_role [OWNER] orgId True u d)"

text \<open>The routes one may use without an access token: they ask for a password, a code or a mailed token.\<close>

fun open_route :: "auth_request \<Rightarrow> bool" where
  "open_route SetupTwoFactor = False"
| "open_route (EnableTwoFactor _) = False"
| "open_route (DisableTwoFactor _) = False"
| "open_route (ChangePassword _ _) = False"
| "open_route (ChangeEmail _ _) = False"
| "open_route (Logout _) = False"
| "open_route _ = True"

fun billing_permits :: "stripe_api \<Rightarrow> request \<Rightarrow> billing_request \<Rightarrow> db \<Rightarrow> bool" where
  "billing_permits S rq (OrgCheckout orgId _ _ _) d =
     (\<exists>u. account_of rq d u \<and> holds_role [OWNER, ORG_ADMIN] orgId True u d)"
| "billing_permits S rq (OrgPortal orgId _) d =
     (\<exists>u. account_of rq d u \<and> holds_role [OWNER, ORG_ADMIN] orgId True u d)"
| "billing_permits S rq (CancelOrgSubscription orgId) d =
     (\<exists>u. account_of rq d u \<and> holds_role [OWNER, ORG_ADMIN] orgId True u d)"
| "billing_permits S rq (Webhook body signature) d =
     (\<exists>secret sig event. STRIPE_WEBHOOK_SECRET (rq_env rq) = Some secret \<and> signature = Some sig
        \<and> constructEvent S (rq_now rq) body sig secret = Inr event)"
| "billing_permits S rq _ d = (\<exists>u. account_of rq d u)"

fun permitted :: "stripe_api \<Rightarrow> request \<Rightarrow> api_request \<Rightarrow> db \<Rightarrow> bool" where
  "permitted S rq (AuthRequest q) d = (open_route q \<or> (\<exists>u. account_of rq d u))"
| "permitted S rq (OwnRequest q) d = (\<exists>u. account_of rq d u)"
| "permitted S rq (OrgRequest q) d = (\<exists>u. account_of rq d u \<and> org_permits q u d)"
| "permitted S rq (AdminRequest q) d = (\<exists>u. account_of rq d u \<and> u_role u = ADMIN)"
| "permitted S rq (GdprRequest q) d = (\<exists>u. account_of rq d u)"
| "permitted S rq (BillingRequest q) d = billing_permits S rq q d"
| "permitted S rq (ProjectRequest q) d = (\<exists>u. account_of rq d u \<and> project_permits q u d)"
| "permitted S rq (IntegrationRequest q) d = (\<exists>u. key_holder rq d u)"
| "permitted S rq (ReadRequest q) d = False"

lemma caller_account:
  assumes "caller rq d a"
  obtains u where "account_of rq d u" "u_id u = au_id a" "u_role u = au_role a" "u_emailVerified u = au_emailVerified a"
proof -
  from authenticate_InrD [OF assms [unfolded caller_def]] obtain token e r u where
    *: "bearer_token (rq_authorization rq) = Some token"
       "verifyToken (rq_env rq) (rq_now rq) token = Some (AccessClaims (au_id a) e r (u_tokenVersion u))"
       "live_user_by_id (au_id a) d = Some u" "\<not> u_banned u" "\<not> after (u_suspendedUntil u) (rq_now rq)"
       "au_role a = u_role u" "au_emailVerified a = u_emailVerified u" by blast
  note live = live_user_by_idD [OF *(3)]
  from * live have "account_of rq d u" by (auto simp: account_of_def)
  with * live show ?thesis by (intro that) auto
qed

lemma tenant_role:
  assumes "requireOrgRole roles (Some t) = Inr ()" "u_id u = au_id a"
  shows "requireTenant orgId (au_id a) d = Inr t \<Longrightarrow> holds_role roles orgId True u d"
    and "requireTenantIncludeDeleted orgId (au_id a) d = Inr t \<Longrightarrow> holds_role roles orgId False u d"
proof -
  have role: "tn_role t \<in> set roles" using assms(1) by (simp add: requireOrgRole_def split: if_splits)
  { assume "requireTenant orgId (au_id a) d = Inr t"
    from requireTenant_InrD [OF this] obtain m x where
      mx: "membership orgId (au_id a) d = Some m" "org_by_id (m_organizationId m) d = Some x"
          "o_deletedAt x = None" "t = tenant_of x m" by blast
    with role membershipD [OF mx(1)] org_by_idD [OF mx(2)] show "holds_role roles orgId True u d"
      unfolding holds_role_def assms(2) by (auto simp: tenant_of_def) }
  { assume "requireTenantIncludeDeleted orgId (au_id a) d = Inr t"
    then obtain m x where
      mx: "membership orgId (au_id a) d = Some m" "org_by_id (m_organizationId m) d = Some x" "t = tenant_of x m"
      by (auto simp: requireTenantIncludeDeleted_def split: option.splits if_splits)
    with role membershipD [OF mx(1)] org_by_idD [OF mx(2)] show "holds_role roles orgId False u d"
      unfolding holds_role_def assms(2) by (auto simp: tenant_of_def) }
qed

lemma signed_in_permits:
  "snd (outcome (signed_in rq k d)) \<noteq> d \<Longrightarrow> \<exists>u. account_of rq d u"
  by (rule signed_in_cases [OF refl, of rq k d]) (auto elim: caller_account)

lemma as_admin_permits:
  "snd (outcome (as_admin rq k d)) \<noteq> d \<Longrightarrow> \<exists>u. account_of rq d u \<and> u_role u = ADMIN"
  by (rule as_admin_cases [OF refl, of rq k d]) (auto elim!: caller_account)

lemma with_org_role_permits:
  "snd (outcome (with_org_role rq roles orgId k d)) \<noteq> d \<Longrightarrow> \<exists>u. account_of rq d u \<and> holds_role roles orgId True u d"
  by (rule with_org_role_cases [OF refl, of rq roles orgId k d]) (auto elim!: caller_account dest: tenant_role(1))

lemma with_deleted_org_role_permits:
  "snd (outcome (with_deleted_org_role rq roles orgId k d)) \<noteq> d \<Longrightarrow> \<exists>u. account_of rq d u \<and> holds_role roles orgId False u d"
  by (rule with_deleted_org_role_cases [OF refl, of rq roles orgId k d])
    (auto elim!: caller_account dest: tenant_role(2))

lemmas guard_permits = signed_in_permits as_admin_permits with_org_role_permits with_deleted_org_role_permits

lemma project_guards_permits:
  assumes "project_guards E now hdr orgId d = Inr (a, t)" "requireOrgRole roles (Some t) = Inr ()"
    "E = rq_env rq" "now = rq_now rq" "hdr = rq_authorization rq"
  shows "\<exists>u. account_of rq d u \<and> u_emailVerified u \<and> holds_role roles orgId True u d"
proof -
  have g: "caller rq d a" "au_emailVerified a" "requireTenant orgId (au_id a) d = Inr t"
    using assms by (auto simp: project_guards_def caller_def requireVerifiedEmail_def split: sum.splits if_splits)
  from caller_account [OF g(1)] obtain u where
    u: "account_of rq d u" "u_id u = au_id a" "u_emailVerified u = au_emailVerified a" by metis
  with g(2) tenant_role(1) [OF assms(2) u(2) g(3)] show ?thesis by blast
qed

lemma project_router_permits:
  "snd (project_router rq q d) \<noteq> d \<Longrightarrow> \<exists>u. account_of rq d u \<and> project_permits q u d"
proof (cases q)
  case (PostProject orgId name description)
  assume c: "snd (project_router rq q d) \<noteq> d"
  then obtain a t where "project_guards (rq_env rq) (rq_now rq) (rq_authorization rq) orgId d = Inr (a, t)"
      "requireOrgRole [OWNER, ORG_ADMIN] (Some t) = Inr ()"
    unfolding PostProject by (auto simp: POST_project_def split: sum.splits prod.splits)
  from project_guards_permits [OF this refl refl refl] show ?thesis unfolding PostProject by simp
next
  case (PatchProject orgId projectId body)
  assume c: "snd (project_router rq q d) \<noteq> d"
  then obtain a t where "project_guards (rq_env rq) (rq_now rq) (rq_authorization rq) orgId d = Inr (a, t)"
      "requireOrgRole [OWNER, ORG_ADMIN] (Some t) = Inr ()"
    unfolding PatchProject by (auto simp: PATCH_project_def split: sum.splits prod.splits)
  from project_guards_permits [OF this refl refl refl] show ?thesis unfolding PatchProject by simp
next
  case (DeleteProject orgId projectId)
  assume c: "snd (project_router rq q d) \<noteq> d"
  then obtain a t where "project_guards (rq_env rq) (rq_now rq) (rq_authorization rq) orgId d = Inr (a, t)"
      "requireOrgRole [OWNER] (Some t) = Inr ()"
    unfolding DeleteProject by (auto simp: DELETE_project_def split: sum.splits prod.splits)
  from project_guards_permits [OF this refl refl refl] show ?thesis unfolding DeleteProject by simp
qed

lemma webhook_permits:
  assumes "snd (outcome (webhook_ctrl S rq body signature d)) \<noteq> d"
  shows "\<exists>secret sig event. STRIPE_WEBHOOK_SECRET (rq_env rq) = Some secret \<and> signature = Some sig
        \<and> constructEvent S (rq_now rq) body sig secret = Inr event"
proof -
  have changed: "snd (handleWebhook (rq_env rq) S (rq_now rq) (rq_fresh rq) body signature d) \<noteq> d"
    using assms by (simp add: webhook_ctrl_def)
  have "truthy signature" by (rule ccontr) (use changed in \<open>simp add: handleWebhook_def\<close>)
  moreover have "truthy (STRIPE_WEBHOOK_SECRET (rq_env rq))"
    by (rule ccontr) (use changed in \<open>simp add: handleWebhook_def split: if_splits\<close>)
  ultimately obtain secret sig where s: "signature = Some sig" "STRIPE_WEBHOOK_SECRET (rq_env rq) = Some secret"
    by (auto simp: truthy_def split: option.splits)
  with changed show ?thesis
    by (cases "constructEvent S (rq_now rq) body sig secret") (auto simp: handleWebhook_def split: if_splits)
qed

lemma org_router_permits:
  "snd (org_router cancel rq q d) \<noteq> d \<Longrightarrow> \<exists>u. account_of rq d u \<and> org_permits q u d"
  by (cases q) (auto simp del: snd_outcome dest!: guard_permits)

lemma admin_router_permits:
  "snd (admin_router rq q d) \<noteq> d \<Longrightarrow> \<exists>u. account_of rq d u \<and> u_role u = ADMIN"
  by (cases q) (auto simp del: snd_outcome dest!: as_admin_permits)

lemma own_router_permits: "snd (own_router rq q d) \<noteq> d \<Longrightarrow> \<exists>u. account_of rq d u"
  by (cases q) (auto simp del: snd_outcome dest!: signed_in_permits)

lemma gdpr_router_permits: "snd (gdpr_router cancel rq q d) \<noteq> d \<Longrightarrow> \<exists>u. account_of rq d u"
  by (cases q) (auto simp del: snd_outcome dest!: signed_in_permits)

lemma auth_router_permits: "snd (auth_router rq q d) \<noteq> d \<Longrightarrow> open_route q \<or> (\<exists>u. account_of rq d u)"
  by (cases q) (auto simp del: snd_outcome dest!: signed_in_permits)

lemma billing_router_permits: "snd (billing_router S rq q d) \<noteq> d \<Longrightarrow> billing_permits S rq q d"
proof (cases q)
  case (Webhook body signature)
  assume "snd (billing_router S rq q d) \<noteq> d"
  then have "snd (outcome (webhook_ctrl S rq body signature d)) \<noteq> d"
    unfolding Webhook by (simp only: billing_router.simps not_False_eq_True)
  from webhook_permits [OF this] show ?thesis unfolding Webhook by simp
qed (auto simp del: snd_outcome dest!: guard_permits)

lemma authenticateApiKey_holder:
  assumes "authenticateApiKey (rq_env rq) (rq_now rq) (rq_apiKey rq) d = (r, d')" "d' \<noteq> d \<or> is_ok r"
  shows "\<exists>u. key_holder rq d u"
proof -
  have "\<exists>c. verifyApiKey (rq_env rq) (rq_now rq) (rq_apiKey rq) d = (Inr (Some c), d')"
    using assms
    by (auto simp: authenticateApiKey_def verifyApiKey_def await_def is_ok_iff split: if_splits option.splits)
  then obtain c where "verifyApiKey (rq_env rq) (rq_now rq) (rq_apiKey rq) d = (Inr (Some c), d')" ..
  from verifyApiKey_SomeD [OF this] obtain raw k u where
    k: "rq_apiKey rq = Some raw" "k \<in> set (apiKeys d)" "k_keyHash k = hashKey (rq_env rq) raw" "k_deletedAt k = None"
      "k_revokedAt k = None" "k_expiresAt k = None \<or> after (k_expiresAt k) (rq_now rq)"
    and u: "user_by_id (k_userId k) d = Some u" "\<not> u_banned u" "u_deletedAt u = None"
      "\<not> after (u_suspendedUntil u) (rq_now rq)"
    by blast
  have "key_holder rq d u"
    unfolding key_holder_def using k u user_by_idD [OF u(1)] by (simp add: hashKey_def) metis
  then show ?thesis ..
qed

lemma key_guards_holder:
  assumes "key_guards (rq_env rq) (rq_now rq) (rq_apiKey rq) orgId d = (r, d')" "d' \<noteq> d \<or> is_ok r"
  shows "\<exists>u. key_holder rq d u"
proof (cases "authenticateApiKey (rq_env rq) (rq_now rq) (rq_apiKey rq) d")
  case (Pair x d1)
  have "d1 \<noteq> d \<or> is_ok x"
    using assms Pair by (cases x) (auto simp: key_guards_def is_ok_iff split: sum.splits)
  with authenticateApiKey_holder [OF Pair] show ?thesis .
qed

lemma integration_router_permits:
  "snd (integration_router rq q d) \<noteq> d \<or> is_ok (fst (integration_router rq q d)) \<Longrightarrow> \<exists>u. key_holder rq d u"
proof (cases q)
  case (KeyProjects orgId lq st)
  assume c: "snd (integration_router rq q d) \<noteq> d \<or> is_ok (fst (integration_router rq q d))"
  show ?thesis
  proof (cases "key_guards (rq_env rq) (rq_now rq) (rq_apiKey rq) orgId d")
    case (Pair r d1)
    from c have "d1 \<noteq> d \<or> is_ok r"
      unfolding KeyProjects by (cases r) (auto simp: KEY_projects_def Pair)
    with key_guards_holder [OF Pair] show ?thesis .
  qed
next
  case (KeyProject orgId i)
  assume c: "snd (integration_router rq q d) \<noteq> d \<or> is_ok (fst (integration_router rq q d))"
  show ?thesis
  proof (cases "key_guards (rq_env rq) (rq_now rq) (rq_apiKey rq) orgId d")
    case (Pair r d1)
    from c have "d1 \<noteq> d \<or> is_ok r"
      unfolding KeyProject by (cases r) (auto simp: KEY_project_def Pair)
    with key_guards_holder [OF Pair] show ?thesis .
  qed
qed

text \<open>Reading leaves the database as it is.\<close>

lemma guarded_reads: "(\<And>x. snd (k x d) = d) \<Longrightarrow> snd (guarded g k d) = d"
  by (cases g) simp_all

lemma signed_in_reads: "(\<And>a. snd (k a d) = d) \<Longrightarrow> snd (signed_in rq k d) = d"
  unfolding signed_in_def by (rule guarded_reads)

lemma as_admin_reads: "(\<And>a. snd (k a d) = d) \<Longrightarrow> snd (as_admin rq k d) = d"
  unfolding as_admin_def by (intro signed_in_reads guarded_reads)

lemma in_tenant_reads: "(\<And>a t. snd (k a t d) = d) \<Longrightarrow> snd (in_tenant rq orgId k d) = d"
  unfolding in_tenant_def by (intro signed_in_reads guarded_reads)

lemma with_org_role_reads: "(\<And>a t. snd (k a t d) = d) \<Longrightarrow> snd (with_org_role rq roles orgId k d) = d"
  unfolding with_org_role_def by (intro in_tenant_reads guarded_reads)

lemmas GET_defs = GET_google_def GET_me_def GET_sessions_def GET_api_keys_def GET_api_key_def GET_notifications_def
  GET_plans_def GET_subscription_def GET_org_subscription_def GET_organizations_def GET_organization_def
  GET_members_def GET_invitations_def GET_my_invitations_def GET_users_def GET_user_def GET_audit_logs_def
  GET_my_audit_logs_def GET_evaluate_def GET_flags_def GET_flag_def

lemma read_router_reads [simp]: "snd (read_router rq q d) = d"
  by (cases q) (simp_all add: GET_defs project_read_def signed_in_reads as_admin_reads in_tenant_reads
      with_org_role_reads guarded_reads)

definition demo_admin_request :: request where
  "demo_admin_request = \<lparr>rq_env = demo_env, rq_now = 5, rq_client = demo_client, rq_fresh = demo_fresh ''f'',
     rq_authorization = Some ''Bearer Ax'', rq_apiKey = None, rq_secret = [], rq_iv = [], rq_codes = []\<rparr>"

text \<open>C2: A request of any route under \<open>/api\<close> changes the database only if the tables permit it: a reading route
  never does, the routes for API keys only with a valid key of a live account, and outside the sign-in routes and the
  signed webhook the caller of the others holds an access token of a live, unbanned, unsuspended account of the
  current token generation; the administration routes need that account's role \<open>ADMIN\<close>, the routes of an
  organization its membership with one of the roles the route asks for in an organization that is not
  deleted (restoring one apart), and the project routes a verified address as well.\<close>

theorem api_authorized:
  assumes "snd (api S rq q d) \<noteq> d"
  shows "permitted S rq q d"
proof (cases q)
  case (AuthRequest r)
  with assms auth_router_permits show ?thesis by simp
next
  case (OwnRequest r)
  with assms own_router_permits show ?thesis by simp
next
  case (OrgRequest r)
  with assms org_router_permits show ?thesis by simp
next
  case (AdminRequest r)
  with assms admin_router_permits show ?thesis by simp
next
  case (GdprRequest r)
  with assms gdpr_router_permits show ?thesis by simp
next
  case (BillingRequest r)
  with assms billing_router_permits show ?thesis by simp
next
  case (ProjectRequest r)
  with assms project_router_permits show ?thesis by simp
next
  case (IntegrationRequest r)
  with assms integration_router_permits [of rq r d] show ?thesis by simp
next
  case (ReadRequest r)
  with assms show ?thesis by simp
qed

theorem api_authorized_witness:
  "\<exists>u. account_of demo_admin_request demo_erase u \<and> org_permits (DeleteOrganization ''o1'') u demo_erase"
proof -
  let ?q = "OrgRequest (DeleteOrganization ''o1'')"
  have "map o_deletedAt (organizations (snd (api demo_stripe demo_admin_request ?q demo_erase))) = [Some 5, None]"
    by code_simp
  moreover have "map o_deletedAt (organizations demo_erase) = [None, None]" by code_simp
  ultimately have "snd (api demo_stripe demo_admin_request ?q demo_erase) \<noteq> demo_erase" by force
  from api_authorized [OF this] show ?thesis by simp
qed

end
