(* ===== verification/ApiFrames.thy ===== *)
theory ApiFrames
  imports AccountRoutes AdminRoutes OrgRoutes "HOL-Library.Sublist"
begin

text \<open>
  What the services leave alone: all but those of the organizations keep the tables of organizations,
  members and invitations, and all but login and the webhook write nothing to the audit log
  themselves; those two only add to it.
\<close>

section \<open>Frames\<close>

definition still :: "db \<Rightarrow> db \<Rightarrow> bool" where
  "still d d' \<longleftrightarrow> organizations d' = organizations d \<and> members d' = members d \<and> invitations d' = invitations d
     \<and> auditLogs d' = auditLogs d"

definition quiet :: "db \<Rightarrow> db \<Rightarrow> bool" where
  "quiet d d' \<longleftrightarrow> organizations d' = organizations d \<and> members d' = members d \<and> invitations d' = invitations d
     \<and> prefix (auditLogs d) (auditLogs d')"

lemma still_quiet: "still d d' \<Longrightarrow> quiet d d'"
  by (simp add: still_def quiet_def)

lemma still_refl [simp]: "still d d"
  by (simp add: still_def)

lemma still_trans: "still d d1 \<Longrightarrow> still d1 d' \<Longrightarrow> still d d'"
  by (simp add: still_def)

lemma still_await:
  assumes "still d (snd r)" "\<And>v d1. r = (Inr v, d1) \<Longrightarrow> still d1 (snd (k v d1))"
  shows "still d (snd (await r k))"
  using assms by (cases r; cases "fst r") (auto simp: await_def intro: still_trans)

lemma quiet_refl [simp]: "quiet d d"
  by (simp add: quiet_def)

lemma quiet_trans: "quiet d d1 \<Longrightarrow> quiet d1 d' \<Longrightarrow> quiet d d'"
  unfolding quiet_def by (auto intro: prefix_order.order_trans)

lemmas still_simps = still_def Let_def await_def queueVerificationEmail_def queuePasswordResetEmail_def
  update_user_unique_def

section \<open>The services\<close>

lemma revokeSession_still [intro!]: "still d (snd (revokeSession now uid sid d))"
  unfolding revokeSession_def 
  by (simp_all add: still_simps split: option.split sum.split prod.split if_split)

lemma revokeAllSessions_still [intro!]: "still d (snd (revokeAllSessions now uid d))"
  unfolding revokeAllSessions_def revokeAllRefreshTokens_def
  by (simp_all add: still_simps split: option.split sum.split prod.split if_split)

lemma logout_still [intro!]: "still d (snd (logout E now uid tok d))"
  unfolding logout_def revokeAllRefreshTokens_def
  by (simp_all add: still_simps split: option.split sum.split prod.split if_split)

lemma createApiKey_still [intro!]: "still d (snd (createApiKey E now fr uid name scopes ex d))"
  unfolding createApiKey_def 
  by (simp_all add: still_simps split: option.split sum.split prod.split if_split)

lemma revokeApiKey_still [intro!]: "still d (snd (revokeApiKey now uid kid d))"
  unfolding revokeApiKey_def update_key_def
  by (simp_all add: still_simps split: option.split sum.split prod.split if_split)

lemma deleteApiKey_still [intro!]: "still d (snd (deleteApiKey now uid kid d))"
  unfolding deleteApiKey_def update_key_def
  by (simp_all add: still_simps split: option.split sum.split prod.split if_split)

lemma restoreApiKey_still [intro!]: "still d (snd (restoreApiKey now uid kid d))"
  unfolding restoreApiKey_def update_key_def
  by (simp_all add: still_simps split: option.split sum.split prod.split if_split)

lemma markAsRead_still [intro!]: "still d (snd (markAsRead now uid nid d))"
  unfolding markAsRead_def 
  by (simp_all add: still_simps split: option.split sum.split prod.split if_split)

lemma markAllAsRead_still [intro!]: "still d (snd (markAllAsRead now uid d))"
  unfolding markAllAsRead_def 
  by (simp_all add: still_simps split: option.split sum.split prod.split if_split)

lemma deleteNotification_still [intro!]: "still d (snd (deleteNotification uid nid d))"
  unfolding deleteNotification_def 
  by (simp_all add: still_simps split: option.split sum.split prod.split if_split)

lemma getPreferences_still [intro!]: "still d (snd (getPreferences now fr uid d))"
  unfolding getPreferences_def 
  by (simp_all add: still_simps split: option.split sum.split prod.split if_split)

lemma updatePreferences_still [intro!]: "still d (snd (updatePreferences now fr uid body d))"
  unfolding updatePreferences_def 
  by (simp_all add: still_simps split: option.split sum.split prod.split if_split)

lemma twofaSetup_still [intro!]: "still d (snd (twofaSetup E now secret iv uid d))"
  unfolding twofaSetup_def 
  by (simp_all add: still_simps split: option.split sum.split prod.split if_split)

lemma twofaEnable_still [intro!]: "still d (snd (twofaEnable E now codes uid code d))"
  unfolding twofaEnable_def revokeAllRefreshTokens_def
  by (simp_all add: still_simps split: option.split sum.split prod.split if_split)

lemma twofaDisable_still [intro!]: "still d (snd (twofaDisable E now uid pw d))"
  unfolding twofaDisable_def revokeAllRefreshTokens_def
  by (simp_all add: still_simps split: option.split sum.split prod.split if_split)

lemma changePassword_still [intro!]: "still d (snd (changePassword E now fr uid cur new d))"
  unfolding changePassword_def revokeAllRefreshTokens_def
  by (simp_all add: still_simps split: option.split sum.split prod.split if_split)

lemma changeEmail_still [intro!]: "still d (snd (changeEmail E now cl fr uid em pw d))"
  unfolding changeEmail_def 
  by (simp_all add: still_simps split: option.split sum.split prod.split if_split) (auto dest!: enqueueEmailD)

lemma verifyEmail_still [intro!]: "still d (snd (verifyEmail E now tok d))"
  unfolding verifyEmail_def 
  by (simp_all add: still_simps split: option.split sum.split prod.split if_split)

lemma resendVerification_still [intro!]: "still d (snd (resendVerification E now cl fr em d))"
  unfolding resendVerification_def 
  by (simp_all add: still_simps split: option.split sum.split prod.split if_split) (auto dest!: enqueueEmailD)

lemma forgotPassword_still [intro!]: "still d (snd (forgotPassword E now cl fr em d))"
  unfolding forgotPassword_def 
  by (simp_all add: still_simps split: option.split sum.split prod.split if_split) (auto dest!: enqueueEmailD)

lemma resetPassword_still [intro!]: "still d (snd (resetPassword E now fr tok new d))"
  unfolding resetPassword_def revokeAllRefreshTokens_def
  by (simp_all add: still_simps split: option.split sum.split prod.split if_split)

lemma refresh_still [intro!]: "still d (snd (refresh E now cl fr tok d))"
  unfolding refresh_def kill_family_def createRefreshTokenRecord_def
  by (simp_all add: still_simps split: option.split sum.split prod.split if_split)

lemma register_still [intro!]: "still d (snd (register E now cl fr name em pw d))"
  unfolding register_def createRefreshTokenRecord_def
  by (simp_all add: still_simps split: option.split sum.split prod.split if_split) (auto dest!: enqueueEmailD)

lemma createFlag_still [intro!]: "still d (snd (createFlag now fr key name desc ty v act d))"
  unfolding createFlag_def 
  by (simp_all add: still_simps split: option.split sum.split prod.split if_split)

lemma updateFlag_still [intro!]: "still d (snd (updateFlag now fid body d))"
  unfolding updateFlag_def 
  by (simp_all add: still_simps split: option.split sum.split prod.split if_split)

lemma deleteFlag_still [intro!]: "still d (snd (deleteFlag fid d))"
  unfolding deleteFlag_def 
  by (simp_all add: still_simps split: option.split sum.split prod.split if_split)

lemma setOverride_still [intro!]: "still d (snd (setOverride now fr fid oid en v d))"
  unfolding setOverride_def 
  by (simp_all add: still_simps split: option.split sum.split prod.split if_split)

lemma removeOverride_still [intro!]: "still d (snd (removeOverride fid oid d))"
  unfolding removeOverride_def 
  by (simp_all add: still_simps split: option.split sum.split prod.split if_split)

lemma updateUser_still [intro!]: "still d (snd (updateUser now uid p adm d))"
  unfolding updateUser_def 
  by (simp_all add: still_simps split: option.split sum.split prod.split if_split)

lemma deleteUser_still [intro!]: "still d (snd (deleteUser now uid adm d))"
  unfolding deleteUser_def deleteUser_write_def
  by (simp_all add: still_simps split: option.split sum.split prod.split if_split)

lemma restoreUser_still [intro!]: "still d (snd (restoreUser now uid d))"
  unfolding restoreUser_def 
  by (simp_all add: still_simps split: option.split sum.split prod.split if_split)

lemma cancelSubscription_still [intro!]: "still d (snd (cancelSubscription E S now uid d))"
  unfolding cancelSubscription_def cancel_current_def
  by (simp_all add: still_simps split: option.split sum.split prod.split if_split)

lemma cancelOrgSubscription_still [intro!]: "still d (snd (cancelOrgSubscription E S now oid d))"
  unfolding cancelOrgSubscription_def cancel_current_def
  by (simp_all add: still_simps split: option.split sum.split prod.split if_split)

lemma createRefreshTokenRecord_still [intro!]: "still d (snd (createRefreshTokenRecord E now cl fr uid d))"
  unfolding createRefreshTokenRecord_def by (simp add: still_simps split: sum.split)

lemma createChallenge_still [intro!]: "still d (snd (createChallenge E now fr uid d))"
  unfolding createChallenge_def by (simp add: still_simps split: sum.split)

lemma google_account_still: "still d (snd (google_account now fr gid em name d))"
  unfolding google_account_def google_create_def by (simp add: still_simps split: option.split sum.split)

lemma update_user_still [simp]: "still d (update_user now i f d)"
  by (simp add: still_def)

lemma snd_await_pure [simp]: "snd (await r (\<lambda>v d1. (Inr (f v), d1))) = snd r"
  by (cases r; cases "fst r") (simp_all add: await_def)

lemma new_token_still: "still d (snd (createRefreshTokenRecord E now cl fr uid (update_user n i f d)))"
  by (rule still_trans [OF update_user_still createRefreshTokenRecord_still])

lemma google_session_still: "still d (snd (google_session E now cl fr u d))"
  by (simp add: google_session_def Let_def createChallenge_still new_token_still)

lemma googleLogin_still [intro!]: "still d (snd (googleLogin E now cl fr code st d))"
  unfolding googleLogin_def
  by (auto split: sum.split intro!: still_await google_account_still google_session_still)

lemma challenge_failed_still: "still d (snd (challenge_failed c d))"
  by (simp add: challenge_failed_def Let_def still_def update_challenge_def)

lemma challenge_claim_still: "still d (snd (challenge_claim E now cl fr c u t h d))"
proof -
  have "still d (update_challenge p f d)" for p f by (simp add: still_def update_challenge_def)
  then have "still d (snd (createRefreshTokenRecord E now cl fr (u_id u)
      (update_user n i g (case h of None \<Rightarrow> update_challenge p f d
                          | Some x \<Rightarrow> update_user n j (k x) (update_challenge p f d)))))" for n i g j k p f
    by (cases h) (auto intro: still_trans [OF _ new_token_still] still_trans [OF _ update_user_still])
  with \<open>\<And>p f. still d (update_challenge p f d)\<close> show ?thesis
    unfolding challenge_claim_def Let_def by simp
qed

lemma verifyChallenge_still [intro!]: "still d (snd (verifyChallenge E now cl fr ct code d))"
  unfolding verifyChallenge_def Let_def
  by (auto simp: still_def [of d "d\<lparr>twoFactorChallenges := _\<rparr>"] challenge_failed_still challenge_claim_still split: option.split)

lemma resolveStripeCustomerId_still:
  "(\<And>i. still d (persist i d)) \<Longrightarrow> still d (snd (resolveStripeCustomerId S ex em nm md persist d))"
  by (simp add: resolveStripeCustomerId_def Let_def split: option.split customer_lookup.split)

lemma open_checkout_db [simp]: "snd (open_checkout S c p su cu md d) = d"
  by (simp add: open_checkout_def split: option.split)

lemma createCheckoutSession_still [intro!]: "still d (snd (createCheckoutSession E S now uid pid su cu d))"
  unfolding createCheckoutSession_def
  by (auto split: option.split intro!: still_await resolveStripeCustomerId_still simp: still_def [of d "update_user _ _ _ _"])

lemma reset_expired_lock_still: "still d (snd (reset_expired_lock now x d))"
  by (simp add: reset_expired_lock_def split: option.split)

lemma count_failed_login_still: "still d (count_failed_login now x locked d)"
  by (simp add: count_failed_login_def Let_def still_def split: option.split)

lemma login_failed_quiet: "quiet d (snd (login_failed E now cl em x locked d))"
  using count_failed_login_still [of d now x locked]
  by (simp add: login_failed_def quiet_def still_def auditLog_def)

lemma login_allowed_still: "still d (snd (login_allowed E now cl fr u d))"
  by (auto simp: login_allowed_def start_session_def Let_def createChallenge_still intro!: still_await)

lemma login_quiet [intro!]: "quiet d (snd (login E now cl fr em pw d))"
proof (cases "reset_expired_lock now (live_user_by_email (normalizeEmail em) d) d")
  case (Pair x d1)
  with reset_expired_lock_still have "quiet d d1" by (metis snd_conv still_quiet)
  then show ?thesis
    by (auto simp: login_def Let_def Pair intro: quiet_trans login_failed_quiet still_quiet [OF login_allowed_still])
qed

lemma upsertSubscription_quiet: "quiet d (snd (upsertSubscription E now fr uid oid pid sub created d))"
  unfolding upsertSubscription_def Let_def
  by (simp add: quiet_def auditLog_def split: option.split sum.split)

lemma dispatch_event_quiet: "quiet d (snd (dispatch_event E S now fr ev d))"
proof -
  have "quiet d (snd (handleSubscriptionDeleted E now sub d))" for sub
    by (simp add: handleSubscriptionDeleted_def Let_def quiet_def auditLog_def split: option.split)
  then show ?thesis
    unfolding dispatch_event_def handleCheckoutCompleted_def handleSubscriptionUpdated_def Let_def
    by (simp add: upsertSubscription_quiet split: event_object.split option.split)
qed

lemma handleWebhook_quiet [intro!]: "quiet d (snd (handleWebhook E S now fr raw sig d))"
proof -
  have "quiet d (snd (await (dispatch_event E S now fr ev (d\<lparr>webhookEvents := es\<rparr>)) (\<lambda>_ d1. (Inr x, d1))))" for ev es x
  proof -
    have "quiet d (d\<lparr>webhookEvents := es\<rparr>)" by (simp add: quiet_def)
    from quiet_trans [OF this dispatch_event_quiet] have
      "quiet d (snd (dispatch_event E S now fr ev (d\<lparr>webhookEvents := es\<rparr>)))" .
    then show ?thesis
      by (cases "dispatch_event E S now fr ev (d\<lparr>webhookEvents := es\<rparr>)"; cases "fst (dispatch_event E S now fr ev (d\<lparr>webhookEvents := es\<rparr>))")
        (simp_all add: await_def)
  qed
  then show ?thesis unfolding handleWebhook_def by (simp split: sum.split)
qed

end
