(* ===== verification/ApiInvariant.thy ===== *)
theory ApiInvariant
  imports Api ApiFrames
begin

text \<open>
  What every request of the server keeps, whichever router it goes to: one owner per organization, and
  an audit log that only grows.
\<close>

section \<open>Erasing an account keeps the other organizations\<close>

lemma org_by_id_iff:
  assumes "uniq org_clash (organizations d)"
  shows "org_by_id i d = Some x \<longleftrightarrow> x \<in> set (organizations d) \<and> o_id x = i"
proof
  have "distinct (map o_id (organizations d))"
    by (subst uniq_key_distinct [symmetric]) (rule uniq_mono [OF assms], simp add: org_clash_def)
  then show "x \<in> set (organizations d) \<and> o_id x = i \<Longrightarrow> org_by_id i d = Some x"
    unfolding org_by_id_def using distinct_map_find by fastforce
qed (auto dest: org_by_idD)

lemma membership_iff:
  assumes "uniq member_clash (members d)"
  shows "membership i u d = Some m \<longleftrightarrow> m \<in> set (members d) \<and> m_organizationId m = i \<and> m_userId m = u"
proof
  assume m: "m \<in> set (members d) \<and> m_organizationId m = i \<and> m_userId m = u"
  show "membership i u d = Some m"
  proof (cases "membership i u d")
    case None
    with m show ?thesis by (auto simp: membership_def find_first_None_iff)
  next
    case (Some k)
    from membershipD [OF this] m have "member_clash k m" by (simp add: member_clash_def)
    with member_ix.members_apart [OF assms membershipD(1) [OF Some]] m Some show ?thesis by simp
  qed
qed (auto dest: membershipD)

lemma cascade_org_inv:
  assumes "org_inv d"
  shows "org_inv (delete_user_cascade uid d)"
proof -
  note inv = org_invD [OF assms]
  let ?d = "delete_user_cascade uid d"
  define gone where "gone = o_id ` {x \<in> set (organizations d). o_ownerId x = uid}"
  have orgs: "set (organizations ?d) = {x \<in> set (organizations d). o_ownerId x \<noteq> uid}"
    and mems: "set (members ?d) = {m \<in> set (members d). m_userId m \<noteq> uid \<and> m_organizationId m \<notin> gone}"
    by (auto simp: delete_user_cascade_def Let_def gone_def)
  have u: "uniq org_clash (organizations ?d)" "uniq member_clash (members ?d)"
    using inv(2,3) by (auto simp: delete_user_cascade_def Let_def intro: org_ix.delete_keeps member_ix.delete_keeps)
  have lost: "i \<in> gone \<longleftrightarrow> ab_owner (org_abs d) i = Some uid" for i
    by (auto simp: gone_def ab_owner_org_abs org_by_id_iff [OF inv(3)])
  have owner: "ab_owner (org_abs ?d) i = Some w \<longleftrightarrow> ab_owner (org_abs d) i = Some w \<and> w \<noteq> uid" for i w
    by (auto simp: ab_owner_org_abs org_by_id_iff [OF inv(3)] org_by_id_iff [OF u(1)] orgs)
  have role: "ab_role (org_abs ?d) i w = Some r \<longleftrightarrow>
      ab_role (org_abs d) i w = Some r \<and> w \<noteq> uid \<and> ab_owner (org_abs d) i \<noteq> Some uid" for i w r
    unfolding lost [symmetric]
    by (auto simp: ab_role_org_abs membership_iff [OF inv(2)] membership_iff [OF u(2)] mems)
  show ?thesis
  proof (rule org_invI)
    show "one_owner (org_abs ?d)"
    proof (rule one_ownerI)
      fix i w assume "ab_owner (org_abs ?d) i = Some w"
      with one_ownerD(1) [OF inv(1)] show "ab_role (org_abs ?d) i w = Some OWNER"
        by (auto simp: owner role)
    next
      fix i w assume "ab_role (org_abs ?d) i w = Some OWNER"
      with one_ownerD(2) [OF inv(1)] show "ab_owner (org_abs ?d) i = Some w"
        by (auto simp: owner role)
    next
      fix i w r assume "ab_role (org_abs ?d) i w = Some r"
      then have "ab_owner (org_abs d) i \<noteq> None" "ab_owner (org_abs d) i \<noteq> Some uid"
        using one_ownerD(3) [OF inv(1)] by (auto simp: role)
      then show "ab_owner (org_abs ?d) i \<noteq> None" using owner by auto
    qed
    fix j assume "j \<in> set (invitations ?d)"
    then obtain k where k: "k \<in> set (invitations d)" "i_role j = i_role k" "i_organizationId j = i_organizationId k"
      "i_organizationId k \<notin> gone"
      by (auto simp: delete_user_cascade_def Let_def gone_def elim!: in_update_whereE)
    then have "ab_owner (org_abs d) (i_organizationId k) \<noteq> None"
      using inv(5) by (simp add: ab_owner_org_abs)
    with k(4) have "ab_owner (org_abs ?d) (i_organizationId k) \<noteq> None"
      using owner by (auto simp: lost)
    then have "org_by_id (i_organizationId k) ?d \<noteq> None" by (simp add: ab_owner_org_abs)
    with inv(4) [OF k(1)] k(2,3) show "i_role j \<noteq> OWNER \<and> org_by_id (i_organizationId j) ?d \<noteq> None" by simp
  qed (rule u)+
qed

section \<open>Quiet requests\<close>

lemma quiet_org_inv: "quiet d d' \<Longrightarrow> org_inv d \<Longrightarrow> org_inv d'"
  unfolding quiet_def by (blast intro: org_inv_frame)

lemma quiet_audit: "quiet d d1 \<Longrightarrow> quiet d (audit rq action u x oo m d1)"
  by (auto simp: quiet_def audit_def auditLog_def intro: prefix_order.order_trans)

lemma quiet_answer:
  assumes "quiet d (snd r)" "\<And>v d1. quiet d d1 \<Longrightarrow> quiet d (f v d1)"
  shows "quiet d (snd (answer st r f))"
  using assms by (cases r; cases "fst r") auto

lemma quiet_still_answer:
  assumes "still d (snd r)" "\<And>v d1. quiet d d1 \<Longrightarrow> quiet d (f v d1)"
  shows "quiet d (snd (answer st r f))"
  using quiet_answer [OF still_quiet [OF assms(1)] assms(2)] .

lemma quiet_signed_in: "(\<And>a. quiet d (snd (k a d))) \<Longrightarrow> quiet d (snd (outcome (signed_in rq k d)))"
  by (rule signed_in_cases [OF refl, of rq k d]) simp_all

lemma quiet_as_admin: "(\<And>a. quiet d (snd (k a d))) \<Longrightarrow> quiet d (snd (outcome (as_admin rq k d)))"
  by (rule as_admin_cases [OF refl, of rq k d]) simp_all

lemma quiet_with_org_role:
  "(\<And>a t. quiet d (snd (k a t d))) \<Longrightarrow> quiet d (snd (outcome (with_org_role rq roles orgId k d)))"
  by (rule with_org_role_cases [OF refl, of rq roles orgId k d]) simp_all

lemmas quiet_intros = quiet_signed_in quiet_as_admin quiet_with_org_role quiet_still_answer quiet_audit

lemma quiet_outcome: "quiet d (snd r) \<Longrightarrow> quiet d (snd (outcome r))"
  by simp

lemmas service_still = revokeSession_still revokeAllSessions_still logout_still createApiKey_still
  revokeApiKey_still deleteApiKey_still restoreApiKey_still markAsRead_still deleteNotification_still
  getPreferences_still updatePreferences_still twofaSetup_still twofaEnable_still twofaDisable_still
  changePassword_still changeEmail_still verifyEmail_still resendVerification_still forgotPassword_still
  resetPassword_still refresh_still register_still createFlag_still updateFlag_still deleteFlag_still
  setOverride_still removeOverride_still updateUser_still deleteUser_still restoreUser_still
  cancelSubscription_still cancelOrgSubscription_still createCheckoutSession_still googleLogin_still
  verifyChallenge_still

lemma auth_router_quiet: "quiet d (snd (auth_router rq q d))"
proof (cases q)
  case (Login email password)
  show ?thesis unfolding Login auth_router.simps login_ctrl_def
    by (intro quiet_outcome quiet_answer login_quiet) (auto split: login_outcome.split intro: quiet_audit)
next
  case (Register name email password)
  show ?thesis unfolding Register auth_router.simps register_ctrl_def
    by (rule quiet_outcome quiet_intros service_still | assumption)+
next
  case (VerifyTwoFactor token code)
  show ?thesis unfolding VerifyTwoFactor auth_router.simps verifyTwoFactor_ctrl_def
    by (rule quiet_outcome quiet_intros service_still | assumption)+
next
  case (Refresh token)
  show ?thesis unfolding Refresh auth_router.simps 
    by (rule quiet_outcome quiet_intros service_still | assumption)+
next
  case (VerifyEmail token)
  show ?thesis unfolding VerifyEmail auth_router.simps 
    by (rule quiet_outcome quiet_intros service_still | assumption)+
next
  case (ResendVerification email)
  show ?thesis unfolding ResendVerification auth_router.simps 
    by (rule quiet_outcome quiet_intros service_still | assumption)+
next
  case (ForgotPassword email)
  show ?thesis unfolding ForgotPassword auth_router.simps 
    by (rule quiet_outcome quiet_intros service_still | assumption)+
next
  case (ResetPassword token new)
  show ?thesis unfolding ResetPassword auth_router.simps 
    by (rule quiet_outcome quiet_intros service_still | assumption)+
next
  case SetupTwoFactor
  show ?thesis unfolding SetupTwoFactor auth_router.simps setupTwoFactor_ctrl_def
    by (rule quiet_outcome quiet_intros service_still | assumption)+
next
  case (EnableTwoFactor code)
  show ?thesis unfolding EnableTwoFactor auth_router.simps enableTwoFactor_ctrl_def
    by (rule quiet_outcome quiet_intros service_still | assumption)+
next
  case (DisableTwoFactor password)
  show ?thesis unfolding DisableTwoFactor auth_router.simps disableTwoFactor_ctrl_def
    by (rule quiet_outcome quiet_intros service_still | assumption)+
next
  case (ChangePassword cur new)
  show ?thesis unfolding ChangePassword auth_router.simps changePassword_ctrl_def
    by (rule quiet_outcome quiet_intros service_still | assumption)+
next
  case (ChangeEmail new password)
  show ?thesis unfolding ChangeEmail auth_router.simps changeEmail_ctrl_def
    by (rule quiet_outcome quiet_intros service_still | assumption)+
next
  case (Logout token)
  show ?thesis unfolding Logout auth_router.simps logout_ctrl_def
    by (rule quiet_outcome quiet_intros service_still | assumption)+
next
  case (GoogleSignIn code state)
  show ?thesis unfolding GoogleSignIn auth_router.simps googleLogin_ctrl_def
    by (intro quiet_outcome quiet_still_answer googleLogin_still) (auto split: login_outcome.split intro: quiet_audit)
qed

lemma own_router_quiet: "quiet d (snd (own_router rq q d))"
proof (cases q)
  case ReadAllNotifications
  have "quiet d (snd (markAllAsRead_ctrl rq a d))" for a
    using still_quiet [OF markAllAsRead_still] by (simp add: markAllAsRead_ctrl_def split: prod.split) (metis snd_conv)
  then show ?thesis unfolding ReadAllNotifications own_router.simps by (rule quiet_signed_in)
next
  case (RevokeSession i)
  show ?thesis unfolding RevokeSession own_router.simps revokeSession_ctrl_def
    by (rule quiet_outcome quiet_intros service_still | assumption)+
next
  case RevokeAllSessions
  show ?thesis unfolding RevokeAllSessions own_router.simps revokeAllSessions_ctrl_def
    by (rule quiet_outcome quiet_intros service_still | assumption)+
next
  case (PostApiKey name scopes ex)
  show ?thesis unfolding PostApiKey own_router.simps createApiKey_ctrl_def
    by (rule quiet_outcome quiet_intros service_still | assumption)+
next
  case (RevokeApiKey i)
  show ?thesis unfolding RevokeApiKey own_router.simps revokeApiKey_ctrl_def
    by (rule quiet_outcome quiet_intros service_still | assumption)+
next
  case (DeleteApiKey i)
  show ?thesis unfolding DeleteApiKey own_router.simps deleteApiKey_ctrl_def
    by (rule quiet_outcome quiet_intros service_still | assumption)+
next
  case (RestoreApiKey i)
  show ?thesis unfolding RestoreApiKey own_router.simps restoreApiKey_ctrl_def
    by (rule quiet_outcome quiet_intros service_still | assumption)+
next
  case (ReadNotification i)
  show ?thesis unfolding ReadNotification own_router.simps markAsRead_ctrl_def
    by (rule quiet_outcome quiet_intros service_still | assumption)+
next
  case (DeleteNotification i)
  show ?thesis unfolding DeleteNotification own_router.simps deleteNotification_ctrl_def
    by (rule quiet_outcome quiet_intros service_still | assumption)+
next
  case GetPreferences
  show ?thesis unfolding GetPreferences own_router.simps getPreferences_ctrl_def
    by (rule quiet_outcome quiet_intros service_still | assumption)+
next
  case (PatchPreferences body)
  show ?thesis unfolding PatchPreferences own_router.simps updatePreferences_ctrl_def
    by (rule quiet_outcome quiet_intros service_still | assumption)+
qed

lemma admin_router_quiet: "quiet d (snd (admin_router rq q d))"
proof (cases q)
  case (PatchUser i body untilText)
  show ?thesis unfolding PatchUser admin_router.simps updateUser_ctrl_def Let_def
    by (intro quiet_as_admin quiet_still_answer updateUser_still)
      (auto split: option.split bool.split intro!: quiet_audit)
next
  case (DeleteUser i)
  show ?thesis unfolding DeleteUser admin_router.simps deleteUser_ctrl_def
    by (rule quiet_outcome quiet_intros service_still | assumption)+
next
  case (RestoreUser i)
  show ?thesis unfolding RestoreUser admin_router.simps restoreUser_ctrl_def
    by (rule quiet_outcome quiet_intros service_still | assumption)+
next
  case (PostFlag k n de ty v a)
  show ?thesis unfolding PostFlag admin_router.simps createFlag_ctrl_def
    by (rule quiet_outcome quiet_intros service_still | assumption)+
next
  case (PatchFlag i b)
  show ?thesis unfolding PatchFlag admin_router.simps updateFlag_ctrl_def
    by (rule quiet_outcome quiet_intros service_still | assumption)+
next
  case (DeleteFlag i)
  show ?thesis unfolding DeleteFlag admin_router.simps deleteFlag_ctrl_def
    by (rule quiet_outcome quiet_intros service_still | assumption)+
next
  case (PostOverride i oi en v)
  show ?thesis unfolding PostOverride admin_router.simps setOverride_ctrl_def
    by (rule quiet_outcome quiet_intros service_still | assumption)+
next
  case (DeleteOverride i oi)
  show ?thesis unfolding DeleteOverride admin_router.simps removeOverride_ctrl_def
    by (rule quiet_outcome quiet_intros service_still | assumption)+
qed

lemma project_router_quiet: "quiet d (snd (project_router rq q d))"
proof -
  have "quiet d (project_audit E now cl act a t m (d\<lparr>projects := ps\<rparr>))" for E now cl act a t m ps
    by (simp add: quiet_def project_audit_def auditLog_def)
  then show ?thesis
    by (cases q)
      (auto simp: POST_project_def PATCH_project_def DELETE_project_def createProject_def updateProject_def
        deleteProject_def await_def Let_def split: sum.split prod.split)
qed

section \<open>The routers that write to the organizations\<close>

text \<open>A checkout of an organization stores its customer id in the organization's row.\<close>

lemma createOrgCheckoutSession_effect:
  "snd (createOrgCheckoutSession E S now orgId pid su cu d) = d
   \<or> (\<exists>i. snd (createOrgCheckoutSession E S now orgId pid su cu d) =
         update_org now orgId (\<lambda>x. x\<lparr>o_stripeCustomerId := Some i\<rparr>) d)"
proof -
  have res: "snd (resolveStripeCustomerId S ex em nm md g d) = d
      \<or> (\<exists>i. snd (resolveStripeCustomerId S ex em nm md g d) = g i d)" for ex em nm md g
    by (auto simp: resolveStripeCustomerId_def Let_def split: option.split customer_lookup.split)
  have pure: "snd (await r (\<lambda>c d1. open_checkout S c p su cu m d1)) = snd r" for r p m
    by (cases r; cases "fst r") (simp_all add: await_def)
  show ?thesis
  proof (cases "snd (createOrgCheckoutSession E S now orgId pid su cu d) = d")
    case False
    then obtain x :: organization and w :: user where "snd (createOrgCheckoutSession E S now orgId pid su cu d) =
        snd (resolveStripeCustomerId S (o_stripeCustomerId x) (Some (u_email w)) (Some (o_name x))
          \<lparr>md_userId = None, md_organizationId = Some (o_id x), md_planId = None\<rparr>
          (\<lambda>i. update_org now orgId (\<lambda>x. x\<lparr>o_stripeCustomerId := Some i\<rparr>)) d)"
      unfolding createOrgCheckoutSession_def by (auto simp: pure split: option.splits if_splits)
    with res show ?thesis by metis
  qed simp
qed

lemma createOrgCheckoutSession_keeps:
  assumes "org_inv d"
  shows "org_inv (snd (createOrgCheckoutSession E S now orgId pid su cu d))"
  using createOrgCheckoutSession_effect [of E S now orgId pid su cu d] assms
  by (elim disjE exE) (simp_all add: update_org_inv)

lemma createOrgCheckoutSession_logs:
  "auditLogs (snd (createOrgCheckoutSession E S now orgId pid su cu d)) = auditLogs d"
  using createOrgCheckoutSession_effect [of E S now orgId pid su cu d]
  by (elim disjE exE) (simp_all add: update_org_def)

lemma org_inv_audit [intro]: "org_inv d \<Longrightarrow> org_inv (audit rq action u x oo m d)"
  unfolding audit_def by (rule auditLog_org_inv)

lemma answer_org_inv:
  "org_inv (snd r) \<Longrightarrow> (\<And>v d1. org_inv d1 \<Longrightarrow> org_inv (f v d1)) \<Longrightarrow> org_inv (snd (answer st r f))"
  by (cases r; cases "fst r") auto

lemma signed_in_org_inv:
  "org_inv d \<Longrightarrow> (\<And>a. org_inv (snd (k a d))) \<Longrightarrow> org_inv (snd (outcome (signed_in rq k d)))"
  by (rule signed_in_cases [OF refl, of rq k d]) simp_all

lemma with_org_role_org_inv:
  "org_inv d \<Longrightarrow> (\<And>a t. org_inv (snd (k a t d))) \<Longrightarrow> org_inv (snd (outcome (with_org_role rq roles orgId k d)))"
  by (rule with_org_role_cases [OF refl, of rq roles orgId k d]) simp_all

lemma billing_router_keeps:
  assumes "org_inv d"
  shows "org_inv (snd (billing_router S rq q d))"
proof (cases q)
  case (OrgCheckout orgId pid su cu)
  show ?thesis unfolding OrgCheckout billing_router.simps createOrgCheckout_ctrl_def
    by (intro with_org_role_org_inv answer_org_inv createOrgCheckoutSession_keeps org_inv_audit assms)
next
  case (Webhook body signature)
  have "quiet d (snd (billing_router S rq q d))"
    unfolding Webhook billing_router.simps webhook_ctrl_def
    by (intro quiet_outcome quiet_answer handleWebhook_quiet)
  with assms show ?thesis by (rule quiet_org_inv [rotated])
next
  case (Checkout pid su cu)
  have "quiet d (snd (billing_router S rq q d))"
    unfolding Checkout billing_router.simps createCheckout_ctrl_def
    by (rule quiet_intros service_still | assumption)+
  with assms show ?thesis by (rule quiet_org_inv [rotated])
next
  case (Portal u)
  have "quiet d (snd (billing_router S rq q d))"
    unfolding Portal billing_router.simps createPortal_ctrl_def
    by (intro quiet_intros) (simp_all add: still_def)
  with assms show ?thesis by (rule quiet_org_inv [rotated])
next
  case (OrgPortal orgId u)
  have "quiet d (snd (billing_router S rq q d))"
    unfolding OrgPortal billing_router.simps createOrgPortal_ctrl_def
    by (intro quiet_intros) (simp_all add: still_def)
  with assms show ?thesis by (rule quiet_org_inv [rotated])
next
  case CancelSubscription
  have "quiet d (snd (billing_router S rq q d))"
    unfolding CancelSubscription billing_router.simps cancelSubscription_ctrl_def
    by (rule quiet_intros service_still | assumption)+
  with assms show ?thesis by (rule quiet_org_inv [rotated])
next
  case (CancelOrgSubscription orgId)
  have "quiet d (snd (billing_router S rq q d))"
    unfolding CancelOrgSubscription billing_router.simps cancelOrgSubscription_ctrl_def
    by (rule quiet_intros service_still | assumption)+
  with assms show ?thesis by (rule quiet_org_inv [rotated])
qed

lemma deleteAccount_org_inv:
  assumes "org_inv d"
  shows "org_inv (snd (deleteAccount E cancel uid pw d))"
proof (cases "fst (deleteAccount E cancel uid pw d)")
  case (Inl e)
  then have "snd (deleteAccount E cancel uid pw d) = d"
    by (auto simp: deleteAccount_def split: option.splits if_splits)
  with assms show ?thesis by simp
next
  case (Inr r)
  then have "deleteAccount E cancel uid pw d = (Inr r, snd (deleteAccount E cancel uid pw d))"
    by (simp add: prod_eq_iff)
  from deleteAccount_InrD [OF this] have "snd (deleteAccount E cancel uid pw d) = delete_user_cascade uid d"
    by blast
  with cascade_org_inv [OF assms] show ?thesis by simp
qed

lemma gdpr_router_keeps:
  assumes "org_inv d"
  shows "org_inv (snd (gdpr_router cancel rq q d))"
proof (cases q)
  case (PostDataExport password)
  show ?thesis unfolding PostDataExport gdpr_router.simps exportData_ctrl_def
    by (intro signed_in_org_inv answer_org_inv) (use assms in auto)
next
  case (DeleteAccount password)
  show ?thesis unfolding DeleteAccount gdpr_router.simps deleteAccount_ctrl_def
    by (intro signed_in_org_inv answer_org_inv deleteAccount_org_inv) (use assms in auto)
qed

lemma authenticateApiKey_still: "still d (snd (authenticateApiKey E now raw d))"
proof -
  have "still d (snd (verifyApiKey E now raw d))"
    by (simp add: verifyApiKey_def update_key_def still_def split: option.split)
  then show ?thesis
    unfolding authenticateApiKey_def by (auto intro!: still_await split: option.split)
qed

lemma key_guards_still: "still d (snd (key_guards E now raw orgId d))"
  unfolding key_guards_def by (rule still_await [OF authenticateApiKey_still]) (simp split: prod.split sum.split)

lemma integration_router_still: "still d (snd (integration_router rq q d))"
proof (cases q)
  case (KeyProjects orgId lq st)
  show ?thesis
    unfolding KeyProjects integration_router.simps snd_outcome snd_answer_id KEY_projects_def
    by (rule still_await [OF key_guards_still]) simp
next
  case (KeyProject orgId i)
  show ?thesis
    unfolding KeyProject integration_router.simps snd_outcome snd_answer_id KEY_project_def
    by (rule still_await [OF key_guards_still]) simp
qed

text \<open>One request of the server, and the requests of its lifetime.\<close>

definition api_step :: "stripe_api \<Rightarrow> db \<Rightarrow> db \<Rightarrow> bool" where
  "api_step S d d' \<longleftrightarrow> (\<exists>rq q. d' = snd (api S rq q d))"

lemma api_step_inv:
  assumes "api_step S d d'" "org_inv d"
  shows "org_inv d'"
proof -
  from assms(1) obtain rq q where d': "d' = snd (api S rq q d)" by (auto simp: api_step_def)
  show ?thesis
  proof (cases q)
    case (AuthRequest r)
    with auth_router_quiet assms(2) show ?thesis by (auto simp: d' intro: quiet_org_inv)
  next
    case (OwnRequest r)
    with own_router_quiet assms(2) show ?thesis by (auto simp: d' intro: quiet_org_inv)
  next
    case (OrgRequest r)
    from org_requests.run_keeps [OF org_router_refines assms(2)] show ?thesis by (simp add: d' OrgRequest)
  next
    case (AdminRequest r)
    with admin_router_quiet assms(2) show ?thesis by (auto simp: d' intro: quiet_org_inv)
  next
    case (GdprRequest r)
    with gdpr_router_keeps [OF assms(2)] show ?thesis by (simp add: d')
  next
    case (BillingRequest r)
    with billing_router_keeps [OF assms(2)] show ?thesis by (simp add: d')
  next
    case (ProjectRequest r)
    with project_router_quiet assms(2) show ?thesis by (auto simp: d' intro: quiet_org_inv)
  next
    case (IntegrationRequest r)
    from quiet_org_inv [OF still_quiet [OF integration_router_still] assms(2)] show ?thesis
      by (simp add: d' IntegrationRequest)
  next
    case (ReadRequest r)
    with assms(2) show ?thesis by (simp add: d')
  qed
qed

interpretation server: step_system "api_step S" org_inv
  by unfold_locales (rule api_step_inv)

text \<open>C1: Whatever requests reach the server, in any order and for any routers, signing in, billing and the
  erasure of accounts included, every organization has exactly one member with the role \<open>OWNER\<close>, the
  user its row names.\<close>

theorem server_ownership:
  assumes "(api_step S)\<^sup>*\<^sup>* empty_db d" "x \<in> set (organizations d)"
  shows "\<exists>m. {m' \<in> set (members d). m_organizationId m' = o_id x \<and> m_role m' = OWNER} = {m}
    \<and> m_userId m = o_ownerId x"
proof -
  have "org_inv empty_db"
    by (simp add: org_inv_def one_owner_def org_abs_def empty_db_def org_by_id_def membership_def)
  with assms(1) have "org_inv d" by (rule server.run_keeps)
  then show ?thesis using assms(2) by (rule org_inv_owner_row)
qed

definition demo_request :: "string \<Rightarrow> request" where
  "demo_request i = \<lparr>rq_env = demo_env, rq_now = 5, rq_client = demo_client, rq_fresh = demo_fresh i,
     rq_authorization = Some ''Bearer Ax'', rq_apiKey = None, rq_secret = [], rq_iv = [], rq_codes = []\<rparr>"

definition demo_registered :: db where
  "demo_registered =
     snd (api demo_stripe (demo_request ''u1'') (AuthRequest (Register ''Ada'' ''a@x'' ''pw'')) empty_db)"

definition demo_founded :: db where
  "demo_founded =
     snd (api demo_stripe (demo_request ''o1'') (OrgRequest (PostOrganization ''Org'' ''org'')) demo_registered)"

lemma demo_founded_run: "(api_step demo_stripe)\<^sup>*\<^sup>* empty_db demo_founded"
proof -
  have "api_step demo_stripe empty_db demo_registered" "api_step demo_stripe demo_registered demo_founded"
    unfolding api_step_def demo_registered_def demo_founded_def by blast+
  then show ?thesis by (meson r_into_rtranclp rtranclp_trans)
qed

theorem server_ownership_witness:
  "\<exists>x m. map o_slug (organizations demo_founded) = [''org''] \<and> x \<in> set (organizations demo_founded)
     \<and> {m' \<in> set (members demo_founded). m_organizationId m' = o_id x \<and> m_role m' = OWNER} = {m}
     \<and> m_userId m = o_ownerId x"
proof -
  have slugs: "map o_slug (organizations demo_founded) = [''org'']" by code_simp
  then obtain x where x: "x \<in> set (organizations demo_founded)" by (cases "organizations demo_founded") auto
  from server_ownership [OF demo_founded_run x] obtain m where
    "{m' \<in> set (members demo_founded). m_organizationId m' = o_id x \<and> m_role m' = OWNER} = {m}"
    "m_userId m = o_ownerId x" by (elim exE conjE)
  with slugs x show ?thesis by (intro exI conjI)
qed

end
