(* ===== verification/ApiAudit.thy ===== *)
theory ApiAudit
  imports ApiInvariant
begin

text \<open>
  What every request writes to the audit log: the entries it owes, one by one and in their order, and whom
  they name.  The insert of an entry is not awaited and its failure is only logged, so an entry that is owed
  may be missing: exactly when the database refuses its row (\<open>audit_insert\<close>).
\<close>

section \<open>The organization services write no entry themselves\<close>















section \<open>Entries\<close>

text \<open>These entries: their actions with the account each is about, in this order, written by this user now.\<close>

type_synonym written = "(audit_action \<times> string option) list"

definition by_user :: "request \<Rightarrow> string option \<Rightarrow> written \<Rightarrow> audit_log list \<Rightarrow> bool" where
  "by_user rq uid acts es \<longleftrightarrow>
     map (\<lambda>e. (a_action e, a_targetUserId e)) es = acts
   \<and> list_all (\<lambda>e. a_userId e = uid \<and> a_createdAt e = rq_now rq) es"

text \<open>What is in the log when the request asked for these entries: those the database took.\<close>

definition stored :: "request \<Rightarrow> audit_log list \<Rightarrow> audit_log list" where
  "stored rq es = filter (audit_insert (rq_env rq)) es"



lemma by_user_Nil [simp]: "by_user rq uid acts [] \<longleftrightarrow> acts = []"
  by (auto simp: by_user_def)


lemma by_user_entry [simp]: "by_user rq uid [(action, t)] [audit_entry rq action uid t oo m]"
  by (simp add: by_user_def audit_entry_def)

lemma stored_simps [simp]: "stored rq [] = []" "stored rq (es @ es') = stored rq es @ stored rq es'"
  by (simp_all add: stored_def)













section \<open>What a request has to leave behind\<close>































section \<open>Signing in\<close>























section \<open>The webhook and the erasure\<close>




lemma sub_audit_target [simp]: "ad_targetUserId (sub_audit u oo sub) = None"
  by (simp add: sub_audit_def no_audit_data_def)









end
