(* ===== verification/Zod.thy ===== *)
theory Zod
  imports Responses FeatureFlags
begin

text \<open>
  The request schemas as data.  What a schema admits is Zod's; the model keeps how the code builds a
  schema and the refinements the code writes itself: \<open>isAppOrigin\<close> of \<open>billing.schema.js\<close>,
  the two kinds of \<open>refine\<close> on a body, and the \<open>superRefine\<close> of \<open>featureflag.schema.js\<close>.
\<close>

section \<open>Schemas\<close>

text \<open>A check on a string or a number, with the message it was given.\<close>

datatype string_refinement = IsAppOrigin

datatype zod_check =
    AtLeast nat "string option"
  | AtMost nat "string option"
  | Pattern string "string option"
  | DateTime
  | Url "string option"
  | IsInt
  | Refined string_refinement "string option"

text \<open>A refinement of an object.\<close>

datatype object_check =
    AnyField string
  | NameOrSlug string
  | FlagValue

text \<open>\<open>ZNumber True\<close> is \<open>z.coerce.number()\<close>; \<open>ZTransform\<close> a schema piped into a \<open>transform\<close>.\<close>

datatype zod =
    ZString "zod_check list"
  | ZEmail "string option"
  | ZEnum "string list"
  | ZNumber bool "zod_check list"
  | ZBoolean
  | ZAny
  | ZUnknown
  | ZArray zod
  | ZRecord zod zod
  | ZObject "(string \<times> zod) list" "object_check list"
  | ZOptional zod
  | ZNullable zod
  | ZDefault zod json
  | ZTransform zod

text \<open>\<open>schema.extend(fields)\<close>\<close>

definition extend_schema :: "zod \<Rightarrow> (string \<times> zod) list \<Rightarrow> zod" where
  "extend_schema s props =
     (case s of
        ZObject shape cs \<Rightarrow> ZObject (foldl (\<lambda>sh (k, v). obj_put k v sh) shape props) cs
      | _ \<Rightarrow> s)"

text \<open>\<open>src/utils/query.schema.js\<close>\<close>

definition listQuerySchema :: "string list \<Rightarrow> string \<Rightarrow> (string \<times> zod) list \<Rightarrow> zod" where
  "listQuerySchema allowedFields defaultSort extra =
     ZObject
       ([(''page'', ZDefault (ZNumber True [IsInt, AtLeast 1 None]) (JNum 1)),
         (''limit'', ZDefault (ZNumber True [IsInt, AtLeast 1 None, AtMost 100 None]) (JNum 20)),
         (''sort'', ZDefault (ZEnum allowedFields) (JStr defaultSort)),
         (''order'', ZDefault (ZEnum [''asc'', ''desc'']) (JStr ''desc''))] @ extra) []"

section \<open>Refinements\<close>

text \<open>\<open>process.env.APP_URL || 'http://localhost:3000'\<close>\<close>

definition app_base :: "string option \<Rightarrow> string" where
  "app_base app_url = (if truthy app_url then the app_url else ''http://localhost:3000'')"

text \<open>
  \<open>isAppOrigin\<close>: \<open>origin\<close> is \<open>new URL(url).origin\<close>, nothing where the constructor throws.
\<close>

definition isAppOrigin :: "(string \<Rightarrow> string option) \<Rightarrow> string option \<Rightarrow> string \<Rightarrow> bool" where
  "isAppOrigin origin app_url url =
     (case (origin url, origin (app_base app_url)) of
        (Some a, Some b) \<Rightarrow> a = b
      | _ \<Rightarrow> False)"

text \<open>\<open>Object.keys(v).length > 0\<close>; it throws on null.\<close>

definition has_keys :: "json \<Rightarrow> bool result" where
  "has_keys v =
     (case v of
        JNull \<Rightarrow> Inl (OtherError ''TypeError'')
      | JStr s \<Rightarrow> Inr (s \<noteq> [])
      | JArr xs \<Rightarrow> Inr (xs \<noteq> [])
      | JObj kvs \<Rightarrow> Inr (kvs \<noteq> [])
      | _ \<Rightarrow> Inr False)"

definition flag_issue :: "string \<Rightarrow> issue" where
  "flag_issue msg = \<lparr>issue_path = [PathKey ''body'', PathKey ''value''], issue_message = msg\<rparr>"

text \<open>The three branches of the \<open>superRefine\<close>; the path of an issue is relative to the refined object.\<close>

definition boolean_flag_issues :: "json \<Rightarrow> issue list result" where
  "boolean_flag_issues v =
     (if (case js_prop v ''enabled'' of Some (JBool _) \<Rightarrow> True | _ \<Rightarrow> False) then Inr []
      else
        (case has_keys v of
           Inl e \<Rightarrow> Inl e
         | Inr some_key \<Rightarrow> Inr (if some_key then [flag_issue ''validation.booleanFlagFormat''] else [])))"

definition percentage_flag_issues :: "json \<Rightarrow> issue list" where
  "percentage_flag_issues v =
     (case js_prop v ''percentage'' of
        None \<Rightarrow> []
      | Some (JNum p) \<Rightarrow> (if p < 0 \<or> p > 100 then [flag_issue ''validation.percentageFlagFormat''] else [])
      | Some _ \<Rightarrow> [flag_issue ''validation.percentageFlagFormat''])"

definition plan_flag_issues :: "json \<Rightarrow> issue list" where
  "plan_flag_issues v =
     (case js_prop v ''plans'' of
        None \<Rightarrow> []
      | Some (JArr ps) \<Rightarrow>
          (if list_all (\<lambda>p. case p of JStr _ \<Rightarrow> True | _ \<Rightarrow> False) ps then []
           else [flag_issue ''validation.planFlagFormat''])
      | Some _ \<Rightarrow> [flag_issue ''validation.planFlagFormat''])"

definition flag_value_issues :: "flag_type \<Rightarrow> json \<Rightarrow> issue list result" where
  "flag_value_issues ty v =
     (case ty of
        FLAG_BOOLEAN \<Rightarrow> boolean_flag_issues v
      | FLAG_PERCENTAGE \<Rightarrow> Inr (percentage_flag_issues v)
      | FLAG_PLAN \<Rightarrow> Inr (plan_flag_issues v))"

text \<open>The issues of a refinement on the parsed object \<open>data\<close>.\<close>

definition object_issue :: "string \<Rightarrow> issue" where
  "object_issue msg = \<lparr>issue_path = [], issue_message = msg\<rparr>"

fun flag_type_of :: "json option \<Rightarrow> flag_type option" where
  "flag_type_of (Some (JStr t)) =
     (if t = ''BOOLEAN'' then Some FLAG_BOOLEAN else if t = ''PERCENTAGE'' then Some FLAG_PERCENTAGE
      else if t = ''PLAN'' then Some FLAG_PLAN else None)"
| "flag_type_of _ = None"

fun object_issues :: "object_check \<Rightarrow> (string \<times> json) list \<Rightarrow> issue list result" where
  "object_issues (AnyField msg) data = Inr (if data \<noteq> [] then [] else [object_issue msg])"
| "object_issues (NameOrSlug msg) data =
     Inr (if map_of data ''name'' \<noteq> None \<or> map_of data ''slug'' \<noteq> None then [] else [object_issue msg])"
| "object_issues FlagValue data =
     (case (flag_type_of (map_of data ''type''), map_of data ''value'') of
        (Some ty, Some v) \<Rightarrow> flag_value_issues ty v
      | _ \<Rightarrow> Inr [])"

text \<open>What an issue of the body becomes: its path starts at the request.\<close>

definition body_issue :: "issue \<Rightarrow> issue" where
  "body_issue i = i\<lparr>issue_path := PathKey ''body'' # issue_path i\<rparr>"

section \<open>Redirects stay on the application's origin\<close>

lemma isAppOrigin_iff:
  "isAppOrigin origin app_url url \<longleftrightarrow>
     origin url \<noteq> None \<and> origin url = origin (app_base app_url)"
  by (auto simp: isAppOrigin_def split: option.splits)

section \<open>A flag that was accepted can be evaluated\<close>

text \<open>What the value of a flag means, by its type.\<close>

definition flag_spec :: "flag_type \<Rightarrow> json \<Rightarrow> string option \<Rightarrow> nat \<Rightarrow> bool" where
  "flag_spec ty v plan bucket =
     (case ty of
        FLAG_BOOLEAN \<Rightarrow> js_prop v ''enabled'' = Some (JBool True)
      | FLAG_PERCENTAGE \<Rightarrow> (\<exists>p. js_prop v ''percentage'' = Some (JNum p) \<and> 0 < p \<and> of_nat bucket < p)
      | FLAG_PLAN \<Rightarrow>
          js_prop v ''plans'' \<in> {None, Some (JArr [])}
        \<or> (\<exists>ps p. js_prop v ''plans'' = Some (JArr ps) \<and> plan = Some p \<and> p \<noteq> [] \<and> JStr p \<in> set ps))"

lemma bucket_bound: "deterministicBucket E key orgId < 100"
  by (simp add: deterministicBucket_def)

lemma boolean_flag_ok:
  assumes "boolean_flag_issues v = Inr []"
  shows "case js_prop v ''enabled'' of None \<Rightarrow> True | Some x \<Rightarrow> \<exists>b. x = JBool b"
proof (cases "js_prop v ''enabled''")
  case (Some x)
  then obtain kvs where "v = JObj kvs" by (cases v) (auto simp: js_prop_def)
  with Some assms show ?thesis
    by (cases x) (auto simp: boolean_flag_issues_def has_keys_def js_prop_def split: if_splits)
qed simp

text \<open>A flag whose value passed the check of its creation evaluates without an error for every
  organization and plan, and to what its type promises: a boolean flag to its \<open>enabled\<close>, a rollout to
  whether the organization's bucket lies below the percentage, a plan flag to whether the plan is listed
  or no plan is required.\<close>

theorem created_flag_evaluates:
  assumes "flag_value_issues ty v = Inr []"
  shows "evaluateByType E ty v enabled plan key orgId =
     Inr (enabled \<and> flag_spec ty v plan
       (deterministicBucket E key (case orgId of None \<Rightarrow> ''global'' | Some i \<Rightarrow> i)))"
proof (cases ty)
  case FLAG_BOOLEAN
  with assms boolean_flag_ok [of v] show ?thesis
    by (auto simp: flag_value_issues_def evaluateByType_def flag_spec_def js_truthy_def split: option.splits)
next
  case FLAG_PERCENTAGE
  let ?b = "deterministicBucket E key (case orgId of None \<Rightarrow> ''global'' | Some i \<Rightarrow> i)"
  have b: "?b < 100" by (rule bucket_bound)
  show ?thesis
  proof (cases "js_prop v ''percentage''")
    case None
    with FLAG_PERCENTAGE show ?thesis
      by (simp add: evaluateByType_def flag_spec_def nullish_def to_number_def num_le_zero_def)
  next
    case (Some x)
    with assms FLAG_PERCENTAGE obtain p where p: "x = JNum p" "0 \<le> p" "p \<le> 100"
      by (cases x) (auto simp: flag_value_issues_def percentage_flag_issues_def split: if_splits)
    have "of_nat ?b < (100 :: rat)" using b by (metis of_nat_less_iff of_nat_numeral)
    with p Some FLAG_PERCENTAGE show ?thesis
      by (auto simp: evaluateByType_def flag_spec_def nullish_def to_number_def num_le_zero_def
          num_ge_100_def nat_less_num_def Let_def)
  qed
next
  case FLAG_PLAN
  show ?thesis
  proof (cases "js_prop v ''plans''")
    case None
    with FLAG_PLAN show ?thesis
      by (simp add: evaluateByType_def flag_spec_def nullish_def plan_listed_def)
  next
    case (Some x)
    with assms FLAG_PLAN obtain ps where ps: "x = JArr ps"
      by (cases x) (auto simp: flag_value_issues_def plan_flag_issues_def)
    with Some FLAG_PLAN show ?thesis
      by (cases plan) (auto simp: evaluateByType_def flag_spec_def nullish_def plan_listed_def truthy_def)
  qed
qed

theorem created_flag_evaluates_witness:
  "evaluateByType demo_env FLAG_PLAN (JObj [(''plans'', JArr [JStr ''pro''])]) True (Some ''pro'') ''k'' None
     = Inr (flag_spec FLAG_PLAN (JObj [(''plans'', JArr [JStr ''pro''])]) (Some ''pro'')
         (deterministicBucket demo_env ''k'' ''global''))"
proof -
  have "flag_value_issues FLAG_PLAN (JObj [(''plans'', JArr [JStr ''pro''])]) = Inr []" by code_simp
  from created_flag_evaluates [OF this, of demo_env True "Some ''pro''" "''k''" None] show ?thesis by simp
qed

text \<open>An update has no such check: it can leave a plan flag whose evaluation throws.\<close>

lemma updated_flag_throws:
  "evaluateByType E FLAG_PLAN (JObj [(''plans'', JNum 1)]) True (Some ''pro'') key orgId = Inl (OtherError ''TypeError'')"
  by (simp add: evaluateByType_def js_prop_def nullish_def plan_listed_def truthy_def)

text \<open>The check of a boolean flag throws on a null value instead of refusing it.\<close>

lemma null_flag_throws: "flag_value_issues FLAG_BOOLEAN JNull = Inl (OtherError ''TypeError'')"
  by (simp add: flag_value_issues_def boolean_flag_issues_def has_keys_def js_prop_def)

text \<open>The client finds the issue of a flag's value under \<open>body.value\<close>, not under \<open>value\<close>.\<close>

lemma flag_issue_key: "fieldKey (issue_path (body_issue (flag_issue msg))) = ''body.value''"
  by (simp add: flag_issue_def body_issue_def fieldKey_def)

end
