(* ===== verification/Schemas.thy ===== *)
theory Schemas
  imports Zod
begin

text \<open>
  The request schemas of the modules, \<open>src/modules/*/*.schema.js\<close>: one definition per schema,
  under the name it has there.
\<close>

section \<open>Authentication\<close>

text \<open>\<open>src/modules/auth/auth.schema.js\<close>\<close>

definition registerSchema :: "zod" where
  "registerSchema =
     ZObject
    [(''body'', ZObject
        [(''name'', ZString [AtLeast 2 (Some ''validation.nameMinLength'')]),
          (''email'', ZEmail (Some ''validation.invalidEmail'')),
          (''password'', ZString [AtLeast 8 (Some ''validation.passwordMinLength''),
              AtMost 72 (Some ''validation.passwordMaxLength''),
                  Pattern ''[A-Z]'' (Some ''validation.passwordUppercase''),
                      Pattern ''[0-9]'' (Some ''validation.passwordNumber'')])] [])] []"

definition loginSchema :: "zod" where
  "loginSchema =
     ZObject
    [(''body'', ZObject
        [(''email'', ZEmail (Some ''validation.invalidEmail'')),
          (''password'', ZString [AtLeast 1 (Some ''validation.passwordRequired''),
              AtMost 72 (Some ''validation.passwordMaxLength'')])] [])] []"

definition refreshSchema :: "zod" where
  "refreshSchema =
     ZObject
    [(''body'', ZObject
        [(''refreshToken'', ZString [AtLeast 1 (Some ''validation.refreshTokenRequired'')])] [])] []"

definition verifyEmailSchema :: "zod" where
  "verifyEmailSchema =
     ZObject
    [(''body'', ZObject
        [(''token'', ZString [AtLeast 1 (Some ''validation.verificationTokenRequired'')])] [])] []"

definition changePasswordSchema :: "zod" where
  "changePasswordSchema =
     ZObject
    [(''body'', ZObject
        [(''currentPassword'', ZString [AtLeast 1 (Some ''validation.currentPasswordRequired''),
            AtMost 72 (Some ''validation.passwordMaxLength'')]),
          (''newPassword'', ZString [AtLeast 8 (Some ''validation.passwordMinLength''),
              AtMost 72 (Some ''validation.passwordMaxLength''),
                  Pattern ''[A-Z]'' (Some ''validation.passwordUppercase''),
                      Pattern ''[0-9]'' (Some ''validation.passwordNumber'')])] [])] []"

definition changeEmailSchema :: "zod" where
  "changeEmailSchema =
     ZObject
    [(''body'', ZObject
        [(''newEmail'', ZEmail (Some ''validation.invalidEmail'')),
          (''password'', ZString [AtLeast 1 (Some ''validation.passwordRequiredConfirm''),
              AtMost 72 (Some ''validation.passwordMaxLength'')])] [])] []"

definition resendVerificationSchema :: "zod" where
  "resendVerificationSchema =
     ZObject
    [(''body'', ZObject
        [(''email'', ZEmail (Some ''validation.invalidEmail''))] [])] []"

definition forgotPasswordSchema :: "zod" where
  "forgotPasswordSchema =
     ZObject
    [(''body'', ZObject
        [(''email'', ZEmail (Some ''validation.invalidEmail''))] [])] []"

definition logoutSchema :: "zod" where
  "logoutSchema =
     ZObject
    [(''body'', ZDefault (ZObject
        [(''refreshToken'', ZOptional (ZString [AtLeast 1 None]))] []) (JObj []))] []"

definition resetPasswordSchema :: "zod" where
  "resetPasswordSchema =
     ZObject
    [(''body'', ZObject
        [(''token'', ZString [AtLeast 1 (Some ''validation.resetTokenRequired'')]),
          (''newPassword'', ZString [AtLeast 8 (Some ''validation.passwordMinLength''),
              AtMost 72 (Some ''validation.passwordMaxLength''),
                  Pattern ''[A-Z]'' (Some ''validation.passwordUppercase''),
                      Pattern ''[0-9]'' (Some ''validation.passwordNumber'')])] [])] []"

definition googleLoginSchema :: "zod" where
  "googleLoginSchema =
     ZObject
    [(''body'', ZObject
        [(''code'', ZString [AtLeast 1 (Some ''validation.authorizationCodeRequired'')]),
          (''state'', ZString [AtLeast 1 (Some ''validation.oauthStateRequired'')])] [])] []"

section \<open>Second factor\<close>

text \<open>\<open>src/modules/auth/twofa.schema.js\<close>\<close>

definition enableTwoFactorSchema :: "zod" where
  "enableTwoFactorSchema =
     ZObject
    [(''body'', ZObject
        [(''code'', ZString [AtLeast 6 (Some ''validation.verificationCodeRequired''),
            AtMost 6 (Some ''validation.code6Digits'')])] [])] []"

definition disableTwoFactorSchema :: "zod" where
  "disableTwoFactorSchema =
     ZObject
    [(''body'', ZObject
        [(''password'', ZString [AtLeast 1 (Some ''validation.passwordRequired'')])] [])] []"

definition verifyTwoFactorSchema :: "zod" where
  "verifyTwoFactorSchema =
     ZObject
    [(''body'', ZObject
        [(''challengeToken'', ZString [AtLeast 1 (Some ''validation.challengeTokenRequired'')]),
          (''code'', ZString [AtLeast 1 (Some ''validation.verificationCodeRequired'')])] [])] []"

section \<open>Own data\<close>

text \<open>\<open>src/modules/gdpr/gdpr.schema.js\<close>\<close>

definition deleteAccountSchema :: "zod" where
  "deleteAccountSchema =
     ZObject
    [(''body'', ZObject
        [(''password'', ZString [AtLeast 1 (Some ''validation.passwordRequiredDelete'')])] [])] []"

definition exportDataSchema :: "zod" where
  "exportDataSchema =
     ZObject
    [(''body'', ZDefault (ZObject
        [(''password'', ZOptional (ZString [AtLeast 1 None]))] []) (JObj []))] []"

section \<open>Organizations\<close>

text \<open>\<open>src/modules/org/org.schema.js\<close>\<close>

definition createOrgSchema :: "zod" where
  "createOrgSchema =
     ZObject
    [(''body'', ZObject
        [(''name'', ZString [AtLeast 2 (Some ''validation.orgNameMinLength''), AtMost 100 None]),
          (''slug'', ZString [AtLeast 2 (Some ''validation.slugMinLength''), AtMost 50 None,
              Pattern ''^[a-z0-9](?:[a-z0-9-]*[a-z0-9])?$'' (Some ''validation.slugFormat'')])] [])] []"

definition updateOrgSchema :: "zod" where
  "updateOrgSchema =
     ZObject
    [(''params'', ZObject
        [(''orgId'', ZString [AtLeast 1 None])] []),
      (''body'', ZObject
        [(''name'', ZOptional (ZString [AtLeast 2 (Some ''validation.orgNameMinLength''),
            AtMost 100 None])),
          (''slug'', ZOptional (ZString [AtLeast 2 None, AtMost 50 None,
              Pattern ''^[a-z0-9](?:[a-z0-9-]*[a-z0-9])?$'' (Some ''validation.slugFormat'')]))] [NameOrSlug ''validation.atLeastOneFieldNameOrSlug''])] []"

definition orgIdParamSchema :: "zod" where
  "orgIdParamSchema =
     ZObject
    [(''params'', ZObject
        [(''orgId'', ZString [AtLeast 1 None])] [])] []"

definition transferOwnershipSchema :: "zod" where
  "transferOwnershipSchema =
     ZObject
    [(''params'', ZObject
        [(''orgId'', ZString [AtLeast 1 None])] []),
      (''body'', ZObject
        [(''newOwnerId'', ZString [AtLeast 1 (Some ''validation.newOwnerIdRequired'')])] [])] []"

definition updateMemberSchema :: "zod" where
  "updateMemberSchema =
     ZObject
    [(''params'', ZObject
        [(''orgId'', ZString [AtLeast 1 None]),
          (''userId'', ZString [AtLeast 1 None])] []),
      (''body'', ZObject
        [(''role'', ZEnum [''ADMIN'', ''MEMBER''])] [])] []"

definition removeMemberSchema :: "zod" where
  "removeMemberSchema =
     ZObject
    [(''params'', ZObject
        [(''orgId'', ZString [AtLeast 1 None]),
          (''userId'', ZString [AtLeast 1 None])] [])] []"

definition listOrgsSchema :: "zod" where
  "listOrgsSchema =
     ZObject
    [(''query'', listQuerySchema [''createdAt'', ''name'',
        ''slug''] ''createdAt'' ([(''search'', ZOptional (ZString []))]))] []"

definition listMembersSchema :: "zod" where
  "listMembersSchema =
     ZObject
    [(''params'', ZObject
        [(''orgId'', ZString [AtLeast 1 None])] []),
      (''query'', listQuerySchema [''createdAt'',
          ''role''] ''createdAt'' ([(''search'', ZOptional (ZString []))]))] []"

section \<open>Invitations\<close>

text \<open>\<open>src/modules/org/invitation.schema.js\<close>\<close>

definition createInvitationSchema :: "zod" where
  "createInvitationSchema =
     ZObject
    [(''params'', ZObject
        [(''orgId'', ZString [AtLeast 1 None])] []),
      (''body'', ZObject
        [(''email'', ZEmail (Some ''validation.validEmail'')),
          (''role'', ZDefault (ZEnum [''ADMIN'', ''MEMBER'']) (JStr ''MEMBER''))] [])] []"

definition listInvitationsSchema :: "zod" where
  "listInvitationsSchema =
     ZObject
    [(''params'', ZObject
        [(''orgId'', ZString [AtLeast 1 None])] []),
      (''query'', listQuerySchema [''createdAt'', ''status'',
          ''expiresAt''] ''createdAt'' ([(''search'', ZOptional (ZString []))]))] []"

definition cancelInvitationSchema :: "zod" where
  "cancelInvitationSchema =
     ZObject
    [(''params'', ZObject
        [(''orgId'', ZString [AtLeast 1 None]),
          (''invitationId'', ZString [AtLeast 1 None])] [])] []"

definition acceptInvitationSchema :: "zod" where
  "acceptInvitationSchema =
     ZObject
    [(''body'', ZObject
        [(''token'', ZString [AtLeast 1 (Some ''validation.tokenRequired'')])] [])] []"

definition declineInvitationSchema :: "zod" where
  "declineInvitationSchema =
     ZObject
    [(''body'', ZObject
        [(''token'', ZString [AtLeast 1 (Some ''validation.tokenRequired'')])] [])] []"

definition listMyInvitationsSchema :: "zod" where
  "listMyInvitationsSchema =
     ZObject
    [(''query'', listQuerySchema [''createdAt'',
        ''expiresAt''] ''createdAt'' ([(''search'', ZOptional (ZString []))]))] []"

section \<open>Administration\<close>

text \<open>\<open>src/modules/admin/admin.schema.js\<close>\<close>

definition listUsersSchema :: "zod" where
  "listUsersSchema =
     ZObject
    [(''query'', listQuerySchema [''createdAt'', ''email'',
        ''name''] ''createdAt'' ([(''search'', ZOptional (ZString [])),
          (''role'', ZOptional (ZEnum [''USER'', ''ADMIN''])),
          (''status'', ZOptional (ZEnum [''active'', ''banned'', ''suspended'',
              ''deleted'']))]))] []"

definition userIdParamSchema :: "zod" where
  "userIdParamSchema =
     ZObject
    [(''params'', ZObject
        [(''userId'', ZString [AtLeast 1 None])] [])] []"

definition updateUserSchema :: "zod" where
  "updateUserSchema =
     ZObject
    [(''params'', ZObject
        [(''userId'', ZString [AtLeast 1 None])] []),
      (''body'', ZObject
        [(''name'', ZOptional (ZString [AtLeast 1 None, AtMost 100 None])),
          (''role'', ZOptional (ZEnum [''USER'', ''ADMIN''])),
          (''banned'', ZOptional ZBoolean),
          (''suspendedUntil'', ZTransform (ZNullable (ZOptional (ZString [DateTime]))))] [AnyField ''validation.atLeastOneField''])] []"

section \<open>Billing\<close>

text \<open>\<open>src/modules/billing/billing.schema.js\<close>\<close>

definition redirectUrl :: "zod" where
  "redirectUrl =
     ZString [Url (Some ''validation.validUrl''),
    Refined IsAppOrigin (Some ''validation.urlOriginNotAllowed'')]"

definition checkoutSchema :: "zod" where
  "checkoutSchema =
     ZObject
    [(''body'', ZObject
        [(''planId'', ZString [AtLeast 1 (Some ''validation.planIdRequired'')]),
          (''successUrl'', redirectUrl),
          (''cancelUrl'', redirectUrl)] [])] []"

definition portalSchema :: "zod" where
  "portalSchema =
     ZObject
    [(''body'', ZObject
        [(''returnUrl'', redirectUrl)] [])] []"

definition listPlansSchema :: "zod" where
  "listPlansSchema =
     ZObject
    [(''query'', listQuerySchema [''createdAt'', ''name'',
        ''priceCents''] ''priceCents'' ([(''interval'', ZOptional (ZEnum [''MONTH'',
            ''YEAR'']))]))] []"

section \<open>API keys\<close>

text \<open>\<open>src/modules/apikey/apikey.schema.js\<close>\<close>

definition createApiKeySchema :: "zod" where
  "createApiKeySchema =
     ZObject
    [(''body'', ZObject
        [(''name'', ZString [AtLeast 1 (Some ''validation.nameRequired''), AtMost 100 None]),
          (''scopes'', ZDefault (ZArray (ZString [])) (JArr [])),
          (''expiresAt'', ZNullable (ZOptional (ZString [DateTime])))] [])] []"

definition keyIdParamSchema :: "zod" where
  "keyIdParamSchema =
     ZObject
    [(''params'', ZObject
        [(''keyId'', ZString [AtLeast 1 None])] [])] []"

definition listApiKeysSchema :: "zod" where
  "listApiKeysSchema =
     ZObject
    [(''query'', listQuerySchema [''createdAt'', ''name'',
        ''lastUsedAt''] ''createdAt'' ([(''search'', ZOptional (ZString []))]))] []"

section \<open>Sessions\<close>

text \<open>\<open>src/modules/session/session.schema.js\<close>\<close>

definition listSessionsSchema :: "zod" where
  "listSessionsSchema =
     ZObject
    [(''query'', listQuerySchema [''createdAt'', ''updatedAt'', ''expiresAt''] ''createdAt'' [])] []"

definition sessionIdParamSchema :: "zod" where
  "sessionIdParamSchema =
     ZObject
    [(''params'', ZObject
        [(''sessionId'', ZString [AtLeast 1 None])] [])] []"

section \<open>Audit log\<close>

text \<open>\<open>src/modules/audit/audit.schema.js\<close>\<close>

definition auditActions :: "string list" where
  "auditActions =
     [''USER_REGISTER'', ''USER_LOGIN'', ''USER_OAUTH_LOGIN'', ''USER_LOGOUT'', ''USER_LOGIN_FAILED'',
    ''USER_BANNED'', ''USER_UNBANNED'', ''USER_SUSPENDED'', ''USER_UNSUSPENDED'',
        ''USER_ROLE_CHANGED'', ''USER_DELETED'', ''USER_RESTORED'', ''USER_PASSWORD_CHANGED'',
            ''USER_EMAIL_CHANGED'', ''ORG_CREATED'', ''ORG_UPDATED'', ''ORG_DELETED'',
                ''ORG_RESTORED'', ''MEMBER_ADDED'', ''MEMBER_REMOVED'', ''MEMBER_ROLE_CHANGED'',
                    ''MEMBER_INVITED'', ''INVITATION_ACCEPTED'', ''INVITATION_DECLINED'',
                        ''INVITATION_CANCELED'', ''API_KEY_CREATED'', ''API_KEY_REVOKED'',
                            ''API_KEY_DELETED'', ''API_KEY_RESTORED'', ''SUBSCRIPTION_CREATED'',
                                ''SUBSCRIPTION_UPDATED'', ''SUBSCRIPTION_CANCELED'',
                                    ''CHECKOUT_STARTED'', ''PORTAL_OPENED'',
                                        ''FEATURE_FLAG_CREATED'', ''FEATURE_FLAG_UPDATED'',
                                            ''FEATURE_FLAG_DELETED'',
                                                ''FEATURE_FLAG_OVERRIDE_SET'',
                                                    ''FEATURE_FLAG_OVERRIDE_REMOVED'',
                                                        ''USER_DATA_EXPORTED'',
                                                            ''USER_DATA_DELETED'',
                                                                ''TWO_FACTOR_ENABLED'',
                                                                    ''TWO_FACTOR_DISABLED'',
                                                                        ''SESSION_REVOKED'',
                                                                            ''SESSIONS_REVOKED_ALL'']"

definition listAuditLogsSchema :: "zod" where
  "listAuditLogsSchema =
     ZObject
    [(''query'', listQuerySchema [''createdAt'',
        ''action''] ''createdAt'' ([(''action'', ZOptional (ZEnum auditActions)),
          (''userId'', ZOptional (ZString [])),
          (''targetUserId'', ZOptional (ZString [])),
          (''organizationId'', ZOptional (ZString []))]))] []"

definition listUserAuditLogsSchema :: "zod" where
  "listUserAuditLogsSchema =
     ZObject
    [(''query'', listQuerySchema [''createdAt'', ''action''] ''createdAt'' [])] []"

section \<open>Projects\<close>

text \<open>\<open>src/modules/project/project.schema.js\<close>\<close>

definition orgParams :: "(string \<times> zod) list" where
  "orgParams =
     [(''orgId'', ZString [AtLeast 1 None])]"

definition listProjectsSchema :: "zod" where
  "listProjectsSchema =
     ZObject
    [(''params'', ZObject
        orgParams []),
      (''query'', listQuerySchema [''createdAt'', ''updatedAt'', ''name'',
          ''status''] ''createdAt'' ([(''search'', ZOptional (ZString [])),
          (''status'', ZOptional (ZEnum [''ACTIVE'', ''ARCHIVED'']))]))] []"

definition projectIdSchema :: "zod" where
  "projectIdSchema =
     ZObject
    ([(''params'', ZObject
        (orgParams @ [(''projectId'', ZString [AtLeast 1 None])]) [])]) []"

definition createProjectSchema :: "zod" where
  "createProjectSchema =
     ZObject
    [(''params'', ZObject
        orgParams []),
      (''body'', ZObject
        [(''name'', ZString [AtLeast 1 (Some ''validation.projectNameRequired''), AtMost 120 None]),
          (''description'', ZOptional (ZString [AtMost 2000 None]))] [])] []"

definition updateProjectSchema :: "zod" where
  "updateProjectSchema =
     ZObject
    ([(''params'', ZObject
        (orgParams @ [(''projectId'', ZString [AtLeast 1 None])]) []),
      (''body'', ZObject
        [(''name'', ZOptional (ZString [AtLeast 1 None, AtMost 120 None])),
          (''description'', ZOptional (ZNullable (ZString [AtMost 2000 None]))),
          (''status'', ZOptional (ZEnum [''ACTIVE'',
              ''ARCHIVED'']))] [AnyField ''validation.atLeastOneProjectField''])]) []"

section \<open>Notifications\<close>

text \<open>\<open>src/modules/notification/notification.schema.js\<close>\<close>

definition listNotificationsSchema :: "zod" where
  "listNotificationsSchema =
     ZObject
    [(''query'', listQuerySchema [''createdAt'', ''type'',
        ''readAt''] ''createdAt'' ([(''search'', ZOptional (ZString [])),
          (''type'', ZOptional (ZEnum [''SYSTEM'', ''ORGANIZATION'', ''BILLING'', ''SECURITY'',
              ''TEAM''])),
          (''unreadOnly'', ZOptional (ZEnum [''true'', ''false'']))]))] []"

definition notificationIdSchema :: "zod" where
  "notificationIdSchema =
     ZObject
    [(''params'', ZObject
        [(''notificationId'', ZString [AtLeast 1 None])] [])] []"

definition updatePreferencesSchema :: "zod" where
  "updatePreferencesSchema =
     ZObject
    [(''body'', ZObject
        [(''emailEnabled'', ZOptional ZBoolean),
          (''pushEnabled'', ZOptional ZBoolean),
          (''inAppEnabled'', ZOptional ZBoolean),
          (''mutedTypes'', ZOptional (ZArray (ZEnum [''SYSTEM'', ''ORGANIZATION'', ''BILLING'',
              ''SECURITY'', ''TEAM''])))] [AnyField ''validation.atLeastOnePreferenceField''])] []"

section \<open>Feature flags\<close>

text \<open>\<open>src/modules/featureflag/featureflag.schema.js\<close>\<close>

definition createFlagSchema :: "zod" where
  "createFlagSchema =
     ZObject
    [(''body'', ZObject
        [(''key'', ZString [AtLeast 2 (Some ''validation.keyMinLength''), AtMost 100 None,
            Pattern ''^[a-z0-9](?:[a-z0-9_:.-]*[a-z0-9])?$'' (Some ''validation.keyFormat'')]),
          (''name'', ZString [AtLeast 2 (Some ''validation.nameMinLength''), AtMost 200 None]),
          (''description'', ZOptional (ZString [AtMost 1000 None])),
          (''type'', ZEnum [''BOOLEAN'', ''PERCENTAGE'', ''PLAN'']),
          (''value'', ZDefault ZAny (JObj [])),
          (''active'', ZDefault ZBoolean (JBool True))] [FlagValue])] []"

definition updateFlagSchema :: "zod" where
  "updateFlagSchema =
     ZObject
    [(''params'', ZObject
        [(''flagId'', ZString [AtLeast 1 None])] []),
      (''body'', ZObject
        [(''name'', ZOptional (ZString [AtLeast 2 None, AtMost 200 None])),
          (''description'', ZOptional (ZString [AtMost 1000 None])),
          (''type'', ZOptional (ZEnum [''BOOLEAN'', ''PERCENTAGE'', ''PLAN''])),
          (''value'', ZOptional ZAny),
          (''active'', ZOptional ZBoolean)] [AnyField ''validation.atLeastOneField''])] []"

definition flagIdParamSchema :: "zod" where
  "flagIdParamSchema =
     ZObject
    [(''params'', ZObject
        [(''flagId'', ZString [AtLeast 1 None])] [])] []"

definition listFlagsSchema :: "zod" where
  "listFlagsSchema =
     ZObject
    [(''query'', listQuerySchema [''createdAt'', ''name'', ''key'',
        ''type''] ''createdAt'' ([(''search'', ZOptional (ZString [])),
          (''type'', ZOptional (ZEnum [''BOOLEAN'', ''PERCENTAGE'', ''PLAN''])),
          (''active'', ZOptional (ZEnum [''true'', ''false'']))]))] []"

definition setOverrideSchema :: "zod" where
  "setOverrideSchema =
     ZObject
    [(''params'', ZObject
        [(''flagId'', ZString [AtLeast 1 None]),
          (''orgId'', ZString [AtLeast 1 None])] []),
      (''body'', ZObject
        [(''enabled'', ZDefault ZBoolean (JBool True)),
          (''value'', ZDefault ZAny (JObj []))] [])] []"

definition overrideParamSchema :: "zod" where
  "overrideParamSchema =
     ZObject
    [(''params'', ZObject
        [(''flagId'', ZString [AtLeast 1 None]),
          (''orgId'', ZString [AtLeast 1 None])] [])] []"

definition evaluateFlagSchema :: "zod" where
  "evaluateFlagSchema =
     ZObject
    [(''query'', ZObject
        [(''key'', ZString [AtLeast 1 (Some ''validation.flagKeyRequired'')]),
          (''orgId'', ZOptional (ZString []))] [])] []"

end
