(* ===== verification/OpenApi.thy ===== *)
theory OpenApi
  imports Zod
begin

text \<open>
  \<open>src/modules/docs/openapi.converter.js\<close> and \<open>openapi.builder.js\<close>: an OpenAPI 3.0 document
  made from the request schemas.  Zod's \<open>toJSONSchema\<close> is a parameter; a JavaScript object is a
  \<open>JObj\<close> with distinct keys.
\<close>

section \<open>From JSON Schema to OpenAPI 3.0\<close>

definition is_null_schema :: "json \<Rightarrow> bool" where
  "is_null_schema n = (js_prop n ''type'' = Some (JStr ''null''))"

text \<open>\<open>Object.entries(v)\<close>, which is also what \<open>{...v}\<close> copies.\<close>

fun object_entries :: "json \<Rightarrow> (string \<times> json) list" where
  "object_entries (JObj kvs) = kvs"
| "object_entries (JArr xs) = zip (map show_nat [0..<length xs]) xs"
| "object_entries (JStr s) = zip (map show_nat [0..<length s]) (map (\<lambda>c. JStr [c]) s)"
| "object_entries _ = []"

definition stripKey :: "string \<Rightarrow> (string \<times> json) list \<Rightarrow> (string \<times> json) list" where
  "stripKey key kvs = filter (\<lambda>(k, _). k \<noteq> key) kvs"

text \<open>The variants of a union without the first null.\<close>

fun without_null :: "json list \<Rightarrow> json list" where
  "without_null [] = []"
| "without_null (v # vs) = (if is_null_schema v then vs else v # without_null vs)"

text \<open>The first of \<open>anyOf\<close>, \<open>oneOf\<close> that has a null variant, with its other variants.\<close>

definition union_with_null :: "(string \<times> json) list \<Rightarrow> string \<Rightarrow> (string \<times> json list) option" where
  "union_with_null kvs key =
     (case map_of kvs key of
        Some (JArr vs) \<Rightarrow> (if list_ex is_null_schema vs then Some (key, without_null vs) else None)
      | _ \<Rightarrow> None)"

definition nullable_union :: "(string \<times> json) list \<Rightarrow> (string \<times> json list) option" where
  "nullable_union kvs =
     (case union_with_null kvs ''anyOf'' of
        Some u \<Rightarrow> Some u
      | None \<Rightarrow> union_with_null kvs ''oneOf'')"

text \<open>\<open>description\<close> and \<open>example\<close> of the parent, kept on a merged variant.\<close>

definition keep_annotations :: "(string \<times> json) list \<Rightarrow> (string \<times> json) list \<Rightarrow> (string \<times> json) list" where
  "keep_annotations node merged =
     (let described = (case map_of node ''description'' of
                         Some x \<Rightarrow> (if js_truthy x then obj_put ''description'' x merged else merged)
                       | None \<Rightarrow> merged)
      in case map_of node ''example'' of
           Some x \<Rightarrow> obj_put ''example'' x described
         | None \<Rightarrow> described)"

lemma without_null_subset: "set (without_null vs) \<subseteq> set vs"
  by (induction vs) auto

lemma union_with_null_SomeD:
  assumes "union_with_null kvs key = Some (k, vs)"
  obtains ws where "(key, JArr ws) \<in> set kvs" "set vs \<subseteq> set ws" "k = key" "vs = without_null ws"
proof -
  from assms obtain ws where "map_of kvs key = Some (JArr ws)" "k = key" "vs = without_null ws"
    by (auto simp: union_with_null_def split: option.splits json.splits if_splits)
  with without_null_subset show ?thesis by (intro that) (auto dest: map_of_SomeD)
qed

lemma nullable_union_SomeD:
  assumes "nullable_union kvs = Some (k, vs)"
  obtains ws where "(k, JArr ws) \<in> set kvs" "set vs \<subseteq> set ws" "k \<in> {''anyOf'', ''oneOf''}" "vs = without_null ws"
  using assms unfolding nullable_union_def
  by (auto split: option.splits elim!: union_with_null_SomeD)

lemma size_member: "(k, v) \<in> set kvs \<Longrightarrow> size v < size (JObj kvs)"
  by (induction kvs) auto

lemma size_element: "v \<in> set vs \<Longrightarrow> size v < size (JArr vs)"
  by (induction vs) auto

lemma size_variant:
  assumes "nullable_union kvs = Some (k, vs)" "v \<in> set vs"
  shows "size v < size (JObj kvs)"
proof -
  from assms obtain ws where ws: "(k, JArr ws) \<in> set kvs" "v \<in> set ws" by (auto elim!: nullable_union_SomeD)
  from ws(2) have "size v < size (JArr ws)" by (rule size_element)
  also have "\<dots> < size (JObj kvs)" by (rule size_member [OF ws(1)])
  finally show ?thesis .
qed

lemma size_stripKey: "(key, v) \<in> set kvs \<Longrightarrow> size (JObj (stripKey key kvs)) < size (JObj kvs)"
proof (induction kvs)
  case (Cons e kvs)
  have le: "size (JObj (stripKey key ks)) \<le> size (JObj ks)" for ks
    by (induction ks) (auto simp: stripKey_def)
  obtain k w where e: "e = (k, w)" by (cases e)
  show ?case
  proof (cases "k = key")
    case True
    with le [of kvs] e show ?thesis by (simp add: stripKey_def)
  next
    case False
    with Cons e show ?thesis by (auto simp: stripKey_def)
  qed
qed simp

function convertNode :: "json \<Rightarrow> json" and convertMember :: "string \<Rightarrow> json \<Rightarrow> json" where
  "convertNode (JObj kvs) =
     (case map_of kvs ''const'' of
        Some c \<Rightarrow>
          JObj (obj_put ''enum'' (JArr [c]) (object_entries (convertNode (JObj (stripKey ''const'' kvs)))))
      | None \<Rightarrow>
          (case nullable_union kvs of
             Some (key, remaining) \<Rightarrow>
               (case remaining of
                  [] \<Rightarrow> JObj [(''nullable'', JBool True)]
                | [v] \<Rightarrow>
                    JObj (keep_annotations kvs
                      (obj_put ''nullable'' (JBool True) (object_entries (convertNode v))))
                | _ \<Rightarrow> JObj [(key, JArr (map convertNode remaining)), (''nullable'', JBool True)])
           | None \<Rightarrow> JObj (map (\<lambda>(k, v). (k, convertMember k v)) (stripKey ''$schema'' kvs))))"
| "convertNode (JArr xs) = JObj (object_entries (JArr xs))"
| "convertNode JNull = JNull"
| "convertNode (JBool b) = JBool b"
| "convertNode (JNum n) = JNum n"
| "convertNode (JStr s) = JStr s"
| "convertMember k v =
     (if k = ''properties'' \<and> js_truthy v
      then
        (case v of
           JObj ps \<Rightarrow> JObj (map (\<lambda>(p, s). (p, convertNode s)) ps)
         | JArr xs \<Rightarrow> JObj (zip (map show_nat [0..<length xs]) (map convertNode xs))
         | _ \<Rightarrow> JObj (object_entries v))
      else if (k = ''items'' \<or> k = ''not'') \<and> js_truthy v then convertNode v
      else if k = ''additionalProperties'' \<and> is_container v then convertNode v
      else if k \<in> {''anyOf'', ''oneOf'', ''allOf''}
      then (case v of JArr vs \<Rightarrow> JArr (map convertNode vs) | _ \<Rightarrow> v)
      else v)"
  by pat_completeness auto
termination
proof (relation "measure (\<lambda>x. case x of Inl j \<Rightarrow> 2 * size j | Inr (k, v) \<Rightarrow> 2 * size v + 1)",
    simp_all only: in_measure sum.case prod.case, goal_cases)
  case (2 kvs x k v)
  then have "(k, v) \<in> set kvs" by (auto simp: stripKey_def)
  from size_member [OF this] 2(4) show ?case by auto
next
  case (3 kvs x2 x y x21 x22)
  then have "nullable_union kvs = Some (x, [x21])" by simp
  from size_variant [OF this] show ?case by simp
next
  case (4 kvs x2 x y x21 x22 x21a x22a xa)
  then have "nullable_union kvs = Some (x, x21 # x21a # x22a)" by simp
  from size_variant [OF this 4(6)] show ?case by simp
next
  case (5 kvs c)
  from size_stripKey [OF map_of_SomeD [OF this]] show ?case by simp
next
  case (6 k v x5 x)
  from size_element [OF 6(3)] show ?case by simp
next
  case (7 k v x6 x p s)
  from 7(3,4) size_member [of p s x6] show ?case by auto
next
  case (8 k v x5 x)
  from size_element [OF 8(6)] show ?case by simp
qed simp

text \<open>Both equations would be unfolded without end.\<close>

declare convertNode.simps(1) [simp del] convertMember.simps [simp del]

lemmas convert_simps = convertNode.simps(1) convertMember.simps

section \<open>What OpenAPI 3.0 understands\<close>

text \<open>
  The keywords that hold schemas, as \<open>convertNode\<close> follows them: a node is in order if no schema it
  holds uses \<open>const\<close>, \<open>$schema\<close> or a union with a null variant.
\<close>

definition null_free :: "json \<Rightarrow> bool" where
  "null_free v = (case v of JArr vs \<Rightarrow> \<not> list_ex is_null_schema vs | _ \<Rightarrow> True)"

definition keyword_ok :: "string \<Rightarrow> json \<Rightarrow> bool" where
  "keyword_ok k v =
     (k \<noteq> ''const'' \<and> k \<noteq> ''$schema'' \<and> (k \<in> {''anyOf'', ''oneOf''} \<longrightarrow> null_free v))"

text \<open>What a keyword holds: named schemas, one schema, a list of schemas, or no schema.\<close>

datatype keyword = Named | Single | Several | Plain

definition keyword_of :: "string \<Rightarrow> keyword" where
  "keyword_of k =
     (if k = ''properties'' then Named
      else if k \<in> {''items'', ''not'', ''additionalProperties''} then Single
      else if k \<in> {''anyOf'', ''oneOf'', ''allOf''} then Several
      else Plain)"

definition held_schemas :: "string \<Rightarrow> json \<Rightarrow> json list" where
  "held_schemas k v =
     (case keyword_of k of
        Named \<Rightarrow> (case v of JObj ps \<Rightarrow> map snd ps | _ \<Rightarrow> [])
      | Single \<Rightarrow> [v]
      | Several \<Rightarrow> (case v of JArr vs \<Rightarrow> vs | _ \<Rightarrow> [])
      | Plain \<Rightarrow> [])"

lemma size_held:
  assumes "s \<in> set (held_schemas k v)"
  shows "size s \<le> size v"
proof (cases v)
  case (JArr vs)
  with assms have "s = v \<or> s \<in> set vs" by (simp add: held_schemas_def split: keyword.splits)
  with size_element [of s vs] JArr show ?thesis by auto
next
  case (JObj ps)
  with assms have "s = v \<or> (\<exists>p. (p, s) \<in> set ps)"
    by (auto simp: held_schemas_def split: keyword.splits)
  with size_member [of _ s ps] JObj show ?thesis by fastforce
qed (use assms in \<open>simp_all add: held_schemas_def split: keyword.splits\<close>)

lemma size_held_member: "(k, v) \<in> set kvs \<Longrightarrow> s \<in> set (held_schemas k v) \<Longrightarrow> size s < size (JObj kvs)"
  using size_held [of s k v] size_member [of k v kvs] by simp

function openapi_ok :: "json \<Rightarrow> bool" where
  "openapi_ok (JObj kvs) =
     list_all (\<lambda>(k, v). keyword_ok k v \<and> list_all openapi_ok (held_schemas k v)) kvs"
| "openapi_ok (JArr xs) = True"
| "openapi_ok JNull = True"
| "openapi_ok (JBool b) = True"
| "openapi_ok (JNum n) = True"
| "openapi_ok (JStr s) = True"
  by pat_completeness auto
termination by (relation "measure size") (auto simp del: json.size intro: size_held_member)

text \<open>
  What \<open>toJSONSchema\<close> makes: a schema is an object or a truth value, \<open>properties\<close> an object, and a
  union has at most one null.
\<close>

definition keyword_shape :: "string \<Rightarrow> json \<Rightarrow> bool" where
  "keyword_shape k v =
     ((k = ''properties'' \<longrightarrow> (case v of JObj _ \<Rightarrow> True | _ \<Rightarrow> False)) \<and>
      (k \<in> {''anyOf'', ''oneOf''} \<longrightarrow>
        (case v of JArr vs \<Rightarrow> length (filter is_null_schema vs) \<le> 1 | _ \<Rightarrow> True)))"

function json_schema_ok :: "json \<Rightarrow> bool" where
  "json_schema_ok (JObj kvs) =
     (distinct (map fst kvs) \<and>
      list_all (\<lambda>(k, v). keyword_shape k v \<and> list_all json_schema_ok (held_schemas k v)) kvs)"
| "json_schema_ok (JBool b) = True"
| "json_schema_ok (JArr xs) = False"
| "json_schema_ok JNull = False"
| "json_schema_ok (JNum n) = False"
| "json_schema_ok (JStr s) = False"
  by pat_completeness auto
termination by (relation "measure size") (auto simp del: json.size intro: size_held_member)

lemma json_schema_okD:
  assumes "json_schema_ok (JObj kvs)" "(k, v) \<in> set kvs"
  shows "keyword_shape k v" "s \<in> set (held_schemas k v) \<Longrightarrow> json_schema_ok s"
  using assms by (auto simp: list_all_iff)

lemma json_schema_ok_stripKey: "json_schema_ok (JObj kvs) \<Longrightarrow> json_schema_ok (JObj (stripKey key kvs))"
  by (auto simp: stripKey_def list_all_iff intro: distinct_map_filter)

lemma in_obj_putE:
  assumes "(k', v') \<in> set (obj_put k v kvs)"
  obtains "k' = k" "v' = v" | "(k', v') \<in> set kvs" "k' \<noteq> k"
  using assms by (force simp: obj_put_def split: if_split_asm)

lemma openapi_ok_obj_put:
  assumes "openapi_ok (JObj kvs)" "keyword_ok k v" "list_all openapi_ok (held_schemas k v)"
  shows "openapi_ok (JObj (obj_put k v kvs))"
  using assms by (auto simp: list_all_iff elim!: in_obj_putE)

lemma is_null_obj_put: "k \<noteq> ''type'' \<Longrightarrow> is_null_schema (JObj (obj_put k v kvs)) = is_null_schema (JObj kvs)"
  by (simp add: is_null_schema_def js_prop_def map_of_obj_put)

lemma plain_keyword:
  assumes "k \<in> {''enum'', ''nullable'', ''description'', ''example''}"
  shows "keyword_ok k v" "held_schemas k v = []" "k \<noteq> ''type''"
  using assms by (auto simp: keyword_ok_def held_schemas_def keyword_of_def)

lemma put_plain:
  assumes "openapi_ok (JObj kvs)" "\<not> is_null_schema (JObj kvs)" "k \<in> {''enum'', ''nullable'', ''description'', ''example''}"
  shows "openapi_ok (JObj (obj_put k v kvs))" "\<not> is_null_schema (JObj (obj_put k v kvs))"
  using openapi_ok_obj_put [OF assms(1) plain_keyword(1) [OF assms(3)]] is_null_obj_put [OF plain_keyword(3) [OF assms(3)]]
    plain_keyword(2) [OF assms(3)] assms(2) by simp_all

lemma put_annotations:
  assumes "openapi_ok (JObj kvs)" "\<not> is_null_schema (JObj kvs)"
  shows "openapi_ok (JObj (keep_annotations node kvs))" "\<not> is_null_schema (JObj (keep_annotations node kvs))"
  using assms unfolding keep_annotations_def Let_def
  by (simp_all add: put_plain del: openapi_ok.simps split: option.split)

lemma without_null_free:
  assumes "length (filter is_null_schema vs) \<le> 1" "v \<in> set (without_null vs)"
  shows "\<not> is_null_schema v"
proof -
  have "filter is_null_schema (without_null vs) = tl (filter is_null_schema vs)" by (induction vs) simp_all
  with assms(1) have "filter is_null_schema (without_null vs) = []"
    by (cases "filter is_null_schema vs") simp_all
  with assms(2) show ?thesis by (simp add: filter_empty_conv)
qed

lemma convertNode_object: "\<exists>out. convertNode (JObj kvs) = JObj out"
  by (subst convertNode.simps(1)) (auto split: option.split list.split)

definition converted_ok :: "json \<Rightarrow> json \<Rightarrow> bool" where
  "converted_ok n n' = (openapi_ok n' \<and> (\<not> is_null_schema n \<longrightarrow> \<not> is_null_schema n'))"

lemma converted_members:
  assumes "\<And>s. s \<in> set vs \<Longrightarrow> openapi_ok (convertNode s)"
  shows "list_all openapi_ok (map convertNode vs)"
  using assms by (simp add: list_all_iff)

lemma keyword_of_cases:
  obtains "k = ''properties''" "keyword_of k = Named" | "k \<in> {''items'', ''not'', ''additionalProperties''}" "keyword_of k = Single"
  | "k \<in> {''anyOf'', ''oneOf'', ''allOf''}" "keyword_of k = Several"
  | "k \<notin> {''properties'', ''items'', ''not'', ''additionalProperties'', ''anyOf'', ''oneOf'', ''allOf''}" "keyword_of k = Plain"
proof (cases "k = ''properties''")
  case True
  then show ?thesis by (intro that(1)) (simp_all add: keyword_of_def)
next
  case p: False
  show ?thesis
  proof (cases "k \<in> {''items'', ''not'', ''additionalProperties''}")
    case True
    with p show ?thesis by (intro that(2)) (simp_all only: keyword_of_def if_True if_False)
  next
    case q: False
    show ?thesis
    proof (cases "k \<in> {''anyOf'', ''oneOf'', ''allOf''}")
      case True
      with p q show ?thesis by (intro that(3)) (simp_all only: keyword_of_def if_True if_False)
    next
      case False
      with p q show ?thesis by (intro that(4)) (simp_all only: keyword_of_def if_False insert_iff empty_iff simp_thms)
    qed
  qed
qed

lemma convertMember_plain:
  "k \<notin> {''properties'', ''items'', ''not'', ''additionalProperties'', ''anyOf'', ''oneOf'', ''allOf''} \<Longrightarrow> convertMember k v = v"
  by (simp only: convertMember.simps insert_iff empty_iff simp_thms if_False de_Morgan_disj not_False_eq_True)

lemma null_free_map:
  assumes "\<And>s. s \<in> set vs \<Longrightarrow> converted_ok s (convertNode s)" "\<not> list_ex is_null_schema vs"
  shows "null_free (JArr (map convertNode vs))"
  using assms by (auto simp: null_free_def list_ex_iff converted_ok_def)

lemma convertMember_ok:
  assumes shape: "keyword_shape k v" and held: "list_all json_schema_ok (held_schemas k v)"
    and here: "keyword_ok k v"
    and IH: "\<And>s. s \<in> set (held_schemas k v) \<Longrightarrow> json_schema_ok s \<Longrightarrow> converted_ok s (convertNode s)"
  shows "keyword_ok k (convertMember k v) \<and> list_all openapi_ok (held_schemas k (convertMember k v))"
proof -
  from held IH have conv: "s \<in> set (held_schemas k v) \<Longrightarrow> converted_ok s (convertNode s)" for s
    by (simp add: list_all_iff)
  consider "k = ''properties''" "keyword_of k = Named"
    | "k \<in> {''items'', ''not'', ''additionalProperties''}" "keyword_of k = Single"
    | "k \<in> {''anyOf'', ''oneOf'', ''allOf''}" "keyword_of k = Several"
    | "k \<notin> {''properties'', ''items'', ''not'', ''additionalProperties'', ''anyOf'', ''oneOf'', ''allOf''}" "keyword_of k = Plain"
    by (rule keyword_of_cases)
  then show ?thesis
  proof cases
    case 1
    with shape obtain ps where "v = JObj ps" by (cases v) (auto simp: keyword_shape_def)
    with 1 conv have ok: "(p, s) \<in> set ps \<Longrightarrow> openapi_ok (convertNode s)" for p s
      by (force simp: held_schemas_def converted_ok_def)
    from 1 \<open>v = JObj ps\<close> show ?thesis
      by (auto simp: convertMember.simps held_schemas_def keyword_ok_def js_truthy_def list_all_iff intro: ok)
  next
    case 2
    then have "json_schema_ok v" using held by (simp add: held_schemas_def)
    then consider kvs where "v = JObj kvs" | b where "v = JBool b" by (cases v) auto
    then have "convertMember k v = convertNode v"
      by cases (use 2(1) in \<open>auto simp: convertMember.simps js_truthy_def\<close>)
    with 2 here conv [of v] show ?thesis by (auto simp: held_schemas_def keyword_ok_def converted_ok_def)
  next
    case 3
    show ?thesis
    proof (cases v)
      case (JArr vs)
      with 3(1) have m: "convertMember k v = JArr (map convertNode vs)" by (auto simp: convertMember.simps)
      from JArr 3 conv have "s \<in> set vs \<Longrightarrow> converted_ok s (convertNode s)" for s by (simp add: held_schemas_def)
      with 3 here JArr show ?thesis unfolding m
        by (auto simp: held_schemas_def keyword_ok_def list_all_iff converted_ok_def null_free_def list_ex_iff)
    qed (use 3 here in \<open>auto simp: convertMember.simps held_schemas_def keyword_ok_def null_free_def\<close>)
  next
    case 4
    with here show ?thesis by (simp add: convertMember_plain held_schemas_def)
  qed
qed

lemma converted_entries:
  assumes "json_schema_ok v" "converted_ok v (convertNode v)" "\<not> is_null_schema v"
  shows "openapi_ok (JObj (object_entries (convertNode v)))" "\<not> is_null_schema (JObj (object_entries (convertNode v)))"
proof -
  consider out where "convertNode v = JObj out" | "object_entries (convertNode v) = []"
  proof (cases v)
    case (JObj kvs)
    with convertNode_object [of kvs] that(1) show ?thesis by auto
  qed (use assms(1) that(2) in simp_all)
  then have "openapi_ok (JObj (object_entries (convertNode v))) \<and> \<not> is_null_schema (JObj (object_entries (convertNode v)))"
    by cases (use assms(2,3) in \<open>simp_all add: converted_ok_def is_null_schema_def js_prop_def\<close>)
  then show "openapi_ok (JObj (object_entries (convertNode v)))"
      "\<not> is_null_schema (JObj (object_entries (convertNode v)))" by simp_all
qed

lemma nullable_union_None:
  assumes "nullable_union kvs = None" "distinct (map fst kvs)" "(k, v) \<in> set kvs" "k \<in> {''anyOf'', ''oneOf''}"
  shows "null_free v"
proof -
  have "map_of kvs k = Some v" using assms(2,3) by (simp add: map_of_eq_Some_iff)
  moreover have "union_with_null kvs k = None"
    using assms(1,4) by (auto simp: nullable_union_def split: option.splits)
  ultimately show ?thesis by (auto simp: union_with_null_def null_free_def split: json.splits if_splits)
qed

lemma plain_converted:
  assumes const: "map_of kvs ''const'' = None" and u: "nullable_union kvs = None" and ok: "json_schema_ok (JObj kvs)"
    and IH: "\<And>s. size s < size (JObj kvs) \<Longrightarrow> json_schema_ok s \<Longrightarrow> converted_ok s (convertNode s)"
  shows "converted_ok (JObj kvs) (convertNode (JObj kvs))"
proof -
  have conv: "convertNode (JObj kvs) = JObj (map (\<lambda>(k, v). (k, convertMember k v)) (stripKey ''$schema'' kvs))"
    by (subst convertNode.simps(1)) (simp add: const u)
  have member: "keyword_ok k (convertMember k v) \<and> list_all openapi_ok (held_schemas k (convertMember k v))"
    if kv: "(k, v) \<in> set kvs" "k \<noteq> ''$schema''" for k v
  proof (rule convertMember_ok)
    show "keyword_shape k v" "list_all json_schema_ok (held_schemas k v)"
      using json_schema_okD [OF ok kv(1)] by (auto simp: list_all_iff)
    have "k \<noteq> ''const''" using const kv(1) by (force simp: map_of_eq_None_iff)
    with kv nullable_union_None [OF u _ kv(1)] ok show "keyword_ok k v" by (auto simp: keyword_ok_def)
    show "converted_ok s (convertNode s)" if "s \<in> set (held_schemas k v)" "json_schema_ok s" for s
      by (rule IH [OF size_held_member [OF kv(1) that(1)] that(2)])
  qed
  have "map_of (map (\<lambda>(k, v). (k, convertMember k v)) (stripKey ''$schema'' kvs)) ''type'' = map_of kvs ''type''"
    by (induction kvs) (auto simp: stripKey_def convertMember_plain)
  then have "is_null_schema (convertNode (JObj kvs)) = is_null_schema (JObj kvs)"
    by (simp add: conv is_null_schema_def js_prop_def)
  moreover have "openapi_ok (convertNode (JObj kvs))"
    unfolding conv using member by (auto simp: list_all_iff stripKey_def)
  ultimately show ?thesis by (simp add: converted_ok_def)
qed

lemma union_converted:
  assumes const: "map_of kvs ''const'' = None" and u: "nullable_union kvs = Some (key, vs)"
    and vs: "\<And>v. v \<in> set vs \<Longrightarrow> converted_ok v (convertNode v)" "\<And>v. v \<in> set vs \<Longrightarrow> \<not> is_null_schema v"
      "\<And>v. v \<in> set vs \<Longrightarrow> json_schema_ok v"
  shows "openapi_ok (convertNode (JObj kvs))" "\<not> is_null_schema (convertNode (JObj kvs))"
proof -
  have key: "key \<in> {''anyOf'', ''oneOf''}" using u by (auto elim!: nullable_union_SomeD)
  have conv: "convertNode (JObj kvs) =
      (case vs of
         [] \<Rightarrow> JObj [(''nullable'', JBool True)]
       | [v] \<Rightarrow> JObj (keep_annotations kvs (obj_put ''nullable'' (JBool True) (object_entries (convertNode v))))
       | _ \<Rightarrow> JObj [(key, JArr (map convertNode vs)), (''nullable'', JBool True)])"
    by (subst convertNode.simps(1)) (simp add: const u)
  have "openapi_ok (convertNode (JObj kvs)) \<and> \<not> is_null_schema (convertNode (JObj kvs))"
  proof (cases vs)
    case Nil
    then show ?thesis unfolding conv
      by (simp add: keyword_ok_def held_schemas_def keyword_of_def is_null_schema_def js_prop_def)
  next
    case (Cons v vs')
    show ?thesis
    proof (cases vs')
      case Nil
      have out: "openapi_ok (JObj (object_entries (convertNode v)))"
          "\<not> is_null_schema (JObj (object_entries (convertNode v)))"
        using converted_entries [OF vs(3) vs(1,2)] Cons by simp_all
      from put_annotations [OF put_plain [OF out, of "''nullable''" "JBool True"]] Cons Nil show ?thesis
        unfolding conv by simp
    next
      case (Cons w vs'')
      have "null_free (JArr (map convertNode vs))"
        by (rule null_free_map) (use vs in \<open>auto simp: list_ex_iff\<close>)
      moreover have "list_all openapi_ok (map convertNode vs)"
        by (rule converted_members) (use vs in \<open>simp add: converted_ok_def\<close>)
      moreover have "keyword_of key = Several" using key by (auto simp: keyword_of_def)
      moreover have "key \<noteq> ''type''" using key by auto
      ultimately show ?thesis unfolding conv using Cons \<open>vs = v # vs'\<close> key
        by (auto simp: keyword_ok_def held_schemas_def keyword_of_def is_null_schema_def js_prop_def)
    qed
  qed
  then show "openapi_ok (convertNode (JObj kvs))" "\<not> is_null_schema (convertNode (JObj kvs))" by simp_all
qed

lemma convertNode_ok:
  "json_schema_ok n \<Longrightarrow> converted_ok n (convertNode n)"
proof (induction n rule: measure_induct_rule [of size])
  case (less n)
  from less.prems consider b where "n = JBool b" | kvs where "n = JObj kvs" by (cases n) auto
  then show ?case
  proof cases
    case (2 kvs)
    note ok = less.prems [unfolded 2]
    show ?thesis
    proof (cases "map_of kvs ''const''")
      case (Some c)
      let ?rest = "JObj (stripKey ''const'' kvs)"
      have "size ?rest < size n" using size_stripKey [OF map_of_SomeD [OF Some]] 2 by simp
      from less.IH [OF this json_schema_ok_stripKey [OF ok]] have rest: "converted_ok ?rest (convertNode ?rest)" .
      have null: "is_null_schema ?rest = is_null_schema n"
        unfolding 2 is_null_schema_def js_prop_def stripKey_def by (induction kvs) auto
      have conv: "convertNode n = JObj (obj_put ''enum'' (JArr [c]) (object_entries (convertNode ?rest)))"
        unfolding 2 by (subst convertNode.simps(1)) (simp add: Some)
      from convertNode_object obtain out where out: "convertNode ?rest = JObj out" by blast
      from rest show ?thesis unfolding conv converted_ok_def null out object_entries.simps
        by (simp add: openapi_ok_obj_put is_null_obj_put plain_keyword del: openapi_ok.simps)
    next
      case None
      show ?thesis
      proof (cases "nullable_union kvs")
        case (Some u)
        then obtain key vs where u: "nullable_union kvs = Some (key, vs)" by (cases u) auto
        from nullable_union_SomeD [OF u] obtain ws where ws: "(key, JArr ws) \<in> set kvs" "set vs \<subseteq> set ws"
          "key \<in> {''anyOf'', ''oneOf''}" "vs = without_null ws" by blast
        have "keyword_of key = Several" using ws(3) by (auto simp: keyword_of_def)
        with json_schema_okD [OF ok ws(1)] ws(3) have nulls: "length (filter is_null_schema ws) \<le> 1"
          and kids: "\<And>s. s \<in> set ws \<Longrightarrow> json_schema_ok s"
          by (auto simp: keyword_shape_def held_schemas_def)
        have vs: "converted_ok v (convertNode v)" "\<not> is_null_schema v" "json_schema_ok v" if "v \<in> set vs" for v
          using less.IH [of v] size_variant [OF u that] kids ws(2) without_null_free [OF nulls] that
          by (auto simp: 2 ws(4))
        show ?thesis
          using union_converted [OF None u vs] by (simp add: 2 converted_ok_def)
      next
        case None': None
        show ?thesis
          using plain_converted [OF None None' ok less.IH] by (simp add: 2)
      qed
    qed
  qed (simp add: converted_ok_def)
qed

section \<open>Schemas without transforms\<close>

text \<open>Only the schemas \<open>toJSONSchema\<close> cannot represent are replaced: a transform by its input.\<close>

fun stripTransforms :: "zod \<Rightarrow> zod" where
  "stripTransforms (ZTransform s) = stripTransforms s"
| "stripTransforms (ZObject shape checks) = ZObject (map (\<lambda>(k, s). (k, stripTransforms s)) shape) []"
| "stripTransforms (ZOptional s) = ZOptional (stripTransforms s)"
| "stripTransforms (ZNullable s) = ZNullable (stripTransforms s)"
| "stripTransforms (ZDefault s v) = ZDefault (stripTransforms s) v"
| "stripTransforms (ZArray s) = ZArray (stripTransforms s)"
| "stripTransforms s = s"

text \<open>
  \<open>zodToOpenApi\<close>; \<open>toJSONSchema\<close> is Zod's, nothing where it throws: it does on a transform that is
  left, which this predicate finds in the positions the converter walks.
\<close>

fun has_transform :: "zod \<Rightarrow> bool" where
  "has_transform (ZTransform s) = True"
| "has_transform (ZObject shape checks) = list_ex (\<lambda>(k, s). has_transform s) shape"
| "has_transform (ZOptional s) = has_transform s"
| "has_transform (ZNullable s) = has_transform s"
| "has_transform (ZDefault s v) = has_transform s"
| "has_transform (ZArray s) = has_transform s"
| "has_transform (ZRecord k s) = (has_transform k \<or> has_transform s)"
| "has_transform s = False"

fun record_transform :: "zod \<Rightarrow> bool" where
  "record_transform (ZRecord k s) = (has_transform k \<or> has_transform s)"
| "record_transform (ZTransform s) = record_transform s"
| "record_transform (ZObject shape checks) = list_ex (\<lambda>(k, s). record_transform s) shape"
| "record_transform (ZOptional s) = record_transform s"
| "record_transform (ZNullable s) = record_transform s"
| "record_transform (ZDefault s v) = record_transform s"
| "record_transform (ZArray s) = record_transform s"
| "record_transform s = False"

definition zodToOpenApi :: "(zod \<Rightarrow> json option) \<Rightarrow> zod \<Rightarrow> json option" where
  "zodToOpenApi toJSONSchema s = map_option convertNode (toJSONSchema (stripTransforms s))"

lemma stripTransforms_free: "has_transform (stripTransforms s) \<longleftrightarrow> record_transform s"
proof (induction s)
  case (ZObject shape checks)
  then show ?case by (force simp: list_ex_iff)
qed simp_all

text \<open>C39: If \<open>toJSONSchema\<close> represents every schema without a transform, by a document with at most one null
  in a union, then every schema whose records hold no transform is converted, and the result is a
  schema of OpenAPI 3.0: no \<open>const\<close>, no \<open>$schema\<close>, and no union with a null variant at any depth.\<close>

theorem zodToOpenApi_ok:
  assumes "\<And>z. \<not> has_transform z \<Longrightarrow> \<exists>n. toJSONSchema z = Some n \<and> json_schema_ok n"
    and "\<not> record_transform s"
  shows "\<exists>n. zodToOpenApi toJSONSchema s = Some n \<and> openapi_ok n"
proof -
  from assms obtain n where "toJSONSchema (stripTransforms s) = Some n" "json_schema_ok n"
    using stripTransforms_free by blast
  with convertNode_ok show ?thesis by (auto simp: zodToOpenApi_def converted_ok_def)
qed

text \<open>A nullable text as Zod writes it, wherever it is asked for.\<close>

definition demo_json_schema :: "zod \<Rightarrow> json option" where
  "demo_json_schema z =
     Some (JObj [(''$schema'', JStr ''draft''),
       (''anyOf'', JArr [JObj [(''type'', JStr ''string'')], JObj [(''type'', JStr ''null'')]])])"

theorem zodToOpenApi_ok_witness:
  "\<exists>n. zodToOpenApi demo_json_schema (ZTransform (ZNullable (ZString [DateTime]))) = Some n \<and> openapi_ok n"
proof (rule zodToOpenApi_ok)
  have "json_schema_ok (the (demo_json_schema z))" for z unfolding demo_json_schema_def option.sel by code_simp
  then show "\<exists>n. demo_json_schema z = Some n \<and> json_schema_ok n" for z
    by (simp add: demo_json_schema_def del: json_schema_ok.simps)
qed simp

end
