(* ===== verification/OpenApiSpec.thy ===== *)
theory OpenApiSpec
  imports OpenApi
begin

text \<open>
  \<open>openapi.builder.js\<close>: the document of the operations registered in \<open>docs.routes.js\<close>.  The
  prose of an operation, its summary and description, is a parameter \<open>prose\<close>: nothing depends on it.
\<close>

section \<open>Registered operations\<close>

datatype doc_security = Bearer | ApiKeyHeader | AdminOnly | OrgMember

record doc_response =
  dr_description :: string
  dr_data :: "zod option"

record operation =
  op_method :: string
  op_path :: string
  op_tag :: string
  op_security :: "doc_security option"
  op_request :: "zod option"
  op_responses :: "(nat \<times> doc_response) list"

text \<open>\<open>SECURITY_REQUIREMENTS\<close>\<close>

fun SECURITY_REQUIREMENTS :: "doc_security \<Rightarrow> json" where
  "SECURITY_REQUIREMENTS Bearer = JArr [JObj [(''bearerAuth'', JArr [])]]"
| "SECURITY_REQUIREMENTS ApiKeyHeader = JArr [JObj [(''apiKeyAuth'', JArr [])]]"
| "SECURITY_REQUIREMENTS AdminOnly = JArr [JObj [(''bearerAuth'', JArr [])]]"
| "SECURITY_REQUIREMENTS OrgMember = JArr [JObj [(''bearerAuth'', JArr [])]]"

definition json_type :: "string \<Rightarrow> json" where
  "json_type t = JObj [(''type'', JStr t)]"

definition ERROR_SCHEMA :: json where
  "ERROR_SCHEMA =
     JObj [(''type'', JStr ''object''),
       (''properties'', JObj
         [(''success'', JObj [(''type'', JStr ''boolean''), (''example'', JBool False)]),
          (''message'', json_type ''string''),
          (''errors'', JObj [(''type'', JStr ''object''),
             (''additionalProperties'', JObj [(''type'', JStr ''array''), (''items'', json_type ''string'')])])]),
       (''required'', JArr [JStr ''success'', JStr ''message''])]"

text \<open>What \<open>zodToOpenApi\<close> throws on ends the whole construction.\<close>

definition envelope :: "(zod \<Rightarrow> json option) \<Rightarrow> zod \<Rightarrow> json option" where
  "envelope convert dataSchema =
     map_option (\<lambda>inner.
         JObj [(''type'', JStr ''object''),
           (''properties'', JObj
             [(''success'', JObj [(''type'', JStr ''boolean''), (''example'', JBool True)]),
              (''data'', inner)]),
           (''required'', JArr [JStr ''success'', JStr ''data''])])
       (convert dataSchema)"

fun isOptionalProp :: "zod \<Rightarrow> bool" where
  "isOptionalProp (ZOptional s) = True"
| "isOptionalProp (ZDefault s v) = True"
| "isOptionalProp s = False"

text \<open>\<open>schema.shape\<close>: the fields of an object schema; a wrapper has none.\<close>

fun shape_of :: "zod \<Rightarrow> (string \<times> zod) list" where
  "shape_of (ZObject shape checks) = shape"
| "shape_of _ = []"

fun sequence :: "'a option list \<Rightarrow> 'a list option" where
  "sequence [] = Some []"
| "sequence (x # xs) =
     (case (x, sequence xs) of (Some y, Some ys) \<Rightarrow> Some (y # ys) | _ \<Rightarrow> None)"

definition parameter :: "(zod \<Rightarrow> json option) \<Rightarrow> string \<Rightarrow> bool \<Rightarrow> string \<times> zod \<Rightarrow> json option" where
  "parameter convert place required p =
     map_option (\<lambda>schema.
         JObj [(''name'', JStr (fst p)), (''in'', JStr place), (''required'', JBool required), (''schema'', schema)])
       (convert (snd p))"

definition path_parameters :: "zod \<Rightarrow> (string \<times> zod) list" where
  "path_parameters request =
     (case map_of (shape_of request) ''params'' of Some ps \<Rightarrow> shape_of ps | None \<Rightarrow> [])"

definition query_parameters :: "zod \<Rightarrow> (string \<times> zod) list" where
  "query_parameters request =
     (case map_of (shape_of request) ''query'' of Some qs \<Rightarrow> shape_of qs | None \<Rightarrow> [])"

text \<open>The parameters and the body; nothing where a schema does not convert.\<close>

definition buildRequest :: "(zod \<Rightarrow> json option) \<Rightarrow> zod option \<Rightarrow> (json list \<times> json option) option" where
  "buildRequest convert request =
     (case request of
        None \<Rightarrow> Some ([], None)
      | Some r \<Rightarrow>
          (case sequence (map (parameter convert ''path'' True) (path_parameters r)
                 @ map (\<lambda>p. parameter convert ''query'' (\<not> isOptionalProp (snd p)) p) (query_parameters r)) of
             None \<Rightarrow> None
           | Some params \<Rightarrow>
               (case map_of (shape_of r) ''body'' of
                  None \<Rightarrow> Some (params, None)
                | Some b \<Rightarrow>
                    map_option (\<lambda>schema.
                        (params, Some (JObj [(''required'', JBool True),
                           (''content'', JObj [(''application/json'', JObj [(''schema'', schema)])])])))
                      (convert b))))"

definition json_content :: "json \<Rightarrow> string \<times> json" where
  "json_content schema = (''content'', JObj [(''application/json'', JObj [(''schema'', schema)])])"

definition buildResponse :: "(zod \<Rightarrow> json option) \<Rightarrow> nat \<times> doc_response \<Rightarrow> (string \<times> json) option" where
  "buildResponse convert sr =
     (let head = (''description'', JStr (dr_description (snd sr)))
      in case dr_data (snd sr) of
           Some z \<Rightarrow> map_option (\<lambda>e. (show_nat (fst sr), JObj [head, json_content e])) (envelope convert z)
         | None \<Rightarrow>
             Some (show_nat (fst sr),
               JObj (head # (if fst sr \<ge> 400 then [json_content ERROR_SCHEMA] else []))))"

definition buildOperation ::
  "(operation \<Rightarrow> (string \<times> json) list) \<Rightarrow> (zod \<Rightarrow> json option) \<Rightarrow> operation \<Rightarrow> json option" where
  "buildOperation prose convert op =
     (case (buildRequest convert (op_request op), sequence (map (buildResponse convert) (op_responses op))) of
        (Some (parameters, requestBody), Some responses) \<Rightarrow>
          Some (JObj
            ([(''tags'', JArr [JStr (op_tag op)])] @ prose op
             @ [(''parameters'', JArr parameters), (''responses'', JObj responses)]
             @ (case requestBody of Some b \<Rightarrow> [(''requestBody'', b)] | None \<Rightarrow> [])
             @ (case op_security op of Some x \<Rightarrow> [(''security'', SECURITY_REQUIREMENTS x)] | None \<Rightarrow> [])))
      | _ \<Rightarrow> None)"

text \<open>\<open>path.replace(/:(\w+)/g, '{$1}')\<close>\<close>

function toOpenApiPath :: "string \<Rightarrow> string" where
  "toOpenApiPath [] = []"
| "toOpenApiPath (c # cs) =
     (if c = CHR '':''
      then
        (let name = takeWhile is_word cs
         in if name = [] then c # toOpenApiPath cs
            else CHR ''{'' # name @ CHR ''}'' # toOpenApiPath (dropWhile is_word cs))
      else c # toOpenApiPath cs)"
  by pat_completeness auto
termination by (relation "measure length") (auto simp: le_imp_less_Suc length_dropWhile_le)

text \<open>\<open>paths[oaPath] ??= {}; paths[oaPath][method] = ...\<close>\<close>

definition put_operation :: "string \<Rightarrow> string \<Rightarrow> json \<Rightarrow> (string \<times> json) list \<Rightarrow> (string \<times> json) list" where
  "put_operation path method op paths =
     obj_put path (JObj (obj_put method op (case map_of paths path of Some (JObj o') \<Rightarrow> o' | _ \<Rightarrow> []))) paths"

fun buildPaths ::
  "(operation \<Rightarrow> (string \<times> json) list) \<Rightarrow> (zod \<Rightarrow> json option) \<Rightarrow> operation list \<Rightarrow> (string \<times> json) list
   \<Rightarrow> (string \<times> json) list option" where
  "buildPaths prose convert [] paths = Some paths"
| "buildPaths prose convert (op # ops) paths =
     (case buildOperation prose convert op of
        None \<Rightarrow> None
      | Some j \<Rightarrow>
          buildPaths prose convert ops
            (put_operation (toOpenApiPath (op_path op)) (js_lower (op_method op)) j paths))"

end
