(* ===== verification/Operations.thy ===== *)
theory Operations
  imports Schemas OpenApiSpec
begin

text \<open>
  \<open>src/modules/docs/docs.schemas.js\<close> and the table of operations of \<open>docs.routes.js\<close>, in its order.
\<close>

section \<open>Schemas of responses\<close>

definition isoDate_doc :: "zod" where
  "isoDate_doc =
     ZString [DateTime]"

definition pagination_doc :: "zod" where
  "pagination_doc =
     ZObject
    [(''page'', ZNumber False [IsInt]),
      (''limit'', ZNumber False [IsInt]),
      (''total'', ZNumber False [IsInt]),
      (''totalPages'', ZNumber False [IsInt])] []"

definition messageData_doc :: "zod" where
  "messageData_doc =
     ZObject
    [(''message'', ZString [])] []"

definition user_doc :: "zod" where
  "user_doc =
     ZObject
    [(''id'', ZString []),
      (''name'', ZString []),
      (''email'', ZEmail None),
      (''role'', ZEnum [''USER'', ''ADMIN'']),
      (''createdAt'', isoDate_doc)] []"

definition authTokens_doc :: "zod" where
  "authTokens_doc =
     ZObject
    [(''user'', user_doc),
      (''accessToken'', ZString []),
      (''refreshToken'', ZString [])] []"

definition loginData_doc :: "zod" where
  "loginData_doc =
     ZObject
    [(''twoFactorRequired'', ZOptional ZBoolean),
      (''user'', ZOptional (user_doc)),
      (''accessToken'', ZOptional (ZString [])),
      (''refreshToken'', ZOptional (ZString [])),
      (''challengeToken'', ZOptional (ZString []))] []"

definition googleAuthUrlData_doc :: "zod" where
  "googleAuthUrlData_doc =
     ZObject
    [(''url'', ZString [Url None]),
      (''state'', ZString [])] []"

definition twoFactorSetupData_doc :: "zod" where
  "twoFactorSetupData_doc =
     ZObject
    [(''secret'', ZString []),
      (''qrCode'', ZString [])] []"

definition twoFactorEnableData_doc :: "zod" where
  "twoFactorEnableData_doc =
     ZObject
    [(''backupCodes'', ZArray (ZString []))] []"

definition organization_doc :: "zod" where
  "organization_doc =
     ZObject
    [(''id'', ZString []),
      (''name'', ZString []),
      (''slug'', ZString []),
      (''ownerId'', ZString []),
      (''createdAt'', isoDate_doc),
      (''updatedAt'', isoDate_doc)] []"

definition organizationWithRole_doc :: "zod" where
  "organizationWithRole_doc =
     extend_schema organization_doc [(''role'', ZEnum [''OWNER'', ''ADMIN'', ''MEMBER''])]"

definition member_doc :: "zod" where
  "member_doc =
     ZObject
    [(''id'', ZString []),
      (''role'', ZEnum [''OWNER'', ''ADMIN'', ''MEMBER'']),
      (''createdAt'', isoDate_doc),
      (''user'', ZObject
        [(''id'', ZString []),
          (''name'', ZString []),
          (''email'', ZEmail None)] [])] []"

definition plan_doc :: "zod" where
  "plan_doc =
     ZObject
    [(''id'', ZString []),
      (''name'', ZString []),
      (''code'', ZString []),
      (''priceCents'', ZNumber False [IsInt]),
      (''interval'', ZEnum [''MONTH'', ''YEAR'']),
      (''stripePriceId'', ZNullable (ZString [])),
      (''createdAt'', isoDate_doc)] []"

definition subscription_doc :: "zod" where
  "subscription_doc =
     ZObject
    [(''id'', ZString []),
      (''status'', ZEnum [''ACTIVE'', ''CANCELED'', ''PAST_DUE'', ''TRIALING'']),
      (''plan'', plan_doc),
      (''currentPeriodStart'', ZNullable (isoDate_doc)),
      (''currentPeriodEnd'', ZNullable (isoDate_doc)),
      (''createdAt'', isoDate_doc)] []"

definition checkoutData_doc :: "zod" where
  "checkoutData_doc =
     ZObject
    [(''url'', ZString [Url None])] []"

definition portalData_doc :: "zod" where
  "portalData_doc =
     ZObject
    [(''url'', ZString [Url None])] []"

definition apiKey_doc :: "zod" where
  "apiKey_doc =
     ZObject
    [(''id'', ZString []),
      (''name'', ZString []),
      (''scopes'', ZArray (ZString [])),
      (''expiresAt'', ZNullable (isoDate_doc)),
      (''lastUsedAt'', ZNullable (isoDate_doc)),
      (''createdAt'', isoDate_doc),
      (''revokedAt'', ZNullable (isoDate_doc))] []"

definition apiKeyCreated_doc :: "zod" where
  "apiKeyCreated_doc =
     extend_schema apiKey_doc [(''key'', ZString [])]"

definition session_doc :: "zod" where
  "session_doc =
     ZObject
    [(''id'', ZString []),
      (''userAgent'', ZNullable (ZString [])),
      (''ipAddress'', ZNullable (ZString [])),
      (''expiresAt'', isoDate_doc),
      (''createdAt'', isoDate_doc),
      (''updatedAt'', isoDate_doc)] []"

definition auditLog_doc :: "zod" where
  "auditLog_doc =
     ZObject
    [(''id'', ZString []),
      (''action'', ZString []),
      (''userId'', ZNullable (ZString [])),
      (''targetUserId'', ZNullable (ZString [])),
      (''organizationId'', ZNullable (ZString [])),
      (''metadata'', ZNullable (ZRecord (ZString []) ZUnknown)),
      (''ipAddress'', ZNullable (ZString [])),
      (''userAgent'', ZNullable (ZString [])),
      (''createdAt'', isoDate_doc)] []"

definition invitation_doc :: "zod" where
  "invitation_doc =
     ZObject
    [(''id'', ZString []),
      (''email'', ZEmail None),
      (''role'', ZEnum [''ADMIN'', ''MEMBER'']),
      (''status'', ZEnum [''PENDING'', ''ACCEPTED'', ''DECLINED'', ''CANCELED'', ''EXPIRED'']),
      (''expiresAt'', isoDate_doc),
      (''createdAt'', isoDate_doc),
      (''organizationId'', ZString []),
      (''invitedById'', ZString [])] []"

definition notification_doc :: "zod" where
  "notification_doc =
     ZObject
    [(''id'', ZString []),
      (''type'', ZEnum [''SYSTEM'', ''ORGANIZATION'', ''BILLING'', ''SECURITY'', ''TEAM'']),
      (''title'', ZString []),
      (''message'', ZString []),
      (''readAt'', ZNullable (isoDate_doc)),
      (''createdAt'', isoDate_doc)] []"

definition notificationPreferences_doc :: "zod" where
  "notificationPreferences_doc =
     ZObject
    [(''emailEnabled'', ZBoolean),
      (''pushEnabled'', ZBoolean),
      (''inAppEnabled'', ZBoolean),
      (''mutedTypes'', ZArray (ZEnum [''SYSTEM'', ''ORGANIZATION'', ''BILLING'', ''SECURITY'',
          ''TEAM'']))] []"

definition featureFlag_doc :: "zod" where
  "featureFlag_doc =
     ZObject
    [(''id'', ZString []),
      (''key'', ZString []),
      (''name'', ZString []),
      (''description'', ZNullable (ZString [])),
      (''type'', ZEnum [''BOOLEAN'', ''PERCENTAGE'', ''PLAN'']),
      (''value'', ZUnknown),
      (''active'', ZBoolean),
      (''createdAt'', isoDate_doc),
      (''updatedAt'', isoDate_doc)] []"

definition featureFlagOverride_doc :: "zod" where
  "featureFlagOverride_doc =
     ZObject
    [(''id'', ZString []),
      (''flagId'', ZString []),
      (''organizationId'', ZString []),
      (''enabled'', ZBoolean),
      (''value'', ZUnknown),
      (''createdAt'', isoDate_doc),
      (''updatedAt'', isoDate_doc)] []"

definition evaluateFlagData_doc :: "zod" where
  "evaluateFlagData_doc =
     ZObject
    [(''key'', ZString []),
      (''enabled'', ZBoolean),
      (''value'', ZUnknown),
      (''source'', ZEnum [''override'', ''default''])] []"

definition dataExport_doc :: "zod" where
  "dataExport_doc =
     ZRecord (ZString []) ZUnknown"

definition project_doc :: "zod" where
  "project_doc =
     ZObject
    [(''id'', ZString []),
      (''name'', ZString []),
      (''description'', ZNullable (ZString [])),
      (''status'', ZEnum [''ACTIVE'', ''ARCHIVED'']),
      (''organizationId'', ZString []),
      (''createdAt'', isoDate_doc),
      (''updatedAt'', isoDate_doc),
      (''createdBy'', ZObject
        [(''id'', ZString []),
          (''name'', ZNullable (ZString [])),
          (''email'', ZString [])] [])] []"

section \<open>Responses\<close>

definition doc_ok :: "zod \<Rightarrow> string \<Rightarrow> (nat \<times> doc_response) list" where
  "doc_ok data description = [(200, \<lparr>dr_description = description, dr_data = Some data\<rparr>)]"

definition doc_created :: "zod \<Rightarrow> string \<Rightarrow> (nat \<times> doc_response) list" where
  "doc_created data description = [(201, \<lparr>dr_description = description, dr_data = Some data\<rparr>)]"

definition noData :: "string \<Rightarrow> (nat \<times> doc_response) list" where
  "noData description = [(200, \<lparr>dr_description = description, dr_data = Some messageData_doc\<rparr>)]"

text \<open>A dash in UTF-8.\<close>

definition dash :: string where
  "dash = '' '' @ [char_of (0xE2 :: nat), char_of (0x80 :: nat), char_of (0x94 :: nat)] @ '' ''"

definition ERROR_MESSAGES :: "nat \<Rightarrow> string option" where
  "ERROR_MESSAGES code = map_of
     [(400, ''Validation error or bad request''),
      (401, ''Authentication required or invalid credentials''),
      (402, ''Payment required'' @ dash @ ''no active subscription''),
      (403, ''Forbidden'' @ dash @ ''insufficient permissions''),
      (404, ''Resource not found''),
      (409, ''Conflict'' @ dash @ ''resource already exists''),
      (410, ''Gone'' @ dash @ ''token expired''),
      (502, ''Upstream (Stripe) request failed''),
      (503, ''Service unavailable'')] code"

definition errors :: "nat list \<Rightarrow> (nat \<times> doc_response) list" where
  "errors codes =
     map (\<lambda>code. (code, \<lparr>dr_description = (case ERROR_MESSAGES code of Some m \<Rightarrow> m | None \<Rightarrow> ''Error''),
                        dr_data = None\<rparr>)) codes"

section \<open>The table\<close>

definition health_operations :: "operation list" where
  "health_operations =
     [\<lparr>op_method = ''GET'', op_path = ''/health'', op_tag = ''Health'',
       op_security = None, op_request = None,
       op_responses =
           [(200, \<lparr>dr_description = ''Service is live'', dr_data = Some (ZObject
            [(''status'', ZString []),
              (''timestamp'', isoDate_doc)] [])\<rparr>)]\<rparr>,
      \<lparr>op_method = ''GET'', op_path = ''/health/ready'', op_tag = ''Health'',
       op_security = None, op_request = None,
       op_responses =
           [(200, \<lparr>dr_description = ''Service is ready'', dr_data = Some (ZObject
            [(''status'', ZString []),
              (''timestamp'', isoDate_doc)] [])\<rparr>)]
           @ [(503, \<lparr>dr_description = ''Database unavailable'', dr_data = Some (ZObject
            [(''status'', ZString []),
              (''message'', ZString [])] [])\<rparr>)]\<rparr>]"

definition signin_operations :: "operation list" where
  "signin_operations =
     [\<lparr>op_method = ''POST'', op_path = ''/api/auth/register'', op_tag = ''Auth'',
       op_security = None, op_request = Some registerSchema,
       op_responses =
           doc_created authTokens_doc ''User registered''
           @ errors [400, 409]\<rparr>,
      \<lparr>op_method = ''POST'', op_path = ''/api/auth/login'', op_tag = ''Auth'',
       op_security = None, op_request = Some loginSchema,
       op_responses =
           doc_ok loginData_doc ''Tokens or 2FA challenge''
           @ errors [400, 401]\<rparr>,
      \<lparr>op_method = ''POST'', op_path = ''/api/auth/refresh'', op_tag = ''Auth'',
       op_security = None, op_request = Some refreshSchema,
       op_responses =
           doc_ok authTokens_doc ''New token pair''
           @ errors [400, 401]\<rparr>,
      \<lparr>op_method = ''POST'', op_path = ''/api/auth/verify-email'', op_tag = ''Auth'',
       op_security = None, op_request = Some verifyEmailSchema,
       op_responses =
           noData ''Email verified''
           @ errors [400]\<rparr>,
      \<lparr>op_method = ''POST'', op_path = ''/api/auth/resend-verification'', op_tag = ''Auth'',
       op_security = None, op_request = Some resendVerificationSchema,
       op_responses =
           noData ''Verification email queued''
           @ errors [400, 404]\<rparr>,
      \<lparr>op_method = ''POST'', op_path = ''/api/auth/forgot-password'', op_tag = ''Auth'',
       op_security = None, op_request = Some forgotPasswordSchema,
       op_responses =
           noData ''Reset email queued if the account exists''
           @ errors [400]\<rparr>,
      \<lparr>op_method = ''POST'', op_path = ''/api/auth/reset-password'', op_tag = ''Auth'',
       op_security = None, op_request = Some resetPasswordSchema,
       op_responses =
           noData ''Password reset''
           @ errors [400, 410]\<rparr>,
      \<lparr>op_method = ''GET'', op_path = ''/api/auth/google'', op_tag = ''Auth'',
       op_security = None, op_request = None,
       op_responses =
           doc_ok googleAuthUrlData_doc ''OAuth URL''
           @ errors [500]\<rparr>,
      \<lparr>op_method = ''POST'', op_path = ''/api/auth/google'', op_tag = ''Auth'',
       op_security = None, op_request = Some googleLoginSchema,
       op_responses =
           doc_ok loginData_doc ''Tokens or 2FA challenge''
           @ errors [400, 401, 403]\<rparr>]"

definition account_operations :: "operation list" where
  "account_operations =
     [\<lparr>op_method = ''POST'', op_path = ''/api/auth/2fa/verify'', op_tag = ''Auth'',
       op_security = None, op_request = Some verifyTwoFactorSchema,
       op_responses =
           doc_ok authTokens_doc ''Tokens issued''
           @ errors [400, 401]\<rparr>,
      \<lparr>op_method = ''POST'', op_path = ''/api/auth/2fa/setup'', op_tag = ''Auth'',
       op_security = Some Bearer, op_request = None,
       op_responses =
           doc_ok twoFactorSetupData_doc ''Secret + QR code''
           @ errors [401]\<rparr>,
      \<lparr>op_method = ''POST'', op_path = ''/api/auth/2fa/enable'', op_tag = ''Auth'',
       op_security = Some Bearer, op_request = Some enableTwoFactorSchema,
       op_responses =
           doc_ok twoFactorEnableData_doc ''2FA enabled with backup codes''
           @ errors [400, 401]\<rparr>,
      \<lparr>op_method = ''POST'', op_path = ''/api/auth/2fa/disable'', op_tag = ''Auth'',
       op_security = Some Bearer, op_request = Some disableTwoFactorSchema,
       op_responses =
           noData ''2FA disabled''
           @ errors [400, 401]\<rparr>,
      \<lparr>op_method = ''POST'', op_path = ''/api/auth/change-password'', op_tag = ''Auth'',
       op_security = Some Bearer, op_request = Some changePasswordSchema,
       op_responses =
           noData ''Password changed''
           @ errors [400, 401]\<rparr>,
      \<lparr>op_method = ''POST'', op_path = ''/api/auth/change-email'', op_tag = ''Auth'',
       op_security = Some Bearer, op_request = Some changeEmailSchema,
       op_responses =
           noData ''Email changed''
           @ errors [400, 401, 409]\<rparr>,
      \<lparr>op_method = ''POST'', op_path = ''/api/auth/logout'', op_tag = ''Auth'',
       op_security = Some Bearer, op_request = Some logoutSchema,
       op_responses =
           noData ''Logged out''
           @ errors [401]\<rparr>,
      \<lparr>op_method = ''GET'', op_path = ''/api/auth/me'', op_tag = ''Auth'',
       op_security = Some Bearer, op_request = None,
       op_responses =
           doc_ok (ZObject
            [(''user'', user_doc)] []) ''Current user''
           @ errors [401]\<rparr>,
      \<lparr>op_method = ''GET'', op_path = ''/api/auth/data-export'', op_tag = ''GDPR'',
       op_security = Some Bearer, op_request = None,
       op_responses =
           doc_ok dataExport_doc ''Account data export''
           @ errors [401]\<rparr>,
      \<lparr>op_method = ''DELETE'', op_path = ''/api/auth/account'', op_tag = ''GDPR'',
       op_security = Some Bearer, op_request = Some deleteAccountSchema,
       op_responses =
           noData ''Account deleted''
           @ errors [400, 401, 403, 409, 502]\<rparr>]"

definition organization_operations :: "operation list" where
  "organization_operations =
     [\<lparr>op_method = ''POST'', op_path = ''/api/organizations'', op_tag = ''Organizations'',
       op_security = Some Bearer, op_request = Some createOrgSchema,
       op_responses =
           doc_created (ZObject
            [(''organization'', organization_doc)] []) ''Created''
           @ errors [400, 401, 409]\<rparr>,
      \<lparr>op_method = ''GET'', op_path = ''/api/organizations'', op_tag = ''Organizations'',
       op_security = Some Bearer, op_request = Some listOrgsSchema,
       op_responses =
           doc_ok (ZObject
            [(''organizations'', ZArray (organizationWithRole_doc)),
              (''pagination'', pagination_doc)] []) ''OK''
           @ errors [401]\<rparr>,
      \<lparr>op_method = ''GET'', op_path = ''/api/organizations/{orgId}'', op_tag = ''Organizations'',
       op_security = Some OrgMember, op_request = Some orgIdParamSchema,
       op_responses =
           doc_ok (ZObject
            [(''organization'', organization_doc)] []) ''OK''
           @ errors [401, 403, 404]\<rparr>,
      \<lparr>op_method = ''PATCH'', op_path = ''/api/organizations/{orgId}'', op_tag = ''Organizations'',
       op_security = Some OrgMember, op_request = Some updateOrgSchema,
       op_responses =
           doc_ok (ZObject
            [(''organization'', organization_doc)] []) ''OK''
           @ errors [400, 401, 403, 404, 409]\<rparr>,
      \<lparr>op_method = ''DELETE'', op_path = ''/api/organizations/{orgId}'', op_tag = ''Organizations'',
       op_security = Some OrgMember, op_request = Some orgIdParamSchema,
       op_responses =
           noData ''Organization deleted''
           @ errors [401, 403, 404]\<rparr>,
      \<lparr>op_method = ''POST'', op_path = ''/api/organizations/{orgId}/restore'', op_tag = ''Organizations'',
       op_security = Some OrgMember, op_request = Some orgIdParamSchema,
       op_responses =
           noData ''Organization restored''
           @ errors [401, 403, 404]\<rparr>,
      \<lparr>op_method = ''POST'', op_path = ''/api/organizations/{orgId}/transfer-ownership'', op_tag = ''Organizations'',
       op_security = Some OrgMember, op_request = Some transferOwnershipSchema,
       op_responses =
           doc_ok (ZObject
            [(''organization'', organization_doc)] []) ''OK''
           @ errors [400, 401, 403, 404]\<rparr>,
      \<lparr>op_method = ''GET'', op_path = ''/api/organizations/{orgId}/members'', op_tag = ''Organizations'',
       op_security = Some OrgMember, op_request = Some listMembersSchema,
       op_responses =
           doc_ok (ZObject
            [(''members'', ZArray (member_doc)),
              (''pagination'', pagination_doc)] []) ''OK''
           @ errors [401, 403, 404]\<rparr>,
      \<lparr>op_method = ''PATCH'', op_path = ''/api/organizations/{orgId}/members/{userId}'', op_tag = ''Organizations'',
       op_security = Some OrgMember, op_request = Some updateMemberSchema,
       op_responses =
           doc_ok (ZObject
            [(''member'', member_doc)] []) ''OK''
           @ errors [400, 401, 403, 404]\<rparr>,
      \<lparr>op_method = ''DELETE'', op_path = ''/api/organizations/{orgId}/members/{userId}'', op_tag = ''Organizations'',
       op_security = Some OrgMember, op_request = Some removeMemberSchema,
       op_responses =
           noData ''Member removed''
           @ errors [401, 403, 404]\<rparr>]"

definition invitation_operations :: "operation list" where
  "invitation_operations =
     [\<lparr>op_method = ''POST'', op_path = ''/api/organizations/{orgId}/invitations'', op_tag = ''Invitations'',
       op_security = Some OrgMember, op_request = Some createInvitationSchema,
       op_responses =
           doc_created (ZObject
            [(''invitation'', invitation_doc)] []) ''Created''
           @ errors [400, 401, 403, 404, 409]\<rparr>,
      \<lparr>op_method = ''GET'', op_path = ''/api/organizations/{orgId}/invitations'', op_tag = ''Invitations'',
       op_security = Some OrgMember, op_request = Some listInvitationsSchema,
       op_responses =
           doc_ok (ZObject
            [(''invitations'', ZArray (invitation_doc)),
              (''pagination'', pagination_doc)] []) ''OK''
           @ errors [401, 403, 404]\<rparr>,
      \<lparr>op_method = ''DELETE'', op_path = ''/api/organizations/{orgId}/invitations/{invitationId}'', op_tag = ''Invitations'',
       op_security = Some OrgMember, op_request = Some cancelInvitationSchema,
       op_responses =
           noData ''Invitation canceled''
           @ errors [401, 403, 404]\<rparr>,
      \<lparr>op_method = ''GET'', op_path = ''/api/invitations/me'', op_tag = ''Invitations'',
       op_security = Some Bearer, op_request = Some listMyInvitationsSchema,
       op_responses =
           doc_ok (ZObject
            [(''invitations'', ZArray (invitation_doc)),
              (''pagination'', pagination_doc)] []) ''OK''
           @ errors [401, 403]\<rparr>,
      \<lparr>op_method = ''POST'', op_path = ''/api/invitations/accept'', op_tag = ''Invitations'',
       op_security = Some Bearer, op_request = Some acceptInvitationSchema,
       op_responses =
           doc_ok (ZObject
            [(''invitation'', invitation_doc)] []) ''OK''
           @ errors [400, 401, 404, 410]\<rparr>,
      \<lparr>op_method = ''POST'', op_path = ''/api/invitations/decline'', op_tag = ''Invitations'',
       op_security = Some Bearer, op_request = Some declineInvitationSchema,
       op_responses =
           noData ''Invitation declined''
           @ errors [400, 401, 404, 410]\<rparr>]"

definition admin_operations :: "operation list" where
  "admin_operations =
     [\<lparr>op_method = ''GET'', op_path = ''/api/admin/users'', op_tag = ''Admin'',
       op_security = Some AdminOnly, op_request = Some listUsersSchema,
       op_responses =
           doc_ok (ZObject
            [(''users'', ZArray (user_doc)),
              (''pagination'', pagination_doc)] []) ''OK''
           @ errors [401, 403]\<rparr>,
      \<lparr>op_method = ''GET'', op_path = ''/api/admin/users/{userId}'', op_tag = ''Admin'',
       op_security = Some AdminOnly, op_request = Some userIdParamSchema,
       op_responses =
           doc_ok (ZObject
            [(''user'', user_doc)] []) ''OK''
           @ errors [401, 403, 404]\<rparr>,
      \<lparr>op_method = ''PATCH'', op_path = ''/api/admin/users/{userId}'', op_tag = ''Admin'',
       op_security = Some AdminOnly, op_request = Some updateUserSchema,
       op_responses =
           doc_ok (ZObject
            [(''user'', user_doc)] []) ''OK''
           @ errors [400, 401, 403, 404]\<rparr>,
      \<lparr>op_method = ''DELETE'', op_path = ''/api/admin/users/{userId}'', op_tag = ''Admin'',
       op_security = Some AdminOnly, op_request = Some userIdParamSchema,
       op_responses =
           noData ''User deleted''
           @ errors [401, 403, 404]\<rparr>,
      \<lparr>op_method = ''POST'', op_path = ''/api/admin/users/{userId}/restore'', op_tag = ''Admin'',
       op_security = Some AdminOnly, op_request = Some userIdParamSchema,
       op_responses =
           noData ''User restored''
           @ errors [401, 403, 404]\<rparr>]"

definition billing_operations :: "operation list" where
  "billing_operations =
     [\<lparr>op_method = ''GET'', op_path = ''/api/billing/plans'', op_tag = ''Billing'',
       op_security = None, op_request = Some listPlansSchema,
       op_responses =
           doc_ok (ZObject
            [(''plans'', ZArray (plan_doc)),
              (''pagination'', pagination_doc)] []) ''OK''
           @ errors [400]\<rparr>,
      \<lparr>op_method = ''POST'', op_path = ''/api/billing/webhook'', op_tag = ''Billing'',
       op_security = None, op_request = None,
       op_responses =
           [(200, \<lparr>dr_description = ''Webhook received'', dr_data = None\<rparr>)]\<rparr>,
      \<lparr>op_method = ''GET'', op_path = ''/api/billing/subscription'', op_tag = ''Billing'',
       op_security = Some Bearer, op_request = None,
       op_responses =
           doc_ok (ZObject
            [(''subscription'', subscription_doc)] []) ''OK''
           @ errors [401, 404]\<rparr>,
      \<lparr>op_method = ''POST'', op_path = ''/api/billing/checkout'', op_tag = ''Billing'',
       op_security = Some Bearer, op_request = Some checkoutSchema,
       op_responses =
           doc_ok checkoutData_doc ''Checkout URL''
           @ errors [400, 401]\<rparr>,
      \<lparr>op_method = ''POST'', op_path = ''/api/billing/portal'', op_tag = ''Billing'',
       op_security = Some Bearer, op_request = Some portalSchema,
       op_responses =
           doc_ok portalData_doc ''Portal URL''
           @ errors [400, 401]\<rparr>,
      \<lparr>op_method = ''POST'', op_path = ''/api/billing/cancel'', op_tag = ''Billing'',
       op_security = Some Bearer, op_request = None,
       op_responses =
           doc_ok (ZObject
            [(''subscription'', subscription_doc)] []) ''OK''
           @ errors [401, 404]\<rparr>]"

definition org_billing_operations :: "operation list" where
  "org_billing_operations =
     [\<lparr>op_method = ''GET'', op_path = ''/api/organizations/{orgId}/billing/subscription'', op_tag = ''Billing'',
       op_security = Some Bearer, op_request = None,
       op_responses =
           doc_ok (ZObject
            [(''subscription'', subscription_doc)] []) ''OK''
           @ errors [401, 403, 404]\<rparr>,
      \<lparr>op_method = ''POST'', op_path = ''/api/organizations/{orgId}/billing/checkout'', op_tag = ''Billing'',
       op_security = Some Bearer, op_request = Some checkoutSchema,
       op_responses =
           doc_ok checkoutData_doc ''Checkout URL''
           @ errors [400, 401, 403, 404]\<rparr>,
      \<lparr>op_method = ''POST'', op_path = ''/api/organizations/{orgId}/billing/portal'', op_tag = ''Billing'',
       op_security = Some Bearer, op_request = Some portalSchema,
       op_responses =
           doc_ok portalData_doc ''Portal URL''
           @ errors [400, 401, 403, 404]\<rparr>,
      \<lparr>op_method = ''POST'', op_path = ''/api/organizations/{orgId}/billing/cancel'', op_tag = ''Billing'',
       op_security = Some Bearer, op_request = None,
       op_responses =
           doc_ok (ZObject
            [(''subscription'', subscription_doc)] []) ''OK''
           @ errors [401, 403, 404]\<rparr>]"

definition key_session_operations :: "operation list" where
  "key_session_operations =
     [\<lparr>op_method = ''POST'', op_path = ''/api/api-keys'', op_tag = ''API Keys'',
       op_security = Some Bearer, op_request = Some createApiKeySchema,
       op_responses =
           doc_created (ZObject
            [(''apiKey'', apiKeyCreated_doc)] []) ''Created''
           @ errors [400, 401]\<rparr>,
      \<lparr>op_method = ''GET'', op_path = ''/api/api-keys'', op_tag = ''API Keys'',
       op_security = Some Bearer, op_request = Some listApiKeysSchema,
       op_responses =
           doc_ok (ZObject
            [(''apiKeys'', ZArray (apiKey_doc)),
              (''pagination'', pagination_doc)] []) ''OK''
           @ errors [401]\<rparr>,
      \<lparr>op_method = ''GET'', op_path = ''/api/api-keys/{keyId}'', op_tag = ''API Keys'',
       op_security = Some Bearer, op_request = Some keyIdParamSchema,
       op_responses =
           doc_ok (ZObject
            [(''apiKey'', apiKey_doc)] []) ''OK''
           @ errors [401, 404]\<rparr>,
      \<lparr>op_method = ''POST'', op_path = ''/api/api-keys/{keyId}/revoke'', op_tag = ''API Keys'',
       op_security = Some Bearer, op_request = Some keyIdParamSchema,
       op_responses =
           doc_ok (ZObject
            [(''apiKey'', apiKey_doc)] []) ''OK''
           @ errors [401, 404]\<rparr>,
      \<lparr>op_method = ''DELETE'', op_path = ''/api/api-keys/{keyId}'', op_tag = ''API Keys'',
       op_security = Some Bearer, op_request = Some keyIdParamSchema,
       op_responses =
           noData ''API key deleted''
           @ errors [401, 404]\<rparr>,
      \<lparr>op_method = ''POST'', op_path = ''/api/api-keys/{keyId}/restore'', op_tag = ''API Keys'',
       op_security = Some Bearer, op_request = Some keyIdParamSchema,
       op_responses =
           doc_ok (ZObject
            [(''apiKey'', apiKey_doc)] []) ''OK''
           @ errors [401, 404]\<rparr>,
      \<lparr>op_method = ''GET'', op_path = ''/api/sessions'', op_tag = ''Sessions'',
       op_security = Some Bearer, op_request = Some listSessionsSchema,
       op_responses =
           doc_ok (ZObject
            [(''sessions'', ZArray (session_doc)),
              (''pagination'', pagination_doc)] []) ''OK''
           @ errors [401]\<rparr>,
      \<lparr>op_method = ''POST'', op_path = ''/api/sessions/{sessionId}/revoke'', op_tag = ''Sessions'',
       op_security = Some Bearer, op_request = Some sessionIdParamSchema,
       op_responses =
           noData ''Session revoked''
           @ errors [401, 404]\<rparr>,
      \<lparr>op_method = ''POST'', op_path = ''/api/sessions/revoke-all'', op_tag = ''Sessions'',
       op_security = Some Bearer, op_request = None,
       op_responses =
           noData ''All sessions revoked''
           @ errors [401]\<rparr>]"

definition audit_operations :: "operation list" where
  "audit_operations =
     [\<lparr>op_method = ''GET'', op_path = ''/api/audit'', op_tag = ''Audit'',
       op_security = Some AdminOnly, op_request = Some listAuditLogsSchema,
       op_responses =
           doc_ok (ZObject
            [(''auditLogs'', ZArray (auditLog_doc)),
              (''pagination'', pagination_doc)] []) ''OK''
           @ errors [401, 403]\<rparr>,
      \<lparr>op_method = ''GET'', op_path = ''/api/audit/me'', op_tag = ''Audit'',
       op_security = Some Bearer, op_request = Some listUserAuditLogsSchema,
       op_responses =
           doc_ok (ZObject
            [(''auditLogs'', ZArray (auditLog_doc)),
              (''pagination'', pagination_doc)] []) ''OK''
           @ errors [401]\<rparr>]"

definition project_operations :: "operation list" where
  "project_operations =
     [\<lparr>op_method = ''GET'', op_path = ''/api/organizations/{orgId}/projects'', op_tag = ''Projects'',
       op_security = Some OrgMember, op_request = Some listProjectsSchema,
       op_responses =
           doc_ok (ZObject
            [(''projects'', ZArray (project_doc)),
              (''meta'', pagination_doc)] []) ''OK''
           @ errors [400, 401, 403]\<rparr>,
      \<lparr>op_method = ''GET'', op_path = ''/api/organizations/{orgId}/projects/export'', op_tag = ''Projects'',
       op_security = Some OrgMember, op_request = Some listProjectsSchema,
       op_responses =
           doc_ok (ZObject
            [(''projects'', ZArray (project_doc)),
              (''exportedAt'', isoDate_doc)] []) ''OK''
           @ errors [400, 401, 402, 403]\<rparr>,
      \<lparr>op_method = ''GET'', op_path = ''/api/organizations/{orgId}/projects/analytics'', op_tag = ''Projects'',
       op_security = Some OrgMember, op_request = None,
       op_responses =
           doc_ok (ZObject
            [(''total'', ZNumber False [IsInt]),
              (''byStatus'', ZRecord (ZString []) (ZNumber False [IsInt]))] []) ''OK''
           @ errors [401, 402, 403]\<rparr>,
      \<lparr>op_method = ''GET'', op_path = ''/api/organizations/{orgId}/projects/{projectId}'', op_tag = ''Projects'',
       op_security = Some OrgMember, op_request = Some projectIdSchema,
       op_responses =
           doc_ok (ZObject
            [(''project'', project_doc)] []) ''OK''
           @ errors [400, 401, 403, 404]\<rparr>,
      \<lparr>op_method = ''POST'', op_path = ''/api/organizations/{orgId}/projects'', op_tag = ''Projects'',
       op_security = Some OrgMember, op_request = Some createProjectSchema,
       op_responses =
           doc_created (ZObject
            [(''project'', project_doc)] []) ''Created''
           @ errors [400, 401, 403]\<rparr>,
      \<lparr>op_method = ''PATCH'', op_path = ''/api/organizations/{orgId}/projects/{projectId}'', op_tag = ''Projects'',
       op_security = Some OrgMember, op_request = Some updateProjectSchema,
       op_responses =
           doc_ok (ZObject
            [(''project'', project_doc)] []) ''OK''
           @ errors [400, 401, 403, 404]\<rparr>,
      \<lparr>op_method = ''DELETE'', op_path = ''/api/organizations/{orgId}/projects/{projectId}'', op_tag = ''Projects'',
       op_security = Some OrgMember, op_request = Some projectIdSchema,
       op_responses =
           noData ''Project deleted''
           @ errors [400, 401, 403, 404]\<rparr>]"

definition integration_operations :: "operation list" where
  "integration_operations =
     [\<lparr>op_method = ''GET'', op_path = ''/api/integrations/organizations/{orgId}/projects'', op_tag = ''Projects'',
       op_security = Some ApiKeyHeader, op_request = Some listProjectsSchema,
       op_responses =
           doc_ok (ZObject
            [(''projects'', ZArray (project_doc)),
              (''meta'', pagination_doc)] []) ''OK''
           @ errors [400, 401, 403]\<rparr>,
      \<lparr>op_method = ''GET'', op_path = ''/api/integrations/organizations/{orgId}/projects/{projectId}'', op_tag = ''Projects'',
       op_security = Some ApiKeyHeader, op_request = Some projectIdSchema,
       op_responses =
           doc_ok (ZObject
            [(''project'', project_doc)] []) ''OK''
           @ errors [400, 401, 403, 404]\<rparr>]"

definition notification_operations :: "operation list" where
  "notification_operations =
     [\<lparr>op_method = ''GET'', op_path = ''/api/notifications'', op_tag = ''Notifications'',
       op_security = Some Bearer, op_request = Some listNotificationsSchema,
       op_responses =
           doc_ok (ZObject
            [(''notifications'', ZArray (notification_doc)),
              (''pagination'', pagination_doc),
              (''unreadCount'', ZNumber False [IsInt])] []) ''OK''
           @ errors [401]\<rparr>,
      \<lparr>op_method = ''PATCH'', op_path = ''/api/notifications/read-all'', op_tag = ''Notifications'',
       op_security = Some Bearer, op_request = None,
       op_responses =
           noData ''All notifications marked as read''
           @ errors [401]\<rparr>,
      \<lparr>op_method = ''PATCH'', op_path = ''/api/notifications/{notificationId}/read'', op_tag = ''Notifications'',
       op_security = Some Bearer, op_request = Some notificationIdSchema,
       op_responses =
           doc_ok (ZObject
            [(''notification'', notification_doc)] []) ''OK''
           @ errors [401, 404]\<rparr>,
      \<lparr>op_method = ''DELETE'', op_path = ''/api/notifications/{notificationId}'', op_tag = ''Notifications'',
       op_security = Some Bearer, op_request = Some notificationIdSchema,
       op_responses =
           noData ''Notification deleted''
           @ errors [401, 404]\<rparr>,
      \<lparr>op_method = ''GET'', op_path = ''/api/notifications/preferences'', op_tag = ''Notifications'',
       op_security = Some Bearer, op_request = None,
       op_responses =
           doc_ok (ZObject
            [(''preferences'', notificationPreferences_doc)] []) ''OK''
           @ errors [401]\<rparr>,
      \<lparr>op_method = ''PATCH'', op_path = ''/api/notifications/preferences'', op_tag = ''Notifications'',
       op_security = Some Bearer, op_request = Some updatePreferencesSchema,
       op_responses =
           doc_ok (ZObject
            [(''preferences'', notificationPreferences_doc)] []) ''OK''
           @ errors [400, 401]\<rparr>]"

definition flag_operations :: "operation list" where
  "flag_operations =
     [\<lparr>op_method = ''GET'', op_path = ''/api/feature-flags/evaluate'', op_tag = ''Feature Flags'',
       op_security = Some Bearer, op_request = Some evaluateFlagSchema,
       op_responses =
           doc_ok evaluateFlagData_doc ''Evaluation result''
           @ errors [400, 401, 404]\<rparr>,
      \<lparr>op_method = ''POST'', op_path = ''/api/feature-flags'', op_tag = ''Feature Flags'',
       op_security = Some AdminOnly, op_request = Some createFlagSchema,
       op_responses =
           doc_created (ZObject
            [(''flag'', featureFlag_doc)] []) ''Created''
           @ errors [400, 401, 403, 409]\<rparr>,
      \<lparr>op_method = ''GET'', op_path = ''/api/feature-flags'', op_tag = ''Feature Flags'',
       op_security = Some AdminOnly, op_request = Some listFlagsSchema,
       op_responses =
           doc_ok (ZObject
            [(''flags'', ZArray (featureFlag_doc)),
              (''pagination'', pagination_doc)] []) ''OK''
           @ errors [401, 403]\<rparr>,
      \<lparr>op_method = ''GET'', op_path = ''/api/feature-flags/{flagId}'', op_tag = ''Feature Flags'',
       op_security = Some AdminOnly, op_request = Some flagIdParamSchema,
       op_responses =
           doc_ok (ZObject
            [(''flag'', featureFlag_doc)] []) ''OK''
           @ errors [401, 403, 404]\<rparr>,
      \<lparr>op_method = ''PATCH'', op_path = ''/api/feature-flags/{flagId}'', op_tag = ''Feature Flags'',
       op_security = Some AdminOnly, op_request = Some updateFlagSchema,
       op_responses =
           doc_ok (ZObject
            [(''flag'', featureFlag_doc)] []) ''OK''
           @ errors [400, 401, 403, 404]\<rparr>,
      \<lparr>op_method = ''DELETE'', op_path = ''/api/feature-flags/{flagId}'', op_tag = ''Feature Flags'',
       op_security = Some AdminOnly, op_request = Some flagIdParamSchema,
       op_responses =
           noData ''Flag deleted''
           @ errors [401, 403, 404]\<rparr>,
      \<lparr>op_method = ''POST'', op_path = ''/api/feature-flags/{flagId}/overrides/{orgId}'', op_tag = ''Feature Flags'',
       op_security = Some AdminOnly, op_request = Some setOverrideSchema,
       op_responses =
           doc_ok (ZObject
            [(''override'', featureFlagOverride_doc)] []) ''OK''
           @ errors [400, 401, 403, 404]\<rparr>,
      \<lparr>op_method = ''DELETE'', op_path = ''/api/feature-flags/{flagId}/overrides/{orgId}'', op_tag = ''Feature Flags'',
       op_security = Some AdminOnly, op_request = Some overrideParamSchema,
       op_responses =
           noData ''Override removed''
           @ errors [401, 403, 404]\<rparr>]"

definition operations :: "operation list" where
  "operations =
     health_operations @ signin_operations @ account_operations @ organization_operations @ invitation_operations @ admin_operations
     @ billing_operations @ org_billing_operations @ key_session_operations @ audit_operations @ project_operations @ integration_operations @ notification_operations @ flag_operations"

text \<open>\<open>buildSpec\<close>: the tags sorted, each once, and the operations of the table under their paths.
  The long texts of \<open>info\<close> and of the security schemes, the overrides and the cache are left out.\<close>

fun text_less :: "string \<Rightarrow> string \<Rightarrow> bool" where
  "text_less s [] = False"
| "text_less [] (b # t) = True"
| "text_less (a # s) (b # t) = (char_code a < char_code b \<or> (a = b \<and> text_less s t))"

fun insert_tag :: "string \<Rightarrow> string list \<Rightarrow> string list" where
  "insert_tag t [] = [t]"
| "insert_tag t (u # us) =
     (if t = u then u # us else if text_less t u then t # u # us else u # insert_tag t us)"

definition security_schemes :: json where
  "security_schemes =
     JObj [(''bearerAuth'', JObj [(''type'', JStr ''http''), (''scheme'', JStr ''bearer''),
              (''bearerFormat'', JStr ''JWT'')]),
       (''apiKeyAuth'', JObj [(''type'', JStr ''apiKey''), (''in'', JStr ''header''), (''name'', JStr ''X-API-Key'')])]"

definition buildSpec ::
  "(operation \<Rightarrow> (string \<times> json) list) \<Rightarrow> (zod \<Rightarrow> json option) \<Rightarrow> string option \<Rightarrow> json option" where
  "buildSpec prose convert app_url =
     map_option (\<lambda>paths.
         JObj [(''openapi'', JStr ''3.0.3''),
           (''info'', JObj [(''title'', JStr ''SaaS Backend Boilerplate API''), (''version'', JStr ''1.0.0'')]),
           (''servers'', JArr [JObj [(''url'', JStr (app_base app_url))]]),
           (''tags'', JArr (map (\<lambda>t. JObj [(''name'', JStr t), (''description'', JStr (t @ '' endpoints''))])
              (foldr insert_tag (map op_tag operations) []))),
           (''paths'', JObj paths),
           (''components'', JObj [(''securitySchemes'', security_schemes)])])
       (buildPaths prose convert operations [])"

end
