(* ===== verification/Routes.thy ===== *)
theory Routes
  imports Operations
begin

text \<open>
  The routes of the server as the routers register them, with their guards in order: the tables of
  \<open>src/modules/*/*.router.js\<close> under the paths \<open>app.js\<close> mounts them at.  Express tries the routes in the
  order of registration; a \<open>:name\<close> segment matches any one segment that is not empty.
\<close>

section \<open>Tables\<close>

datatype guard =
    Authenticate
  | ApiKeyAuth
  | Scope "string list"
  | Authorize "role list"
  | VerifiedEmail
  | Tenant
  | TenantIncludeDeleted
  | OrgRole "org_role list"
  | ActiveSubscription
  | OrgSubscription
  | Plan "string list"
  | Flag string
  | Validate zod

datatype segment = Lit string | Param string

record route =
  ro_method :: string
  ro_path :: string
  ro_guards :: "guard list"

definition route :: "string \<Rightarrow> string \<Rightarrow> guard list \<Rightarrow> route" where
  "route method path guards = \<lparr>ro_method = method, ro_path = path, ro_guards = guards\<rparr>"

text \<open>\<open>app.use(prefix, router)\<close> of a router with \<open>router.use(guards)\<close>.\<close>

definition mount :: "string \<Rightarrow> guard list \<Rightarrow> route list \<Rightarrow> route list" where
  "mount base guards rs =
     map (\<lambda>r. r\<lparr>ro_path := base @ (if ro_path r = ''/'' then [] else ro_path r),
               ro_guards := guards @ ro_guards r\<rparr>) rs"

text \<open>\<open>app.js\<close>\<close>

definition health_routes :: "route list" where
  "health_routes =
     [route ''GET'' ''/health'' [],
      route ''GET'' ''/health/ready'' []]"

text \<open>\<open>app.js\<close>\<close>

definition webhook_routes :: "route list" where
  "webhook_routes =
     [route ''POST'' ''/api/billing/webhook'' []]"

text \<open>\<open>auth.router.js\<close>\<close>

definition auth_routes :: "route list" where
  "auth_routes =
     [route ''POST'' ''/register'' [Validate registerSchema],
      route ''POST'' ''/login'' [Validate loginSchema],
      route ''POST'' ''/refresh'' [Validate refreshSchema],
      route ''POST'' ''/verify-email'' [Validate verifyEmailSchema],
      route ''POST'' ''/resend-verification'' [Validate resendVerificationSchema],
      route ''POST'' ''/forgot-password'' [Validate forgotPasswordSchema],
      route ''POST'' ''/reset-password'' [Validate resetPasswordSchema],
      route ''GET'' ''/google'' [],
      route ''POST'' ''/google'' [Validate googleLoginSchema],
      route ''POST'' ''/2fa/verify'' [Validate verifyTwoFactorSchema],
      route ''POST'' ''/2fa/setup'' [Authenticate],
      route ''POST'' ''/2fa/enable'' [Authenticate, Validate enableTwoFactorSchema],
      route ''POST'' ''/2fa/disable'' [Authenticate, Validate disableTwoFactorSchema],
      route ''POST'' ''/change-password'' [Authenticate, Validate changePasswordSchema],
      route ''POST'' ''/change-email'' [Authenticate, Validate changeEmailSchema],
      route ''POST'' ''/logout'' [Authenticate, Validate logoutSchema],
      route ''GET'' ''/me'' [Authenticate],
      route ''POST'' ''/data-export'' [Authenticate, Validate exportDataSchema],
      route ''DELETE'' ''/account'' [Authenticate, Validate deleteAccountSchema]]"

text \<open>\<open>project.router.js\<close>\<close>

definition project_routes :: "route list" where
  "project_routes =
     [route ''GET'' ''/'' [Validate listProjectsSchema],
      route ''GET'' ''/export'' [Validate listProjectsSchema, ActiveSubscription, Plan [''pro'', ''enterprise''], Flag ''projects_export''],
      route ''GET'' ''/analytics'' [OrgSubscription, Plan [''pro'', ''enterprise'']],
      route ''GET'' ''/:projectId'' [Validate projectIdSchema],
      route ''POST'' ''/'' [OrgRole [OWNER, ORG_ADMIN], Validate createProjectSchema],
      route ''PATCH'' ''/:projectId'' [OrgRole [OWNER, ORG_ADMIN], Validate updateProjectSchema],
      route ''DELETE'' ''/:projectId'' [OrgRole [OWNER], Validate projectIdSchema]]"

text \<open>\<open>billing.router.js\<close>\<close>

definition org_billing_routes :: "route list" where
  "org_billing_routes =
     [route ''GET'' ''/subscription'' [],
      route ''POST'' ''/checkout'' [OrgRole [OWNER, ORG_ADMIN], Validate checkoutSchema],
      route ''POST'' ''/portal'' [OrgRole [OWNER, ORG_ADMIN], Validate portalSchema],
      route ''POST'' ''/cancel'' [OrgRole [OWNER, ORG_ADMIN]]]"

text \<open>\<open>org.router.js\<close>\<close>

definition org_routes :: "route list" where
  "org_routes =
     [route ''POST'' ''/'' [Validate createOrgSchema],
      route ''GET'' ''/'' [Validate listOrgsSchema],
      route ''GET'' ''/:orgId'' [Validate orgIdParamSchema, Tenant],
      route ''PATCH'' ''/:orgId'' [Validate updateOrgSchema, Tenant, OrgRole [OWNER, ORG_ADMIN]],
      route ''DELETE'' ''/:orgId'' [Validate orgIdParamSchema, Tenant, OrgRole [OWNER]],
      route ''POST'' ''/:orgId/restore'' [Validate orgIdParamSchema, TenantIncludeDeleted, OrgRole [OWNER]],
      route ''POST'' ''/:orgId/transfer-ownership'' [Validate transferOwnershipSchema, Tenant, OrgRole [OWNER]],
      route ''GET'' ''/:orgId/members'' [Validate listMembersSchema, Tenant],
      route ''PATCH'' ''/:orgId/members/:userId'' [Validate updateMemberSchema, Tenant, OrgRole [OWNER, ORG_ADMIN]],
      route ''DELETE'' ''/:orgId/members/:userId'' [Validate removeMemberSchema, Tenant, OrgRole [OWNER, ORG_ADMIN]],
      route ''POST'' ''/:orgId/invitations'' [Validate createInvitationSchema, Tenant, OrgRole [OWNER, ORG_ADMIN]],
      route ''GET'' ''/:orgId/invitations'' [Validate listInvitationsSchema, Tenant, OrgRole [OWNER, ORG_ADMIN]],
      route ''DELETE'' ''/:orgId/invitations/:invitationId'' [Validate cancelInvitationSchema, Tenant, OrgRole [OWNER, ORG_ADMIN]]]"

text \<open>\<open>project.router.js\<close>\<close>

definition integration_routes :: "route list" where
  "integration_routes =
     [route ''GET'' ''/'' [Validate listProjectsSchema],
      route ''GET'' ''/:projectId'' [Validate projectIdSchema]]"

text \<open>\<open>admin.router.js\<close>\<close>

definition admin_routes :: "route list" where
  "admin_routes =
     [route ''GET'' ''/users'' [Validate listUsersSchema],
      route ''GET'' ''/users/:userId'' [Validate userIdParamSchema],
      route ''PATCH'' ''/users/:userId'' [Validate updateUserSchema],
      route ''DELETE'' ''/users/:userId'' [Validate userIdParamSchema],
      route ''POST'' ''/users/:userId/restore'' [Validate userIdParamSchema]]"

text \<open>\<open>billing.router.js\<close>\<close>

definition billing_routes :: "route list" where
  "billing_routes =
     [route ''GET'' ''/plans'' [Validate listPlansSchema],
      route ''GET'' ''/subscription'' [Authenticate],
      route ''POST'' ''/checkout'' [Authenticate, Validate checkoutSchema],
      route ''POST'' ''/portal'' [Authenticate, Validate portalSchema],
      route ''POST'' ''/cancel'' [Authenticate]]"

text \<open>\<open>apikey.router.js\<close>\<close>

definition api_key_routes :: "route list" where
  "api_key_routes =
     [route ''POST'' ''/'' [Validate createApiKeySchema],
      route ''GET'' ''/'' [Validate listApiKeysSchema],
      route ''GET'' ''/:keyId'' [Validate keyIdParamSchema],
      route ''POST'' ''/:keyId/revoke'' [Validate keyIdParamSchema],
      route ''DELETE'' ''/:keyId'' [Validate keyIdParamSchema],
      route ''POST'' ''/:keyId/restore'' [Validate keyIdParamSchema]]"

text \<open>\<open>session.router.js\<close>\<close>

definition session_routes :: "route list" where
  "session_routes =
     [route ''GET'' ''/'' [Validate listSessionsSchema],
      route ''POST'' ''/:sessionId/revoke'' [Validate sessionIdParamSchema],
      route ''POST'' ''/revoke-all'' []]"

text \<open>\<open>audit.router.js\<close>\<close>

definition audit_routes :: "route list" where
  "audit_routes =
     [route ''GET'' ''/'' [Authenticate, Authorize [ADMIN], Validate listAuditLogsSchema],
      route ''GET'' ''/me'' [Authenticate, Validate listUserAuditLogsSchema]]"

text \<open>\<open>invitation.router.js\<close>\<close>

definition invitation_routes :: "route list" where
  "invitation_routes =
     [route ''GET'' ''/me'' [VerifiedEmail, Validate listMyInvitationsSchema],
      route ''POST'' ''/accept'' [Validate acceptInvitationSchema],
      route ''POST'' ''/decline'' [Validate declineInvitationSchema]]"

text \<open>\<open>notification.router.js\<close>\<close>

definition notification_routes :: "route list" where
  "notification_routes =
     [route ''GET'' ''/'' [Validate listNotificationsSchema],
      route ''PATCH'' ''/read-all'' [],
      route ''PATCH'' ''/:notificationId/read'' [Validate notificationIdSchema],
      route ''DELETE'' ''/:notificationId'' [Validate notificationIdSchema],
      route ''GET'' ''/preferences'' [],
      route ''PATCH'' ''/preferences'' [Validate updatePreferencesSchema]]"

text \<open>\<open>featureflag.router.js\<close>\<close>

definition flag_routes :: "route list" where
  "flag_routes =
     [route ''GET'' ''/evaluate'' [Validate evaluateFlagSchema],
      route ''POST'' ''/'' [Authorize [ADMIN], Validate createFlagSchema],
      route ''GET'' ''/'' [Authorize [ADMIN], Validate listFlagsSchema],
      route ''GET'' ''/:flagId'' [Authorize [ADMIN], Validate flagIdParamSchema],
      route ''PATCH'' ''/:flagId'' [Authorize [ADMIN], Validate updateFlagSchema],
      route ''DELETE'' ''/:flagId'' [Authorize [ADMIN], Validate flagIdParamSchema],
      route ''POST'' ''/:flagId/overrides/:orgId'' [Authorize [ADMIN], Validate setOverrideSchema],
      route ''DELETE'' ''/:flagId/overrides/:orgId'' [Authorize [ADMIN], Validate overrideParamSchema]]"

text \<open>\<open>app.js\<close>, in its order; the routes of the documentation itself are left out.\<close>

definition app_routes :: "route list" where
  "app_routes =
     webhook_routes
     @ health_routes
     @ mount ''/api/auth'' [] auth_routes
     @ mount ''/api/organizations/:orgId/projects'' [Authenticate, VerifiedEmail, Tenant] project_routes
     @ mount ''/api/organizations/:orgId/billing'' [Authenticate, Tenant] org_billing_routes
     @ mount ''/api/organizations'' [Authenticate] org_routes
     @ mount ''/api/integrations/organizations/:orgId/projects'' [ApiKeyAuth, Scope [''projects:read''], Tenant] integration_routes
     @ mount ''/api/admin'' [Authenticate, Authorize [ADMIN]] admin_routes
     @ mount ''/api/billing'' [] billing_routes
     @ mount ''/api/api-keys'' [Authenticate] api_key_routes
     @ mount ''/api/sessions'' [Authenticate] session_routes
     @ mount ''/api/audit'' [] audit_routes
     @ mount ''/api/invitations'' [Authenticate] invitation_routes
     @ mount ''/api/notifications'' [Authenticate] notification_routes
     @ mount ''/api/feature-flags'' [Authenticate] flag_routes"

section \<open>Dispatch\<close>

definition segment_of :: "string \<Rightarrow> segment" where
  "segment_of s = (case s of CHR '':'' # name \<Rightarrow> Param name | _ \<Rightarrow> Lit s)"

definition segments :: "string \<Rightarrow> segment list" where
  "segments path = map segment_of (tl (js_split (CHR ''/'') path))"

text \<open>
  Express compares literals without case, wants at least one character for a parameter, ignores one slash at the
  end, and serves \<open>HEAD\<close> by the route for \<open>GET\<close>.  A path is the list of its segments as they stand in the URL; a
  path with two slashes in a row is outside the model.
\<close>

fun segment_ok :: "segment \<Rightarrow> string \<Rightarrow> bool" where
  "segment_ok (Lit a) s = (js_lower a = js_lower s)"
| "segment_ok (Param _) s = (s \<noteq> [])"

definition trimmed :: "string list \<Rightarrow> string list" where
  "trimmed path = (if path \<noteq> [] \<and> last path = [] then butlast path else path)"

definition exact_ok :: "string \<Rightarrow> string list \<Rightarrow> bool" where
  "exact_ok pat path = list_all2 segment_ok (segments pat) (trimmed path)"

definition serves :: "string \<Rightarrow> string \<Rightarrow> bool" where
  "serves registered method \<longleftrightarrow> method = registered \<or> (registered = ''GET'' \<and> method = ''HEAD'')"

text \<open>The first registered route that serves the method and matches the path.\<close>

fun dispatch :: "route list \<Rightarrow> string \<Rightarrow> string list \<Rightarrow> route option" where
  "dispatch [] method path = None"
| "dispatch (r # rs) method path =
     (if serves (ro_method r) method \<and> exact_ok (ro_path r) path then Some r
      else dispatch rs method path)"

text \<open>The values a path gives the parameters of a route, and the words of all patterns, both in lower case.\<close>

fun params :: "segment list \<Rightarrow> string list \<Rightarrow> string list" where
  "params (Param _ # pat) (s # path) = js_lower s # params pat path"
| "params (Lit _ # pat) (s # path) = params pat path"
| "params _ _ = []"

definition words :: "route list \<Rightarrow> string list" where
  "words rs = concat (map (\<lambda>r. concat (map (\<lambda>x. case x of Lit a \<Rightarrow> [js_lower a] | Param _ \<Rightarrow> [])
     (segments (ro_path r)))) rs)"

text \<open>Every path of the later pattern, but for values that are words of the earlier one, is one of the earlier.\<close>

fun segment_covers :: "segment \<Rightarrow> segment \<Rightarrow> bool" where
  "segment_covers (Param _) _ = True"
| "segment_covers (Lit a) (Lit b) = (js_lower a = js_lower b)"
| "segment_covers (Lit a) (Param _) = False"

type_synonym pattern = "string \<times> segment list"

definition pattern_of :: "route \<Rightarrow> pattern" where
  "pattern_of r = (ro_method r, segments (ro_path r))"

fun shadows :: "pattern \<Rightarrow> pattern \<Rightarrow> bool" where
  "shadows (m, p) (m', p') =
     (list_all2 segment_covers p p' \<and> (m = m' \<or> {m, m'} \<subseteq> {''GET'', ''HEAD''}))"

fun unshadowed :: "pattern list \<Rightarrow> bool" where
  "unshadowed [] = True"
| "unshadowed (r # rs) = (list_all (\<lambda>r'. \<not> shadows r r') rs \<and> unshadowed rs)"

lemma covers_if_both_match:
  assumes "list_all2 segment_ok pat path" "list_all2 segment_ok pat' path"
    and "\<And>a. Lit a \<in> set pat \<Longrightarrow> js_lower a \<notin> set (params pat' path)"
  shows "list_all2 segment_covers pat pat'"
  using assms
proof (induction pat arbitrary: pat' path)
  case (Cons x pat)
  then obtain s ss where path: "path = s # ss" "segment_ok x s" "list_all2 segment_ok pat ss" by (cases path) auto
  with Cons.prems(2) obtain y ys where y: "pat' = y # ys" "segment_ok y s" "list_all2 segment_ok ys ss"
    by (cases pat') auto
  have free: "js_lower a \<notin> set (params ys ss)" if "Lit a \<in> set pat" for a
    using Cons.prems(3) [of a] that by (cases y) (auto simp: y path)
  have "segment_covers x y"
    using path(2) y(2) Cons.prems(3) by (cases x; cases y) (auto simp: y path)
  with Cons.IH [OF path(3) y(3) free] show ?case by (simp add: y)
qed simp

lemma in_words: "r \<in> set rs \<Longrightarrow> Lit a \<in> set (segments (ro_path r)) \<Longrightarrow> js_lower a \<in> set (words rs)"
  by (force simp: words_def)

lemma words_Cons: "set (words rs) \<subseteq> set (words (q # rs))"
  by (simp add: words_def)

lemma dispatch_unshadowed:
  assumes "unshadowed (map pattern_of rs)" "r \<in> set rs" "serves (ro_method r) method" "exact_ok (ro_path r) path"
    and "set (params (segments (ro_path r)) (trimmed path)) \<inter> set (words rs) = {}"
  shows "dispatch rs method path = Some r"
  using assms
proof (induction rs)
  case (Cons q rs)
  show ?case
  proof (cases "q = r")
    case True
    with Cons.prems show ?thesis by simp
  next
    case False
    with Cons.prems have r: "r \<in> set rs" "\<not> shadows (pattern_of q) (pattern_of r)" by (auto simp: list_all_iff)
    have free: "set (params (segments (ro_path r)) (trimmed path)) \<inter> set (words rs) = {}"
      using Cons.prems(5) words_Cons [of rs q] by blast
    have "\<not> (serves (ro_method q) method \<and> exact_ok (ro_path q) path)"
    proof
      assume m: "serves (ro_method q) method \<and> exact_ok (ro_path q) path"
      have "js_lower a \<notin> set (params (segments (ro_path r)) (trimmed path))"
        if "Lit a \<in> set (segments (ro_path q))" for a
        using in_words [OF _ that, of "q # rs"] Cons.prems(5) by auto
      with m Cons.prems(4) have "list_all2 segment_covers (segments (ro_path q)) (segments (ro_path r))"
        by (intro covers_if_both_match [of _ "trimmed path"]) (simp_all add: exact_ok_def)
      moreover have "ro_method q = ro_method r \<or> {ro_method q, ro_method r} \<subseteq> {''GET'', ''HEAD''}"
        using m Cons.prems(3) by (auto simp: serves_def)
      ultimately show False using r(2) by (simp add: pattern_of_def)
    qed
    with Cons.IH [OF _ r(1) Cons.prems(3,4) free] Cons.prems(1) show ?thesis by auto
  qed
qed simp

text \<open>The words of the routes are in lower case already, so that comparing them as they stand is enough.\<close>

definition plain_letters :: string where
  "plain_letters = ''aeiostrnlchdpuvgmbfkjyqwxz-2''"

fun plain :: "segment \<Rightarrow> bool" where
  "plain (Lit a) = list_all (\<lambda>c. c \<in> set plain_letters) a"
| "plain (Param _) = True"

fun same_segment :: "segment \<Rightarrow> segment \<Rightarrow> bool" where
  "same_segment (Param _) _ = True"
| "same_segment (Lit a) (Lit b) = (a = b)"
| "same_segment (Lit a) (Param _) = False"

fun distinct_patterns :: "pattern list \<Rightarrow> bool" where
  "distinct_patterns [] = True"
| "distinct_patterns (r # rs) =
     (list_all (\<lambda>r'. \<not> (list_all2 same_segment (snd r) (snd r') \<and> fst r = fst r')) rs \<and> distinct_patterns rs)"

lemma plain_lower: "list_all (\<lambda>c. c \<in> set plain_letters) a \<Longrightarrow> js_lower a = a"
proof (induction a)
  case (Cons c a)
  have "list_all (\<lambda>c. js_lower_char c = c) plain_letters" by code_simp
  with Cons show ?case by (auto simp: js_lower_def list_all_iff)
qed (simp add: js_lower_def)

lemma same_if_covers: "plain x \<Longrightarrow> plain y \<Longrightarrow> segment_covers x y \<Longrightarrow> same_segment x y"
  using plain_lower by (cases x; cases y) fastforce+

lemma unshadowed_if_distinct:
  assumes "distinct_patterns rs" "list_all (\<lambda>r. list_all plain (snd r) \<and> fst r \<noteq> ''HEAD'') rs"
  shows "unshadowed rs"
  using assms
proof (induction rs)
  case (Cons r rs)
  have "\<not> shadows r r'" if r': "r' \<in> set rs" for r'
  proof
    assume sh: "shadows r r'"
    obtain m p m' p' where r: "r = (m, p)" "r' = (m', p')" by (cases r; cases r')
    have plain: "list_all plain p" "list_all plain p'" and m: "m \<noteq> ''HEAD''" "m' \<noteq> ''HEAD''"
      using Cons.prems(2) r' r by (auto simp: list_all_iff)
    have "list_all2 same_segment p p'"
      using sh plain by (auto simp: r list_all2_conv_all_nth list_all_length intro: same_if_covers)
    moreover have "m = m'" using sh m by (auto simp: r)
    ultimately show False using Cons.prems(1) r' by (auto simp: r list_all_iff)
  qed
  with Cons show ?case by (simp add: list_all_iff)
qed simp

lemma app_routes_distinct: "distinct_patterns (map pattern_of app_routes)"
  by code_simp

lemma app_routes_plain: "list_all (\<lambda>r. list_all plain (snd r) \<and> fst r \<noteq> ''HEAD'') (map pattern_of app_routes)"
  by code_simp

lemma app_routes_unshadowed: "unshadowed (map pattern_of app_routes)"
  by (rule unshadowed_if_distinct [OF app_routes_distinct app_routes_plain])

lemma plain_words:
  assumes "list_all (\<lambda>r. list_all plain (snd r) \<and> fst r \<noteq> ''HEAD'') (map pattern_of rs)" "w \<in> set (words rs)"
  shows "list_all (\<lambda>c. c \<in> set plain_letters) w"
proof -
  from assms(2) obtain r x where r: "r \<in> set rs" "x \<in> set (segments (ro_path r))"
      "w \<in> set (case x of Lit a \<Rightarrow> [js_lower a] | Param _ \<Rightarrow> [])" unfolding words_def by auto
  with assms(1) have "plain x" by (auto simp: list_all_iff pattern_of_def)
  with r(3) show ?thesis by (cases x) (auto simp: plain_lower)
qed

text \<open>C38: No route is hidden by one registered before it: a request whose path matches a route, whatever the case
  of its words and with or without a slash at the end, is dispatched to that route by the method it is registered
  for (\<open>HEAD\<close> as \<open>GET\<close>), if none of the values the path gives the route's parameters is, in any case, a word of a
  path.\<close>

theorem routes_reached:
  assumes "r \<in> set app_routes" "serves (ro_method r) method" "exact_ok (ro_path r) path"
    and "set (params (segments (ro_path r)) (trimmed path)) \<inter> set (words app_routes) = {}"
  shows "dispatch app_routes method path = Some r"
  by (rule dispatch_unshadowed [OF app_routes_unshadowed assms])

theorem routes_reached_witness:
  "dispatch app_routes ''HEAD'' [''api'', ''Feature-Flags'', ''x1'', []] =
     Some (route ''GET'' ''/api/feature-flags/:flagId'' [Authenticate, Authorize [ADMIN], Validate flagIdParamSchema])"
proof (rule routes_reached)
  let ?r = "route ''GET'' ''/api/feature-flags/:flagId'' [Authenticate, Authorize [ADMIN], Validate flagIdParamSchema]"
  let ?path = "[''api'', ''Feature-Flags'', ''x1'', []]"
  have "?r \<in> set (mount ''/api/feature-flags'' [Authenticate] flag_routes)"
    by (simp add: mount_def flag_routes_def route_def)
  then show "?r \<in> set app_routes" by (simp only: app_routes_def set_append Un_iff simp_thms)
  show "serves (ro_method ?r) ''HEAD''" by (simp add: route_def serves_def)
  have segs: "segments (ro_path ?r) = [Lit ''api'', Lit ''feature-flags'', Param ''flagId'']"
    by (simp add: route_def segments_def segment_of_def)
  show "exact_ok (ro_path ?r) ?path" unfolding exact_ok_def segs by code_simp
  have "''x1'' \<notin> set (words app_routes)"
    using plain_words [OF app_routes_plain, of "''x1''"] by (auto simp: plain_letters_def)
  moreover have "params [Lit ''api'', Lit ''feature-flags'', Param ''flagId''] (trimmed ?path) = [''x1'']" by code_simp
  ultimately show "set (params (segments (ro_path ?r)) (trimmed ?path)) \<inter> set (words app_routes) = {}"
    unfolding segs by simp
qed

text \<open>A word in the place of a parameter does change the route: the flag \<open>Evaluate\<close> cannot be read.\<close>

lemma word_as_parameter:
  "map_option ro_path (dispatch app_routes ''GET'' [''api'', ''feature-flags'', ''Evaluate'']) =
     Some ''/api/feature-flags/evaluate''"
  by code_simp

end
