(* ===== verification/Documentation.thy ===== *)
theory Documentation
  imports Routes ApiInvariant
begin

text \<open>
  The API documentation against the server: the operations \<open>docs.routes.js\<close> registers are the routes the
  routers register, with their request schemas and security, and the security that they announce, or that the guards
  of the route stand for, is enforced by the model of the whole interface.
\<close>

section \<open>Operations and routes\<close>

text \<open>What the documentation says of an operation, and what the routers say of a route.\<close>

type_synonym entry = "string \<times> string \<times> zod option \<times> doc_security option"

definition op_entry :: "operation \<Rightarrow> entry" where
  "op_entry op = (op_method op, op_path op, op_request op, op_security op)"

fun validated_schema :: "guard list \<Rightarrow> zod option" where
  "validated_schema [] = None"
| "validated_schema (Validate z # gs) = Some z"
| "validated_schema (g # gs) = validated_schema gs"

fun is_authorize :: "guard \<Rightarrow> bool" where
  "is_authorize (Authorize roles) = True"
| "is_authorize g = False"

fun is_tenant :: "guard \<Rightarrow> bool" where
  "is_tenant Tenant = True"
| "is_tenant TenantIncludeDeleted = True"
| "is_tenant g = False"

fun is_authenticate :: "guard \<Rightarrow> bool" where
  "is_authenticate Authenticate = True"
| "is_authenticate g = False"

fun is_api_key :: "guard \<Rightarrow> bool" where
  "is_api_key ApiKeyAuth = True"
| "is_api_key g = False"

text \<open>The security of a route by its guards.\<close>

definition guard_security :: "guard list \<Rightarrow> doc_security option" where
  "guard_security gs =
     (if list_ex is_api_key gs then Some ApiKeyHeader
      else if \<not> list_ex is_authenticate gs then None
      else if list_ex is_authorize gs then Some AdminOnly
      else if list_ex is_tenant gs then Some OrgMember
      else Some Bearer)"

definition route_entry :: "route \<Rightarrow> entry" where
  "route_entry r =
     (ro_method r, toOpenApiPath (ro_path r), validated_schema (ro_guards r), guard_security (ro_guards r))"

text \<open>The billing routes of an organization are documented as if they needed no membership.\<close>

definition as_documented :: "entry \<Rightarrow> entry" where
  "as_documented = (\<lambda>(m, p, z, s). (m, p, z, if s = Some OrgMember then Some Bearer else s))"

definition documented_export :: entry where
  "documented_export = (''GET'', ''/api/auth/data-export'', None, Some Bearer)"

definition routed_export :: entry where
  "routed_export = (''POST'', ''/api/auth/data-export'', Some exportDataSchema, Some Bearer)"

text \<open>
  The two tables agree group by group, in the same order; the schemas are compared by name.
\<close>

lemmas table_simps = op_entry_def route_entry_def route_def mount_def guard_security_def is_word_def
  is_letter_def is_lower_def is_upper_def is_digit_def char_code_def

lemma signin_in_sync:
  "map op_entry signin_operations = map route_entry (mount ''/api/auth'' [] (take 9 auth_routes))"
  by (simp add: signin_operations_def auth_routes_def table_simps)

lemma account_in_sync:
  "map op_entry account_operations =
     list_update (map route_entry (mount ''/api/auth'' [] (drop 9 auth_routes))) 8 documented_export"
  by (simp add: account_operations_def auth_routes_def table_simps documented_export_def)

lemma export_route: "map route_entry (mount ''/api/auth'' [] (drop 9 auth_routes)) ! 8 = routed_export"
  by (simp add: auth_routes_def table_simps routed_export_def)

lemma billing_in_sync:
  "map op_entry billing_operations =
     map route_entry (mount ''/api/billing'' [] (take 1 billing_routes) @ webhook_routes
       @ mount ''/api/billing'' [] (drop 1 billing_routes))"
  by (simp add: billing_operations_def billing_routes_def webhook_routes_def table_simps)

lemma org_billing_in_sync:
  "map op_entry org_billing_operations =
     map (as_documented \<circ> route_entry)
       (mount ''/api/organizations/:orgId/billing'' [Authenticate, Tenant] org_billing_routes)"
  by (simp add: org_billing_operations_def org_billing_routes_def as_documented_def table_simps)

lemma health_in_sync:
  "map op_entry health_operations =
     map route_entry (health_routes)"
  by (simp add: health_operations_def health_routes_def table_simps)

lemma project_in_sync:
  "map op_entry project_operations =
     map route_entry (mount ''/api/organizations/:orgId/projects'' [Authenticate, VerifiedEmail, Tenant] project_routes)"
  by (simp add: project_operations_def project_routes_def table_simps)

lemma integration_in_sync:
  "map op_entry integration_operations =
     map route_entry (mount ''/api/integrations/organizations/:orgId/projects''
      [ApiKeyAuth, Scope [''projects:read''], Tenant] integration_routes)"
  by (simp add: integration_operations_def integration_routes_def table_simps)

lemma admin_in_sync:
  "map op_entry admin_operations =
     map route_entry (mount ''/api/admin'' [Authenticate, Authorize [ADMIN]] admin_routes)"
  by (simp add: admin_operations_def admin_routes_def table_simps)

lemma key_session_in_sync:
  "map op_entry key_session_operations =
     map route_entry (mount ''/api/api-keys'' [Authenticate] api_key_routes @ mount ''/api/sessions'' [Authenticate] session_routes)"
  by (simp add: key_session_operations_def api_key_routes_def session_routes_def table_simps)

lemma audit_in_sync:
  "map op_entry audit_operations =
     map route_entry (mount ''/api/audit'' [] audit_routes)"
  by (simp add: audit_operations_def audit_routes_def table_simps)

lemma organization_in_sync:
  "map op_entry organization_operations =
     map route_entry (mount ''/api/organizations'' [Authenticate] (take 10 org_routes))"
  by (simp add: organization_operations_def org_routes_def table_simps)

lemma invitation_in_sync:
  "map op_entry invitation_operations =
     map route_entry (mount ''/api/organizations'' [Authenticate] (drop 10 org_routes)
      @ mount ''/api/invitations'' [Authenticate] invitation_routes)"
  by (simp add: invitation_operations_def org_routes_def invitation_routes_def table_simps)

lemma notification_in_sync:
  "map op_entry notification_operations =
     map route_entry (mount ''/api/notifications'' [Authenticate] notification_routes)"
  by (simp add: notification_operations_def notification_routes_def table_simps)

lemma flag_in_sync:
  "map op_entry flag_operations =
     map route_entry (mount ''/api/feature-flags'' [Authenticate] flag_routes)"
  by (simp add: flag_operations_def flag_routes_def table_simps)

lemmas in_sync = signin_in_sync account_in_sync billing_in_sync org_billing_in_sync health_in_sync project_in_sync
  integration_in_sync admin_in_sync key_session_in_sync audit_in_sync organization_in_sync invitation_in_sync
  notification_in_sync flag_in_sync

section \<open>In sync\<close>

lemma mount_append: "mount base gs (xs @ ys) = mount base gs xs @ mount base gs ys"
  by (simp add: mount_def)

lemma mount_set: "set (map f (mount base gs rs)) =
    set (map f (mount base gs (take n rs))) \<union> set (map f (mount base gs (drop n rs)))"
  using mount_append [of base gs "take n rs" "drop n rs"] by (simp only: append_take_drop_id map_append set_append)

lemma replaced_set:
  assumes "n < length xs" "xs ! n = x"
  shows "set xs = {x} \<union> (set (take n xs) \<union> set (drop (Suc n) xs))"
    "set (xs[n := y]) = {y} \<union> (set (take n xs) \<union> set (drop (Suc n) xs))"
  using arg_cong [OF id_take_nth_drop [OF assms(1)], of set] upd_conv_take_nth_drop [OF assms(1), of y] assms(2)
  by simp_all

text \<open>C37: The API documentation lists the routes of the server: every operation it registers, with its method, path,
  request schema and security, is a route of the routers with that schema among its guards and guards of that
  security, and every route is registered, but for two things: the export of one's data is documented as
  \<open>GET\<close> where the router has \<open>POST\<close>, and the billing routes of an organization are documented as if they
  needed no membership.\<close>

theorem documentation_in_sync:
  "\<exists>common org_billing.
     set (map op_entry operations) = {documented_export} \<union> common \<union> as_documented ` org_billing
   \<and> set (map route_entry app_routes) = {routed_export} \<union> common \<union> org_billing
   \<and> org_billing = set (map route_entry
       (mount ''/api/organizations/:orgId/billing'' [Authenticate, Tenant] org_billing_routes))"
proof -
  define acc where "acc = map route_entry (mount ''/api/auth'' [] (drop 9 auth_routes))"
  have acc: "8 < length acc" "acc ! 8 = routed_export"
    unfolding acc_def export_route by (simp_all add: auth_routes_def mount_def)
  define own where "own = set (take 8 acc) \<union> set (drop (Suc 8) acc)"
  note documented = replaced_set(2) [OF acc, of documented_export, folded own_def]
    and routed = replaced_set(1) [OF acc, folded own_def]
  define bill where "bill = set (map route_entry (mount ''/api/billing'' [] billing_routes))"
  define orgs where "orgs = set (map route_entry (mount ''/api/organizations'' [Authenticate] org_routes))"
  define signin where "signin = set (map route_entry (mount ''/api/auth'' [] (take 9 auth_routes)))"
  define hooks where "hooks = set (map route_entry webhook_routes)"
  define health where "health = set (map route_entry health_routes)"
  define billed where "billed = set (map route_entry
    (mount ''/api/organizations/:orgId/billing'' [Authenticate, Tenant] org_billing_routes))"
  define project where "project = set (map route_entry
    (mount ''/api/organizations/:orgId/projects'' [Authenticate, VerifiedEmail, Tenant] project_routes))"
  define integration where "integration = set (map route_entry
    (mount ''/api/integrations/organizations/:orgId/projects''
        [ApiKeyAuth, Scope [''projects:read''], Tenant] integration_routes))"
  define admin where "admin = set (map route_entry (mount ''/api/admin'' [Authenticate, Authorize [ADMIN]] admin_routes))"
  define keys where "keys = set (map route_entry (mount ''/api/api-keys'' [Authenticate] api_key_routes))"
  define sess where "sess = set (map route_entry (mount ''/api/sessions'' [Authenticate] session_routes))"
  define audits where "audits = set (map route_entry (mount ''/api/audit'' [] audit_routes))"
  define invs where "invs = set (map route_entry (mount ''/api/invitations'' [Authenticate] invitation_routes))"
  define ntfs where "ntfs = set (map route_entry (mount ''/api/notifications'' [Authenticate] notification_routes))"
  define flags where "flags = set (map route_entry (mount ''/api/feature-flags'' [Authenticate] flag_routes))"
  note defs = bill_def orgs_def signin_def hooks_def health_def billed_def project_def integration_def admin_def
    keys_def sess_def audits_def invs_def ntfs_def flags_def
  have auth: "set (map route_entry (mount ''/api/auth'' [] auth_routes)) = signin \<union> ({routed_export} \<union> own)"
    unfolding mount_set [of _ _ _ auth_routes 9] by (simp only: signin_def acc_def [symmetric] routed)
  note ops = health_in_sync signin_in_sync account_in_sync [folded acc_def] organization_in_sync invitation_in_sync
    admin_in_sync billing_in_sync key_session_in_sync audit_in_sync project_in_sync integration_in_sync
    notification_in_sync flag_in_sync
  let ?common = "own \<union> bill \<union> orgs \<union> signin \<union> hooks \<union> health \<union> project \<union> integration \<union> admin \<union> keys
    \<union> sess \<union> audits \<union> invs \<union> ntfs \<union> flags"
  have billed: "set (map op_entry org_billing_operations) = as_documented ` billed"
    unfolding org_billing_in_sync billed_def by (simp only: set_map image_comp)
  have "set (map op_entry operations) = {documented_export} \<union> ?common \<union> as_documented ` billed"
    unfolding operations_def map_append set_append billed ops documented
      bill_def mount_set [of _ "''/api/billing''" _ billing_routes 1]
      orgs_def mount_set [of _ "''/api/organizations''" _ org_routes 10]
    unfolding defs(3-5) defs(7-15) set_append map_append
    by (simp only: Un_ac)
  moreover have "set (map route_entry app_routes) = {routed_export} \<union> ?common \<union> billed"
    unfolding app_routes_def map_append set_append auth defs
    by (simp only: Un_ac)
  ultimately show ?thesis unfolding billed_def by (intro exI conjI) (assumption | rule refl)+
qed

section \<open>The announced security is enforced\<close>

text \<open>The documented operation of a request: method and path.\<close>

fun auth_endpoint :: "auth_request \<Rightarrow> string \<times> string" where
  "auth_endpoint (Register _ _ _) = (''POST'', ''/api/auth/register'')"
| "auth_endpoint (Login _ _) = (''POST'', ''/api/auth/login'')"
| "auth_endpoint (Refresh _) = (''POST'', ''/api/auth/refresh'')"
| "auth_endpoint (VerifyEmail _) = (''POST'', ''/api/auth/verify-email'')"
| "auth_endpoint (ResendVerification _) = (''POST'', ''/api/auth/resend-verification'')"
| "auth_endpoint (ForgotPassword _) = (''POST'', ''/api/auth/forgot-password'')"
| "auth_endpoint (ResetPassword _ _) = (''POST'', ''/api/auth/reset-password'')"
| "auth_endpoint (GoogleSignIn _ _) = (''POST'', ''/api/auth/google'')"
| "auth_endpoint (VerifyTwoFactor _ _) = (''POST'', ''/api/auth/2fa/verify'')"
| "auth_endpoint SetupTwoFactor = (''POST'', ''/api/auth/2fa/setup'')"
| "auth_endpoint (EnableTwoFactor _) = (''POST'', ''/api/auth/2fa/enable'')"
| "auth_endpoint (DisableTwoFactor _) = (''POST'', ''/api/auth/2fa/disable'')"
| "auth_endpoint (ChangePassword _ _) = (''POST'', ''/api/auth/change-password'')"
| "auth_endpoint (ChangeEmail _ _) = (''POST'', ''/api/auth/change-email'')"
| "auth_endpoint (Logout _) = (''POST'', ''/api/auth/logout'')"

fun own_endpoint :: "own_request \<Rightarrow> string \<times> string" where
  "own_endpoint (RevokeSession _) = (''POST'', ''/api/sessions/{sessionId}/revoke'')"
| "own_endpoint RevokeAllSessions = (''POST'', ''/api/sessions/revoke-all'')"
| "own_endpoint (PostApiKey _ _ _) = (''POST'', ''/api/api-keys'')"
| "own_endpoint (RevokeApiKey _) = (''POST'', ''/api/api-keys/{keyId}/revoke'')"
| "own_endpoint (DeleteApiKey _) = (''DELETE'', ''/api/api-keys/{keyId}'')"
| "own_endpoint (RestoreApiKey _) = (''POST'', ''/api/api-keys/{keyId}/restore'')"
| "own_endpoint (ReadNotification _) = (''PATCH'', ''/api/notifications/{notificationId}/read'')"
| "own_endpoint ReadAllNotifications = (''PATCH'', ''/api/notifications/read-all'')"
| "own_endpoint (DeleteNotification _) = (''DELETE'', ''/api/notifications/{notificationId}'')"
| "own_endpoint GetPreferences = (''GET'', ''/api/notifications/preferences'')"
| "own_endpoint (PatchPreferences _) = (''PATCH'', ''/api/notifications/preferences'')"

fun org_endpoint :: "org_request \<Rightarrow> string \<times> string" where
  "org_endpoint (PostOrganization _ _) = (''POST'', ''/api/organizations'')"
| "org_endpoint (PatchOrganization _ _ _) = (''PATCH'', ''/api/organizations/{orgId}'')"
| "org_endpoint (DeleteOrganization _) = (''DELETE'', ''/api/organizations/{orgId}'')"
| "org_endpoint (RestoreOrganization _) = (''POST'', ''/api/organizations/{orgId}/restore'')"
| "org_endpoint (TransferOwnership _ _) = (''POST'', ''/api/organizations/{orgId}/transfer-ownership'')"
| "org_endpoint (PatchMember _ _ _) = (''PATCH'', ''/api/organizations/{orgId}/members/{userId}'')"
| "org_endpoint (DeleteMember _ _) = (''DELETE'', ''/api/organizations/{orgId}/members/{userId}'')"
| "org_endpoint (PostInvitation _ _ _) = (''POST'', ''/api/organizations/{orgId}/invitations'')"
| "org_endpoint (DeleteInvitation _ _) = (''DELETE'', ''/api/organizations/{orgId}/invitations/{invitationId}'')"
| "org_endpoint (AcceptInvitation _) = (''POST'', ''/api/invitations/accept'')"
| "org_endpoint (DeclineInvitation _) = (''POST'', ''/api/invitations/decline'')"

fun admin_endpoint :: "admin_request \<Rightarrow> string \<times> string" where
  "admin_endpoint (PatchUser _ _ _) = (''PATCH'', ''/api/admin/users/{userId}'')"
| "admin_endpoint (DeleteUser _) = (''DELETE'', ''/api/admin/users/{userId}'')"
| "admin_endpoint (RestoreUser _) = (''POST'', ''/api/admin/users/{userId}/restore'')"
| "admin_endpoint (PostFlag _ _ _ _ _ _) = (''POST'', ''/api/feature-flags'')"
| "admin_endpoint (PatchFlag _ _) = (''PATCH'', ''/api/feature-flags/{flagId}'')"
| "admin_endpoint (DeleteFlag _) = (''DELETE'', ''/api/feature-flags/{flagId}'')"
| "admin_endpoint (PostOverride _ _ _ _) = (''POST'', ''/api/feature-flags/{flagId}/overrides/{orgId}'')"
| "admin_endpoint (DeleteOverride _ _) = (''DELETE'', ''/api/feature-flags/{flagId}/overrides/{orgId}'')"

fun gdpr_endpoint :: "gdpr_request \<Rightarrow> string \<times> string" where
  "gdpr_endpoint (PostDataExport _) = (''POST'', ''/api/auth/data-export'')"
| "gdpr_endpoint (DeleteAccount _) = (''DELETE'', ''/api/auth/account'')"

fun billing_endpoint :: "billing_request \<Rightarrow> string \<times> string" where
  "billing_endpoint (Checkout _ _ _) = (''POST'', ''/api/billing/checkout'')"
| "billing_endpoint (Portal _) = (''POST'', ''/api/billing/portal'')"
| "billing_endpoint CancelSubscription = (''POST'', ''/api/billing/cancel'')"
| "billing_endpoint (OrgCheckout _ _ _ _) = (''POST'', ''/api/organizations/{orgId}/billing/checkout'')"
| "billing_endpoint (OrgPortal _ _) = (''POST'', ''/api/organizations/{orgId}/billing/portal'')"
| "billing_endpoint (CancelOrgSubscription _) = (''POST'', ''/api/organizations/{orgId}/billing/cancel'')"
| "billing_endpoint (Webhook _ _) = (''POST'', ''/api/billing/webhook'')"

fun project_endpoint :: "project_request \<Rightarrow> string \<times> string" where
  "project_endpoint (PostProject _ _ _) = (''POST'', ''/api/organizations/{orgId}/projects'')"
| "project_endpoint (PatchProject _ _ _) = (''PATCH'', ''/api/organizations/{orgId}/projects/{projectId}'')"
| "project_endpoint (DeleteProject _ _) = (''DELETE'', ''/api/organizations/{orgId}/projects/{projectId}'')"

fun integration_endpoint :: "integration_request \<Rightarrow> string \<times> string" where
  "integration_endpoint (KeyProjects _ _ _) = (''GET'', ''/api/integrations/organizations/{orgId}/projects'')"
| "integration_endpoint (KeyProject _ _) = (''GET'', ''/api/integrations/organizations/{orgId}/projects/{projectId}'')"

fun read_endpoint :: "read_request \<Rightarrow> string \<times> string" where
  "read_endpoint GetGoogleUrl = (''GET'', ''/api/auth/google'')"
| "read_endpoint GetMe = (''GET'', ''/api/auth/me'')"
| "read_endpoint (GetSessions _ _ _ _) = (''GET'', ''/api/sessions'')"
| "read_endpoint (GetApiKeys _) = (''GET'', ''/api/api-keys'')"
| "read_endpoint (GetApiKey _) = (''GET'', ''/api/api-keys/{keyId}'')"
| "read_endpoint (GetNotifications _ _ _) = (''GET'', ''/api/notifications'')"
| "read_endpoint (GetPlans _ _ _ _ _) = (''GET'', ''/api/billing/plans'')"
| "read_endpoint GetSubscription = (''GET'', ''/api/billing/subscription'')"
| "read_endpoint (GetOrgSubscription _) = (''GET'', ''/api/organizations/{orgId}/billing/subscription'')"
| "read_endpoint (GetOrganizations _) = (''GET'', ''/api/organizations'')"
| "read_endpoint (GetOrganization _) = (''GET'', ''/api/organizations/{orgId}'')"
| "read_endpoint (GetMembers _ _) = (''GET'', ''/api/organizations/{orgId}/members'')"
| "read_endpoint (GetOrgInvitations _ _) = (''GET'', ''/api/organizations/{orgId}/invitations'')"
| "read_endpoint (GetMyInvitations _) = (''GET'', ''/api/invitations/me'')"
| "read_endpoint (GetUsers _ _ _) = (''GET'', ''/api/admin/users'')"
| "read_endpoint (GetUser _) = (''GET'', ''/api/admin/users/{userId}'')"
| "read_endpoint (GetAuditLogs _ _ _ _ _) = (''GET'', ''/api/audit'')"
| "read_endpoint (GetMyAuditLogs _ _ _ _) = (''GET'', ''/api/audit/me'')"
| "read_endpoint (GetEvaluation _ _) = (''GET'', ''/api/feature-flags/evaluate'')"
| "read_endpoint (GetFlags _ _ _) = (''GET'', ''/api/feature-flags'')"
| "read_endpoint (GetFlag _) = (''GET'', ''/api/feature-flags/{flagId}'')"
| "read_endpoint (GetProjects _ _ _) = (''GET'', ''/api/organizations/{orgId}/projects'')"
| "read_endpoint (GetProject _ _) = (''GET'', ''/api/organizations/{orgId}/projects/{projectId}'')"
| "read_endpoint (GetExport _) = (''GET'', ''/api/organizations/{orgId}/projects/export'')"
| "read_endpoint (GetAnalytics _) = (''GET'', ''/api/organizations/{orgId}/projects/analytics'')"

fun endpoint :: "api_request \<Rightarrow> string \<times> string" where
  "endpoint (AuthRequest q) = auth_endpoint q"
| "endpoint (OwnRequest q) = own_endpoint q"
| "endpoint (OrgRequest q) = org_endpoint q"
| "endpoint (AdminRequest q) = admin_endpoint q"
| "endpoint (GdprRequest q) = gdpr_endpoint q"
| "endpoint (BillingRequest q) = billing_endpoint q"
| "endpoint (ProjectRequest q) = project_endpoint q"
| "endpoint (IntegrationRequest q) = integration_endpoint q"
| "endpoint (ReadRequest q) = read_endpoint q"

definition op_key :: "operation \<Rightarrow> (string \<times> string) \<times> doc_security option" where
  "op_key op = ((op_method op, op_path op), op_security op)"

definition route_key :: "route \<Rightarrow> (string \<times> string) \<times> doc_security option" where
  "route_key r = ((ro_method r, toOpenApiPath (ro_path r)), guard_security (ro_guards r))"

text \<open>
  The security a table has for an endpoint; and that of a request, by the documentation and by the guards of
  its route.  They differ where the documentation does (see \<open>documentation_in_sync\<close>): for the export
  of one's data and the billing of an organization.
\<close>

definition security_at ::
  "((string \<times> string) \<times> doc_security option) list \<Rightarrow> string \<times> string \<Rightarrow> doc_security list" where
  "security_at table ep = (case map_of table ep of Some (Some sec) \<Rightarrow> [sec] | _ \<Rightarrow> [])"

definition announced :: "api_request \<Rightarrow> doc_security list" where
  "announced q = security_at (map op_key operations) (endpoint q) @ security_at (map route_key app_routes) (endpoint q)"

text \<open>The organization in the path.\<close>

fun path_org :: "api_request \<Rightarrow> string option" where
  "path_org (OrgRequest (PatchOrganization i _ _)) = Some i"
| "path_org (OrgRequest (DeleteOrganization i)) = Some i"
| "path_org (OrgRequest (RestoreOrganization i)) = Some i"
| "path_org (OrgRequest (TransferOwnership i _)) = Some i"
| "path_org (OrgRequest (PatchMember i _ _)) = Some i"
| "path_org (OrgRequest (DeleteMember i _)) = Some i"
| "path_org (OrgRequest (PostInvitation i _ _)) = Some i"
| "path_org (OrgRequest (DeleteInvitation i _)) = Some i"
| "path_org (ProjectRequest (PostProject i _ _)) = Some i"
| "path_org (ProjectRequest (PatchProject i _ _)) = Some i"
| "path_org (ProjectRequest (DeleteProject i _)) = Some i"
| "path_org (BillingRequest (OrgCheckout i _ _ _)) = Some i"
| "path_org (BillingRequest (OrgPortal i _)) = Some i"
| "path_org (BillingRequest (CancelOrgSubscription i)) = Some i"
| "path_org (ReadRequest (GetOrgSubscription i)) = Some i"
| "path_org (ReadRequest (GetOrganization i)) = Some i"
| "path_org (ReadRequest (GetMembers i _)) = Some i"
| "path_org (ReadRequest (GetOrgInvitations i _)) = Some i"
| "path_org (ReadRequest (GetProjects i _ _)) = Some i"
| "path_org (ReadRequest (GetProject i _)) = Some i"
| "path_org (ReadRequest (GetExport i)) = Some i"
| "path_org (ReadRequest (GetAnalytics i)) = Some i"
| "path_org _ = None"

definition is_member :: "user \<Rightarrow> string option \<Rightarrow> db \<Rightarrow> bool" where
  "is_member u i d \<longleftrightarrow> (\<exists>m \<in> set (members d). m_userId m = u_id u \<and> Some (m_organizationId m) = i)"

text \<open>Who meets an announced security.\<close>

fun meets :: "doc_security \<Rightarrow> api_request \<Rightarrow> request \<Rightarrow> db \<Rightarrow> bool" where
  "meets Bearer q rq d = (\<exists>u. account_of rq d u)"
| "meets AdminOnly q rq d = (\<exists>u. account_of rq d u \<and> u_role u = ADMIN)"
| "meets OrgMember q rq d = (\<exists>u. account_of rq d u \<and> is_member u (path_org q) d)"
| "meets ApiKeyHeader q rq d = (\<exists>u. key_holder rq d u)"

text \<open>The keys of both tables, read off.\<close>

definition key_table :: "((string \<times> string) \<times> doc_security option) list" where
  "key_table =
     [((''GET'', ''/health''), None),
      ((''GET'', ''/health/ready''), None),
      ((''POST'', ''/api/auth/register''), None),
      ((''POST'', ''/api/auth/login''), None),
      ((''POST'', ''/api/auth/refresh''), None),
      ((''POST'', ''/api/auth/verify-email''), None),
      ((''POST'', ''/api/auth/resend-verification''), None),
      ((''POST'', ''/api/auth/forgot-password''), None),
      ((''POST'', ''/api/auth/reset-password''), None),
      ((''GET'', ''/api/auth/google''), None),
      ((''POST'', ''/api/auth/google''), None),
      ((''POST'', ''/api/auth/2fa/verify''), None),
      ((''POST'', ''/api/auth/2fa/setup''), Some Bearer),
      ((''POST'', ''/api/auth/2fa/enable''), Some Bearer),
      ((''POST'', ''/api/auth/2fa/disable''), Some Bearer),
      ((''POST'', ''/api/auth/change-password''), Some Bearer),
      ((''POST'', ''/api/auth/change-email''), Some Bearer),
      ((''POST'', ''/api/auth/logout''), Some Bearer),
      ((''GET'', ''/api/auth/me''), Some Bearer),
      ((''GET'', ''/api/auth/data-export''), Some Bearer),
      ((''DELETE'', ''/api/auth/account''), Some Bearer),
      ((''POST'', ''/api/organizations''), Some Bearer),
      ((''GET'', ''/api/organizations''), Some Bearer),
      ((''GET'', ''/api/organizations/{orgId}''), Some OrgMember),
      ((''PATCH'', ''/api/organizations/{orgId}''), Some OrgMember),
      ((''DELETE'', ''/api/organizations/{orgId}''), Some OrgMember),
      ((''POST'', ''/api/organizations/{orgId}/restore''), Some OrgMember),
      ((''POST'', ''/api/organizations/{orgId}/transfer-ownership''), Some OrgMember),
      ((''GET'', ''/api/organizations/{orgId}/members''), Some OrgMember),
      ((''PATCH'', ''/api/organizations/{orgId}/members/{userId}''), Some OrgMember),
      ((''DELETE'', ''/api/organizations/{orgId}/members/{userId}''), Some OrgMember),
      ((''POST'', ''/api/organizations/{orgId}/invitations''), Some OrgMember),
      ((''GET'', ''/api/organizations/{orgId}/invitations''), Some OrgMember),
      ((''DELETE'', ''/api/organizations/{orgId}/invitations/{invitationId}''), Some OrgMember),
      ((''GET'', ''/api/invitations/me''), Some Bearer),
      ((''POST'', ''/api/invitations/accept''), Some Bearer),
      ((''POST'', ''/api/invitations/decline''), Some Bearer),
      ((''GET'', ''/api/admin/users''), Some AdminOnly),
      ((''GET'', ''/api/admin/users/{userId}''), Some AdminOnly),
      ((''PATCH'', ''/api/admin/users/{userId}''), Some AdminOnly),
      ((''DELETE'', ''/api/admin/users/{userId}''), Some AdminOnly),
      ((''POST'', ''/api/admin/users/{userId}/restore''), Some AdminOnly),
      ((''GET'', ''/api/billing/plans''), None),
      ((''POST'', ''/api/billing/webhook''), None),
      ((''GET'', ''/api/billing/subscription''), Some Bearer),
      ((''POST'', ''/api/billing/checkout''), Some Bearer),
      ((''POST'', ''/api/billing/portal''), Some Bearer),
      ((''POST'', ''/api/billing/cancel''), Some Bearer),
      ((''GET'', ''/api/organizations/{orgId}/billing/subscription''), Some Bearer),
      ((''POST'', ''/api/organizations/{orgId}/billing/checkout''), Some Bearer),
      ((''POST'', ''/api/organizations/{orgId}/billing/portal''), Some Bearer),
      ((''POST'', ''/api/organizations/{orgId}/billing/cancel''), Some Bearer),
      ((''POST'', ''/api/api-keys''), Some Bearer),
      ((''GET'', ''/api/api-keys''), Some Bearer),
      ((''GET'', ''/api/api-keys/{keyId}''), Some Bearer),
      ((''POST'', ''/api/api-keys/{keyId}/revoke''), Some Bearer),
      ((''DELETE'', ''/api/api-keys/{keyId}''), Some Bearer),
      ((''POST'', ''/api/api-keys/{keyId}/restore''), Some Bearer),
      ((''GET'', ''/api/sessions''), Some Bearer),
      ((''POST'', ''/api/sessions/{sessionId}/revoke''), Some Bearer),
      ((''POST'', ''/api/sessions/revoke-all''), Some Bearer),
      ((''GET'', ''/api/audit''), Some AdminOnly),
      ((''GET'', ''/api/audit/me''), Some Bearer),
      ((''GET'', ''/api/organizations/{orgId}/projects''), Some OrgMember),
      ((''GET'', ''/api/organizations/{orgId}/projects/export''), Some OrgMember),
      ((''GET'', ''/api/organizations/{orgId}/projects/analytics''), Some OrgMember),
      ((''GET'', ''/api/organizations/{orgId}/projects/{projectId}''), Some OrgMember),
      ((''POST'', ''/api/organizations/{orgId}/projects''), Some OrgMember),
      ((''PATCH'', ''/api/organizations/{orgId}/projects/{projectId}''), Some OrgMember),
      ((''DELETE'', ''/api/organizations/{orgId}/projects/{projectId}''), Some OrgMember),
      ((''GET'', ''/api/integrations/organizations/{orgId}/projects''), Some ApiKeyHeader),
      ((''GET'', ''/api/integrations/organizations/{orgId}/projects/{projectId}''), Some ApiKeyHeader),
      ((''GET'', ''/api/notifications''), Some Bearer),
      ((''PATCH'', ''/api/notifications/read-all''), Some Bearer),
      ((''PATCH'', ''/api/notifications/{notificationId}/read''), Some Bearer),
      ((''DELETE'', ''/api/notifications/{notificationId}''), Some Bearer),
      ((''GET'', ''/api/notifications/preferences''), Some Bearer),
      ((''PATCH'', ''/api/notifications/preferences''), Some Bearer),
      ((''GET'', ''/api/feature-flags/evaluate''), Some Bearer),
      ((''POST'', ''/api/feature-flags''), Some AdminOnly),
      ((''GET'', ''/api/feature-flags''), Some AdminOnly),
      ((''GET'', ''/api/feature-flags/{flagId}''), Some AdminOnly),
      ((''PATCH'', ''/api/feature-flags/{flagId}''), Some AdminOnly),
      ((''DELETE'', ''/api/feature-flags/{flagId}''), Some AdminOnly),
      ((''POST'', ''/api/feature-flags/{flagId}/overrides/{orgId}''), Some AdminOnly),
      ((''DELETE'', ''/api/feature-flags/{flagId}/overrides/{orgId}''), Some AdminOnly)]"

lemma op_keys: "map op_key operations = key_table"
  by (simp add: op_key_def key_table_def operations_def health_operations_def signin_operations_def account_operations_def organization_operations_def
      invitation_operations_def admin_operations_def billing_operations_def org_billing_operations_def
      key_session_operations_def audit_operations_def project_operations_def integration_operations_def
      notification_operations_def flag_operations_def)

definition route_table :: "((string \<times> string) \<times> doc_security option) list" where
  "route_table =
     [((''POST'', ''/api/billing/webhook''), None),
      ((''GET'', ''/health''), None),
      ((''GET'', ''/health/ready''), None),
      ((''POST'', ''/api/auth/register''), None),
      ((''POST'', ''/api/auth/login''), None),
      ((''POST'', ''/api/auth/refresh''), None),
      ((''POST'', ''/api/auth/verify-email''), None),
      ((''POST'', ''/api/auth/resend-verification''), None),
      ((''POST'', ''/api/auth/forgot-password''), None),
      ((''POST'', ''/api/auth/reset-password''), None),
      ((''GET'', ''/api/auth/google''), None),
      ((''POST'', ''/api/auth/google''), None),
      ((''POST'', ''/api/auth/2fa/verify''), None),
      ((''POST'', ''/api/auth/2fa/setup''), Some Bearer),
      ((''POST'', ''/api/auth/2fa/enable''), Some Bearer),
      ((''POST'', ''/api/auth/2fa/disable''), Some Bearer),
      ((''POST'', ''/api/auth/change-password''), Some Bearer),
      ((''POST'', ''/api/auth/change-email''), Some Bearer),
      ((''POST'', ''/api/auth/logout''), Some Bearer),
      ((''GET'', ''/api/auth/me''), Some Bearer),
      ((''POST'', ''/api/auth/data-export''), Some Bearer),
      ((''DELETE'', ''/api/auth/account''), Some Bearer),
      ((''GET'', ''/api/organizations/{orgId}/projects''), Some OrgMember),
      ((''GET'', ''/api/organizations/{orgId}/projects/export''), Some OrgMember),
      ((''GET'', ''/api/organizations/{orgId}/projects/analytics''), Some OrgMember),
      ((''GET'', ''/api/organizations/{orgId}/projects/{projectId}''), Some OrgMember),
      ((''POST'', ''/api/organizations/{orgId}/projects''), Some OrgMember),
      ((''PATCH'', ''/api/organizations/{orgId}/projects/{projectId}''), Some OrgMember),
      ((''DELETE'', ''/api/organizations/{orgId}/projects/{projectId}''), Some OrgMember),
      ((''GET'', ''/api/organizations/{orgId}/billing/subscription''), Some OrgMember),
      ((''POST'', ''/api/organizations/{orgId}/billing/checkout''), Some OrgMember),
      ((''POST'', ''/api/organizations/{orgId}/billing/portal''), Some OrgMember),
      ((''POST'', ''/api/organizations/{orgId}/billing/cancel''), Some OrgMember),
      ((''POST'', ''/api/organizations''), Some Bearer),
      ((''GET'', ''/api/organizations''), Some Bearer),
      ((''GET'', ''/api/organizations/{orgId}''), Some OrgMember),
      ((''PATCH'', ''/api/organizations/{orgId}''), Some OrgMember),
      ((''DELETE'', ''/api/organizations/{orgId}''), Some OrgMember),
      ((''POST'', ''/api/organizations/{orgId}/restore''), Some OrgMember),
      ((''POST'', ''/api/organizations/{orgId}/transfer-ownership''), Some OrgMember),
      ((''GET'', ''/api/organizations/{orgId}/members''), Some OrgMember),
      ((''PATCH'', ''/api/organizations/{orgId}/members/{userId}''), Some OrgMember),
      ((''DELETE'', ''/api/organizations/{orgId}/members/{userId}''), Some OrgMember),
      ((''POST'', ''/api/organizations/{orgId}/invitations''), Some OrgMember),
      ((''GET'', ''/api/organizations/{orgId}/invitations''), Some OrgMember),
      ((''DELETE'', ''/api/organizations/{orgId}/invitations/{invitationId}''), Some OrgMember),
      ((''GET'', ''/api/integrations/organizations/{orgId}/projects''), Some ApiKeyHeader),
      ((''GET'', ''/api/integrations/organizations/{orgId}/projects/{projectId}''), Some ApiKeyHeader),
      ((''GET'', ''/api/admin/users''), Some AdminOnly),
      ((''GET'', ''/api/admin/users/{userId}''), Some AdminOnly),
      ((''PATCH'', ''/api/admin/users/{userId}''), Some AdminOnly),
      ((''DELETE'', ''/api/admin/users/{userId}''), Some AdminOnly),
      ((''POST'', ''/api/admin/users/{userId}/restore''), Some AdminOnly),
      ((''GET'', ''/api/billing/plans''), None),
      ((''GET'', ''/api/billing/subscription''), Some Bearer),
      ((''POST'', ''/api/billing/checkout''), Some Bearer),
      ((''POST'', ''/api/billing/portal''), Some Bearer),
      ((''POST'', ''/api/billing/cancel''), Some Bearer),
      ((''POST'', ''/api/api-keys''), Some Bearer),
      ((''GET'', ''/api/api-keys''), Some Bearer),
      ((''GET'', ''/api/api-keys/{keyId}''), Some Bearer),
      ((''POST'', ''/api/api-keys/{keyId}/revoke''), Some Bearer),
      ((''DELETE'', ''/api/api-keys/{keyId}''), Some Bearer),
      ((''POST'', ''/api/api-keys/{keyId}/restore''), Some Bearer),
      ((''GET'', ''/api/sessions''), Some Bearer),
      ((''POST'', ''/api/sessions/{sessionId}/revoke''), Some Bearer),
      ((''POST'', ''/api/sessions/revoke-all''), Some Bearer),
      ((''GET'', ''/api/audit''), Some AdminOnly),
      ((''GET'', ''/api/audit/me''), Some Bearer),
      ((''GET'', ''/api/invitations/me''), Some Bearer),
      ((''POST'', ''/api/invitations/accept''), Some Bearer),
      ((''POST'', ''/api/invitations/decline''), Some Bearer),
      ((''GET'', ''/api/notifications''), Some Bearer),
      ((''PATCH'', ''/api/notifications/read-all''), Some Bearer),
      ((''PATCH'', ''/api/notifications/{notificationId}/read''), Some Bearer),
      ((''DELETE'', ''/api/notifications/{notificationId}''), Some Bearer),
      ((''GET'', ''/api/notifications/preferences''), Some Bearer),
      ((''PATCH'', ''/api/notifications/preferences''), Some Bearer),
      ((''GET'', ''/api/feature-flags/evaluate''), Some Bearer),
      ((''POST'', ''/api/feature-flags''), Some AdminOnly),
      ((''GET'', ''/api/feature-flags''), Some AdminOnly),
      ((''GET'', ''/api/feature-flags/{flagId}''), Some AdminOnly),
      ((''PATCH'', ''/api/feature-flags/{flagId}''), Some AdminOnly),
      ((''DELETE'', ''/api/feature-flags/{flagId}''), Some AdminOnly),
      ((''POST'', ''/api/feature-flags/{flagId}/overrides/{orgId}''), Some AdminOnly),
      ((''DELETE'', ''/api/feature-flags/{flagId}/overrides/{orgId}''), Some AdminOnly)]"

lemma route_keys: "map route_key app_routes = route_table"
  by (simp add: route_key_def route_table_def app_routes_def webhook_routes_def health_routes_def auth_routes_def
      project_routes_def org_billing_routes_def org_routes_def integration_routes_def admin_routes_def
      billing_routes_def api_key_routes_def session_routes_def audit_routes_def invitation_routes_def
      notification_routes_def flag_routes_def table_simps)

definition securities :: "string \<times> string \<Rightarrow> doc_security list" where
  "securities ep = security_at key_table ep @ security_at route_table ep"

lemma auth_keys:
  "securities (''POST'', ''/api/auth/register'') = []"
  "securities (''POST'', ''/api/auth/login'') = []"
  "securities (''POST'', ''/api/auth/refresh'') = []"
  "securities (''POST'', ''/api/auth/verify-email'') = []"
  "securities (''POST'', ''/api/auth/resend-verification'') = []"
  "securities (''POST'', ''/api/auth/forgot-password'') = []"
  by code_simp+

lemma auth_keys2:
  "securities (''POST'', ''/api/auth/reset-password'') = []"
  "securities (''POST'', ''/api/auth/google'') = []"
  "securities (''POST'', ''/api/auth/2fa/verify'') = []"
  "securities (''POST'', ''/api/auth/2fa/setup'') = [Bearer, Bearer]"
  "securities (''POST'', ''/api/auth/2fa/enable'') = [Bearer, Bearer]"
  "securities (''POST'', ''/api/auth/2fa/disable'') = [Bearer, Bearer]"
  by code_simp+

lemma auth_keys3:
  "securities (''POST'', ''/api/auth/change-password'') = [Bearer, Bearer]"
  "securities (''POST'', ''/api/auth/change-email'') = [Bearer, Bearer]"
  "securities (''POST'', ''/api/auth/logout'') = [Bearer, Bearer]"
  "securities (''POST'', ''/api/auth/data-export'') = [Bearer]"
  "securities (''DELETE'', ''/api/auth/account'') = [Bearer, Bearer]"
  "securities (''GET'', ''/api/auth/google'') = []"
  by code_simp+

lemma auth_keys4:
  "securities (''GET'', ''/api/auth/me'') = [Bearer, Bearer]"
  by code_simp+

lemma sessions_keys:
  "securities (''POST'', ''/api/sessions/{sessionId}/revoke'') = [Bearer, Bearer]"
  "securities (''POST'', ''/api/sessions/revoke-all'') = [Bearer, Bearer]"
  "securities (''GET'', ''/api/sessions'') = [Bearer, Bearer]"
  by code_simp+

lemma api_key_keys:
  "securities (''POST'', ''/api/api-keys'') = [Bearer, Bearer]"
  "securities (''POST'', ''/api/api-keys/{keyId}/revoke'') = [Bearer, Bearer]"
  "securities (''DELETE'', ''/api/api-keys/{keyId}'') = [Bearer, Bearer]"
  "securities (''POST'', ''/api/api-keys/{keyId}/restore'') = [Bearer, Bearer]"
  "securities (''GET'', ''/api/api-keys'') = [Bearer, Bearer]"
  "securities (''GET'', ''/api/api-keys/{keyId}'') = [Bearer, Bearer]"
  by code_simp+

lemma notifications_keys:
  "securities (''PATCH'', ''/api/notifications/{notificationId}/read'') = [Bearer, Bearer]"
  "securities (''PATCH'', ''/api/notifications/read-all'') = [Bearer, Bearer]"
  "securities (''DELETE'', ''/api/notifications/{notificationId}'') = [Bearer, Bearer]"
  "securities (''GET'', ''/api/notifications/preferences'') = [Bearer, Bearer]"
  "securities (''PATCH'', ''/api/notifications/preferences'') = [Bearer, Bearer]"
  "securities (''GET'', ''/api/notifications'') = [Bearer, Bearer]"
  by code_simp+

lemma organizations_keys:
  "securities (''POST'', ''/api/organizations'') = [Bearer, Bearer]"
  "securities (''PATCH'', ''/api/organizations/{orgId}'') = [OrgMember, OrgMember]"
  "securities (''DELETE'', ''/api/organizations/{orgId}'') = [OrgMember, OrgMember]"
  "securities (''POST'', ''/api/organizations/{orgId}/restore'') = [OrgMember, OrgMember]"
  "securities (''POST'', ''/api/organizations/{orgId}/transfer-ownership'') = [OrgMember, OrgMember]"
  "securities (''PATCH'', ''/api/organizations/{orgId}/members/{userId}'') = [OrgMember, OrgMember]"
  by code_simp+

lemma organizations_keys2:
  "securities (''DELETE'', ''/api/organizations/{orgId}/members/{userId}'') = [OrgMember, OrgMember]"
  "securities (''POST'', ''/api/organizations/{orgId}/invitations'') = [OrgMember, OrgMember]"
  "securities (''DELETE'', ''/api/organizations/{orgId}/invitations/{invitationId}'') = [OrgMember, OrgMember]"
  "securities (''POST'', ''/api/organizations/{orgId}/billing/checkout'') = [Bearer, OrgMember]"
  "securities (''POST'', ''/api/organizations/{orgId}/billing/portal'') = [Bearer, OrgMember]"
  "securities (''POST'', ''/api/organizations/{orgId}/billing/cancel'') = [Bearer, OrgMember]"
  by code_simp+

lemma organizations_keys3:
  "securities (''POST'', ''/api/organizations/{orgId}/projects'') = [OrgMember, OrgMember]"
  "securities (''PATCH'', ''/api/organizations/{orgId}/projects/{projectId}'') = [OrgMember, OrgMember]"
  "securities (''DELETE'', ''/api/organizations/{orgId}/projects/{projectId}'') = [OrgMember, OrgMember]"
  "securities (''GET'', ''/api/organizations/{orgId}/billing/subscription'') = [Bearer, OrgMember]"
  "securities (''GET'', ''/api/organizations'') = [Bearer, Bearer]"
  "securities (''GET'', ''/api/organizations/{orgId}'') = [OrgMember, OrgMember]"
  by code_simp+

lemma organizations_keys4:
  "securities (''GET'', ''/api/organizations/{orgId}/members'') = [OrgMember, OrgMember]"
  "securities (''GET'', ''/api/organizations/{orgId}/invitations'') = [OrgMember, OrgMember]"
  "securities (''GET'', ''/api/organizations/{orgId}/projects'') = [OrgMember, OrgMember]"
  "securities (''GET'', ''/api/organizations/{orgId}/projects/{projectId}'') = [OrgMember, OrgMember]"
  "securities (''GET'', ''/api/organizations/{orgId}/projects/export'') = [OrgMember, OrgMember]"
  "securities (''GET'', ''/api/organizations/{orgId}/projects/analytics'') = [OrgMember, OrgMember]"
  by code_simp+

lemma invitations_keys:
  "securities (''POST'', ''/api/invitations/accept'') = [Bearer, Bearer]"
  "securities (''POST'', ''/api/invitations/decline'') = [Bearer, Bearer]"
  "securities (''GET'', ''/api/invitations/me'') = [Bearer, Bearer]"
  by code_simp+

lemma admin_keys:
  "securities (''PATCH'', ''/api/admin/users/{userId}'') = [AdminOnly, AdminOnly]"
  "securities (''DELETE'', ''/api/admin/users/{userId}'') = [AdminOnly, AdminOnly]"
  "securities (''POST'', ''/api/admin/users/{userId}/restore'') = [AdminOnly, AdminOnly]"
  "securities (''GET'', ''/api/admin/users'') = [AdminOnly, AdminOnly]"
  "securities (''GET'', ''/api/admin/users/{userId}'') = [AdminOnly, AdminOnly]"
  by code_simp+

lemma feature_flags_keys:
  "securities (''POST'', ''/api/feature-flags'') = [AdminOnly, AdminOnly]"
  "securities (''PATCH'', ''/api/feature-flags/{flagId}'') = [AdminOnly, AdminOnly]"
  "securities (''DELETE'', ''/api/feature-flags/{flagId}'') = [AdminOnly, AdminOnly]"
  "securities (''POST'', ''/api/feature-flags/{flagId}/overrides/{orgId}'') = [AdminOnly, AdminOnly]"
  "securities (''DELETE'', ''/api/feature-flags/{flagId}/overrides/{orgId}'') = [AdminOnly, AdminOnly]"
  "securities (''GET'', ''/api/feature-flags/evaluate'') = [Bearer, Bearer]"
  by code_simp+

lemma feature_flags_keys2:
  "securities (''GET'', ''/api/feature-flags'') = [AdminOnly, AdminOnly]"
  "securities (''GET'', ''/api/feature-flags/{flagId}'') = [AdminOnly, AdminOnly]"
  by code_simp+

lemma billing_keys:
  "securities (''POST'', ''/api/billing/checkout'') = [Bearer, Bearer]"
  "securities (''POST'', ''/api/billing/portal'') = [Bearer, Bearer]"
  "securities (''POST'', ''/api/billing/cancel'') = [Bearer, Bearer]"
  "securities (''POST'', ''/api/billing/webhook'') = []"
  "securities (''GET'', ''/api/billing/plans'') = []"
  "securities (''GET'', ''/api/billing/subscription'') = [Bearer, Bearer]"
  by code_simp+

lemma integrations_keys:
  "securities (''GET'', ''/api/integrations/organizations/{orgId}/projects'') = [ApiKeyHeader, ApiKeyHeader]"
  "securities (''GET'', ''/api/integrations/organizations/{orgId}/projects/{projectId}'') = [ApiKeyHeader, ApiKeyHeader]"
  by code_simp+

lemma audit_keys:
  "securities (''GET'', ''/api/audit'') = [AdminOnly, AdminOnly]"
  "securities (''GET'', ''/api/audit/me'') = [Bearer, Bearer]"
  by code_simp+

lemma announced_securities: "announced q = securities (endpoint q)"
  by (simp add: announced_def securities_def op_keys route_keys)

lemmas announced_simps = announced_securities auth_keys auth_keys2 auth_keys3 auth_keys4 sessions_keys
  api_key_keys notifications_keys organizations_keys organizations_keys2 organizations_keys3
  organizations_keys4 invitations_keys admin_keys feature_flags_keys feature_flags_keys2 billing_keys
  integrations_keys audit_keys

text \<open>Every documented operation is that of a request, but for the health checks and the export under its
  documented method.\<close>

lemma every_operation_requested:
  "map fst (map op_key operations) =
     [(''GET'', ''/health'')]
     @ [(''GET'', ''/health/ready'')]
     @ map endpoint
      [AuthRequest (Register x1 x2 x3),
       AuthRequest (Login x4 x5),
       AuthRequest (Refresh x6),
       AuthRequest (VerifyEmail x7),
       AuthRequest (ResendVerification x8),
       AuthRequest (ForgotPassword x9),
       AuthRequest (ResetPassword x10 x11),
       ReadRequest GetGoogleUrl,
       AuthRequest (GoogleSignIn x12 x13),
       AuthRequest (VerifyTwoFactor x14 x15),
       AuthRequest SetupTwoFactor,
       AuthRequest (EnableTwoFactor x16),
       AuthRequest (DisableTwoFactor x17),
       AuthRequest (ChangePassword x18 x19),
       AuthRequest (ChangeEmail x20 x21),
       AuthRequest (Logout x22),
       ReadRequest GetMe]
     @ [(''GET'', ''/api/auth/data-export'')]
     @ map endpoint
      [GdprRequest (DeleteAccount x75),
       OrgRequest (PostOrganization x33 x34),
       ReadRequest (GetOrganizations x117),
       ReadRequest (GetOrganization x118),
       OrgRequest (PatchOrganization x35 x36 x37),
       OrgRequest (DeleteOrganization x38),
       OrgRequest (RestoreOrganization x39),
       OrgRequest (TransferOwnership x40 x41),
       ReadRequest (GetMembers x119 x120),
       OrgRequest (PatchMember x42 x43 x44),
       OrgRequest (DeleteMember x45 x46),
       OrgRequest (PostInvitation x47 x48 x49),
       ReadRequest (GetOrgInvitations x121 x122),
       OrgRequest (DeleteInvitation x50 x51),
       ReadRequest (GetMyInvitations x123),
       OrgRequest (AcceptInvitation x52),
       OrgRequest (DeclineInvitation x53),
       ReadRequest (GetUsers x124 x125 x126),
       ReadRequest (GetUser x127),
       AdminRequest (PatchUser x54 x55 x56),
       AdminRequest (DeleteUser x57),
       AdminRequest (RestoreUser x58),
       ReadRequest (GetPlans x111 x112 x113 x114 x115),
       BillingRequest (Webhook x87 x88),
       ReadRequest GetSubscription,
       BillingRequest (Checkout x76 x77 x78),
       BillingRequest (Portal x79),
       BillingRequest CancelSubscription,
       ReadRequest (GetOrgSubscription x116),
       BillingRequest (OrgCheckout x80 x81 x82 x83),
       BillingRequest (OrgPortal x84 x85),
       BillingRequest (CancelOrgSubscription x86),
       OwnRequest (PostApiKey x24 x25 x26),
       ReadRequest (GetApiKeys x106),
       ReadRequest (GetApiKey x107),
       OwnRequest (RevokeApiKey x27),
       OwnRequest (DeleteApiKey x28),
       OwnRequest (RestoreApiKey x29),
       ReadRequest (GetSessions x102 x103 x104 x105),
       OwnRequest (RevokeSession x23),
       OwnRequest RevokeAllSessions,
       ReadRequest (GetAuditLogs x128 x129 x130 x131 x132),
       ReadRequest (GetMyAuditLogs x133 x134 x135 x136),
       ReadRequest (GetProjects x143 x144 x145),
       ReadRequest (GetExport x148),
       ReadRequest (GetAnalytics x149),
       ReadRequest (GetProject x146 x147),
       ProjectRequest (PostProject x89 x90 x91),
       ProjectRequest (PatchProject x92 x93 x94),
       ProjectRequest (DeleteProject x95 x96),
       IntegrationRequest (KeyProjects x97 x98 x99),
       IntegrationRequest (KeyProject x100 x101),
       ReadRequest (GetNotifications x108 x109 x110),
       OwnRequest ReadAllNotifications,
       OwnRequest (ReadNotification x30),
       OwnRequest (DeleteNotification x31),
       OwnRequest GetPreferences,
       OwnRequest (PatchPreferences x32),
       ReadRequest (GetEvaluation x137 x138),
       AdminRequest (PostFlag x59 x60 x61 x62 x63 x64),
       ReadRequest (GetFlags x139 x140 x141),
       ReadRequest (GetFlag x142),
       AdminRequest (PatchFlag x65 x66),
       AdminRequest (DeleteFlag x67),
       AdminRequest (PostOverride x68 x69 x70 x71),
       AdminRequest (DeleteOverride x72 x73)]"
  unfolding op_keys by (simp add: key_table_def)

lemma holds_role_member: "holds_role roles i live u d \<Longrightarrow> is_member u (Some i) d"
  by (auto simp: holds_role_def is_member_def)

lemma signed_in_refuses: "\<nexists>u. account_of rq d u \<Longrightarrow> \<exists>e. outcome (signed_in rq k d) = (Inl e, d)"
  by (rule signed_in_cases [OF refl, of rq k d]) (auto elim: caller_account)

lemma as_admin_refuses: "\<nexists>u. account_of rq d u \<and> u_role u = ADMIN \<Longrightarrow> \<exists>e. outcome (as_admin rq k d) = (Inl e, d)"
  by (rule as_admin_cases [OF refl, of rq k d]) (auto elim!: caller_account)

lemma with_org_role_refuses:
  "\<nexists>u. account_of rq d u \<and> is_member u (Some i) d \<Longrightarrow> \<exists>e. outcome (with_org_role rq roles i k d) = (Inl e, d)"
  by (rule with_org_role_cases [OF refl, of rq roles i k d])
    (auto elim!: caller_account dest: tenant_role(1) holds_role_member)

lemma with_org_role_refuses':
  "\<nexists>u. account_of rq d u \<Longrightarrow> \<exists>e. outcome (with_org_role rq roles i k d) = (Inl e, d)"
  using with_org_role_refuses by blast

lemma in_tenant_refuses:
  "\<nexists>u. account_of rq d u \<and> is_member u (Some i) d \<Longrightarrow> \<exists>e. outcome (in_tenant rq i k d) = (Inl e, d)"
proof (rule in_tenant_cases [OF refl, of rq i k d])
  fix a t
  assume none: "\<nexists>u. account_of rq d u \<and> is_member u (Some i) d"
    and a: "caller rq d a" and t: "requireTenant i (au_id a) d = Inr t"
  from caller_account [OF a] obtain u where u: "account_of rq d u" "u_id u = au_id a" by metis
  from requireTenant_InrD [OF t] obtain m where "membership i (au_id a) d = Some m" by blast
  with membershipD u none show ?thesis by (fastforce simp: is_member_def)
qed simp

lemma in_tenant_refuses':
  "\<nexists>u. account_of rq d u \<Longrightarrow> \<exists>e. outcome (in_tenant rq i k d) = (Inl e, d)"
  using in_tenant_refuses by blast

lemma with_deleted_org_role_refuses:
  "\<nexists>u. account_of rq d u \<and> is_member u (Some i) d \<Longrightarrow> \<exists>e. outcome (with_deleted_org_role rq roles i k d) = (Inl e, d)"
  by (rule with_deleted_org_role_cases [OF refl, of rq roles i k d])
    (auto elim!: caller_account dest: tenant_role(2) holds_role_member)

lemma project_guards_refuse:
  assumes "\<nexists>u. account_of rq d u \<and> is_member u (Some i) d"
  shows "\<exists>e. project_guards (rq_env rq) (rq_now rq) (rq_authorization rq) i d = Inl e"
proof (cases "project_guards (rq_env rq) (rq_now rq) (rq_authorization rq) i d")
  case (Inr p)
  obtain a t where p: "p = (a, t)" by (cases p)
  from project_guards_InrD [OF Inr [unfolded p]] obtain m where
    m: "caller rq d a" "membership i (au_id a) d = Some m" unfolding caller_def by blast
  from caller_account [OF m(1)] obtain u where "account_of rq d u" "u_id u = au_id a" by metis
  with membershipD [OF m(2)] assms show ?thesis by (auto simp: is_member_def)
qed simp

lemma project_router_refuses:
  assumes "\<nexists>u. account_of rq d u \<and> is_member u (path_org (ProjectRequest q)) d"
  shows "\<exists>e. project_router rq q d = (Inl e, d)"
proof (cases q)
  case (PostProject i n x)
  with project_guards_refuse [of rq d i] assms obtain e where
    "project_guards (rq_env rq) (rq_now rq) (rq_authorization rq) i d = Inl e" by auto
  then show ?thesis by (simp add: PostProject POST_project_def)
next
  case (PatchProject i n x)
  with project_guards_refuse [of rq d i] assms obtain e where
    "project_guards (rq_env rq) (rq_now rq) (rq_authorization rq) i d = Inl e" by auto
  then show ?thesis by (simp add: PatchProject PATCH_project_def)
next
  case (DeleteProject i n)
  with project_guards_refuse [of rq d i] assms obtain e where
    "project_guards (rq_env rq) (rq_now rq) (rq_authorization rq) i d = Inl e" by auto
  then show ?thesis by (simp add: DeleteProject DELETE_project_def)
qed

lemma project_reads_refuse:
  assumes "\<nexists>u. account_of rq d u \<and> is_member u (Some i) d"
  shows "\<exists>e. project_read (GET_projects (rq_env rq) like ob (rq_now rq) (rq_authorization rq) i q st d) d = (Inl e, d)"
    "\<exists>e. project_read (GET_project (rq_env rq) (rq_now rq) (rq_authorization rq) i pid d) d = (Inl e, d)"
    "\<exists>e. project_read (GET_export (rq_env rq) (rq_now rq) (rq_authorization rq) i d) d = (Inl e, d)"
    "\<exists>e. project_read (GET_analytics (rq_env rq) (rq_now rq) (rq_authorization rq) i d) d = (Inl e, d)"
  using project_guards_refuse [OF assms]
  by (auto simp: project_read_def GET_projects_def GET_project_def GET_export_def GET_analytics_def)

lemmas refuses = signed_in_refuses as_admin_refuses with_org_role_refuses with_deleted_org_role_refuses
  in_tenant_refuses project_reads_refuse

lemma auth_refuses:
  "sec \<in> set (announced (AuthRequest q)) \<Longrightarrow> \<not> meets sec (AuthRequest q) rq d \<Longrightarrow> \<exists>e. auth_router rq q d = (Inl e, d)"
  by (cases q) (auto simp: announced_simps intro!: refuses)

lemma own_refuses:
  "sec \<in> set (announced (OwnRequest q)) \<Longrightarrow> \<not> meets sec (OwnRequest q) rq d \<Longrightarrow> \<exists>e. own_router rq q d = (Inl e, d)"
  by (cases q) (auto simp: announced_simps intro!: refuses)

lemma org_refuses:
  "sec \<in> set (announced (OrgRequest q)) \<Longrightarrow> \<not> meets sec (OrgRequest q) rq d \<Longrightarrow> \<exists>e. org_router cancel rq q d = (Inl e, d)"
  by (cases q) (auto simp: announced_simps intro!: refuses)

lemma admin_refuses:
  "sec \<in> set (announced (AdminRequest q)) \<Longrightarrow> \<not> meets sec (AdminRequest q) rq d \<Longrightarrow> \<exists>e. admin_router rq q d = (Inl e, d)"
  by (cases q) (auto simp: announced_simps intro!: refuses)

lemma gdpr_refuses:
  "sec \<in> set (announced (GdprRequest q)) \<Longrightarrow> \<not> meets sec (GdprRequest q) rq d \<Longrightarrow> \<exists>e. gdpr_router cancel rq q d = (Inl e, d)"
  by (cases q) (auto simp: announced_simps intro!: refuses)

lemma billing_refuses:
  "sec \<in> set (announced (BillingRequest q)) \<Longrightarrow> \<not> meets sec (BillingRequest q) rq d \<Longrightarrow> \<exists>e. billing_router S rq q d = (Inl e, d)"
  by (cases q) (auto simp: announced_simps intro: signed_in_refuses with_org_role_refuses with_org_role_refuses')

lemma project_refuses:
  "sec \<in> set (announced (ProjectRequest q)) \<Longrightarrow> \<not> meets sec (ProjectRequest q) rq d \<Longrightarrow> \<exists>e. project_router rq q d = (Inl e, d)"
  by (rule project_router_refuses, cases q) (auto simp: announced_simps)

lemma integration_refuses:
  assumes "sec \<in> set (announced (IntegrationRequest q))" "\<not> meets sec (IntegrationRequest q) rq d"
  shows "\<exists>e. integration_router rq q d = (Inl e, d)"
proof -
  have "\<nexists>u. key_holder rq d u" using assms by (cases q) (auto simp: announced_simps)
  with integration_router_permits [of rq q d] show ?thesis
    by (cases "integration_router rq q d"; cases "fst (integration_router rq q d)") auto
qed

lemma read_refuses:
  "sec \<in> set (announced (ReadRequest q)) \<Longrightarrow> \<not> meets sec (ReadRequest q) rq d \<Longrightarrow> \<exists>e. read_router rq q d = (Inl e, d)"
  by (cases q) (auto simp: announced_simps GET_defs intro: refuses in_tenant_refuses')

text \<open>C36: The security of an operation is enforced, as the API documentation announces it and as the guards of its
  route say: a request to any operation under \<open>/api\<close>, reading or writing, whose caller does not meet it (a live
  account's access token; that of an administrator; that of a member of the organization in the path; a valid API
  key of a live account) is answered with an error and changes nothing.\<close>

theorem announced_security_enforced:
  assumes "sec \<in> set (announced q)" "\<not> meets sec q rq d"
  shows "\<exists>e. api S rq q d = (Inl e, d)"
  using assms by (cases q)
    (simp_all add: auth_refuses own_refuses org_refuses admin_refuses gdpr_refuses billing_refuses project_refuses
      integration_refuses read_refuses)

theorem announced_security_enforced_witness:
  "\<exists>e. api demo_stripe (demo_admin_request\<lparr>rq_authorization := None\<rparr>) (ReadRequest (GetAuditLogs 1 20 [] [] \<lparr>af_action = None, af_userId = None, af_targetUserId = None, af_organizationId = None\<rparr>)) demo_erase
     = (Inl e, demo_erase)"
proof (rule announced_security_enforced)
  show "AdminOnly \<in> set (announced (ReadRequest (GetAuditLogs 1 20 [] [] \<lparr>af_action = None, af_userId = None, af_targetUserId = None, af_organizationId = None\<rparr>)))" by (simp add: announced_simps)
  show "\<not> meets AdminOnly (ReadRequest (GetAuditLogs 1 20 [] [] \<lparr>af_action = None, af_userId = None, af_targetUserId = None, af_organizationId = None\<rparr>)) (demo_admin_request\<lparr>rq_authorization := None\<rparr>) demo_erase"
    by (simp add: account_of_def bearer_token_def)
qed

end
