(* ===== verification/Gateway.thy ===== *)
theory Gateway
  imports Routes Responses Boot JsNumber
begin

text \<open>
  \<open>src/app.js\<close>: the layers every request passes before it reaches a router, in the order of
  registration: identifiers, origins, the body, sanitizing, the language, the rate limiters, the health
  checks, the routers, the answer to what nothing matched.  Express, the parsers of bodies, the
  library of origins and the counters in Redis are parameters of the model, fields of \<open>world\<close>.
\<close>

section \<open>Configuration\<close>

text \<open>\<open>app.set('trust proxy', ...)\<close>: a number of hops, or what the setting says.\<close>

datatype trust = Hops js_num | Trusted string

definition trust_proxy :: "environment \<Rightarrow> trust option" where
  "trust_proxy env =
     (if env_set env ''TRUST_PROXY'' then
        (case env ''TRUST_PROXY'' of
           Some t \<Rightarrow> Some (if t \<noteq> [] \<and> list_all is_digit t then Hops (js_number t) else Trusted t)
         | None \<Rightarrow> None)
      else None)"

datatype cors_origin = Origin string | Origins "string list"

record cors_options =
  cors_origin :: cors_origin
  cors_credentials :: bool

definition originList :: "string \<Rightarrow> string list" where
  "originList corsOrigin = filter (\<lambda>o'. o' \<noteq> []) (map js_trim (js_split (CHR '','') corsOrigin))"

definition corsOptions :: "environment \<Rightarrow> cors_options" where
  "corsOptions env =
     (let corsOrigin = (case env ''CORS_ORIGIN'' of Some v \<Rightarrow> v | None \<Rightarrow> ''*'');
          origins = originList corsOrigin
      in \<lparr>cors_origin = (if length origins = 1 then Origin (hd origins)
                         else if length origins > 1 then Origins origins else Origin ''*''),
          cors_credentials = (corsOrigin \<noteq> ''*'')\<rparr>)"

text \<open>\<open>REQUEST_ID_RE\<close> and the identifier of a request; a repeated header is a list.\<close>

datatype header_value = One string | Many "string list"

definition id_char :: "char \<Rightarrow> bool" where
  "id_char c \<longleftrightarrow> is_letter c \<or> is_digit c \<or> c = CHR ''_'' \<or> c = CHR ''-''"

definition REQUEST_ID_RE :: "string \<Rightarrow> bool" where
  "REQUEST_ID_RE s \<longleftrightarrow> list_all id_char s \<and> 1 \<le> length s \<and> length s \<le> 128"

definition request_id :: "header_value option \<Rightarrow> string \<Rightarrow> string" where
  "request_id clientId uuid =
     (case clientId of
        Some (One s) \<Rightarrow> if REQUEST_ID_RE s then s else uuid
      | Some (Many _) \<Rightarrow> uuid
      | None \<Rightarrow> uuid)"

section \<open>Rate limiters\<close>

record limiter =
  li_windowMs :: nat
  li_limit :: nat
  li_prefix :: string

definition skipInTest :: "environment \<Rightarrow> bool" where
  "skipInTest env \<longleftrightarrow> env ''NODE_ENV'' = Some ''test''"

definition authLimiter :: limiter where
  "authLimiter = \<lparr>li_windowMs = 15 * 60 * 1000, li_limit = 100, li_prefix = ''rl:auth:''\<rparr>"

definition createSensitiveLimiter :: "string \<Rightarrow> limiter" where
  "createSensitiveLimiter name =
     \<lparr>li_windowMs = 15 * 60 * 1000, li_limit = 10, li_prefix = ''rl:sensitive:'' @ name @ '':''\<rparr>"

definition healthLimiter :: limiter where
  "healthLimiter = \<lparr>li_windowMs = 60 * 1000, li_limit = 30, li_prefix = ''rl:health:''\<rparr>"

definition docsLimiter :: limiter where
  "docsLimiter = \<lparr>li_windowMs = 15 * 60 * 1000, li_limit = 100, li_prefix = ''rl:docs:''\<rparr>"

text \<open>
  One request at a limiter.  The store counts a hit of a key in a window of time and answers with the hits
  so far, or fails; the key is the address of the client behind the prefix.  A failing store lets the
  request through (\<open>passOnStoreError\<close>).
\<close>

definition rateLimit ::
  "environment \<Rightarrow> (nat \<Rightarrow> string \<Rightarrow> 's \<Rightarrow> nat option \<times> 's) \<Rightarrow> limiter \<Rightarrow> string \<Rightarrow> 's \<Rightarrow> bool \<times> 's" where
  "rateLimit env increment l ip store =
     (if skipInTest env then (True, store)
      else case increment (li_windowMs l) (li_prefix l @ ip) store of
             (None, store') \<Rightarrow> (True, store')
           | (Some hits, store') \<Rightarrow> (hits \<le> li_limit l, store'))"

section \<open>Layers\<close>

datatype router =
    BillingWebhook
  | AuthRouter
  | ProjectRouter
  | BillingOrgRouter
  | OrgRouter
  | ProjectApiKeyRouter
  | AdminRouter
  | BillingRouter
  | ApiKeyRouter
  | SessionRouter
  | AuditRouter
  | InvitationRouter
  | NotificationRouter
  | FeatureFlagRouter
  | DocsRouter

datatype handler =
    Helmet
  | Compression
  | Cors
  | RequestId
  | Logging
  | RawBody
  | JsonBody nat
  | SanitizeRequest
  | I18nMiddleware
  | Limit limiter
  | Health
  | Ready
  | Enter router
  | NotFound

text \<open>\<open>app.use(handler)\<close>, \<open>app.use(path, handler)\<close>, \<open>app.get\<close> and \<open>app.post\<close>.\<close>

datatype layer = All handler | Use string handler | On string string handler

definition sensitive_names :: "string list" where
  "sensitive_names =
     [''login'', ''register'', ''refresh'', ''verify-email'', ''forgot-password'', ''reset-password'',
      ''resend-verification'', ''change-password'', ''change-email'', ''google'']"

definition app_stack :: "layer list" where
  "app_stack =
     [All Helmet, All Compression, All Cors, All RequestId, All Logging,
      On ''POST'' ''/api/billing/webhook'' RawBody,
      On ''POST'' ''/api/billing/webhook'' (Enter BillingWebhook),
      All (JsonBody (10 * 1024)), All SanitizeRequest, All I18nMiddleware,
      On ''GET'' ''/health'' (Limit healthLimiter), On ''GET'' ''/health'' Health,
      On ''GET'' ''/health/ready'' (Limit healthLimiter), On ''GET'' ''/health/ready'' Ready,
      Use ''/api/auth'' (Limit authLimiter)]
     @ map (\<lambda>name. On ''POST'' (''/api/auth/'' @ name) (Limit (createSensitiveLimiter name))) sensitive_names
     @ [On ''POST'' ''/api/auth/2fa/verify'' (Limit (createSensitiveLimiter ''2fa-verify'')),
      Use ''/api/auth'' (Enter AuthRouter),
      Use ''/api/organizations'' (Limit authLimiter),
      Use ''/api/organizations/:orgId/projects'' (Enter ProjectRouter),
      Use ''/api/organizations/:orgId/billing'' (Enter BillingOrgRouter),
      Use ''/api/organizations'' (Enter OrgRouter),
      Use ''/api/integrations'' (Limit authLimiter),
      Use ''/api/integrations/organizations/:orgId/projects'' (Enter ProjectApiKeyRouter),
      Use ''/api/admin'' (Limit authLimiter), Use ''/api/admin'' (Enter AdminRouter),
      Use ''/api/billing'' (Limit authLimiter), Use ''/api/billing'' (Enter BillingRouter),
      Use ''/api/api-keys'' (Limit authLimiter), Use ''/api/api-keys'' (Enter ApiKeyRouter),
      Use ''/api/sessions'' (Limit authLimiter), Use ''/api/sessions'' (Enter SessionRouter),
      Use ''/api/audit'' (Limit authLimiter), Use ''/api/audit'' (Enter AuditRouter),
      Use ''/api/invitations'' (Limit authLimiter), Use ''/api/invitations'' (Enter InvitationRouter),
      Use ''/api/notifications'' (Limit authLimiter), Use ''/api/notifications'' (Enter NotificationRouter),
      Use ''/api/feature-flags'' (Limit authLimiter), Use ''/api/feature-flags'' (Enter FeatureFlagRouter),
      Use ''/api/docs'' (Limit docsLimiter), Use ''/api/docs'' (Enter DocsRouter),
      All NotFound]"

section \<open>One request\<close>

text \<open>
  A request as Express hands it over: \<open>hr_path\<close> the segments of its path (a trailing slash leaves an empty
  last one), \<open>hr_ip\<close> the address under the \<open>trust proxy\<close> setting.
\<close>

record http_request =
  hr_method :: string
  hr_path :: "string list"
  hr_ip :: string
  hr_id :: "header_value option"
  hr_lang :: "string option"
  hr_acceptLanguage :: "string option"
  hr_query :: json

text \<open>What the layers attach to a request, and what the routers read.\<close>

record view =
  v_id :: "string option"
  v_raw :: "string option"
  v_body :: "json option"
  v_query :: json
  v_lang :: "string option"

datatype layer_outcome = Continue | Answer nat json | Raise js_error

text \<open>The surroundings of the application: the process environment, the libraries, the stores, and what its
  routers do with the request they are handed (\<open>Continue\<close> if none of their routes matches).\<close>

record 's world =
  w_env :: environment
  w_now :: int
  w_uuid :: string
  w_locales :: "string \<Rightarrow> json"
  w_cors :: "cors_options \<Rightarrow> http_request \<Rightarrow> layer_outcome"
  w_raw :: "http_request \<Rightarrow> js_error + string"
  w_json :: "nat \<Rightarrow> http_request \<Rightarrow> js_error + json option"
  w_increment :: "nat \<Rightarrow> string \<Rightarrow> 's \<Rightarrow> nat option \<times> 's"
  w_database :: bool
  w_answers :: "router \<Rightarrow> http_request \<Rightarrow> view \<Rightarrow> layer_outcome"

record 's traffic =
  tr_view :: view
  tr_store :: 's
  tr_entered :: "(router \<times> view) list"

text \<open>A mounted prefix, matched segment by segment as a route is (\<open>segment_ok\<close>, \<open>exact_ok\<close>).\<close>

definition prefix_ok :: "string \<Rightarrow> string list \<Rightarrow> bool" where
  "prefix_ok pat path = list_all2 segment_ok (segments pat) (take (length (segments pat)) path)"

fun layer_matches :: "layer \<Rightarrow> http_request \<Rightarrow> bool" where
  "layer_matches (All _) rq = True"
| "layer_matches (Use pat _) rq = prefix_ok pat (hr_path rq)"
| "layer_matches (On method pat _) rq =
     (serves method (hr_method rq) \<and> exact_ok pat (hr_path rq))"

fun layer_handler :: "layer \<Rightarrow> handler" where
  "layer_handler (All h) = h"
| "layer_handler (Use _ h) = h"
| "layer_handler (On _ _ h) = h"

definition set_view :: "(view \<Rightarrow> view) \<Rightarrow> 's traffic \<Rightarrow> 's traffic" where
  "set_view f t = t\<lparr>tr_view := f (tr_view t)\<rparr>"

text \<open>\<open>req.t(key)\<close>\<close>

definition req_t :: "'s world \<Rightarrow> view \<Rightarrow> string \<Rightarrow> json" where
  "req_t w v key =
     translate (w_locales w) key (case v_lang v of Some l \<Rightarrow> l | None \<Rightarrow> DEFAULT_LOCALE) []"

definition healthy :: "'s world \<Rightarrow> json" where
  "healthy w = JObj [(''status'', JStr ''ok''), (''timestamp'', JStr (toISOString (w_now w)))]"

definition health_ready :: "'s world \<Rightarrow> view \<Rightarrow> layer_outcome" where
  "health_ready w v =
     (if w_database w then Answer 200 (healthy w)
      else Answer 503 (JObj [(''status'', JStr ''error''), (''message'', req_t w v ''errors.databaseUnavailable'')]))"

definition route_not_found :: "'s world \<Rightarrow> view \<Rightarrow> layer_outcome" where
  "route_not_found w v =
     Answer 404 (JObj [(''success'', JBool False), (''message'', req_t w v ''errors.routeNotFound'')])"

definition sanitize_view :: "view \<Rightarrow> view" where
  "sanitize_view v =
     (let r = sanitizeRequest (v_body v, Some (v_query v))
      in v\<lparr>v_body := fst r, v_query := (case snd r of Some q \<Rightarrow> q | None \<Rightarrow> v_query v)\<rparr>)"

fun handle :: "'s world \<Rightarrow> http_request \<Rightarrow> handler \<Rightarrow> 's traffic \<Rightarrow> layer_outcome \<times> 's traffic" where
  "handle w rq Helmet t = (Continue, t)"
| "handle w rq Compression t = (Continue, t)"
| "handle w rq Cors t = (w_cors w (corsOptions (w_env w)) rq, t)"
| "handle w rq RequestId t = (Continue, set_view (v_id_update (\<lambda>_. Some (request_id (hr_id rq) (w_uuid w)))) t)"
| "handle w rq Logging t = (Continue, t)"
| "handle w rq RawBody t =
     (case w_raw w rq of
        Inl e \<Rightarrow> (Raise e, t)
      | Inr b \<Rightarrow> (Continue, set_view (v_raw_update (\<lambda>_. Some b)) t))"
| "handle w rq (JsonBody limit) t =
     (case w_json w limit rq of
        Inl e \<Rightarrow> (Raise e, t)
      | Inr b \<Rightarrow> (Continue, set_view (v_body_update (\<lambda>_. b)) t))"
| "handle w rq SanitizeRequest t = (Continue, set_view sanitize_view t)"
| "handle w rq I18nMiddleware t =
     (Continue, set_view (v_lang_update (\<lambda>_. Some (i18nMiddleware (hr_lang rq) (hr_acceptLanguage rq)))) t)"
| "handle w rq (Limit l) t =
     (case rateLimit (w_env w) (w_increment w) l (hr_ip rq) (tr_store t) of
        (pass, store) \<Rightarrow>
          (if pass then Continue else Answer 429 (JStr ''Too many requests, please try again later.''),
           t\<lparr>tr_store := store\<rparr>))"
| "handle w rq Health t = (Answer 200 (healthy w), t)"
| "handle w rq Ready t =
     (health_ready w (tr_view t), t)"
| "handle w rq (Enter r) t =
     (w_answers w r rq (tr_view t), t\<lparr>tr_entered := tr_entered t @ [(r, tr_view t)]\<rparr>)"
| "handle w rq NotFound t =
     (route_not_found w (tr_view t), t)"

fun run :: "'s world \<Rightarrow> http_request \<Rightarrow> layer list \<Rightarrow> 's traffic \<Rightarrow> layer_outcome \<times> 's traffic" where
  "run w rq [] t = (Continue, t)"
| "run w rq (l # ls) t =
     (if layer_matches l rq then
        (case handle w rq (layer_handler l) t of
           (Continue, t') \<Rightarrow> run w rq ls t'
         | (stop, t') \<Rightarrow> (stop, t'))
      else run w rq ls t)"

definition arrives :: "http_request \<Rightarrow> 's \<Rightarrow> 's traffic" where
  "arrives rq store =
     \<lparr>tr_view = \<lparr>v_id = None, v_raw = None, v_body = None, v_query = hr_query rq, v_lang = None\<rparr>,
      tr_store = store, tr_entered = []\<rparr>"

text \<open>The answer to a request; what a layer throws goes to the error handler.\<close>

fun answer_of :: "'s world \<Rightarrow> layer_outcome \<times> 's traffic \<Rightarrow> nat \<times> json" where
  "answer_of w (Answer status body, t) = (status, body)"
| "answer_of w (Raise e, t) =
     (let r = errorHandler (w_env w ''NODE_ENV'') (w_locales w) (v_lang (tr_view t)) e
      in (resp_status r, resp_json r))"
| "answer_of w (Continue, t) = (404, JNull)"

definition serve :: "'s world \<Rightarrow> http_request \<Rightarrow> 's \<Rightarrow> (nat \<times> json) \<times> 's traffic" where
  "serve w rq store = (let z = run w rq app_stack (arrives rq store) in (answer_of w z, snd z))"

text \<open>The level the access log gives the request.\<close>

datatype access_level = AccessError | AccessWarn | AccessInfo

definition customLogLevel :: "nat \<Rightarrow> bool \<Rightarrow> access_level" where
  "customLogLevel statusCode err =
     (if err \<or> statusCode \<ge> 500 then AccessError else if statusCode \<ge> 400 then AccessWarn else AccessInfo)"

end
