(* ===== verification/GatewayProps.thy ===== *)
theory GatewayProps
  imports Gateway
begin

text \<open>
  What the layers of the application promise: nothing reaches a router unsanitized, the budgets of the
  rate limiters hold and do not mix, and a failing counter refuses nobody.
\<close>

section \<open>Running the layers\<close>

lemma run_append:
  "run w rq (xs @ ys) t =
     (case run w rq xs t of (Continue, t') \<Rightarrow> run w rq ys t' | (stop, t') \<Rightarrow> (stop, t'))"
  by (induction xs arbitrary: t) (auto split: layer_outcome.splits prod.splits)

text \<open>What the routers saw of the request when it reached them.\<close>

definition entered :: "(nat \<times> json) \<times> 's traffic \<Rightarrow> (router \<times> view) list" where
  "entered z = tr_entered (snd z)"

lemma entered_serve: "entered (serve w rq store) = tr_entered (snd (run w rq app_stack (arrives rq store)))"
  by (simp add: entered_def serve_def Let_def)

lemma store_serve: "tr_store (snd (serve w rq store)) = tr_store (snd (run w rq app_stack (arrives rq store)))"
  by (simp add: serve_def Let_def)

text \<open>The layers before the limiters, and those that leave the request as it is.\<close>

fun keeps_view :: "handler \<Rightarrow> bool" where
  "keeps_view (Limit l) = True"
| "keeps_view Health = True"
| "keeps_view Ready = True"
| "keeps_view (Enter r) = True"
| "keeps_view NotFound = True"
| "keeps_view _ = False"

definition gate_layers :: "layer list" where
  "gate_layers = take 10 app_stack"

definition routing_layers :: "layer list" where
  "routing_layers = drop 10 app_stack"

lemma app_stack_split: "app_stack = gate_layers @ routing_layers"
  by (simp add: gate_layers_def routing_layers_def)

lemma gate_layers_are:
  "gate_layers =
     [All Helmet, All Compression, All Cors, All RequestId, All Logging,
      On ''POST'' ''/api/billing/webhook'' RawBody,
      On ''POST'' ''/api/billing/webhook'' (Enter BillingWebhook),
      All (JsonBody (10 * 1024)), All SanitizeRequest, All I18nMiddleware]"
  by (simp add: gate_layers_def app_stack_def)

lemma routing_layers_keep: "list_all (\<lambda>l. keeps_view (layer_handler l)) routing_layers"
  by (simp add: routing_layers_def app_stack_def sensitive_names_def)

text \<open>The request is as it was, and routers were entered with it.\<close>

definition same_request :: "'s traffic \<Rightarrow> 's traffic \<Rightarrow> bool" where
  "same_request t t' \<longleftrightarrow>
     tr_view t' = tr_view t \<and> (\<exists>rs. tr_entered t' = tr_entered t @ map (\<lambda>r. (r, tr_view t)) rs)"

lemma same_request_refl: "same_request t t"
  unfolding same_request_def by (auto intro: exI [of _ "[]"])

lemma same_request_trans: "same_request t t' \<Longrightarrow> same_request t' t'' \<Longrightarrow> same_request t t''"
  unfolding same_request_def by (metis append.assoc map_append)

lemma same_request_store: "same_request t (t\<lparr>tr_store := s\<rparr>)"
  unfolding same_request_def by (auto intro: exI [of _ "[]"])

lemma same_request_enter: "same_request t (t\<lparr>tr_entered := tr_entered t @ [(r, tr_view t)]\<rparr>)"
  unfolding same_request_def by (auto intro: exI [of _ "[r]"])

lemma handle_keeps: "keeps_view h \<Longrightarrow> same_request t (snd (handle w rq h t))"
  by (cases h) (simp_all add: same_request_refl same_request_store same_request_enter split: prod.split)

lemma layers_keep: "list_all (\<lambda>l. keeps_view (layer_handler l)) ls \<Longrightarrow> same_request t (snd (run w rq ls t))"
proof (induction ls arbitrary: t)
  case (Cons l ls)
  then have "same_request t (snd (handle w rq (layer_handler l) t))" by (simp add: handle_keeps)
  with Cons show ?case
    by (auto split: layer_outcome.split prod.split intro: same_request_trans)
qed (simp add: same_request_refl)

definition gated_view :: "'s world \<Rightarrow> http_request \<Rightarrow> json option \<Rightarrow> view \<Rightarrow> bool" where
  "gated_view w rq body v \<longleftrightarrow>
     v_id v = Some (request_id (hr_id rq) (w_uuid w))
   \<and> (v_body v, Some (v_query v)) = sanitizeRequest (body, Some (hr_query rq))
   \<and> v_lang v = Some (i18nMiddleware (hr_lang rq) (hr_acceptLanguage rq))"

lemma sanitizeRequest_Some: "sanitizeRequest (b, Some q) = (fst (sanitizeRequest (b, Some q)), Some (the (snd (sanitizeRequest (b, Some q)))))"
  by (simp add: sanitizeRequest_def)

lemma sanitize_view_gates:
  "(v_body (sanitize_view v), Some (v_query (sanitize_view v))) = sanitizeRequest (v_body v, Some (v_query v))"
  by (subst sanitizeRequest_Some) (simp add: sanitize_view_def Let_def sanitizeRequest_def)

lemma sanitize_view_id: "v_id (sanitize_view v) = v_id v"
  by (simp add: sanitize_view_def Let_def)

text \<open>The three stages of the gate: the identifier, the webhook, the body and the language.\<close>

lemma stage_id:
  "run w rq [All Helmet, All Compression, All Cors, All RequestId] t = (z, t') \<Longrightarrow>
     tr_entered t' = tr_entered t \<and> v_query (tr_view t') = v_query (tr_view t)
   \<and> (z = Continue \<longrightarrow> v_id (tr_view t') = Some (request_id (hr_id rq) (w_uuid w)))"
  by (auto simp: set_view_def split: layer_outcome.splits)

definition webhook_layers :: "layer list" where
  "webhook_layers =
     [All Logging, On ''POST'' ''/api/billing/webhook'' RawBody,
      On ''POST'' ''/api/billing/webhook'' (Enter BillingWebhook)]"

lemma stage_webhook:
  assumes "run w rq webhook_layers t = (z, t')"
  shows "set (tr_entered t') \<subseteq> set (tr_entered t) \<union> {BillingWebhook} \<times> UNIV \<and> v_query (tr_view t') = v_query (tr_view t)
   \<and> v_id (tr_view t') = v_id (tr_view t)"
proof (cases "layer_matches (On ''POST'' ''/api/billing/webhook'' RawBody) rq")
  case True
  then have "layer_matches (On ''POST'' ''/api/billing/webhook'' (Enter BillingWebhook)) rq" by simp
  with True assms show ?thesis
    unfolding webhook_layers_def
    by (cases "w_raw w rq")
      (auto simp: set_view_def simp del: layer_matches.simps(3) simp: layer_matches.simps(1) split: layer_outcome.splits)
next
  case False
  then have "\<not> layer_matches (On ''POST'' ''/api/billing/webhook'' (Enter BillingWebhook)) rq" by simp
  with False assms show ?thesis
    unfolding webhook_layers_def by (simp del: layer_matches.simps(3))
qed

lemma stage_body:
  assumes "run w rq [All (JsonBody (10 * 1024)), All SanitizeRequest, All I18nMiddleware] t = (z, t')"
    "v_query (tr_view t) = hr_query rq" "v_id (tr_view t) = Some (request_id (hr_id rq) (w_uuid w))"
  shows "tr_entered t' = tr_entered t
   \<and> (z = Continue \<longrightarrow> (\<exists>b. w_json w (10 * 1024) rq = Inr b \<and> gated_view w rq b (tr_view t')))"
proof (cases "w_json w (10 * 1024) rq")
  case (Inl e)
  with assms show ?thesis by auto
next
  case (Inr b)
  with assms sanitize_view_gates [of "(tr_view t)\<lparr>v_body := b\<rparr>"] sanitize_view_id [of "(tr_view t)\<lparr>v_body := b\<rparr>"]
  show ?thesis by (auto simp: set_view_def gated_view_def)
qed

lemma gate_stages:
  "gate_layers = [All Helmet, All Compression, All Cors, All RequestId] @ webhook_layers
     @ [All (JsonBody (10 * 1024)), All SanitizeRequest, All I18nMiddleware]"
  by (simp add: gate_layers_are webhook_layers_def)

lemma gate_layers_gate:
  assumes "run w rq gate_layers (arrives rq store) = (z, t)"
  shows "set (map fst (tr_entered t)) \<subseteq> {BillingWebhook} \<and>
    (z = Continue \<longrightarrow> (\<exists>b. w_json w (10 * 1024) rq = Inr b \<and> gated_view w rq b (tr_view t)))"
proof -
  let ?a = "[All Helmet, All Compression, All Cors, All RequestId]"
  let ?c = "[All (JsonBody (10 * 1024)), All SanitizeRequest, All I18nMiddleware]"
  obtain z1 t1 where 1: "run w rq ?a (arrives rq store) = (z1, t1)" by (cases "run w rq ?a (arrives rq store)")
  note s1 = stage_id [OF 1]
  have e1: "tr_entered t1 = []" "v_query (tr_view t1) = hr_query rq" using s1 by (simp_all add: arrives_def)
  obtain z2 t2 where 2: "run w rq webhook_layers t1 = (z2, t2)" by (cases "run w rq webhook_layers t1")
  note s2 = stage_webhook [OF 2]
  obtain z3 t3 where 3: "run w rq ?c t2 = (z3, t3)" by (cases "run w rq ?c t2")
  have r: "run w rq gate_layers (arrives rq store) =
    (case (z1, t1) of (Continue, t') \<Rightarrow> (case run w rq webhook_layers t' of
        (Continue, t'') \<Rightarrow> run w rq ?c t'' | (stop, t'') \<Rightarrow> (stop, t'')) | (stop, t') \<Rightarrow> (stop, t'))"
    unfolding gate_stages run_append 1 ..
  show ?thesis
  proof (cases "z1 = Continue \<and> z2 = Continue")
    case True
    then have "z = z3" "t = t3" using assms r 2 3 by simp_all
    moreover have "v_query (tr_view t2) = hr_query rq" "v_id (tr_view t2) = Some (request_id (hr_id rq) (w_uuid w))"
      using s1 s2 e1 True by simp_all
    ultimately show ?thesis using stage_body [OF 3] s2 e1(1) by auto
  next
    case False
    then show ?thesis using assms r 2 s2 e1(1) by (auto split: layer_outcome.splits)
  qed
qed

lemma entered_gated:
  assumes "(r, v) \<in> set (entered (serve w rq store))" "r \<noteq> BillingWebhook"
  shows "\<exists>b. w_json w (10 * 1024) rq = Inr b \<and> gated_view w rq b v"
proof -
  obtain z t where g: "run w rq gate_layers (arrives rq store) = (z, t)"
    by (cases "run w rq gate_layers (arrives rq store)")
  note gate = gate_layers_gate [OF g]
  have stop: "(r, v) \<notin> set (tr_entered t)" using gate assms(2) by force
  show ?thesis
  proof (cases z)
    case Continue
    with g have "run w rq app_stack (arrives rq store) = run w rq routing_layers t"
      by (simp add: app_stack_split run_append)
    with layers_keep [OF routing_layers_keep, of t w rq] assms(1) stop
    have "v = tr_view t" by (auto simp: entered_serve same_request_def)
    with gate Continue show ?thesis by simp
  next
    case (Answer a b)
    with g assms(1) stop show ?thesis by (simp add: entered_serve app_stack_split run_append)
  next
    case (Raise e)
    with g assms(1) stop show ?thesis by (simp add: entered_serve app_stack_split run_append)
  qed
qed

lemma request_id_safe: "REQUEST_ID_RE uuid \<Longrightarrow> REQUEST_ID_RE (request_id h uuid)"
  by (simp add: request_id_def split: option.split header_value.split)

text \<open>C11: Whatever router but the webhook a request reaches finds it with a safe identifier, a body within the
  limit, body and query sanitized, and the language resolved.\<close>

theorem routers_gated:
  assumes "(r, v) \<in> set (entered (serve w rq store))" "r \<noteq> BillingWebhook" "REQUEST_ID_RE (w_uuid w)"
  shows "\<exists>ident body. v_id v = Some ident \<and> REQUEST_ID_RE ident \<and> w_json w (10 * 1024) rq = Inr body
    \<and> (v_body v, Some (v_query v)) = sanitizeRequest (body, Some (hr_query rq))
    \<and> v_lang v = Some (i18nMiddleware (hr_lang rq) (hr_acceptLanguage rq))"
  using entered_gated [OF assms(1,2)] request_id_safe [OF assms(3)] by (auto simp: gated_view_def)

lemmas limiter_defs = healthLimiter_def authLimiter_def docsLimiter_def createSensitiveLimiter_def

definition demo_world :: "(string \<Rightarrow> nat) world" where
  "demo_world =
     \<lparr>w_env = (\<lambda>_. None), w_now = 0, w_uuid = ''0b5a'', w_locales = (\<lambda>_. JObj []), w_cors = (\<lambda>_ _. Continue),
      w_raw = (\<lambda>_. Inr []), w_json = (\<lambda>_ _. Inr None),
      w_increment = (\<lambda>_ key s. (Some (s key + 1), s(key := s key + 1))), w_database = True,
      w_answers = (\<lambda>_ _ _. Answer 200 JNull)\<rparr>"

definition demo_http :: "string \<Rightarrow> string list \<Rightarrow> http_request" where
  "demo_http method path =
     \<lparr>hr_method = method, hr_path = path, hr_ip = ''10.0.0.1'', hr_id = Some (One ''a b''), hr_lang = None,
      hr_acceptLanguage = None, hr_query = JNull\<rparr>"

theorem routers_gated_witness:
  "\<exists>v ident body. entered (serve demo_world (demo_http ''GET'' [''api'', ''sessions'']) (\<lambda>_. 0)) = [(SessionRouter, v)]
    \<and> v_id v = Some ident \<and> REQUEST_ID_RE ident \<and> w_json demo_world (10 * 1024) (demo_http ''GET'' [''api'', ''sessions'']) = Inr body"
proof -
  let ?rq = "demo_http ''GET'' [''api'', ''sessions'']"
  have u: "REQUEST_ID_RE (w_uuid demo_world)" by (simp add: demo_world_def REQUEST_ID_RE_def id_char_def is_digit_def is_letter_def is_lower_def is_upper_def char_code_def)
  have "map fst (entered (serve demo_world ?rq (\<lambda>_. 0))) = [SessionRouter]"
    unfolding entered_serve app_stack_def sensitive_names_def demo_http_def demo_world_def arrives_def
    by (simp add: prefix_ok_def exact_ok_def trimmed_def serves_def segments_def segment_of_def js_lower_def js_lower_char_def char_code_def
        rateLimit_def skipInTest_def limiter_defs set_view_def)
  then obtain v where v: "entered (serve demo_world ?rq (\<lambda>_. 0)) = [(SessionRouter, v)]" by (cases "entered (serve demo_world ?rq (\<lambda>_. 0))") auto
  then have "(SessionRouter, v) \<in> set (entered (serve demo_world ?rq (\<lambda>_. 0)))" by simp
  from routers_gated [OF this _ u] v show ?thesis by auto
qed

section \<open>Budgets\<close>

text \<open>What the rate limiters rely on of their store: every increment counts one hit of its key and no other.\<close>

definition counting :: "(nat \<Rightarrow> string \<Rightarrow> 's \<Rightarrow> nat option \<times> 's) \<Rightarrow> ('s \<Rightarrow> string \<Rightarrow> nat) \<Rightarrow> bool" where
  "counting increment hits \<longleftrightarrow>
     (\<forall>window key s. fst (increment window key s) = Some (hits s key + 1)
        \<and> hits (snd (increment window key s)) = (hits s)(key := hits s key + 1))"

definition limiters_of :: "layer list \<Rightarrow> limiter list" where
  "limiters_of ls = concat (map (\<lambda>l. case layer_handler l of Limit li \<Rightarrow> [li] | _ \<Rightarrow> []) ls)"

definition app_limiters :: "limiter list" where
  "app_limiters = [healthLimiter, authLimiter, docsLimiter] @ map createSensitiveLimiter (sensitive_names @ [''2fa-verify''])"

lemma app_stack_limiters: "set (limiters_of app_stack) = set app_limiters"
  by (auto simp: limiters_of_def app_stack_def app_limiters_def sensitive_names_def)

lemma app_limiters_cases:
  assumes "l \<in> set app_limiters"
  obtains (fixed) "l \<in> {healthLimiter, authLimiter, docsLimiter}"
    | (sensitive) name where "l = createSensitiveLimiter name" "CHR '':'' \<notin> set name"
  using assms unfolding app_limiters_def sensitive_names_def by auto

lemma up_to_colon: "CHR '':'' \<notin> set a \<Longrightarrow> CHR '':'' \<notin> set b \<Longrightarrow> a @ CHR '':'' # x = b @ CHR '':'' # y \<Longrightarrow> a = b"
proof (induction a arbitrary: b)
  case Nil
  then show ?case by (cases b) auto
next
  case (Cons c a)
  then show ?case by (cases b) auto
qed

lemma keys_differ:
  assumes "l \<in> set app_limiters" "l' \<in> set app_limiters" "li_prefix l @ ip = li_prefix l' @ ip'"
  shows "l = l' \<and> ip = ip'"
proof -
  have "l = l'"
    using assms(1)
  proof (cases rule: app_limiters_cases)
    case l: fixed
    show ?thesis using assms(2)
      by (cases rule: app_limiters_cases) (use l assms(3) in \<open>auto simp: limiter_defs\<close>)
  next
    case l: (sensitive name)
    show ?thesis using assms(2)
    proof (cases rule: app_limiters_cases)
      case fixed
      with l assms(3) show ?thesis by (auto simp: limiter_defs)
    next
      case (sensitive name')
      with l assms(3) show ?thesis by (auto simp: limiter_defs dest: up_to_colon)
    qed
  qed
  with assms(3) show ?thesis by simp
qed

definition charged :: "layer list \<Rightarrow> http_request \<Rightarrow> limiter list" where
  "charged ls rq = limiters_of (filter (\<lambda>l. layer_matches l rq) ls)"

lemma rateLimit_hits:
  assumes "counting increment hits"
  shows "hits (snd (rateLimit env increment l ip s)) key =
     hits s key + (if key = li_prefix l @ ip \<and> \<not> skipInTest env then 1 else 0)"
proof -
  obtain s' where "increment (li_windowMs l) (li_prefix l @ ip) s = (Some (hits s (li_prefix l @ ip) + 1), s')"
    "hits s' = (hits s)(li_prefix l @ ip := hits s (li_prefix l @ ip) + 1)"
    using assms unfolding counting_def by (metis prod.collapse)
  then show ?thesis by (simp add: rateLimit_def)
qed

lemma handle_store: "(\<And>l. h \<noteq> Limit l) \<Longrightarrow> tr_store (snd (handle w rq h t)) = tr_store t"
  by (cases h) (auto simp: set_view_def split: sum.split)

lemma handle_limit_store:
  "tr_store (snd (handle w rq (Limit l) t)) = snd (rateLimit (w_env w) (w_increment w) l (hr_ip rq) (tr_store t))"
  by (simp split: prod.split)

lemma handle_hits:
  assumes "counting (w_increment w) hits"
  shows "hits (tr_store (snd (handle w rq h t))) key =
     hits (tr_store t) key +
       (case h of Limit l \<Rightarrow> if key = li_prefix l @ hr_ip rq \<and> \<not> skipInTest (w_env w) then 1 else 0 | _ \<Rightarrow> 0)"
proof (cases "\<exists>l. h = Limit l")
  case True
  then show ?thesis by (auto simp: handle_limit_store rateLimit_hits [OF assms] simp del: handle.simps)
next
  case False
  then have "tr_store (snd (handle w rq h t)) = tr_store t" by (blast intro: handle_store)
  with False show ?thesis by (simp split: handler.split)
qed

lemma run_hits_mono:
  assumes "counting (w_increment w) hits"
  shows "hits (tr_store t) key \<le> hits (tr_store (snd (run w rq ls t))) key"
proof (induction ls arbitrary: t)
  case (Cons l ls)
  have "hits (tr_store t) key \<le> hits (tr_store (snd (handle w rq (layer_handler l) t))) key"
    by (simp add: handle_hits [OF assms])
  with Cons show ?case by (auto split: layer_outcome.split prod.split intro: order_trans)
qed simp

lemma run_hits_other:
  assumes "counting (w_increment w) hits" "\<And>l. l \<in> set (charged ls rq) \<Longrightarrow> key \<noteq> li_prefix l @ hr_ip rq"
  shows "hits (tr_store (snd (run w rq ls t))) key = hits (tr_store t) key"
  using assms(2)
proof (induction ls arbitrary: t)
  case (Cons l ls)
  have "hits (tr_store (snd (handle w rq (layer_handler l) t))) key = hits (tr_store t) key" if "layer_matches l rq"
    using Cons.prems that
    by (auto simp: handle_hits [OF assms(1)] charged_def limiters_of_def split: handler.split)
  moreover have "key \<noteq> li_prefix l' @ hr_ip rq" if "l' \<in> set (charged ls rq)" for l'
    using Cons.prems that by (auto simp: charged_def limiters_of_def split: if_splits)
  ultimately show ?case using Cons.IH by (auto split: layer_outcome.split prod.split)
qed simp

text \<open>The budgets of the rate limiters do not mix: a request changes neither the count of another address
  nor, of its own address, that of a limiter it does not pass.\<close>

theorem budgets_isolated:
  assumes "counting (w_increment w) hits" "l \<in> set app_limiters"
    "ip \<noteq> hr_ip rq \<or> l \<notin> set (charged app_stack rq)"
  shows "hits (tr_store (snd (serve w rq store))) (li_prefix l @ ip) = hits store (li_prefix l @ ip)"
proof -
  have "li_prefix l @ ip \<noteq> li_prefix l' @ hr_ip rq" if "l' \<in> set (charged app_stack rq)" for l'
  proof -
    have "l' \<in> set app_limiters"
      using that app_stack_limiters by (auto simp: charged_def limiters_of_def)
    with keys_differ [OF assms(2)] assms(3) that show ?thesis by metis
  qed
  from run_hits_other [OF assms(1) this] show ?thesis by (simp add: store_serve arrives_def)
qed

theorem budgets_isolated_witness:
  "(tr_store (snd (serve demo_world (demo_http ''POST'' [''api'', ''auth'', ''login'']) (\<lambda>_. 7)))) (''rl:auth:'' @ ''10.0.0.2'') = (7::nat)"
proof -
  have "counting (w_increment demo_world) (\<lambda>s. s)" by (simp add: counting_def demo_world_def)
  from budgets_isolated [OF this, of authLimiter "''10.0.0.2''" "demo_http ''POST'' [''api'', ''auth'', ''login'']" "\<lambda>_. 7"]
  show ?thesis by (simp add: app_limiters_def authLimiter_def demo_http_def)
qed

section \<open>How often a client gets through\<close>

text \<open>Requests one after the other, each with the surroundings it meets, and the routers each reached.\<close>

fun serve_all :: "('s world \<times> http_request) list \<Rightarrow> 's \<Rightarrow> (http_request \<times> (router \<times> view) list) list" where
  "serve_all [] store = []"
| "serve_all ((w, rq) # rest) store =
     (let z = serve w rq store in (rq, entered z) # serve_all rest (tr_store (snd z)))"

lemma handle_enters:
  "(r, v) \<in> set (tr_entered (snd (handle w rq h t))) \<Longrightarrow> (r, v) \<in> set (tr_entered t) \<or> h = Enter r"
  by (cases h) (auto simp: set_view_def split: prod.splits sum.splits if_splits)

lemma run_enters:
  "(r, v) \<in> set (tr_entered (snd (run w rq ls t))) \<Longrightarrow>
     (r, v) \<in> set (tr_entered t) \<or> (\<exists>l \<in> set ls. layer_handler l = Enter r \<and> layer_matches l rq)"
proof (induction ls arbitrary: t)
  case (Cons l ls)
  obtain z t' where h: "handle w rq (layer_handler l) t = (z, t')" by (cases "handle w rq (layer_handler l) t")
  with handle_enters [of r v w rq "layer_handler l" t]
  have 1: "(r, v) \<in> set (tr_entered t') \<Longrightarrow> (r, v) \<in> set (tr_entered t) \<or> layer_handler l = Enter r" by simp
  show ?case
  proof (cases "layer_matches l rq")
    case True
    with Cons h 1 show ?thesis by (cases z) auto
  next
    case False
    with Cons show ?thesis by auto
  qed
qed simp

text \<open>A router behind a limiter the request matches is reached only while the budget lasts.\<close>

lemma entering_charged:
  assumes c: "counting (w_increment w) hits" and n: "\<not> skipInTest (w_env w)"
    and stack: "app_stack = xs @ ly # ys" "layer_handler ly = Limit l" "layer_matches ly rq"
    and first: "list_all (\<lambda>l. layer_handler l \<noteq> Enter r) xs"
    and e: "(r, v) \<in> set (entered (serve w rq store))"
  shows "hits store (li_prefix l @ hr_ip rq) < li_limit l
    \<and> hits store (li_prefix l @ hr_ip rq) < hits (tr_store (snd (serve w rq store))) (li_prefix l @ hr_ip rq)"
proof -
  let ?key = "li_prefix l @ hr_ip rq"
  obtain z t where x: "run w rq xs (arrives rq store) = (z, t)" by (cases "run w rq xs (arrives rq store)")
  have no: "(r, v) \<notin> set (tr_entered t)"
    using run_enters [of r v w rq xs "arrives rq store"] x first by (auto simp: arrives_def list_all_iff)
  have z: "z = Continue"
    using e x no by (cases z) (simp_all add: entered_serve stack(1) run_append)
  have hx: "hits store ?key \<le> hits (tr_store t) ?key"
    using run_hits_mono [OF c, of "arrives rq store" ?key rq xs] x by (simp add: arrives_def)
  obtain b t' where h: "handle w rq (Limit l) t = (b, t')" by (cases "handle w rq (Limit l) t")
  have e': "tr_entered t' = tr_entered t" using h by (auto split: prod.splits)
  have run: "run w rq app_stack (arrives rq store) =
    (case (b, t') of (Continue, t') \<Rightarrow> run w rq ys t' | (stop, t') \<Rightarrow> (stop, t'))"
    unfolding stack(1) run_append x z using stack(2,3) h by (simp del: handle.simps split: layer_outcome.split)
  have b: "b = Continue" using e run no e' by (cases b) (simp_all add: entered_serve)
  have le: "hits (tr_store t) ?key + 1 \<le> li_limit l"
  proof -
    have "fst (w_increment w (li_windowMs l) ?key (tr_store t)) = Some (hits (tr_store t) ?key + 1)"
      using c by (simp add: counting_def)
    with h b n show ?thesis by (auto simp: rateLimit_def split: prod.splits option.splits if_splits)
  qed
  have "hits (tr_store t') ?key = hits (tr_store t) ?key + 1"
    using handle_hits [OF c, of rq "Limit l" t ?key] h n by simp
  moreover have "hits (tr_store t') ?key \<le> hits (tr_store (snd (serve w rq store))) ?key"
    using run_hits_mono [OF c, of t' ?key rq ys] run b by (simp add: store_serve)
  ultimately show ?thesis using hx le by linarith
qed

lemma budget:
  assumes c: "\<And>w rq. (w, rq) \<in> set rqs \<Longrightarrow> counting (w_increment w) hits \<and> \<not> skipInTest (w_env w)"
    and stack: "app_stack = xs @ ly # ys" "layer_handler ly = Limit l"
    and first: "list_all (\<lambda>l. layer_handler l \<noteq> Enter r) xs"
  shows "length (filter (\<lambda>(rq, es). layer_matches ly rq \<and> hr_ip rq = ip \<and> r \<in> fst ` set es) (serve_all rqs store))
     \<le> li_limit l - hits store (li_prefix l @ ip)"
  using c
proof (induction rqs arbitrary: store)
  case (Cons p rqs)
  obtain w rq where p: "p = (w, rq)" by (cases p)
  let ?key = "li_prefix l @ ip"
  let ?store = "tr_store (snd (serve w rq store))"
  let ?n = "length (filter (\<lambda>(rq, es). layer_matches ly rq \<and> hr_ip rq = ip \<and> r \<in> fst ` set es) (serve_all rqs ?store))"
  have w: "counting (w_increment w) hits" "\<not> skipInTest (w_env w)" using Cons.prems p by auto
  have IH: "?n \<le> li_limit l - hits ?store ?key" by (rule Cons.IH) (use Cons.prems in auto)
  have mono: "hits store ?key \<le> hits ?store ?key"
    using run_hits_mono [OF w(1), of "arrives rq store" ?key rq app_stack] by (simp add: store_serve arrives_def)
  show ?case
  proof (cases "layer_matches ly rq \<and> hr_ip rq = ip \<and> r \<in> fst ` set (entered (serve w rq store))")
    case True
    then obtain v where "(r, v) \<in> set (entered (serve w rq store))" by auto
    from entering_charged [OF w stack _ first this] True
    have "hits store ?key < li_limit l" "hits store ?key < hits ?store ?key" by auto
    with IH True show ?thesis by (simp add: p Let_def)
  next
    case False
    from IH mono have "?n \<le> li_limit l - hits store ?key" by linarith
    with False show ?thesis by (auto simp: p Let_def)
  qed
qed simp


text \<open>The sensitive routes, each with its limiter.\<close>

definition sensitive_routes :: "(string \<times> limiter) list" where
  "sensitive_routes =
     map (\<lambda>name. (''/api/auth/'' @ name, createSensitiveLimiter name)) sensitive_names
     @ [(''/api/auth/2fa/verify'', createSensitiveLimiter ''2fa-verify'')]"

definition no_auth :: "layer list \<Rightarrow> bool" where
  "no_auth = list_all (\<lambda>l. layer_handler l \<noteq> Enter AuthRouter)"

lemma sensitive_split:
  assumes "(path, l) \<in> set sensitive_routes"
  shows "\<exists>xs ys. app_stack = xs @ On ''POST'' path (Limit l) # ys \<and> no_auth xs"
proof -
  define f where "f = (\<lambda>(path, l). On ''POST'' path (Limit l))"
  define pre where "pre = takeWhile (\<lambda>l. layer_handler l \<noteq> Limit (createSensitiveLimiter ''login'')) app_stack"
  define post where "post = tl (dropWhile (\<lambda>l. layer_handler l \<noteq> Enter AuthRouter) app_stack)"
  have stack: "app_stack = pre @ map f sensitive_routes @ Use ''/api/auth'' (Enter AuthRouter) # post"
    unfolding pre_def post_def f_def app_stack_def sensitive_routes_def sensitive_names_def
    by (simp add: limiter_defs)
  have pre: "no_auth pre"
    unfolding no_auth_def pre_def app_stack_def sensitive_names_def by (simp add: limiter_defs)
  obtain as bs where "sensitive_routes = as @ (path, l) # bs" using assms by (meson split_list)
  from arg_cong [OF this, of "map f"] have "map f sensitive_routes = map f as @ On ''POST'' path (Limit l) # map f bs"
    by (simp only: f_def list.map map_append prod.case)
  with stack have "app_stack = (pre @ map f as) @ On ''POST'' path (Limit l) # map f bs @ Use ''/api/auth'' (Enter AuthRouter) # post"
    by (simp only: append_assoc append_Cons)
  moreover have "no_auth (pre @ map f as)"
    using pre by (auto simp: no_auth_def f_def list_all_iff)
  ultimately show ?thesis by blast
qed

text \<open>C12: However requests interleave, of those a client sends to one sensitive route at most ten reach the
  authentication router before the window ends.\<close>

theorem sensitive_budget:
  assumes "(path, l) \<in> set sensitive_routes"
    "\<And>w rq. (w, rq) \<in> set rqs \<Longrightarrow> counting (w_increment w) hits \<and> \<not> skipInTest (w_env w)"
  shows "length (filter (\<lambda>(rq, es). layer_matches (On ''POST'' path (Limit l)) rq \<and> hr_ip rq = ip
            \<and> AuthRouter \<in> fst ` set es) (serve_all rqs store)) \<le> 10"
proof -
  obtain xs ys where stack: "app_stack = xs @ On ''POST'' path (Limit l) # ys" "no_auth xs"
    using sensitive_split [OF assms(1)] by blast
  have "li_limit l = 10" using assms(1) by (auto simp: sensitive_routes_def limiter_defs)
  moreover have "layer_handler (On ''POST'' path (Limit l)) = Limit l" by simp
  ultimately show ?thesis
    using budget [OF assms(2) stack(1) _ stack(2) [unfolded no_auth_def], where l = l and ip = ip and store = store]
    by fastforce
qed

theorem sensitive_budget_witness:
  "length (filter (\<lambda>(rq, es). layer_matches (On ''POST'' ''/api/auth/login'' (Limit (createSensitiveLimiter ''login''))) rq
      \<and> hr_ip rq = ''10.0.0.1'' \<and> AuthRouter \<in> fst ` set es)
    (serve_all (replicate 12 (demo_world, demo_http ''POST'' [''api'', ''auth'', ''login''])) (\<lambda>_. 0))) \<le> 10"
proof -
  have "(''/api/auth/login'', createSensitiveLimiter ''login'') \<in> set sensitive_routes"
    by (simp add: sensitive_routes_def sensitive_names_def)
  moreover have "counting (w_increment demo_world) (\<lambda>s. s) \<and> \<not> skipInTest (w_env demo_world)"
    by (simp add: counting_def demo_world_def skipInTest_def)
  ultimately show ?thesis
    by (intro sensitive_budget [where hits = "\<lambda>s. s"]) auto
qed

section \<open>When the counters fail\<close>

definition is_limit :: "layer \<Rightarrow> bool" where
  "is_limit l = (case layer_handler l of Limit _ \<Rightarrow> True | _ \<Rightarrow> False)"

definition alike :: "'s traffic \<Rightarrow> 's traffic \<Rightarrow> bool" where
  "alike t u \<longleftrightarrow> tr_view t = tr_view u \<and> tr_entered t = tr_entered u"

lemma handle_alike:
  assumes "alike t u" "\<And>l. h \<noteq> Limit l"
  shows "fst (handle w rq h t) = fst (handle w rq h u) \<and> alike (snd (handle w rq h t)) (snd (handle w rq h u))"
  using assms by (cases h) (auto simp: alike_def set_view_def split: sum.split)

lemma run_without_limiters:
  assumes "\<And>window key s. fst (w_increment w window key s) = None" "alike t u"
  shows "fst (run w rq ls t) = fst (run w rq (filter (\<lambda>l. \<not> is_limit l) ls) u)
    \<and> alike (snd (run w rq ls t)) (snd (run w rq (filter (\<lambda>l. \<not> is_limit l) ls) u))"
  using assms(2)
proof (induction ls arbitrary: t u)
  case (Cons l ls)
  show ?case
  proof (cases "is_limit l")
    case True
    then obtain li where h: "layer_handler l = Limit li" by (auto simp: is_limit_def split: handler.splits)
    have "fst (handle w rq (Limit li) t) = Continue"
      using assms(1) [of "li_windowMs li" "li_prefix li @ hr_ip rq" "tr_store t"]
      by (auto simp: rateLimit_def split: prod.split option.split)
    moreover have "alike (snd (handle w rq (Limit li) t)) u"
      using Cons.prems by (auto simp: alike_def split: prod.split)
    ultimately show ?thesis
      using Cons True h by (auto simp del: handle.simps split: prod.split layer_outcome.split)
  next
    case False
    then have "\<And>li. layer_handler l \<noteq> Limit li" by (auto simp: is_limit_def)
    from handle_alike [OF Cons.prems this, of w rq] Cons.IH False Cons.prems show ?thesis
      by (auto simp del: handle.simps split: prod.split layer_outcome.split)
  qed
qed simp

lemma answer_alike: "alike t u \<Longrightarrow> answer_of w (z, t) = answer_of w (z, u)"
  by (cases z) (simp_all add: alike_def)

text \<open>When the store of the counters fails, every request is answered as if there were no rate
  limiters.\<close>

theorem limiter_outage:
  assumes "\<And>window key s. fst (w_increment w window key s) = None"
  shows "fst (serve w rq store) = answer_of w (run w rq (filter (\<lambda>l. \<not> is_limit l) app_stack) (arrives rq store))"
proof -
  have "alike (arrives rq store) (arrives rq store)" by (simp add: alike_def)
  from run_without_limiters [OF assms this, of rq app_stack] show ?thesis
    by (simp add: serve_def Let_def) (metis answer_alike prod.collapse)
qed

theorem limiter_outage_witness:
  "let w = demo_world\<lparr>w_increment := \<lambda>_ _ s. (None, s)\<rparr>; rq = demo_http ''GET'' [''health'']
   in fst (serve w rq (\<lambda>_. 0)) = answer_of w (run w rq (filter (\<lambda>l. \<not> is_limit l) app_stack) (arrives rq (\<lambda>_. 0)))"
  unfolding Let_def by (rule limiter_outage) simp

section \<open>Origins\<close>

text \<open>Which origins get a wildcard: none named, or the wildcard itself as the only one.\<close>

lemma corsOptions_wildcard:
  "cors_origin (corsOptions env) = Origin ''*'' \<longleftrightarrow>
     originList (case env ''CORS_ORIGIN'' of Some v \<Rightarrow> v | None \<Rightarrow> ''*'') \<in> {[], [''*'']}"
proof -
  define os where "os = originList (case env ''CORS_ORIGIN'' of Some v \<Rightarrow> v | None \<Rightarrow> ''*'')"
  have "cors_origin (corsOptions env) = (if length os = 1 then Origin (hd os) else if length os > 1 then Origins os else Origin ''*'')"
    by (simp add: corsOptions_def Let_def os_def)
  then have "cors_origin (corsOptions env) = Origin ''*'' \<longleftrightarrow> os \<in> {[], [''*'']}"
    by (cases os rule: remdups_adj.cases) simp_all
  then show ?thesis by (simp only: os_def)
qed

text \<open>The boot check of a production environment lets the wildcard through, and even with credentials when the
  setting is blank but for separators.\<close>

definition wildcard_env :: "string \<Rightarrow> environment" where
  "wildcard_env origin =
     (\<lambda>_. None)(''NODE_ENV'' := Some ''production'', ''DATABASE_URL'' := Some ''postgres:'',
       ''JWT_SECRET'' := Some (replicate 32 CHR ''a''), ''JWT_REFRESH_SECRET'' := Some (replicate 32 CHR ''b''),
       ''CORS_ORIGIN'' := Some origin, ''APP_URL'' := Some ''https://app'', ''SECRET_ENCRYPTION_KEY'' := Some ''key'')"

lemma wildcard_in_production:
  assumes "origin \<in> {''*'', '','', ''*,''}"
  shows "validateEnv (wildcard_env origin) = [] \<and> cors_origin (corsOptions (wildcard_env origin)) = Origin ''*''
    \<and> (cors_credentials (corsOptions (wildcard_env origin)) \<longleftrightarrow> origin \<noteq> ''*'')"
proof
  have "replicate 32 CHR ''a'' \<noteq> replicate 32 CHR ''b''" by (simp add: replicate_eq_replicate)
  then show "validateEnv (wildcard_env origin) = []"
    using assms by (auto simp: validateEnv_accepts wildcard_env_def env_set_def env_length_def)
  show "cors_origin (corsOptions (wildcard_env origin)) = Origin ''*''
    \<and> (cors_credentials (corsOptions (wildcard_env origin)) \<longleftrightarrow> origin \<noteq> ''*'')"
    using assms by (auto simp: corsOptions_def wildcard_env_def originList_def Let_def js_trim_def is_space_def char_code_def)
qed

section \<open>The stack and the routes\<close>

text \<open>The routes of a router with the guards of its \<open>router.use\<close>; those of the documentation are left out.\<close>

fun router_routes :: "router \<Rightarrow> guard list \<times> route list" where
  "router_routes BillingWebhook = ([], webhook_routes)"
| "router_routes AuthRouter = ([], auth_routes)"
| "router_routes ProjectRouter = ([Authenticate, VerifiedEmail, Tenant], project_routes)"
| "router_routes BillingOrgRouter = ([Authenticate, Tenant], org_billing_routes)"
| "router_routes OrgRouter = ([Authenticate], org_routes)"
| "router_routes ProjectApiKeyRouter = ([ApiKeyAuth, Scope [''projects:read''], Tenant], integration_routes)"
| "router_routes AdminRouter = ([Authenticate, Authorize [ADMIN]], admin_routes)"
| "router_routes BillingRouter = ([], billing_routes)"
| "router_routes ApiKeyRouter = ([Authenticate], api_key_routes)"
| "router_routes SessionRouter = ([Authenticate], session_routes)"
| "router_routes AuditRouter = ([], audit_routes)"
| "router_routes InvitationRouter = ([Authenticate], invitation_routes)"
| "router_routes NotificationRouter = ([Authenticate], notification_routes)"
| "router_routes FeatureFlagRouter = ([Authenticate], flag_routes)"
| "router_routes DocsRouter = ([], [])"

fun layer_routes :: "layer \<Rightarrow> route list" where
  "layer_routes (Use path (Enter r)) = mount path (fst (router_routes r)) (snd (router_routes r))"
| "layer_routes (On method path (Enter r)) = snd (router_routes r)"
| "layer_routes (On method path Health) = [route method path []]"
| "layer_routes (On method path Ready) = [route method path []]"
| "layer_routes _ = []"

text \<open>The layers, in their order, carry exactly the routes the interface of the server is modelled on.\<close>

lemma stack_routes: "concat (map layer_routes app_stack) = app_routes"
proof -
  have "mount ''/api/docs'' [] [] = []" by (simp add: mount_def)
  then show ?thesis
    by (simp add: app_stack_def app_routes_def sensitive_names_def health_routes_def)
qed

end
