(* ===== verification/Processes.thy ===== *)
theory Processes
  imports Boot Emails JsJson JsNumber
begin

text \<open>
  The two processes of the system, \<open>src/server.js\<close> and \<open>src/worker.js\<close>: when they start, and how they shut
  down; and what surrounds them: the connections of \<open>src/config/redis.js\<close> and \<open>src/config/db.js\<close>, error
  reporting (\<open>src/config/sentry.js\<close>) and the level of the log (\<open>src/utils/logger.js\<close>; what is done with its
  entries is pino's).  Times are milliseconds.
\<close>

section \<open>Start\<close>

datatype start = Exits nat "string list" | Listens string | Works

text \<open>\<open>process.env.PORT ?? 3000\<close>\<close>

definition server_start :: "environment \<Rightarrow> start" where
  "server_start env =
     (let envErrors = validateEnv env
      in if envErrors \<noteq> [] then Exits 1 envErrors
         else Listens (case env ''PORT'' of Some p \<Rightarrow> p | None \<Rightarrow> ''3000''))"

definition WORKER_REQUIRED_ENV :: "string list" where
  "WORKER_REQUIRED_ENV = [''DATABASE_URL'', ''JWT_SECRET'', ''JWT_REFRESH_SECRET'', ''REDIS_URL'']"

definition worker_start :: "environment \<Rightarrow> start" where
  "worker_start env =
     (let missing = filter (\<lambda>key. \<not> env_set env key) WORKER_REQUIRED_ENV
      in if missing \<noteq> [] then Exits 1 [''Missing required env vars: '' @ js_join '', '' missing] else Works)"

section \<open>Shutdown\<close>

text \<open>
  What a shutting down process waits for, in order.  The server closes its listener, then the database; the
  worker stops its job workers (\<open>Promise.allSettled\<close>), then closes Redis, then the database.
\<close>

datatype task = CloseServer | StopWorkers | CloseRedis | DisconnectDb

definition server_tasks :: "task list" where
  "server_tasks = [CloseServer, DisconnectDb]"

definition worker_tasks :: "task list" where
  "worker_tasks = [StopWorkers, CloseRedis, DisconnectDb]"

text \<open>\<open>pr_pending\<close> is what the shutdown still waits for; \<open>None\<close> if it threw, and will not go on.\<close>

record process =
  pr_shuttingDown :: bool
  pr_pending :: "task list option"
  pr_deadline :: "int option"
  pr_exit :: "(nat \<times> int) option"

definition running :: process where
  "running = \<lparr>pr_shuttingDown = False, pr_pending = None, pr_deadline = None, pr_exit = None\<rparr>"

text \<open>\<open>shutdown(signal)\<close>: the second call returns at once; the first arms the timer of ten seconds.\<close>

definition shutdown :: "task list \<Rightarrow> int \<Rightarrow> process \<Rightarrow> process" where
  "shutdown tasks now p =
     (if pr_shuttingDown p then p
      else p\<lparr>pr_shuttingDown := True, pr_pending := Some tasks, pr_deadline := Some (now + 10000)\<rparr>)"

datatype event =
    Signal string
  | UnhandledRejection
  | UncaughtException
  | Finished task
  | Failed task
  | Other

text \<open>
  The forced exit of a timer that is due; what follows the end of a task: the next one, and after the last
  the exit of the process.  A failing task rejects the promise of \<open>shutdown\<close>, an unhandled rejection, whose
  handler calls \<open>shutdown\<close> again.
\<close>

definition fire_timer :: "int \<Rightarrow> process \<Rightarrow> process" where
  "fire_timer now p =
     (case pr_deadline p of
        Some t \<Rightarrow> if pr_exit p = None \<and> t \<le> now then p\<lparr>pr_exit := Some (1, t)\<rparr> else p
      | None \<Rightarrow> p)"

fun react :: "task list \<Rightarrow> int \<Rightarrow> event \<Rightarrow> process \<Rightarrow> process" where
  "react tasks now (Signal s) p = shutdown tasks now p"
| "react tasks now UnhandledRejection p = shutdown tasks now p"
| "react tasks now UncaughtException p = shutdown tasks now p"
| "react tasks now (Finished x) p =
     (case pr_pending p of
        Some [y] \<Rightarrow> if x = y then p\<lparr>pr_pending := Some [], pr_exit := Some (0, now)\<rparr> else p
      | Some (y # ys) \<Rightarrow> if x = y then p\<lparr>pr_pending := Some ys\<rparr> else p
      | _ \<Rightarrow> p)"
| "react tasks now (Failed x) p =
     (case pr_pending p of
        Some (y # ys) \<Rightarrow> if x = y \<and> x \<notin> {CloseServer, StopWorkers}
                        then shutdown tasks now (p\<lparr>pr_pending := None\<rparr>) else p
      | _ \<Rightarrow> p)"
| "react tasks now Other p = p"

definition happens :: "task list \<Rightarrow> int \<times> event \<Rightarrow> process \<Rightarrow> process" where
  "happens tasks e p =
     (let q = fire_timer (fst e) p in if pr_exit q \<noteq> None then q else react tasks (fst e) (snd e) q)"

definition life :: "task list \<Rightarrow> (int \<times> event) list \<Rightarrow> process \<Rightarrow> process" where
  "life tasks es p = fold (happens tasks) es p"

section \<open>Connections\<close>

text \<open>The pauses between the attempts to reach Redis again: of the connection of the jobs, which gives up,
  and of the connection of the rate limiters.\<close>

definition job_retryStrategy :: "nat \<Rightarrow> nat option" where
  "job_retryStrategy n = (if n > 10 then None else Some (min (n * 200) 2000))"

definition limiter_retryStrategy :: "nat \<Rightarrow> nat option" where
  "limiter_retryStrategy n = Some (min (n * 200) 2000)"

text \<open>The pause of every attempt in an outage: the waiting up to the given one, none when given up before.\<close>

fun waited :: "(nat \<Rightarrow> nat option) \<Rightarrow> nat \<Rightarrow> nat option" where
  "waited strategy 0 = Some 0"
| "waited strategy (Suc n) =
     (case waited strategy n of
        None \<Rightarrow> None
      | Some ms \<Rightarrow> (case strategy (Suc n) of None \<Rightarrow> None | Some pause \<Rightarrow> Some (ms + pause)))"

record pool_options =
  po_max :: js_num
  po_idleTimeoutMillis :: js_num
  po_connectionTimeoutMillis :: js_num

definition env_number :: "environment \<Rightarrow> string \<Rightarrow> nat \<Rightarrow> js_num" where
  "env_number env key def = (case env key of Some v \<Rightarrow> js_number v | None \<Rightarrow> Fin (of_nat def))"

definition pool :: "environment \<Rightarrow> pool_options" where
  "pool env =
     \<lparr>po_max = env_number env ''DATABASE_POOL_MAX'' 10,
      po_idleTimeoutMillis = env_number env ''DATABASE_POOL_IDLE_TIMEOUT_MS'' 30000,
      po_connectionTimeoutMillis = env_number env ''DATABASE_POOL_CONNECTION_TIMEOUT_MS'' 10000\<rparr>"

section \<open>Error reports and the level of the log\<close>

definition getSentry :: "environment \<Rightarrow> bool" where
  "getSentry env \<longleftrightarrow> env ''NODE_ENV'' \<noteq> Some ''test'' \<and> env_set env ''SENTRY_DSN''"

definition logLevel :: "environment \<Rightarrow> string" where
  "logLevel env =
     (case env ''LOG_LEVEL'' of
        Some l \<Rightarrow> l
      | None \<Rightarrow> if env ''NODE_ENV'' = Some ''test'' then ''silent''
                else if env ''NODE_ENV'' = Some ''production'' then ''info'' else ''debug'')"

section \<open>Shutting down ends\<close>

text \<open>What holds of a process at a time.\<close>

definition timely :: "int \<Rightarrow> process \<Rightarrow> bool" where
  "timely now p \<longleftrightarrow>
     (pr_shuttingDown p \<longleftrightarrow> pr_deadline p \<noteq> None)
   \<and> (case pr_deadline p of Some d \<Rightarrow> d \<le> now + 10000 | None \<Rightarrow> True)
   \<and> (case pr_exit p of Some (c, x) \<Rightarrow> x \<le> now | None \<Rightarrow> True)"

lemma timely_running: "timely now running"
  by (simp add: timely_def running_def)

lemma timely_later: "timely now p \<Longrightarrow> now \<le> later \<Longrightarrow> timely later p"
  by (auto simp: timely_def split: option.splits)

lemma timely_shutdown: "timely now p \<Longrightarrow> timely now (shutdown tasks now p)"
  by (simp add: timely_def shutdown_def)

lemma timely_pending: "timely now (p\<lparr>pr_pending := ys\<rparr>) = timely now p"
  by (simp add: timely_def)

lemma timely_exit: "timely now p \<Longrightarrow> timely now (p\<lparr>pr_exit := Some (c, now)\<rparr>)"
  by (simp add: timely_def)

lemma timely_react: "timely now p \<Longrightarrow> timely now (react tasks now e p)"
proof (cases e)
  case (Finished x)
  assume "timely now p"
  moreover from this have "timely now (p\<lparr>pr_pending := Some [], pr_exit := Some (0, now)\<rparr>)"
    by (simp add: timely_def)
  ultimately show ?thesis by (simp add: Finished timely_pending split: option.split list.split)
next
  case (Failed x)
  assume "timely now p"
  then show ?thesis by (simp add: Failed timely_pending timely_shutdown split: option.split list.split)
qed (simp_all add: timely_shutdown)

lemma timely_fire: "timely now p \<Longrightarrow> timely now (fire_timer now p)"
  by (auto simp: timely_def fire_timer_def split: option.splits)

lemma timely_happens: "timely t p \<Longrightarrow> t \<le> fst e \<Longrightarrow> timely (fst e) (happens tasks e p)"
  unfolding happens_def Let_def by (simp add: timely_fire timely_later timely_react)

text \<open>The process ends by then, or has ended.\<close>

definition ends_by :: "int \<Rightarrow> process \<Rightarrow> bool" where
  "ends_by bound p \<longleftrightarrow>
     (case pr_exit p of
        Some (c, x) \<Rightarrow> x \<le> bound
      | None \<Rightarrow> pr_shuttingDown p \<and> (\<exists>d. pr_deadline p = Some d \<and> d \<le> bound))"

lemma ends_by_react:
  assumes "ends_by bound p" "pr_exit p = None" "now \<le> bound"
  shows "ends_by bound (react tasks now e p)"
  using assms by (cases e) (auto simp: ends_by_def shutdown_def split: option.splits list.splits)

lemma ends_by_happens: "ends_by bound p \<Longrightarrow> ends_by bound (happens tasks e p)"
proof -
  assume p: "ends_by bound p"
  let ?q = "fire_timer (fst e) p"
  have q: "ends_by bound ?q" using p by (auto simp: ends_by_def fire_timer_def split: option.splits)
  have "fst e \<le> bound" if "pr_exit ?q = None"
    using that p by (auto simp: ends_by_def fire_timer_def split: option.splits if_splits)
  with q ends_by_react [OF q] show ?thesis by (cases "pr_exit ?q = None") (simp_all add: happens_def Let_def)
qed

lemma ends_by_life: "ends_by bound p \<Longrightarrow> ends_by bound (life tasks es p)"
  unfolding life_def by (induction es arbitrary: p) (simp_all add: ends_by_happens)

lemma ended_stays: "pr_exit p \<noteq> None \<Longrightarrow> happens tasks e p = p"
  by (auto simp: happens_def fire_timer_def Let_def split: option.split)

lemma life_ended: "pr_exit p \<noteq> None \<Longrightarrow> life tasks es p = p"
  unfolding life_def by (induction es) (simp_all add: ended_stays)

lemma life_append: "life tasks (es @ es') p = life tasks es' (life tasks es p)"
  by (simp add: life_def)

lemma life_Cons: "life tasks (e # es) p = life tasks es (happens tasks e p)"
  by (simp add: life_def)

lemma timely_life:
  "timely t p \<Longrightarrow> sorted (t # map fst es) \<Longrightarrow> timely (last (t # map fst es)) (life tasks es p)"
proof (induction es arbitrary: t p)
  case (Cons e es)
  then have "timely (fst e) (happens tasks e p)" by (intro timely_happens [of t]) auto
  from Cons.IH [OF this] Cons.prems show ?case by (simp add: life_Cons)
qed (simp add: life_def)

definition triggers :: "event \<Rightarrow> bool" where
  "triggers e \<longleftrightarrow> (case e of Signal _ \<Rightarrow> True | UnhandledRejection \<Rightarrow> True | UncaughtException \<Rightarrow> True | _ \<Rightarrow> False)"

lemma triggered:
  assumes "timely t p" "t \<le> fst e" "triggers (snd e)"
  shows "ends_by (fst e + 10000) (happens tasks e p)"
proof -
  let ?q = "fire_timer (fst e) p"
  have q: "timely (fst e) ?q" using assms(1,2) by (blast intro: timely_fire timely_later)
  have r: "react tasks (fst e) (snd e) ?q = shutdown tasks (fst e) ?q"
    using assms(3) by (cases "snd e") (simp_all add: triggers_def)
  show ?thesis
    using q unfolding happens_def Let_def r
    by (cases "pr_exit ?q") (auto simp: ends_by_def timely_def shutdown_def split: option.splits)
qed

lemma deadline_over:
  assumes "ends_by bound p" "bound \<le> fst e"
  shows "pr_exit (happens tasks e p) \<noteq> None"
  using assms by (auto simp: ends_by_def happens_def fire_timer_def Let_def split: option.splits)

text \<open>C27: After a signal, an unhandled rejection or an uncaught exception the process has exited within ten
  seconds, whatever else happens meanwhile, further signals and failing tasks included.\<close>

theorem shutdown_ends:
  assumes "sorted (map fst (es @ (t, e) # es'))" "triggers e" "(t', e') \<in> set es'" "t + 10000 \<le> t'"
  shows "\<exists>code x. pr_exit (life tasks (es @ (t, e) # es') running) = Some (code, x) \<and> x \<le> t + 10000"
proof -
  let ?p = "happens tasks (t, e) (life tasks es running)"
  obtain t0 where "timely t0 (life tasks es running)" "t0 \<le> t"
  proof (cases es)
    case Nil
    with that [of t] show ?thesis by (simp add: life_def timely_running)
  next
    case (Cons a as)
    have "last (fst a # map fst es) \<in> set (map fst es)" using Cons by (simp add: last_map)
    then have "last (fst a # map fst es) \<le> t" using assms(1) by (auto simp: sorted_append)
    moreover have "sorted (fst a # map fst es)" using Cons assms(1) by (auto simp: sorted_append)
    ultimately    show ?thesis using timely_life [OF timely_running, of "fst a" es tasks] that by blast
  qed
  with triggered [of t0 _ "(t, e)"] assms(2) have p: "ends_by (t + 10000) ?p" by simp
  obtain bs cs where s: "es' = bs @ (t', e') # cs" using assms(3) by (meson split_list)
  have "pr_exit (happens tasks (t', e') (life tasks bs ?p)) \<noteq> None"
    by (rule deadline_over [OF ends_by_life [OF p]]) (simp add: assms(4))
  then have "pr_exit (life tasks es' ?p) \<noteq> None"
    by (simp add: s life_append life_Cons life_ended)
  with ends_by_life [OF p, of tasks es'] show ?thesis
    by (auto simp: life_append life_Cons ends_by_def split: option.splits)
qed

theorem shutdown_ends_witness:
  "\<exists>code x. pr_exit (life worker_tasks
       [(0, Signal ''SIGTERM''), (50, Finished StopWorkers), (60, Failed CloseRedis), (70, Signal ''SIGINT''), (20000, Other)]
       running) = Some (code, x) \<and> x \<le> 10000"
  using shutdown_ends [of "[]" 0 "Signal ''SIGTERM''"
      "[(50, Finished StopWorkers), (60, Failed CloseRedis), (70, Signal ''SIGINT''), (20000, Other)]" 20000 Other worker_tasks]
  by (simp add: triggers_def)

section \<open>A clean exit\<close>

text \<open>The tasks behind the process have finished in their order.\<close>

definition cleanly :: "task list \<Rightarrow> event list \<Rightarrow> process \<Rightarrow> bool" where
  "cleanly tasks es p \<longleftrightarrow>
     (case pr_exit p of
        Some (c, x) \<Rightarrow> c = 0 \<longrightarrow> subseq (map Finished tasks) es
      | None \<Rightarrow>
          (case pr_pending p of
             Some ys \<Rightarrow> \<exists>ended. tasks = ended @ ys \<and> subseq (map Finished ended) es
           | None \<Rightarrow> True))"

lemma subseq_snoc: "subseq xs es \<Longrightarrow> subseq (xs @ [e]) (es @ [e])"
  by (simp add: list_emb_append_mono)

lemma cleanly_more: "cleanly tasks es p \<Longrightarrow> cleanly tasks (es @ [e]) p"
  unfolding cleanly_def by (fastforce split: option.splits)

lemma cleanly_shutdown: "cleanly tasks es p \<Longrightarrow> cleanly tasks es (shutdown tasks now p)"
  by (auto simp: cleanly_def shutdown_def split: option.splits intro: exI [of _ "[]"])

lemma cleanly_fire: "cleanly tasks es p \<Longrightarrow> cleanly tasks es (fire_timer now p)"
  by (auto simp: cleanly_def fire_timer_def split: option.splits)

lemma cleanly_task:
  assumes "cleanly tasks es p" "pr_exit p = None" "pr_pending p = Some (x # ys)"
  obtains ended where "tasks = ended @ x # ys" "subseq (map Finished (ended @ [x])) (es @ [Finished x])"
  using assms subseq_snoc [of "map Finished _" es "Finished x"] unfolding cleanly_def by auto

lemma cleanly_react:
  assumes p: "cleanly tasks es p" and n: "pr_exit p = None"
  shows "cleanly tasks (es @ [e]) (react tasks now e p)"
proof (cases e)
  case (Finished x)
  show ?thesis
  proof (cases "\<exists>ys. pr_pending p = Some (x # ys)")
    case True
    then obtain ys where ys: "pr_pending p = Some (x # ys)" ..
    obtain ended where d: "tasks = ended @ x # ys" "subseq (map Finished (ended @ [x])) (es @ [Finished x])"
      by (rule cleanly_task [OF p n ys])
    show ?thesis
    proof (cases ys)
      case Nil
      with d Finished ys n show ?thesis by (simp add: cleanly_def)
    next
      case (Cons y zs)
      with d Finished ys n show ?thesis by (auto simp: cleanly_def intro: exI [of _ "ended @ [x]"])
    qed
  next
    case False
    then have "react tasks now e p = p" by (auto simp: Finished split: option.split list.split)
    with cleanly_more [OF p] show ?thesis by simp
  qed
next
  case (Failed x)
  have "cleanly tasks (es @ [e]) (p\<lparr>pr_pending := None\<rparr>)" using n by (simp add: cleanly_def)
  with cleanly_more [OF p] Failed show ?thesis
    by (auto simp: cleanly_shutdown split: option.split list.split)
qed (simp_all add: cleanly_more cleanly_shutdown p)

lemma cleanly_happens: "cleanly tasks es p \<Longrightarrow> cleanly tasks (es @ [snd e]) (happens tasks e p)"
  unfolding happens_def Let_def
  by (cases "pr_exit (fire_timer (fst e) p) = None") (simp_all add: cleanly_fire cleanly_more cleanly_react)

lemma cleanly_life: "cleanly tasks hs p \<Longrightarrow> cleanly tasks (hs @ map snd es) (life tasks es p)"
proof (induction es arbitrary: hs p)
  case (Cons e es)
  from Cons.IH [OF cleanly_happens [OF Cons.prems]] show ?case by (simp add: life_Cons)
qed (simp add: life_def)

text \<open>A process exits with code 0 only after everything its shutdown waits for has finished, in that order:
  the listener before the database, the job workers before Redis.\<close>

theorem clean_exit:
  assumes "pr_exit (life tasks es running) = Some (0, x)"
  shows "subseq (map Finished tasks) (map snd es)"
proof -
  have "cleanly tasks [] running" by (simp add: cleanly_def running_def)
  from cleanly_life [OF this, of es] assms show ?thesis by (simp add: cleanly_def)
qed

theorem clean_exit_witness:
  "subseq (map Finished server_tasks)
     (map snd [(0::int, Signal ''SIGTERM''), (5, Finished CloseServer), (9, Finished DisconnectDb)])"
  by (rule clean_exit [of _ _ 9]) (simp add: life_def running_def happens_def fire_timer_def shutdown_def server_tasks_def)

section \<open>Outages of Redis\<close>

text \<open>The connection of the jobs is given up after eleven seconds, that of the rate limiters never.\<close>

lemma given_up: "waited strategy n = None \<Longrightarrow> waited strategy (k + n) = None"
  by (induction k) simp_all

lemma waited_numeral:
  "waited strategy (numeral v) =
     (case waited strategy (pred_numeral v) of
        None \<Rightarrow> None
      | Some ms \<Rightarrow> (case strategy (numeral v) of None \<Rightarrow> None | Some pause \<Rightarrow> Some (ms + pause)))"
  by (metis numeral_eq_Suc waited.simps(2))

lemma job_connection_gives_up:
  "waited job_retryStrategy 10 = Some 11000 \<and> waited job_retryStrategy (11 + n) = None"
proof -
  have "waited job_retryStrategy 11 = None" by (simp add: job_retryStrategy_def waited_numeral)
  from given_up [OF this, of n] have "waited job_retryStrategy (11 + n) = None" by (simp only: add.commute)
  then show ?thesis by (simp add: job_retryStrategy_def waited_numeral)
qed

lemma limiter_connection_never_gives_up: "\<exists>ms. waited limiter_retryStrategy n = Some ms \<and> ms \<le> 2000 * n"
  by (induction n) (auto simp: limiter_retryStrategy_def)

section \<open>What the worker does not check\<close>

text \<open>In production the worker, which sends the mails, starts in environments the server refuses: without the
  address its links begin with.\<close>

lemma worker_skips_checks:
  assumes "env ''NODE_ENV'' = Some ''production''" "\<not> env_set env ''APP_URL''"
    "list_all (env_set env) WORKER_REQUIRED_ENV"
  shows "worker_start env = Works" "\<exists>errors. server_start env = Exits 1 errors"
proof -
  show "worker_start env = Works"
    using assms(3) by (auto simp: worker_start_def Let_def list_all_iff filter_empty_conv)
  have "validateEnv env \<noteq> []" using assms(1,2) by (simp add: validateEnv_accepts)
  then show "\<exists>errors. server_start env = Exits 1 errors" by (simp add: server_start_def Let_def)
qed

end
