(* ===== verification/Seed.thy ===== *)
theory Seed
  imports OrgInvariant Login ApiKeys Boot Samples "HOL-Library.Sublist"
begin

text \<open>
  \<open>prisma/seed.js\<close>: the demo data.  Every step looks a row up and creates it only when it is not there
  (\<open>upsert\<close> with an empty \<open>update\<close>), so a second run finds everything in place.  The script is not one
  transaction: a step that fails leaves what the steps before it created.
\<close>

section \<open>The safety guard\<close>

definition seed_allowed :: "environment \<Rightarrow> bool" where
  "seed_allowed e \<longleftrightarrow> \<not> (e ''NODE_ENV'' = Some ''production'' \<and> e ''SEED_ALLOW_PRODUCTION'' \<noteq> Some ''true'')"

text \<open>The host is what \<open>new URL(...)\<close> reads in \<open>DATABASE_URL\<close>; empty if it is no URL.\<close>

definition seed_warns :: "string \<Rightarrow> bool" where
  "seed_warns dbHost \<longleftrightarrow> dbHost \<noteq> [] \<and> dbHost \<notin> set [''localhost'', ''127.0.0.1'', ''::1'']"

section \<open>Steps\<close>

type_synonym 'a seeding = "db \<Rightarrow> 'a result \<times> db"

definition and_then :: "'a seeding \<Rightarrow> ('a \<Rightarrow> 'b seeding) \<Rightarrow> 'b seeding" where
  "and_then m k d = await (m d) k"

definition finished :: "'a \<Rightarrow> 'a seeding" where
  "finished x d = (Inr x, d)"

text \<open>\<open>upsert({ where, update: {}, create })\<close>, and what \<open>upsertUserByEmail\<close> and the projects do by hand.\<close>

definition upsert ::
  "(db \<Rightarrow> 'r list) \<Rightarrow> (('r list \<Rightarrow> 'r list) \<Rightarrow> db \<Rightarrow> db) \<Rightarrow> ('r \<Rightarrow> 'r \<Rightarrow> bool) \<Rightarrow> ('r \<Rightarrow> bool) \<Rightarrow> 'r \<Rightarrow> 'r seeding" where
  "upsert rows update clash p row d =
     (case find_first p (rows d) of
        Some r \<Rightarrow> (Inr r, d)
      | None \<Rightarrow>
          (case insert_row clash row (rows d) of
             Inl e \<Rightarrow> (Inl e, d)
           | Inr t \<Rightarrow> (Inr row, update (\<lambda>_. t) d)))"

text \<open>What a run draws on: the secrets and hash functions, the clock, the identifiers of new rows, a salt.\<close>

record seeder =
  sd_env :: env
  sd_now :: int
  sd_id :: "string \<Rightarrow> string"
  sd_salt :: string

definition seed_hash :: "seeder \<Rightarrow> string \<Rightarrow> string" where
  "seed_hash s key = sha256_hex (sd_env s) key"

definition days :: "int \<Rightarrow> int" where
  "days n = n * 24 * 60 * 60 * 1000"

subsection \<open>Plans\<close>

definition seed_plan :: "seeder \<Rightarrow> string \<Rightarrow> string \<Rightarrow> string \<Rightarrow> string \<Rightarrow> int \<Rightarrow> json \<Rightarrow> plan seeding" where
  "seed_plan s priceId name code description cents features =
     upsert plans plans_update plan_clash (\<lambda>x. pl_stripePriceId x = priceId)
       \<lparr>pl_id = sd_id s priceId, pl_name = name, pl_code = code, pl_description = Some description,
        pl_stripePriceId = priceId, pl_priceCents = cents, pl_currency = ''usd'', pl_interval = MONTH,
        pl_features = features, pl_active = True, pl_createdAt = sd_now s\<rparr>"

definition seed_plans :: "seeder \<Rightarrow> (plan \<times> plan) seeding" where
  "seed_plans s =
     and_then (seed_plan s ''price_free_demo'' ''Free'' ''free'' ''Perfect for getting started'' 0
       (JObj [(''projects'', JNum 1), (''members'', JNum 3), (''storage'', JStr ''100MB'')])) (\<lambda>free.
     and_then (seed_plan s ''price_pro_demo'' ''Pro'' ''pro'' ''For growing teams'' 2900
       (JObj [(''projects'', JNum 10), (''members'', JNum 10), (''storage'', JStr ''10GB''),
              (''prioritySupport'', JBool True)])) (\<lambda>pro.
     and_then (seed_plan s ''price_enterprise_demo'' ''Enterprise'' ''enterprise'' ''For large organizations'' 9900
       (JObj [(''projects'', JNum (- 1)), (''members'', JNum (- 1)), (''storage'', JStr ''1TB''),
              (''prioritySupport'', JBool True), (''sla'', JBool True)])) (\<lambda>enterprise.
     finished (pro, enterprise))))"

subsection \<open>Users\<close>

definition upsertUserByEmail :: "string \<Rightarrow> user \<Rightarrow> user seeding" where
  "upsertUserByEmail email row =
     upsert users users_update user_clash (\<lambda>u. u_email u = email \<and> u_deletedAt u = None) row"

definition demo_account :: "seeder \<Rightarrow> string \<Rightarrow> string \<Rightarrow> user" where
  "demo_account s email name =
     (new_user (sd_now s) (sd_id s email) email)\<lparr>u_name := Some name, u_emailVerified := True\<rparr>"

definition seed_users :: "seeder \<Rightarrow> (user \<times> user \<times> user \<times> user) seeding" where
  "seed_users s =
     (let passwordHash = bcrypt_hash (sd_env s) (sd_salt s) 12 ''Password123''
      in and_then (upsertUserByEmail ''admin@demo.com''
           ((demo_account s ''admin@demo.com'' ''Admin User'')
              \<lparr>u_password := Some passwordHash, u_role := ADMIN, u_lastLoginAt := Some (sd_now s)\<rparr>)) (\<lambda>admin.
         and_then (upsertUserByEmail ''owner@demo.com''
           ((demo_account s ''owner@demo.com'' ''Org Owner'')
              \<lparr>u_password := Some passwordHash, u_lastLoginAt := Some (sd_now s)\<rparr>)) (\<lambda>owner.
         and_then (upsertUserByEmail ''member@demo.com''
           ((demo_account s ''member@demo.com'' ''Team Member'')
              \<lparr>u_password := Some passwordHash, u_lastLoginAt := Some (sd_now s)\<rparr>)) (\<lambda>member1.
         and_then (upsertUserByEmail ''member2@demo.com''
           ((demo_account s ''member2@demo.com'' ''Another Member'')\<lparr>u_password := Some passwordHash\<rparr>)) (\<lambda>member2.
         and_then (upsertUserByEmail ''google@demo.com''
           ((demo_account s ''google@demo.com'' ''Google User'')
              \<lparr>u_googleId := Some ''demo-google-123456789'', u_lastLoginAt := Some (sd_now s)\<rparr>)) (\<lambda>googleUser.
         finished (admin, owner, member1, member2)))))))"

subsection \<open>The organization, its members and projects\<close>

definition seed_org :: "seeder \<Rightarrow> user \<Rightarrow> organization seeding" where
  "seed_org s owner =
     upsert organizations organizations_update org_clash (\<lambda>x. o_slug x = ''demo-org'')
       \<lparr>o_id = sd_id s ''demo-org'', o_name = ''Demo Organization'', o_slug = ''demo-org'', o_ownerId = u_id owner,
        o_stripeCustomerId = None, o_deletedAt = None, o_createdAt = sd_now s, o_updatedAt = sd_now s\<rparr>"

definition seed_member :: "seeder \<Rightarrow> organization \<Rightarrow> user \<Rightarrow> org_role \<Rightarrow> organization_member seeding" where
  "seed_member s org u role =
     upsert members members_update member_clash (\<lambda>m. m_organizationId m = o_id org \<and> m_userId m = u_id u)
       \<lparr>m_id = sd_id s (u_email u), m_organizationId = o_id org, m_userId = u_id u, m_role = role,
        m_createdAt = sd_now s, m_updatedAt = sd_now s\<rparr>"

definition seed_organization :: "seeder \<Rightarrow> user \<Rightarrow> user \<Rightarrow> user \<Rightarrow> organization seeding" where
  "seed_organization s owner member1 member2 =
     and_then (seed_org s owner) (\<lambda>org.
     and_then (seed_member s org owner OWNER) (\<lambda>_.
     and_then (seed_member s org member1 ORG_ADMIN) (\<lambda>_.
     and_then (seed_member s org member2 MEMBER) (\<lambda>_. finished org))))"

definition seed_project :: "seeder \<Rightarrow> organization \<Rightarrow> user \<Rightarrow> string \<Rightarrow> string \<Rightarrow> project seeding" where
  "seed_project s org owner name description =
     upsert projects projects_update project_clash
       (\<lambda>p. p_organizationId p = o_id org \<and> p_name p = name \<and> p_deletedAt p = None)
       \<lparr>p_id = sd_id s name, p_organizationId = o_id org, p_createdById = u_id owner, p_name = name,
        p_description = Some description, p_status = PROJECT_ACTIVE, p_deletedAt = None,
        p_createdAt = sd_now s, p_updatedAt = sd_now s\<rparr>"

definition seed_projects :: "seeder \<Rightarrow> organization \<Rightarrow> user \<Rightarrow> unit seeding" where
  "seed_projects s org owner =
     and_then (seed_project s org owner ''Website Redesign'' ''Example project seeded by prisma/seed.js'') (\<lambda>_.
     and_then (seed_project s org owner ''Mobile App'' ''Second example project'') (\<lambda>_. finished ()))"

subsection \<open>Subscriptions, the API key, the audit log, the invitation\<close>

definition seed_subscription :: "seeder \<Rightarrow> string \<Rightarrow> string \<Rightarrow> user \<Rightarrow> plan \<Rightarrow> subscription seeding" where
  "seed_subscription s stripeId customerId u pl =
     upsert subscriptions subscriptions_update sub_clash (\<lambda>x. s_stripeSubscriptionId x = stripeId)
       \<lparr>s_id = sd_id s stripeId, s_userId = Some (u_id u), s_organizationId = None, s_planId = pl_id pl,
        s_stripeSubscriptionId = stripeId, s_stripeCustomerId = customerId, s_status = SUB_ACTIVE,
        s_trialEndsAt = None, s_currentPeriodStart = Some (sd_now s),
        s_currentPeriodEnd = Some (sd_now s + days 30), s_canceledAt = None, s_stripeEventCreatedAt = None,
        s_createdAt = sd_now s, s_updatedAt = sd_now s\<rparr>"

definition demoKey :: string where
  "demoKey = ''sk_demo_key_for_seeding_purposes_only''"

definition seed_api_key :: "seeder \<Rightarrow> user \<Rightarrow> api_key seeding" where
  "seed_api_key s owner =
     upsert apiKeys apiKeys_update key_clash (\<lambda>k. k_keyHash k = seed_hash s demoKey)
       \<lparr>k_id = sd_id s demoKey, k_name = ''Demo API Key'', k_keyHash = seed_hash s demoKey,
        k_keyPrefix = take 12 demoKey, k_userId = u_id owner, k_scopes = [''read'', ''write''],
        k_lastUsedAt = None, k_expiresAt = Some (sd_now s + days 365), k_revokedAt = None, k_deletedAt = None,
        k_createdAt = sd_now s, k_updatedAt = sd_now s\<rparr>"

definition seed_entry :: "seeder \<Rightarrow> audit_action \<Rightarrow> user \<Rightarrow> string option \<Rightarrow> (string \<times> json) list \<Rightarrow> audit_log" where
  "seed_entry s action owner orgId metadata =
     \<lparr>a_action = action, a_userId = Some (u_id owner), a_targetUserId = None, a_organizationId = orgId,
      a_ipAddress = None, a_userAgent = None, a_metadata = (''source'', JStr ''seed'') # metadata,
      a_createdAt = sd_now s\<rparr>"

definition seed_entries :: "seeder \<Rightarrow> user \<Rightarrow> user \<Rightarrow> organization \<Rightarrow> plan \<Rightarrow> audit_log list" where
  "seed_entries s owner member1 org proPlan =
     [seed_entry s USER_REGISTER owner None [],
      seed_entry s USER_LOGIN owner None [(''ip'', JStr ''127.0.0.1'')],
      seed_entry s ORG_CREATED owner (Some (o_id org)) [(''name'', JStr (o_name org))],
      seed_entry s MEMBER_ADDED owner (Some (o_id org)) [(''member'', JStr (u_email member1))],
      seed_entry s SUBSCRIPTION_CREATED owner None [(''plan'', JStr (pl_name proPlan))]]"

definition seeded_entry :: "audit_log \<Rightarrow> bool" where
  "seeded_entry a \<longleftrightarrow> map_of (a_metadata a) ''source'' = Some (JStr ''seed'')"

definition seed_audit :: "seeder \<Rightarrow> user \<Rightarrow> user \<Rightarrow> organization \<Rightarrow> plan \<Rightarrow> unit seeding" where
  "seed_audit s owner member1 org proPlan d =
     (if count_where seeded_entry (auditLogs d) = 0
      then (Inr (), d\<lparr>auditLogs := auditLogs d @ seed_entries s owner member1 org proPlan\<rparr>)
      else (Inr (), d))"

definition seed_invitation :: "seeder \<Rightarrow> organization \<Rightarrow> user \<Rightarrow> organization_invitation seeding" where
  "seed_invitation s org owner =
     (let inviteToken = seed_hash s ''demo_invitation_token''
      in upsert invitations invitations_update invitation_clash (\<lambda>i. i_token i = inviteToken)
           \<lparr>i_id = sd_id s ''invitation'', i_organizationId = o_id org, i_inviterId = u_id owner,
            i_inviteeEmail = ''newmember@demo.com'', i_inviteeId = None, i_role = MEMBER, i_status = INV_PENDING,
            i_token = inviteToken, i_expiresAt = sd_now s + days 7, i_acceptedAt = None, i_declinedAt = None,
            i_canceledAt = None, i_createdAt = sd_now s, i_updatedAt = sd_now s\<rparr>)"

subsection \<open>Feature flags\<close>

definition seed_flag :: "seeder \<Rightarrow> string \<Rightarrow> string \<Rightarrow> string \<Rightarrow> flag_type \<Rightarrow> json \<Rightarrow> feature_flag seeding" where
  "seed_flag s key name description type value' =
     upsert featureFlags featureFlags_update flag_clash (\<lambda>f. f_key f = key)
       \<lparr>f_id = sd_id s key, f_key = key, f_name = name, f_description = Some description, f_type = type,
        f_value = value', f_active = True, f_createdAt = sd_now s, f_updatedAt = sd_now s\<rparr>"

definition seed_override :: "seeder \<Rightarrow> feature_flag \<Rightarrow> organization \<Rightarrow> organization_feature_flag seeding" where
  "seed_override s flag org =
     upsert flagOverrides flagOverrides_update override_clash
       (\<lambda>x. ov_featureFlagId x = f_id flag \<and> ov_organizationId x = o_id org)
       \<lparr>ov_id = sd_id s ''override'', ov_featureFlagId = f_id flag, ov_organizationId = o_id org,
        ov_enabled = True, ov_value = JObj [(''enabled'', JBool True)],
        ov_createdAt = sd_now s, ov_updatedAt = sd_now s\<rparr>"

text \<open>The flag of the override is looked up again by its key; it is the one just upserted.\<close>

definition seed_flags :: "seeder \<Rightarrow> organization \<Rightarrow> unit seeding" where
  "seed_flags s org =
     and_then (seed_flag s ''beta_dashboard'' ''Beta Dashboard'' ''Enable the new beta dashboard UI''
       FLAG_BOOLEAN (JObj [(''enabled'', JBool False)])) (\<lambda>beta.
     and_then (seed_flag s ''advanced_analytics'' ''Advanced Analytics''
       ''Plan-gated analytics feature (Pro and Enterprise only)''
       FLAG_PLAN (JObj [(''plans'', JArr [JStr ''pro'', JStr ''enterprise''])])) (\<lambda>_.
     and_then (seed_flag s ''projects_export'' ''Projects Export''
       ''Enables the paywalled project export route on the example resource''
       FLAG_BOOLEAN (JObj [(''enabled'', JBool True)])) (\<lambda>_.
     and_then (seed_flag s ''new_onboarding_flow'' ''New Onboarding Flow''
       ''Gradual rollout of the new onboarding experience''
       FLAG_PERCENTAGE (JObj [(''percentage'', JNum 50)])) (\<lambda>_.
     and_then (seed_override s beta org) (\<lambda>_. finished ())))))"

subsection \<open>The script\<close>

definition seed :: "seeder \<Rightarrow> unit seeding" where
  "seed s =
     and_then (seed_plans s) (\<lambda>(proPlan, enterprisePlan).
     and_then (seed_users s) (\<lambda>(admin, owner, member1, member2).
     and_then (seed_organization s owner member1 member2) (\<lambda>org.
     and_then (seed_projects s org owner) (\<lambda>_.
     and_then (seed_subscription s ''sub_demo_owner'' ''cus_demo_owner'' owner proPlan) (\<lambda>_.
     and_then (seed_subscription s ''sub_demo_admin'' ''cus_demo_admin'' admin enterprisePlan) (\<lambda>_.
     and_then (seed_api_key s owner) (\<lambda>_.
     and_then (seed_audit s owner member1 org proPlan) (\<lambda>_.
     and_then (seed_invitation s org owner) (\<lambda>_. seed_flags s org)))))))))"

section \<open>A second run finds everything in place\<close>

text \<open>Rows were only added, behind those there were.\<close>

definition grows :: "db \<Rightarrow> db \<Rightarrow> bool" where
  "grows d d' \<longleftrightarrow>
     prefix (users d) (users d')
   \<and> prefix (organizations d) (organizations d')
   \<and> prefix (members d) (members d')
   \<and> prefix (projects d) (projects d')
   \<and> prefix (plans d) (plans d')
   \<and> prefix (subscriptions d) (subscriptions d')
   \<and> prefix (apiKeys d) (apiKeys d')
   \<and> prefix (auditLogs d) (auditLogs d')
   \<and> prefix (invitations d) (invitations d')
   \<and> prefix (featureFlags d) (featureFlags d')
   \<and> prefix (flagOverrides d) (flagOverrides d')"

lemma grows_refl: "grows d d"
  by (simp add: grows_def)

lemma grows_trans: "grows d d' \<Longrightarrow> grows d' d'' \<Longrightarrow> grows d d''"
  unfolding grows_def by (meson prefix_order.trans)

text \<open>A step and what a later run has in its place: once the step has run, on any larger database the other returns
  the same and writes nothing.\<close>

definition settles :: "'a seeding \<Rightarrow> 'a seeding \<Rightarrow> bool" where
  "settles m m' \<longleftrightarrow>
     (\<forall>d a d'. m d = (Inr a, d') \<longrightarrow> grows d d' \<and> (\<forall>d''. grows d' d'' \<longrightarrow> m' d'' = (Inr a, d'')))"

lemma settlesI:
  assumes "\<And>d a d'. m d = (Inr a, d') \<Longrightarrow> grows d d'"
    "\<And>d a d' d''. m d = (Inr a, d') \<Longrightarrow> grows d' d'' \<Longrightarrow> m' d'' = (Inr a, d'')"
  shows "settles m m'"
  using assms unfolding settles_def by blast

lemma settlesD:
  assumes "settles m m'" "m d = (Inr a, d')"
  shows "grows d d'" "grows d' d'' \<Longrightarrow> m' d'' = (Inr a, d'')"
  using assms unfolding settles_def by blast+

lemma settles_finished: "settles (finished x) (finished x)"
  by (rule settlesI) (auto simp: finished_def grows_refl)

lemma settles_and_then:
  assumes "settles m m'" "\<And>x. settles (k x) (k' x)"
  shows "settles (and_then m k) (and_then m' k')"
proof (rule settlesI)
  fix d a d' assume "and_then m k d = (Inr a, d')"
  then obtain x d1 where 1: "m d = (Inr x, d1)" "k x d1 = (Inr a, d')"
    unfolding and_then_def by (rule await_InrE)
  note m = settlesD [OF assms(1) 1(1)] and k = settlesD [OF assms(2) 1(2)]
  show "grows d d'" using m(1) k(1) by (rule grows_trans)
  fix d'' assume "grows d' d''"
  with m(2) [of d''] k grows_trans show "and_then m' k' d'' = (Inr a, d'')"
    by (simp add: and_then_def)
qed

lemma settles_case: "(\<And>a b. settles (f a b) (g a b)) \<Longrightarrow> settles (case_prod f x) (case_prod g x)"
  by (cases x) simp

text \<open>What the steps rely on of a table: replacing its rows by more of them is growth, and growth adds rows to it.\<close>

locale table =
  fixes rows :: "db \<Rightarrow> 'r list" and update :: "('r list \<Rightarrow> 'r list) \<Rightarrow> db \<Rightarrow> db"
  assumes rows_update: "rows (update f d) = f (rows d)"
    and update_grows: "prefix (rows d) t \<Longrightarrow> grows d (update (\<lambda>_. t) d)"
    and grows_rows: "grows d d' \<Longrightarrow> prefix (rows d) (rows d')"
begin

lemma grows_find: "grows d d' \<Longrightarrow> find_first p (rows d) = Some r \<Longrightarrow> find_first p (rows d') = Some r"
  using grows_rows [of d d'] by (auto simp: prefix_def find_first_append split: option.splits)

lemma upsert_settles:
  assumes "p row"
  shows "settles (upsert rows update clash p row) (upsert rows update clash p row')"
proof -
  have step: "grows d d' \<and> find_first p (rows d') = Some r" if "upsert rows update clash p row d = (Inr r, d')" for d r d'
  proof (cases "find_first p (rows d)")
    case None
    with that obtain t where t: "insert_row clash row (rows d) = Inr t" "r = row" "d' = update (\<lambda>_. t) d"
      by (auto simp: upsert_def split: sum.splits)
    then have "t = rows d @ [row]" by (auto simp: insert_row_def split: if_splits)
    with t None assms update_grows [of d t] show ?thesis by (simp add: rows_update find_first_append)
  next
    case (Some q)
    with that show ?thesis by (simp add: upsert_def grows_refl)
  qed
  show ?thesis
  proof (rule settlesI)
    fix d r d' assume u: "upsert rows update clash p row d = (Inr r, d')"
    show "grows d d'" using step [OF u] by simp
    fix d'' assume "grows d' d''"
    with step [OF u] grows_find have "find_first p (rows d'') = Some r" by blast
    then show "upsert rows update clash p row' d'' = (Inr r, d'')" by (simp add: upsert_def)
  qed
qed

end

interpretation users_table: table users users_update
  by unfold_locales (simp_all add: grows_def)

interpretation organizations_table: table organizations organizations_update
  by unfold_locales (simp_all add: grows_def)

interpretation members_table: table members members_update
  by unfold_locales (simp_all add: grows_def)

interpretation projects_table: table projects projects_update
  by unfold_locales (simp_all add: grows_def)

interpretation plans_table: table plans plans_update
  by unfold_locales (simp_all add: grows_def)

interpretation subscriptions_table: table subscriptions subscriptions_update
  by unfold_locales (simp_all add: grows_def)

interpretation apiKeys_table: table apiKeys apiKeys_update
  by unfold_locales (simp_all add: grows_def)

interpretation invitations_table: table invitations invitations_update
  by unfold_locales (simp_all add: grows_def)

interpretation featureFlags_table: table featureFlags featureFlags_update
  by unfold_locales (simp_all add: grows_def)

interpretation flagOverrides_table: table flagOverrides flagOverrides_update
  by unfold_locales (simp_all add: grows_def)

lemmas upserts_settle = users_table.upsert_settles organizations_table.upsert_settles members_table.upsert_settles
  projects_table.upsert_settles plans_table.upsert_settles subscriptions_table.upsert_settles
  apiKeys_table.upsert_settles invitations_table.upsert_settles featureFlags_table.upsert_settles
  flagOverrides_table.upsert_settles

lemma seed_audit_settles: "settles (seed_audit s owner m org pl) (seed_audit s' owner m org pl)"
proof (rule settlesI)
  fix d a d' assume "seed_audit s owner m org pl d = (Inr a, d')"
  then have d': "d' = d \<and> count_where seeded_entry (auditLogs d) \<noteq> 0
      \<or> d' = d\<lparr>auditLogs := auditLogs d @ seed_entries s owner m org pl\<rparr>"
    by (auto simp: seed_audit_def split: if_splits)
  then show "grows d d'" by (auto simp: grows_def)
  fix d'' assume g: "grows d' d''"
  have "count_where seeded_entry (auditLogs d') \<noteq> 0"
    using d' by (auto simp: count_where_def seed_entries_def seeded_entry_def seed_entry_def)
  moreover from g obtain ys where "auditLogs d'' = auditLogs d' @ ys" by (auto simp: grows_def prefix_def)
  ultimately show "seed_audit s' owner m org pl d'' = (Inr a, d'')"
    by (simp add: seed_audit_def count_where_def)
qed

lemma seed_plan_settles: "settles (seed_plan s pid n c de ce fe) (seed_plan s' pid n c de ce fe)"
  unfolding seed_plan_def by (rule plans_table.upsert_settles) simp

lemma upsertUserByEmail_settles:
  "u_email row = email \<Longrightarrow> u_deletedAt row = None \<Longrightarrow> settles (upsertUserByEmail email row) (upsertUserByEmail email row')"
  unfolding upsertUserByEmail_def by (rule users_table.upsert_settles) simp

lemma seed_org_settles: "settles (seed_org s owner) (seed_org s' owner)"
  unfolding seed_org_def by (rule organizations_table.upsert_settles) simp

lemma seed_member_settles: "settles (seed_member s org u r) (seed_member s' org u r)"
  unfolding seed_member_def by (rule members_table.upsert_settles) simp

lemma seed_project_settles: "settles (seed_project s org u n de) (seed_project s' org u n de)"
  unfolding seed_project_def by (rule projects_table.upsert_settles) simp

lemma seed_subscription_settles: "settles (seed_subscription s i c u pl) (seed_subscription s' i c u pl)"
  unfolding seed_subscription_def by (rule subscriptions_table.upsert_settles) simp

lemma seed_api_key_settles: "sd_env s' = sd_env s \<Longrightarrow> settles (seed_api_key s u) (seed_api_key s' u)"
  unfolding seed_api_key_def seed_hash_def by simp (rule apiKeys_table.upsert_settles, simp)

lemma seed_invitation_settles: "sd_env s' = sd_env s \<Longrightarrow> settles (seed_invitation s org u) (seed_invitation s' org u)"
  unfolding seed_invitation_def seed_hash_def Let_def by simp (rule invitations_table.upsert_settles, simp)

lemma seed_flag_settles: "settles (seed_flag s k n de t v) (seed_flag s' k n de t v)"
  unfolding seed_flag_def by (rule featureFlags_table.upsert_settles) simp

lemma seed_override_settles: "settles (seed_override s f org) (seed_override s' f org)"
  unfolding seed_override_def by (rule flagOverrides_table.upsert_settles) simp

lemmas settling = settles_finished settles_and_then settles_case seed_audit_settles seed_plan_settles upsertUserByEmail_settles seed_org_settles
  seed_member_settles seed_project_settles seed_subscription_settles seed_api_key_settles seed_invitation_settles
  seed_flag_settles seed_override_settles

lemma seed_users_settles: "sd_env s' = sd_env s \<Longrightarrow> settles (seed_users s) (seed_users s')"
  unfolding seed_users_def Let_def by (intro settling) (simp_all add: demo_account_def new_user_def)

lemma seed_settles: "sd_env s' = sd_env s \<Longrightarrow> settles (seed s) (seed s')"
  unfolding seed_def seed_plans_def seed_organization_def seed_projects_def seed_flags_def
  by (intro settling seed_users_settles)

text \<open>C29: Seeding is idempotent: after a run that succeeded, a second one, at another time, succeeds too and leaves
  the database, whatever it holds besides the demo data, exactly as it was.\<close>

theorem seed_idempotent:
  assumes "seed s d = (Inr (), d')" "sd_env s' = sd_env s"
  shows "seed s' d' = (Inr (), d')"
  by (rule settlesD(2) [OF seed_settles [OF assms(2)] assms(1) grows_refl])

definition demo_seeder :: seeder where
  "demo_seeder = \<lparr>sd_env = demo_env, sd_now = 0, sd_id = (\<lambda>s. s), sd_salt = ''s''\<rparr>"

lemma demo_seed_succeeds: "fst (seed demo_seeder empty_db) = Inr ()"
  by code_simp

theorem seed_idempotent_witness:
  "let d = snd (seed demo_seeder empty_db) in seed (demo_seeder\<lparr>sd_now := 5000\<rparr>) d = (Inr (), d)"
proof -
  have "seed demo_seeder empty_db = (Inr (), snd (seed demo_seeder empty_db))"
    using demo_seed_succeeds by (metis prod.collapse)
  from seed_idempotent [OF this, of "demo_seeder\<lparr>sd_now := 5000\<rparr>"] show ?thesis by (simp add: Let_def demo_seeder_def)
qed

section \<open>Ownership\<close>

text \<open>Steps that leave organizations, members and invitations alone.\<close>

definition apart :: "'a seeding \<Rightarrow> bool" where
  "apart m \<longleftrightarrow> (\<forall>d r d'. m d = (r, d') \<longrightarrow>
     organizations d' = organizations d \<and> members d' = members d \<and> invitations d' = invitations d)"

lemma apartD:
  assumes "apart m" "m d = (r, d')"
  shows "organizations d' = organizations d" "members d' = members d" "invitations d' = invitations d"
  using assms unfolding apart_def by blast+

lemma apart_finished: "apart (finished x)"
  by (simp add: apart_def finished_def)

lemma apart_and_then: "apart m \<Longrightarrow> (\<And>x. apart (k x)) \<Longrightarrow> apart (and_then m k)"
  unfolding apart_def and_then_def by (auto simp: await_def split: prod.splits sum.splits)

lemma apart_case: "(\<And>a b. apart (f a b)) \<Longrightarrow> apart (case_prod f x)"
  by (cases x) simp

lemma apart_upsert:
  assumes "\<And>t d. organizations (update (\<lambda>_. t) d) = organizations d" "\<And>t d. members (update (\<lambda>_. t) d) = members d"
    "\<And>t d. invitations (update (\<lambda>_. t) d) = invitations d"
  shows "apart (upsert rows update clash p row)"
  using assms by (auto simp: apart_def upsert_def split: option.splits sum.splits)

lemma apart_steps:
  "apart (seed_plan s pid n c de ce fe)" "apart (upsertUserByEmail email row)" "apart (seed_project s org u n de)"
  "apart (seed_subscription s i c u pl)" "apart (seed_api_key s u)" "apart (seed_flag s k n de t v)"
  "apart (seed_override s f org)" "apart (seed_audit s u m org pl)"
  unfolding seed_plan_def upsertUserByEmail_def seed_project_def seed_subscription_def seed_api_key_def
    seed_flag_def seed_override_def
  by (rule apart_upsert; simp; fail)+ (simp add: apart_def seed_audit_def)

lemmas aparts = apart_steps apart_finished apart_and_then apart_case

lemma apart_org_inv: "apart m \<Longrightarrow> m d = (r, d') \<Longrightarrow> org_inv d \<Longrightarrow> org_inv d'"
  using apartD org_inv_frame by blast

lemma and_then_InrE:
  assumes "and_then m k d = (Inr y, d')"
  obtains x d1 where "m d = (Inr x, d1)" "k x d1 = (Inr y, d')"
  using assms unfolding and_then_def by (rule await_InrE)

lemma upsert_InrE:
  assumes "upsert rows update clash p row d = (Inr r, d')"
  obtains (found) "find_first p (rows d) = Some r" "d' = d"
    | (created) "find_first p (rows d) = None" "r = row" "insert_row clash row (rows d) = Inr (rows d @ [row])"
        "d' = update (\<lambda>_. rows d @ [row]) d"
  using assms by (auto simp: upsert_def insert_row_def split: option.splits sum.splits if_splits)

lemma seed_member_inv:
  assumes "org_inv d" "seed_member s org u r d = (Inr m, d')" "r \<noteq> OWNER" "org_by_id (o_id org) d \<noteq> None"
  shows "org_inv d' \<and> organizations d' = organizations d"
  using assms(2) unfolding seed_member_def
proof (cases rule: upsert_InrE)
  case found
  with assms(1) show ?thesis by simp
next
  case created
  have "org_inv (d\<lparr>members := members d @ [m]\<rparr>)"
    by (rule insert_member_inv) (use created assms in \<open>simp_all add: membership_def\<close>)
  with created show ?thesis by simp
qed

lemma new_org_inv:
  assumes "org_inv d" "insert_row org_clash x (organizations d) = Inr (organizations d @ [x])"
    "insert_row member_clash m (members d) = Inr (members d @ [m])"
    "m_organizationId m = o_id x" "m_userId m = o_ownerId x" "m_role m = OWNER"
  shows "org_inv (d\<lparr>organizations := organizations d @ [x], members := members d @ [m]\<rparr>)"
proof -
  note inv = org_invD [OF assms(1)]
  let ?d1 = "d\<lparr>organizations := organizations d @ [x]\<rparr>"
  have none: "org_by_id (o_id x) d = None"
    using insert_row_InrD [OF assms(2)] by (auto simp: org_by_id_def find_first_None_iff org_clash_def)
  have "membership (o_id x) (o_ownerId x) d = None"
    using one_ownerD(3) [OF inv(1), of "o_id x" "o_ownerId x"] none
    by (cases "membership (o_id x) (o_ownerId x) d") (simp_all add: ab_role_org_abs ab_owner_org_abs)
  then have m0: "membership (m_organizationId m) (m_userId m) ?d1 = None"
    by (simp add: membership_def assms(4,5))
  have d2: "d\<lparr>organizations := organizations d @ [x], members := members d @ [m]\<rparr> = ?d1\<lparr>members := members ?d1 @ [m]\<rparr>"
    by simp
  have "org_abs (?d1\<lparr>members := members ?d1 @ [m]\<rparr>) =
    set_role (o_id x) (o_ownerId x) (Some OWNER) (set_owner (o_id x) (o_ownerId x) (org_abs d))"
    unfolding abs_insert_member [OF m0] abs_insert_org [OF none] by (simp add: assms(4-6))
  moreover have "ab_owner (org_abs d) (o_id x) = None"
    using none by (simp add: ab_owner_org_abs)
  ultimately have abs: "one_owner (org_abs (?d1\<lparr>members := members ?d1 @ [m]\<rparr>))"
    using one_owner_create [OF inv(1)] by simp
  show ?thesis
  proof (rule org_invI)
    show "one_owner (org_abs (d\<lparr>organizations := organizations d @ [x], members := members d @ [m]\<rparr>))"
      using abs by simp
    show "uniq member_clash (members (d\<lparr>organizations := organizations d @ [x], members := members d @ [m]\<rparr>))"
      using member_ix.insert_keeps [OF assms(3) inv(2)] by simp
    show "uniq org_clash (organizations (d\<lparr>organizations := organizations d @ [x], members := members d @ [m]\<rparr>))"
      using org_ix.insert_keeps [OF assms(2) inv(3)] by simp
    fix i assume "i \<in> set (invitations (d\<lparr>organizations := organizations d @ [x], members := members d @ [m]\<rparr>))"
    with inv(4,5) show "i_role i \<noteq> OWNER \<and> org_by_id (i_organizationId i) (d\<lparr>organizations := organizations d @ [x], members := members d @ [m]\<rparr>) \<noteq> None"
      by (simp add: org_by_id_def find_first_append split: option.splits)
  qed
qed

text \<open>The demo organization, if it is there, has the user as a member.\<close>

definition demo_org_joined :: "user \<Rightarrow> db \<Rightarrow> bool" where
  "demo_org_joined u d \<longleftrightarrow>
     (\<forall>x \<in> set (organizations d). o_slug x = ''demo-org'' \<longrightarrow> membership (o_id x) (u_id u) d \<noteq> None)"

lemma seed_organization_inv:
  assumes "org_inv d" "seed_organization s owner m1 m2 d = (Inr org, d')" "demo_org_joined owner d"
  shows "org_inv d' \<and> org_by_id (o_id org) d' \<noteq> None"
proof -
  obtain d1 d2 d3 a b c where steps: "seed_org s owner d = (Inr org, d1)" "seed_member s org owner OWNER d1 = (Inr a, d2)"
    "seed_member s org m1 ORG_ADMIN d2 = (Inr b, d3)" "seed_member s org m2 MEMBER d3 = (Inr c, d')"
    using assms(2) unfolding seed_organization_def
    by (elim and_then_InrE) (auto simp: finished_def)
  have d2: "org_inv d2 \<and> org_by_id (o_id org) d2 \<noteq> None"
    using steps(1) unfolding seed_org_def
  proof (cases rule: upsert_InrE)
    case found
    then have org: "org \<in> set (organizations d)" "o_slug org = ''demo-org''" by (auto dest: find_first_SomeD)
    with assms(3) obtain x where "membership (o_id org) (u_id owner) d = Some x" by (auto simp: demo_org_joined_def)
    with steps(2) found have "d2 = d"
      unfolding seed_member_def membership_def upsert_def by simp
    moreover have "org_by_id (o_id org) d \<noteq> None"
      using org(1) by (auto simp: org_by_id_def find_first_None_iff)
    ultimately show ?thesis using assms(1) by simp
  next
    case created
    from steps(2) have "d2 = d\<lparr>organizations := organizations d @ [org], members := members d @ [a]\<rparr>
        \<and> insert_row member_clash a (members d) = Inr (members d @ [a])
        \<and> m_organizationId a = o_id org \<and> m_userId a = u_id owner \<and> m_role a = OWNER
      \<or> d2 = d1 \<and> membership (o_id org) (u_id owner) d \<noteq> None"
      unfolding seed_member_def using created
      by (elim upsert_InrE) (auto simp: membership_def)
    moreover have "membership (o_id org) (u_id owner) d = None"
    proof -
      have "org_by_id (o_id org) d = None"
        using insert_row_InrD [OF created(3)] created(2) by (auto simp: org_by_id_def find_first_None_iff org_clash_def)
      with one_ownerD(3) [OF org_invD(1) [OF assms(1)], of "o_id org" "u_id owner"] show ?thesis
        by (cases "membership (o_id org) (u_id owner) d") (simp_all add: ab_role_org_abs ab_owner_org_abs)
    qed
    moreover have "o_ownerId org = u_id owner" "org_by_id (o_id org) (d\<lparr>organizations := organizations d @ [org], members := members d @ [a]\<rparr>) \<noteq> None"
      using created(2) by (auto simp: org_by_id_def find_first_append split: option.splits)
    ultimately show ?thesis
      using new_org_inv [OF assms(1), of org a] created(2,3) by auto
  qed
  then have 3: "org_inv d3 \<and> organizations d3 = organizations d2"
    using seed_member_inv [OF _ steps(3)] by simp
  with d2 have "org_by_id (o_id org) d3 \<noteq> None" by (simp add: org_by_id_def)
  with 3 seed_member_inv [OF _ steps(4)] show ?thesis by (simp add: org_by_id_def)
qed

lemma seed_invitation_inv:
  assumes "org_inv d" "seed_invitation s org u d = (Inr i, d')" "org_by_id (o_id org) d \<noteq> None"
  shows "org_inv d'"
  using assms(2) unfolding seed_invitation_def Let_def
proof (cases rule: upsert_InrE)
  case created
  note inv = org_invD [OF assms(1)]
  show ?thesis
  proof (rule org_invI)
    show "one_owner (org_abs d')" "uniq member_clash (members d')" "uniq org_clash (organizations d')"
      using inv(1-3) created(4) org_abs_same [of d' d] by simp_all
    fix j assume "j \<in> set (invitations d')"
    with inv(4,5) assms(3) created show "i_role j \<noteq> OWNER \<and> org_by_id (i_organizationId j) d' \<noteq> None"
      by (auto simp: org_by_id_def)
  qed
qed (use assms(1) in simp)

text \<open>The owner of the demo data is the live account of that address, if there is one.\<close>

lemma seed_users_owner:
  assumes "seed_users s d = (Inr (admin, owner, m1, m2), d')" "live_user_by_email ''owner@demo.com'' d = Some u"
  shows "owner = u"
proof -
  define a where "a = (demo_account s ''admin@demo.com'' ''Admin User'')
    \<lparr>u_password := Some (bcrypt_hash (sd_env s) (sd_salt s) 12 ''Password123''), u_role := ADMIN, u_lastLoginAt := Some (sd_now s)\<rparr>"
  have u: "u_email a = ''admin@demo.com''" "u_deletedAt a = None" by (simp_all add: a_def demo_account_def new_user_def)
  from assms(1) obtain k x d1 where 1: "upsertUserByEmail ''admin@demo.com'' a d = (Inr x, d1)"
    and r: "and_then (upsertUserByEmail ''owner@demo.com''
           ((demo_account s ''owner@demo.com'' ''Org Owner'')
              \<lparr>u_password := Some (bcrypt_hash (sd_env s) (sd_salt s) 12 ''Password123''), u_lastLoginAt := Some (sd_now s)\<rparr>)) (k x) d1
      = (Inr (admin, owner, m1, m2), d')"
    and k: "\<And>y e. k x y e = (Inr (admin, owner, m1, m2), d') \<Longrightarrow> y = owner"
    unfolding seed_users_def Let_def a_def [symmetric]
    by (elim and_then_InrE [where m = "upsertUserByEmail ''admin@demo.com'' a"])
      (rule that, assumption, assumption, (elim and_then_InrE, simp add: finished_def))
  from r obtain y d2 where 2: "\<exists>row. upsertUserByEmail ''owner@demo.com'' row d1 = (Inr y, d2)" "k x y d2 = (Inr (admin, owner, m1, m2), d')"
    by (rule and_then_InrE) blast
  from k [OF 2(2)] 2(1) have 2: "\<exists>row. upsertUserByEmail ''owner@demo.com'' row d1 = (Inr owner, d2)" by simp
  have "grows d d1" by (rule settlesD(1) [OF upsertUserByEmail_settles [OF u] 1])
  from users_table.grows_find [OF this assms(2) [unfolded live_user_by_email_def]]
  have "find_first (\<lambda>u. u_email u = ''owner@demo.com'' \<and> u_deletedAt u = None) (users d1) = Some u" by simp
  with 2 show ?thesis by (auto simp: upsertUserByEmail_def upsert_def)
qed

lemma apart_seed_users: "apart (seed_users s)" "apart (seed_plans s)" "apart (seed_projects s org u)" "apart (seed_flags s org)"
  unfolding seed_users_def seed_plans_def seed_projects_def seed_flags_def Let_def by (intro aparts)+

text \<open>C28: Seeding keeps the owners of organizations: if a demo organization that is already there has the demo owner
  as a member, every organization has its one owner after a run if it had before, the demo organization included.\<close>

theorem seed_keeps_ownership:
  assumes "org_inv d" "seed s d = (Inr (), d')"
    "\<And>x. x \<in> set (organizations d) \<Longrightarrow> o_slug x = ''demo-org'' \<Longrightarrow>
       \<exists>u. live_user_by_email ''owner@demo.com'' d = Some u \<and> membership (o_id x) (u_id u) d \<noteq> None"
  shows "org_inv d'"
proof -
  obtain pl ep d1 admin owner m1 m2 d2 org d3 where
    1: "seed_plans s d = (Inr (pl, ep), d1)" "seed_users s d1 = (Inr (admin, owner, m1, m2), d2)"
       "seed_organization s owner m1 m2 d2 = (Inr org, d3)"
    and rest: "and_then (seed_projects s org owner) (\<lambda>_.
     and_then (seed_subscription s ''sub_demo_owner'' ''cus_demo_owner'' owner pl) (\<lambda>_.
     and_then (seed_subscription s ''sub_demo_admin'' ''cus_demo_admin'' admin ep) (\<lambda>_.
     and_then (seed_api_key s owner) (\<lambda>_.
     and_then (seed_audit s owner m1 org pl) (\<lambda>_.
     and_then (seed_invitation s org owner) (\<lambda>_. seed_flags s org)))))) d3 = (Inr (), d')"
    using assms(2) unfolding seed_def
    by (auto elim!: and_then_InrE [where m = "seed_plans s"] and_then_InrE [where m = "seed_users s"]
        and_then_InrE [where m = "seed_organization s _ _ _"])
  note plans = apartD [OF apart_seed_users(2) 1(1)] and us = apartD [OF apart_seed_users(1) 1(2)]
  have "users d1 = users d"
    using 1(1) unfolding seed_plans_def seed_plan_def
    by (elim and_then_InrE) (auto simp: finished_def elim!: upsert_InrE)
  then have "live_user_by_email ''owner@demo.com'' d1 = live_user_by_email ''owner@demo.com'' d"
    by (simp add: live_user_by_email_def)
  with seed_users_owner [OF 1(2)] have owner: "live_user_by_email ''owner@demo.com'' d = Some u \<Longrightarrow> owner = u" for u by simp
  have joined: "demo_org_joined owner d2"
    unfolding demo_org_joined_def
  proof (intro ballI impI)
    fix x assume "x \<in> set (organizations d2)" "o_slug x = ''demo-org''"
    with assms(3) [of x] plans us owner show "membership (o_id x) (u_id owner) d2 \<noteq> None"
      by (auto simp: membership_def)
  qed
  have "org_inv d2"
    by (rule apart_org_inv [OF apart_seed_users(1) 1(2) apart_org_inv [OF apart_seed_users(2) 1(1) assms(1)]])
  from seed_organization_inv [OF this 1(3) joined] have 3: "org_inv d3" "org_by_id (o_id org) d3 \<noteq> None" by simp_all
  define m where "m = and_then (seed_projects s org owner) (\<lambda>_.
     and_then (seed_subscription s ''sub_demo_owner'' ''cus_demo_owner'' owner pl) (\<lambda>_.
     and_then (seed_subscription s ''sub_demo_admin'' ''cus_demo_admin'' admin ep) (\<lambda>_.
     and_then (seed_api_key s owner) (\<lambda>_. seed_audit s owner m1 org pl))))"
  have m: "apart m"
    unfolding m_def by (intro aparts apart_seed_users)
  have "and_then m (\<lambda>_. and_then (seed_invitation s org owner) (\<lambda>_. seed_flags s org)) d3 = (Inr (), d')"
    using rest unfolding m_def and_then_def by (auto simp: await_def split: prod.splits sum.splits)
  then obtain u d4 i d5 where 4: "m d3 = (Inr u, d4)" "seed_invitation s org owner d4 = (Inr i, d5)" "seed_flags s org d5 = (Inr (), d')"
    by (elim and_then_InrE)
  have "org_inv d4" by (rule apart_org_inv [OF m 4(1) 3(1)])
  moreover have "org_by_id (o_id org) d4 \<noteq> None" using apartD(1) [OF m 4(1)] 3(2) by (simp add: org_by_id_def)
  ultimately have "org_inv d5" using seed_invitation_inv 4(2) by blast
  then show ?thesis by (rule apart_org_inv [OF apart_seed_users(4) 4(3)])
qed

theorem seed_keeps_ownership_witness: "org_inv (snd (seed demo_seeder empty_db))"
proof -
  have s: "seed demo_seeder empty_db = (Inr (), snd (seed demo_seeder empty_db))"
    using demo_seed_succeeds by (metis prod.collapse)
  have "org_inv empty_db"
    by (simp add: org_inv_def one_owner_def org_abs_def org_by_id_def membership_def empty_db_def uniq_def)
  from seed_keeps_ownership [OF this s] show ?thesis by (simp add: empty_db_def)
qed

text \<open>Without that condition a run can leave two owners: the organization was transferred and its first owner left.\<close>

definition transferred_db :: db where
  "transferred_db =
     empty_db\<lparr>users := [demo_user ''u1'' ''owner@demo.com'', demo_user ''u2'' ''b@x''],
       organizations := [\<lparr>o_id = ''o1'', o_name = ''Demo Organization'', o_slug = ''demo-org'', o_ownerId = ''u2'',
         o_stripeCustomerId = None, o_deletedAt = None, o_createdAt = 0, o_updatedAt = 0\<rparr>],
       members := [\<lparr>m_id = ''m1'', m_organizationId = ''o1'', m_userId = ''u2'', m_role = OWNER, m_createdAt = 0, m_updatedAt = 0\<rparr>]\<rparr>"

lemma transferred_db_inv: "org_inv transferred_db"
  by (auto simp: org_inv_def one_owner_def org_abs_def org_by_id_def membership_def transferred_db_def empty_db_def
      uniq_def split: if_splits)

lemma seed_second_owner:
  "fst (seed demo_seeder transferred_db) = Inr () \<and> \<not> org_inv (snd (seed demo_seeder transferred_db))"
proof -
  let ?d = "snd (seed demo_seeder transferred_db)"
  have "fst (seed demo_seeder transferred_db) = Inr ()
      \<and> map_option m_role (membership ''o1'' ''u1'' ?d) = Some OWNER \<and> map_option o_ownerId (org_by_id ''o1'' ?d) = Some ''u2''"
    by code_simp
  then show ?thesis
    using one_ownerD(2) [of "org_abs ?d" "''o1''" "''u1''"] org_invD(1) [of ?d]
    by (auto simp: ab_role_org_abs ab_owner_org_abs)
qed

text \<open>The scopes of the demo key are none the integration routes ask for: it is refused everywhere.\<close>

lemma demo_key_refused:
  assumes "seed_api_key s owner d = (Inr k, d')" "find_first (\<lambda>k. k_keyHash k = seed_hash s demoKey) (apiKeys d) = None"
  shows "\<exists>e. requireScope [''projects:read''] (Some (k_id k, k_scopes k)) = Inl e"
proof -
  have "k_scopes k = [''read'', ''write'']"
    using assms unfolding seed_api_key_def by (auto elim!: upsert_InrE)
  then show ?thesis by (simp add: requireScope_def)
qed

end
