(* ===== verification/Recovery.thy ===== *)
theory Recovery
  imports Account
begin

text \<open>
  An account whose password is lost comes back: the three steps of the recovery of \<open>auth.service.js\<close>,
  \<open>forgotPassword\<close>, \<open>resetPassword\<close> and \<open>login\<close>, one after the other.
\<close>

definition request_reset :: "env \<Rightarrow> int \<Rightarrow> fresh \<Rightarrow> user \<Rightarrow> user" where
  "request_reset E now fr u =
     u\<lparr>u_passwordResetToken := Some (hashToken E (fr_token fr)),
       u_passwordResetExpires := Some (now + RESET_TOKEN_TTL_MS), u_updatedAt := now\<rparr>"

lemma forgotPassword_InrD:
  assumes "forgotPassword E now cl fr email d = (Inr m, d1)" "live_user_by_email (normalizeEmail email) d = Some u"
  shows "users d1 = update_where (\<lambda>x. u_id x = u_id u) (request_reset E now fr) (users d)" "uniq user_clash (users d1)"
proof -
  from assms obtain d0 where "update_user_unique now (u_id u)
       (\<lambda>u. u\<lparr>u_passwordResetToken := Some (hashToken E (fr_token fr)), u_passwordResetExpires := Some (now + RESET_TOKEN_TTL_MS)\<rparr>) d = Inr d0"
    and "users d1 = users d0"
    by (auto simp: forgotPassword_def Let_def queuePasswordResetEmail_def split: sum.splits elim!: await_InrE dest!: enqueueEmailD)
  then show "users d1 = update_where (\<lambda>x. u_id x = u_id u) (request_reset E now fr) (users d)" "uniq user_clash (users d1)"
    by (auto simp: update_user_unique_def request_reset_def [abs_def] split: sum.splits dest!: update_row_InrD)
qed

lemma find_by_reset_token:
  assumes "uniq user_clash us" "v \<in> set us" "u_passwordResetToken v = Some h" "u_deletedAt v = None"
  shows "find_first (\<lambda>u. u_passwordResetToken u = Some h \<and> u_deletedAt u = None) us = Some v"
proof -
  obtain w where w: "find_first (\<lambda>u. u_passwordResetToken u = Some h \<and> u_deletedAt u = None) us = Some w"
    using assms(2-4) by (cases "find_first (\<lambda>u. u_passwordResetToken u = Some h \<and> u_deletedAt u = None) us")
      (auto simp: find_first_None_iff)
  note D = find_first_SomeD [OF w]
  have "user_clash w v" using D assms(3) by (simp add: user_clash_def)
  then have "w = v" using user_ix.members_apart [OF assms(1) D(1) assms(2)] by blast
  with w show ?thesis by simp
qed

text \<open>C19: Who asked for a reset and presents the mailed token within the hour has the account back: the reset
  goes through, and once a lock that may lie on the account has run out, the new password is accepted.\<close>

theorem recovery_succeeds:
  assumes bcrypt: "\<And>salt n p. bcrypt_compare E p (bcrypt_hash E salt n p)" "\<And>salt n p. bcrypt_hash E salt n p \<noteq> []"
    and u: "live_user_by_email (normalizeEmail email) d = Some u"
    and asked: "forgotPassword E now cl fr email d = (Inr m, d1)"
    and hour: "now' \<le> now + RESET_TOKEN_TTL_MS"
    and unlocked: "\<not> after (u_lockedUntil u) now''"
  shows "\<exists>d2 u2. resetPassword E now' fr' (fr_token fr) newPassword d1 = (Inr ''messages.passwordResetSuccess'', d2)
     \<and> credentials_ok E now'' email newPassword d2 = Some u2 \<and> u_id u2 = u_id u
     \<and> fst (login E now'' cl'' fr'' email newPassword d2) \<noteq> Inl (httpError ''errors.invalidCredentials'' 401)"
proof -
  let ?e = "normalizeEmail email"
  let ?f = "\<lambda>x. clear_reset (set_password E (fr_salt fr') newPassword x)"
  let ?v = "request_reset E now fr u"
  note F = forgotPassword_InrD [OF asked u]
  have v: "?v \<in> set (users d1)" "u_id ?v = u_id u"
    using live_user_by_emailD(1) [OF u] unfolding F(1) set_update_where by (auto simp: request_reset_def)
  have found: "find_first (\<lambda>x. u_passwordResetToken x = Some (hashToken E (fr_token fr)) \<and> u_deletedAt x = None) (users d1) = Some ?v"
    by (rule find_by_reset_token [OF F(2) v(1)])
      (use live_user_by_emailD(3) [OF u] in \<open>simp_all add: request_reset_def\<close>)
  define d2 where "d2 = revokeAllRefreshTokens now' (u_id u) (update_user now' (u_id u) ?f d1)"
  have reset: "resetPassword E now' fr' (fr_token fr) newPassword d1 = (Inr ''messages.passwordResetSuccess'', d2)"
    using found hour v(2) by (simp add: resetPassword_def d2_def) (simp add: request_reset_def)
  have "live_user_by_email ?e d1 = Some ?v"
    using u unfolding live_user_by_email_def F(1)
    by (subst find_first_update_where) (simp_all add: request_reset_def)
  then have l: "live_user_by_email ?e d2 = Some ((?f ?v)\<lparr>u_updatedAt := now'\<rparr>)"
    unfolding d2_def
    by (simp add: revokeAllRefreshTokens_def live_user_by_email_update clear_reset_def set_password_def bump_version_def v(2))
  let ?u2 = "(?f ?v)\<lparr>u_updatedAt := now'\<rparr>"
  have ok: "credentials_ok E now'' email newPassword d2 = Some ?u2"
    using l bcrypt unlocked
    by (simp add: credentials_ok_def clear_reset_def set_password_def bump_version_def request_reset_def
        comparePassword_def hashPassword_def)
  have "fst (login E now'' cl'' fr'' email newPassword d2) \<noteq> Inl (httpError ''errors.invalidCredentials'' 401)"
    by (rule login_cases [of E now'' email newPassword d2 cl'' fr'']) (use ok login_allowed_not_401 in auto)
  with reset ok show ?thesis
    by (intro exI [of _ d2] exI [of _ ?u2]) (simp add: clear_reset_def set_password_def bump_version_def request_reset_def)
qed

theorem recovery_succeeds_witness:
  "\<exists>d2 u2. resetPassword demo_env 60 (demo_fresh ''s'') ''t'' ''new''
       (snd (forgotPassword demo_env 50 demo_client (demo_fresh ''t'') ''a@x'' demo_db)) = (Inr ''messages.passwordResetSuccess'', d2)
     \<and> credentials_ok demo_env 70 ''a@x'' ''new'' d2 = Some u2 \<and> u_id u2 = ''u1''"
proof -
  have u: "live_user_by_email (normalizeEmail ''a@x'') demo_db = Some (demo_user ''u1'' ''a@x'')" by code_simp
  have "fst (forgotPassword demo_env 50 demo_client (demo_fresh ''t'') ''a@x'' demo_db)
      = Inr (''messages.passwordResetTokenSent'', Some ''t'')"
    by code_simp
  then obtain m where m: "forgotPassword demo_env 50 demo_client (demo_fresh ''t'') ''a@x'' demo_db
      = (Inr m, snd (forgotPassword demo_env 50 demo_client (demo_fresh ''t'') ''a@x'' demo_db))" by (metis prod.collapse)
  have b: "bcrypt_compare demo_env p (bcrypt_hash demo_env salt n p)" "bcrypt_hash demo_env salt n p \<noteq> []" for salt n p
    by (simp_all add: demo_env_def)
  from recovery_succeeds [OF b u m, of 60 70 "demo_fresh ''s''" "''new''" demo_client "demo_fresh ''r''"] show ?thesis
    by (force simp: RESET_TOKEN_TTL_MS_def demo_user_def demo_fresh_def)
qed

end
