(* ===== verification/Races.thy ===== *)
theory Races
  imports TwoFactor
begin

text \<open>
  Requests that run at the same time.  A request of \<open>verifyChallenge\<close> or \<open>refresh\<close> first reads and checks,
  then writes; between the two parts of one request the database may serve any part of another.  Each operation is cut
  into its two parts, the parts in sequence are the operation, and what holds of them in any order is shown: a
  challenge opens one session; but a refresh token may be exchanged twice, and guesses begun together are not
  capped.
\<close>

section \<open>The two parts of a login challenge\<close>

text \<open>What the reading part hands to the writing one: the rows it saw, and what the code matched.\<close>

record attempt =
  at_stored :: two_factor_challenge
  at_user :: user
  at_totp :: "int option"
  at_backup :: "string option"

definition read_challenge ::
  "env \<Rightarrow> int \<Rightarrow> string \<Rightarrow> string \<Rightarrow> db \<Rightarrow> (api_error \<times> db) + attempt" where
  "read_challenge E now challengeToken code d =
     (case find_first (\<lambda>c. ch_token c = hashToken E challengeToken) (twoFactorChallenges d) of
        None \<Rightarrow> Inl (httpError ''errors.invalidOrExpiredChallenge'' 401, d)
      | Some stored \<Rightarrow>
          if ch_used stored then Inl (httpError ''errors.challengeAlreadyUsed'' 401, d)
          else if ch_attempts stored \<ge> MAX_CHALLENGE_ATTEMPTS
          then Inl (httpError ''errors.tooManyVerificationAttempts'' 401, d)
          else if ch_expiresAt stored < now
          then Inl (httpError ''errors.challengeExpired'' 401,
                    d\<lparr>twoFactorChallenges := delete_where (\<lambda>c. ch_id c = ch_id stored) (twoFactorChallenges d)\<rparr>)
          else
            (case user_by_id (ch_userId stored) d of
               None \<Rightarrow> Inl (OtherError ''Inconsistent query result: user is required'', d)
             | Some user \<Rightarrow>
                 if u_deletedAt user \<noteq> None then Inl (httpError ''errors.invalidOrExpiredChallenge'' 401, d)
                 else if u_banned user then Inl (httpError ''errors.accountBanned'' 403, d)
                 else if after (u_suspendedUntil user) now then Inl (accountSuspended (u_suspendedUntil user), d)
                 else
                   (let totp = totp_check E now code (u_twoFactorSecret user) (u_lastTotpTimeStep user)
                    in Inr \<lparr>at_stored = stored, at_user = user, at_totp = totp,
                            at_backup = (if totp \<noteq> None then None else matched_backup E code user)\<rparr>)))"

definition write_challenge ::
  "env \<Rightarrow> int \<Rightarrow> client \<Rightarrow> fresh \<Rightarrow> attempt \<Rightarrow> db \<Rightarrow> login_success result \<times> db" where
  "write_challenge E now cl fr a d =
     (if at_totp a = None \<and> at_backup a = None then challenge_failed (at_stored a) d
      else challenge_claim E now cl fr (at_stored a) (at_user a) (at_totp a) (at_backup a) d)"

lemma verifyChallenge_parts:
  "verifyChallenge E now cl fr c code d =
     (case read_challenge E now c code d of
        Inl (e, d') \<Rightarrow> (Inl e, d')
      | Inr a \<Rightarrow> write_challenge E now cl fr a d)"
  by (auto simp: verifyChallenge_def read_challenge_def write_challenge_def matched_backup_def Let_def
      split: option.split)

section \<open>A challenge opens one session, whatever runs beside it\<close>

text \<open>The writing parts of requests in some order, with the challenge each had read.\<close>

type_synonym pending = "int \<times> client \<times> fresh \<times> attempt"

fun write_all :: "env \<Rightarrow> pending list \<Rightarrow> db \<Rightarrow> (string \<times> login_success result) list" where
  "write_all E [] d = []"
| "write_all E ((now, cl, fr, a) # ps) d =
     (let z = write_challenge E now cl fr a d in (ch_id (at_stored a), fst z) # write_all E ps (snd z))"

text \<open>The challenge is spent: no row of it is unused.\<close>

definition spent :: "string \<Rightarrow> db \<Rightarrow> bool" where
  "spent cid d \<longleftrightarrow> (\<forall>c \<in> set (twoFactorChallenges d). ch_id c = cid \<longrightarrow> ch_used c)"

lemma challenge_claim_challenges:
  "twoFactorChallenges (snd (challenge_claim E now cl fr stored user step backup d)) =
     update_where (\<lambda>c. ch_id c = ch_id stored \<and> \<not> ch_used c) (\<lambda>c. c\<lparr>ch_used := True\<rparr>) (twoFactorChallenges d)"
  by (simp add: challenge_claim_def Let_def update_challenge_def update_user_def createRefreshTokenRecord_def
      split: option.split sum.split)

lemma write_challenge_claims:
  "\<not> (at_totp a = None \<and> at_backup a = None) \<Longrightarrow>
   write_challenge E now cl fr a d = challenge_claim E now cl fr (at_stored a) (at_user a) (at_totp a) (at_backup a) d"
  unfolding write_challenge_def by (simp only: if_False)

lemma write_challenge_challenges:
  "\<exists>f. twoFactorChallenges (snd (write_challenge E now cl fr a d)) = map f (twoFactorChallenges d)
     \<and> (\<forall>c. ch_id (f c) = ch_id c \<and> (ch_used c \<longrightarrow> ch_used (f c)))"
proof (cases "at_totp a = None \<and> at_backup a = None")
  case True
  then show ?thesis
    by (intro exI [of _ "\<lambda>c. if ch_id c = ch_id (at_stored a) then c\<lparr>ch_attempts := ch_attempts c + 1\<rparr> else c"])
      (simp add: write_challenge_def challenge_failed_snd update_challenge_def update_where_def)
next
  case False
  then show ?thesis
    by (intro exI [of _ "\<lambda>c. if ch_id c = ch_id (at_stored a) \<and> \<not> ch_used c then c\<lparr>ch_used := True\<rparr> else c"])
      (simp add: write_challenge_claims [OF False] challenge_claim_challenges update_where_def)
qed

lemma write_keeps_spent: "spent cid d \<Longrightarrow> spent cid (snd (write_challenge E now cl fr a d))"
  using write_challenge_challenges [of E now cl fr a d] by (auto simp: spent_def)

lemma write_spent:
  assumes "spent (ch_id (at_stored a)) d"
  shows "\<not> is_ok (fst (write_challenge E now cl fr a d))"
proof (cases "at_totp a = None \<and> at_backup a = None")
  case True
  then show ?thesis by (simp add: write_challenge_def challenge_failed_def Let_def)
next
  case False
  have "count_where (\<lambda>c. ch_id c = ch_id (at_stored a) \<and> \<not> ch_used c) (twoFactorChallenges d) = 0"
    using assms by (auto simp: count_where_def spent_def filter_empty_conv)
  then show ?thesis by (simp add: write_challenge_claims [OF False] challenge_claim_def Let_def)
qed

lemma write_spends:
  assumes "is_ok (fst (write_challenge E now cl fr a d))"
  shows "spent (ch_id (at_stored a)) (snd (write_challenge E now cl fr a d))"
proof -
  have some: "\<not> (at_totp a = None \<and> at_backup a = None)"
  proof
    assume "at_totp a = None \<and> at_backup a = None"
    with assms show False by (simp add: write_challenge_def challenge_failed_def Let_def split: if_splits)
  qed
  have "twoFactorChallenges (snd (write_challenge E now cl fr a d)) =
      update_where (\<lambda>c. ch_id c = ch_id (at_stored a) \<and> \<not> ch_used c) (\<lambda>c. c\<lparr>ch_used := True\<rparr>) (twoFactorChallenges d)"
    by (simp only: write_challenge_claims [OF some] challenge_claim_challenges)
  then show ?thesis by (auto simp: spent_def update_where_def)
qed

lemma spent_opens_none:
  "spent cid d \<Longrightarrow> filter (\<lambda>(i, r). i = cid \<and> is_ok r) (write_all E ps d) = []"
proof (induction ps arbitrary: d)
  case (Cons p ps)
  obtain now cl fr a where p: "p = (now, cl, fr, a)" by (cases p)
  show ?case
    using Cons.IH [OF write_keeps_spent [OF Cons.prems]] write_spent [of a d E now cl fr] Cons.prems
    by (auto simp: p Let_def)
qed simp

text \<open>C13: However many requests for one login challenge run at the same time, whatever state of the database each of
  them has read and whatever codes they carry, at most one of them opens a session.\<close>

theorem challenge_race_one_session:
  "length (filter (\<lambda>(i, r). i = cid \<and> is_ok r) (write_all E ps d)) \<le> 1"
proof (induction ps arbitrary: d)
  case (Cons p ps)
  obtain now cl fr a where p: "p = (now, cl, fr, a)" by (cases p)
  let ?z = "write_challenge E now cl fr a d"
  show ?case
  proof (cases "ch_id (at_stored a) = cid \<and> is_ok (fst ?z)")
    case True
    then have "spent cid (snd ?z)" using write_spends by blast
    with True spent_opens_none [OF this, of E ps] show ?thesis by (simp add: p Let_def)
  next
    case False
    have "length (filter (\<lambda>(i, r). i = cid \<and> is_ok r) (write_all E ps (snd ?z))) \<le> 1" by (rule Cons.IH)
    with False show ?thesis by (auto simp: p Let_def)
  qed
qed simp

section \<open>Guesses begun together are not capped\<close>

text \<open>A right code is accepted after any number of wrong ones if its request had read the challenge before: the claim
  does not look at the attempts.\<close>

fun failures :: "nat \<Rightarrow> two_factor_challenge \<Rightarrow> db \<Rightarrow> db" where
  "failures 0 stored d = d"
| "failures (Suc n) stored d = failures n stored (snd (challenge_failed stored d :: unit result \<times> db))"

lemma challenge_cap_race:
  "fst (write_challenge demo_env 5 demo_client (demo_fresh ''z'')
     (projr (read_challenge demo_env 5 ''ct'' ''sec'' demo_2fa))
     (failures 9 (at_stored (projr (read_challenge demo_env 5 ''ct'' ''sec'' demo_2fa))) demo_2fa)) \<noteq> Inl e
   \<and> fst (verifyChallenge demo_env 5 demo_client (demo_fresh ''z'') ''ct'' ''sec''
     (failures 9 (at_stored (projr (read_challenge demo_env 5 ''ct'' ''sec'' demo_2fa))) demo_2fa))
     = Inl (httpError ''errors.tooManyVerificationAttempts'' 401)"
proof -
  have "is_ok (fst (write_challenge demo_env 5 demo_client (demo_fresh ''z'')
     (projr (read_challenge demo_env 5 ''ct'' ''sec'' demo_2fa))
     (failures 9 (at_stored (projr (read_challenge demo_env 5 ''ct'' ''sec'' demo_2fa))) demo_2fa)))"
    by code_simp
  moreover have "fst (verifyChallenge demo_env 5 demo_client (demo_fresh ''z'') ''ct'' ''sec''
     (failures 9 (at_stored (projr (read_challenge demo_env 5 ''ct'' ''sec'' demo_2fa))) demo_2fa))
     = Inl (httpError ''errors.tooManyVerificationAttempts'' 401)"
    by code_simp
  ultimately show ?thesis by auto
qed

section \<open>One backup code, two challenges\<close>

text \<open>The challenge is guarded against a second claim, the backup code is not: two requests that carry one backup code
  for two challenges of one account, and that both read the account first, both open a session.\<close>

definition demo_two_challenges :: db where
  "demo_two_challenges = demo_2fa\<lparr>twoFactorChallenges := twoFactorChallenges demo_2fa @
     [\<lparr>ch_id = ''c2'', ch_token = ''#ct2'', ch_userId = ''u1'', ch_expiresAt = 100,
       ch_used = False, ch_attempts = 0, ch_createdAt = 0\<rparr>]\<rparr>"

definition demo_pending :: "string \<Rightarrow> string \<Rightarrow> pending" where
  "demo_pending c z = (5, demo_client, demo_fresh z, projr (read_challenge demo_env 5 c ''2bk'' demo_two_challenges))"

lemma backup_code_race:
  "map (\<lambda>(i, r). (i, is_ok r)) (write_all demo_env [demo_pending ''ct'' ''z1'', demo_pending ''ct2'' ''z2'']
     demo_two_challenges) = [(''c1'', True), (''c2'', True)]"
  by code_simp

section \<open>The two parts of a refresh\<close>

definition read_refresh :: "env \<Rightarrow> int \<Rightarrow> string \<Rightarrow> db \<Rightarrow> (api_error \<times> db) + (refresh_token \<times> user)" where
  "read_refresh E now refreshToken d =
     (if verifyRefreshToken E now refreshToken = None
      then Inl (httpError ''errors.invalidOrExpiredRefreshToken'' 401, d)
      else
        (case find_first (\<lambda>t. rt_token t = hashToken E refreshToken) (refreshTokens d) of
           None \<Rightarrow> Inl (httpError ''errors.invalidRefreshToken'' 401, d)
         | Some stored \<Rightarrow>
             (case user_by_id (rt_userId stored) d of
                None \<Rightarrow> Inl (OtherError ''Inconsistent query result: user is required'', d)
              | Some user \<Rightarrow>
                  if rt_revoked stored
                  then Inl (httpError ''errors.invalidRefreshToken'' 401, kill_family now (rt_userId stored) d)
                  else if rt_expiresAt stored < now
                  then Inl (httpError ''errors.invalidRefreshToken'' 401,
                            revoke_tokens now (\<lambda>t. rt_id t = rt_id stored) d)
                  else if u_deletedAt user \<noteq> None then Inl (httpError ''errors.invalidRefreshToken'' 401, d)
                  else if u_banned user then Inl (httpError ''errors.accountBanned'' 403, d)
                  else if after (u_suspendedUntil user) now then Inl (accountSuspended (u_suspendedUntil user), d)
                  else Inr (stored, user))))"

definition rotate ::
  "env \<Rightarrow> int \<Rightarrow> client \<Rightarrow> fresh \<Rightarrow> refresh_token \<times> user \<Rightarrow> db \<Rightarrow> (string \<times> string) result \<times> db" where
  "rotate E now cl fr p d =
     (case p of (stored, user) \<Rightarrow>
        await (createRefreshTokenRecord E now cl fr (u_id user) (revoke_tokens now (\<lambda>t. rt_id t = rt_id stored) d))
          (\<lambda>newRefreshToken d2. (Inr (accessTokenFor E now user, newRefreshToken), d2)))"

lemma refresh_parts:
  "refresh E now cl fr token d =
     (case read_refresh E now token d of
        Inl (e, d') \<Rightarrow> (Inl e, d')
      | Inr p \<Rightarrow> rotate E now cl fr p d)"
  by (simp add: refresh_def read_refresh_def rotate_def split: option.split)

text \<open>Two refreshes with one token that both read it before either revoked it: both succeed, and both new tokens live;
  the reuse is not noticed.\<close>

lemma read_refresh_InrD:
  assumes "read_refresh E now token d = Inr p"
  shows "find_first (\<lambda>t. rt_token t = hashToken E token) (refreshTokens d) = Some (fst p)"
  using assms by (auto simp: read_refresh_def split: option.splits if_splits)

lemma rotate_InrD:
  assumes "rotate E now cl fr p d = (Inr (t, r), d')"
  obtains row where "refreshTokens d' =
      update_where (\<lambda>x. rt_id x = rt_id (fst p)) (\<lambda>x. x\<lparr>rt_revoked := True, rt_updatedAt := now\<rparr>) (refreshTokens d) @ [row]"
    and "rt_token row = hashToken E r" "rt_userId row = u_id (snd p)" "\<not> rt_revoked row"
    and "\<And>x. x \<in> set (refreshTokens d) \<Longrightarrow> rt_id row \<noteq> rt_id x"
proof -
  obtain stored user where p: "p = (stored, user)" by (cases p)
  let ?g = "\<lambda>x. x\<lparr>rt_revoked := True, rt_updatedAt := now\<rparr>"
  obtain row where row: "refreshTokens d' = update_where (\<lambda>x. rt_id x = rt_id stored) ?g (refreshTokens d) @ [row]"
      "rt_token row = hashToken E r" "rt_userId row = u_id user" "\<not> rt_revoked row"
    and new: "\<forall>x \<in> set (update_where (\<lambda>x. rt_id x = rt_id stored) ?g (refreshTokens d)). \<not> token_clash x row"
    using assms unfolding p rotate_def createRefreshTokenRecord_def Let_def revoke_tokens_def
    by (simp split: sum.splits) (auto dest!: insert_row_InrD)
  have "rt_id row \<noteq> rt_id x" if "x \<in> set (refreshTokens d)" for x
  proof -
    have "(if rt_id x = rt_id stored then ?g x else x) \<in> set (update_where (\<lambda>x. rt_id x = rt_id stored) ?g (refreshTokens d))"
      using that by (auto simp only: update_where_def set_map)
    with new have "\<not> token_clash (if rt_id x = rt_id stored then ?g x else x) row" by blast
    then show ?thesis by (auto simp: token_clash_def split: if_splits)
  qed
  with row show thesis by (intro that [of row]) (simp_all add: p)
qed

lemma refresh_race:
  assumes "read_refresh E now token d = Inr p"
    and "rotate E now1 cl1 fr1 p d = (Inr (t1, r1), d1)" "rotate E now2 cl2 fr2 p d1 = (Inr (t2, r2), d2)"
  shows "\<exists>x y. {x, y} \<subseteq> set (refreshTokens d2) \<and> rt_id x \<noteq> rt_id y
     \<and> rt_token x = hashToken E r1 \<and> rt_userId x = u_id (snd p) \<and> \<not> rt_revoked x
     \<and> rt_token y = hashToken E r2 \<and> rt_userId y = u_id (snd p) \<and> \<not> rt_revoked y"
proof -
  obtain x where x: "x \<in> set (refreshTokens d1)" "rt_token x = hashToken E r1" "rt_userId x = u_id (snd p)"
      "\<not> rt_revoked x" "\<And>z. z \<in> set (refreshTokens d) \<Longrightarrow> rt_id x \<noteq> rt_id z"
    using assms(2) by (elim rotate_InrD) auto
  have other: "rt_id x \<noteq> rt_id (fst p)"
    using x(5) find_first_SomeD [OF read_refresh_InrD [OF assms(1)]] by blast
  obtain y where y: "refreshTokens d2 = update_where (\<lambda>x. rt_id x = rt_id (fst p))
        (\<lambda>x. x\<lparr>rt_revoked := True, rt_updatedAt := now2\<rparr>) (refreshTokens d1) @ [y]"
      "rt_token y = hashToken E r2" "rt_userId y = u_id (snd p)" "\<not> rt_revoked y"
      "\<And>z. z \<in> set (refreshTokens d1) \<Longrightarrow> rt_id y \<noteq> rt_id z"
    using assms(3) by (elim rotate_InrD) blast
  have "x \<in> set (refreshTokens d2)" using x(1) other by (force simp: y(1) update_where_def)
  moreover have "y \<in> set (refreshTokens d2)" by (simp add: y(1))
  moreover have "rt_id x \<noteq> rt_id y" using y(5) [OF x(1)] by simp
  ultimately show ?thesis using x y by (intro exI [of _ x] exI [of _ y]) simp
qed

end
