(* ===== verification/Spec2Isabelle.thy ===== *)
theory Spec2Isabelle
  imports OrgInvariant AdminProps Billing Account GoogleLogin TwoFactor ApiKeys Projects Notifications
    Jobs Responses Emails Boot ApiAudit Documentation GatewayProps Processes Seed Recovery Races
begin

text \<open>
  A model of the back end of a multi-tenant web application and of what makes it correct.  The sources
  are the JavaScript under \<open>src/\<close> and \<open>prisma/\<close> of the repository; a constant has the name of the
  function or object it models wherever Isabelle allows it.

  \<^bold>\<open>The program.\<close>  One process, the server (\<open>src/server.js\<close>), answers HTTP requests.  A request passes the
  layers of \<open>src/app.js\<close> (identifier, origins, body, sanitizing, language, rate limits), is dispatched by a
  router of \<open>src/modules/*/*.router.js\<close> to a chain of guards (\<open>src/middleware\<close>) and a request schema
  (\<open>*.schema.js\<close>), and reaches a controller, which calls one service, writes an audit entry and answers.
  Services read and write a PostgreSQL database through Prisma, and put mails into a queue in Redis.  A second
  process, the worker (\<open>src/worker.js\<close>), takes the mails and the clean-up jobs from the queues.

  \<^bold>\<open>How it is modelled.\<close>  The database is one record, \<open>db\<close>, of tables; a table is the list of its rows, a row
  a record with the columns of \<open>prisma/schema.prisma\<close>, a unique index a relation between rows that clash.  A
  service is a function from the database to a result and a database: an error is a value (\<open>api_error\<close>), and
  the database beside it holds what was written before the throw.  The clock, the random values and identifiers of
  a request are arguments.  A request of any router is a value of a data type, and \<open>Api.api\<close> runs it.  What
  happens in sequences of requests is stated on lists of requests or on the reachable states of a step relation.

  \<^bold>\<open>Parameters.\<close>  What the code calls and does not contain is an argument of the model, in records: \<open>env\<close>
  (bcrypt, SHA-256, HMAC, AES-GCM, JWT, TOTP, Google's token exchange, the environment variables, which jobs the
  queue takes (\<open>queue_add\<close>), which rows of the audit log the database takes (\<open>audit_insert\<close>: that insert is not
  awaited and its failure is swallowed), and the order and the case-insensitive match of the database (\<open>pg\<close>)),
  \<open>stripe_api\<close> (its check of a signature reads the clock), \<open>mailer\<close>, \<open>world\<close> (Express's parsers of bodies, the library of origins, the store of
  the rate limiters, the database's liveness).  Zod's built-in checks and its \<open>toJSONSchema\<close> are parameters of the
  definitions that use them.  A theorem that needs more
  of a package than its type names what it needs: that bcrypt accepts what it hashed, that decryption undoes
  encryption, that the store counts every hit.  Strings are lists of characters of codes below 256: JavaScript's
  case folding and white space are right on that range.  Numbers in JSON are rationals.  No definition has fuel:
  every recursion is structural or has its measure.

  \<^bold>\<open>The theories\<close>, from the bottom up.

  \<^item> \<open>Prelude\<close>: results, \<open>await\<close>, the Prisma operations on a table, and two interfaces: the locale
    \<open>unique_index\<close> (what a unique index promises; interpreted in \<open>Schema\<close> on each of the fifteen indexes) and
    \<open>step_system\<close> (an invariant of the reachable states; interpreted on the routes of organizations, of the
    administration, and of the whole server).
  \<^item> \<open>JsText\<close>, \<open>JsNumber\<close>, \<open>JsJson\<close>, \<open>JsRegex\<close>: what the code uses of JavaScript: strings, numbers in
    text, JSON values, replacement by a regular expression.
  \<^item> \<open>Schema\<close>, \<open>Runtime\<close>, \<open>Users\<close>, \<open>Samples\<close>: the data model; packages, tokens, hashes, the e-mail
    producer (\<open>utils/jwt.js\<close>, \<open>utils/hash.js\<close>, \<open>jobs/email.producer.js\<close>); facts on the table of users;
    concrete data for the witnesses.
  \<^item> \<open>SecretCrypto\<close>, \<open>OauthState\<close>, \<open>Query\<close>: \<open>utils/secretCrypto.js\<close>, \<open>utils/oauthState.js\<close>,
    \<open>utils/query.js\<close>.
  \<^item> \<open>Guards\<close>: \<open>middleware/auth\<close>, \<open>tenant\<close> and \<open>subscription\<close>.
  \<^item> \<open>AuthTokens\<close>, \<open>Login\<close>, \<open>Sessions\<close>, \<open>Account\<close>, \<open>Recovery\<close>, \<open>GoogleLogin\<close>, \<open>TwoFactor\<close>:
    \<open>modules/auth\<close> and \<open>modules/session\<close>.  The lemmas show who gets a session (only after the password, the
    code, or a verified Google address, and in good standing), that a lock holds and ends, that tokens rotate, are
    single use, and die with a reset, a ban, or a reuse.
  \<^item> \<open>Org\<close>, \<open>Invitation\<close>, \<open>OrgInvariant\<close>: \<open>modules/org\<close>.  The tables are abstracted to who owns an
    organization and which role each user has; every operation is shown to be an update of that abstraction, and each
    organization to keep exactly one owner.
  \<^item> \<open>Billing\<close>: \<open>modules/billing\<close>.  Repeated and reordered deliveries of Stripe's events.
  \<^item> \<open>Admin\<close>, \<open>AdminProps\<close>: \<open>modules/admin\<close> and \<open>modules/gdpr\<close>.  The last administrator stays; an
    erasure leaves no foreign key that names the account and takes no membership of others, while the audit log, whose
    column for the target is no foreign key, goes on naming it there.
  \<^item> \<open>ApiKeys\<close>, \<open>FeatureFlags\<close>, \<open>Projects\<close>, \<open>Notifications\<close>: the modules of these names and the audit
    log.  A key acts only within its scopes, a rollout never shrinks, tenants do not see each other.
  \<^item> \<open>Sanitize\<close>, \<open>I18n\<close>, \<open>Responses\<close>, \<open>Emails\<close>, \<open>Jobs\<close>, \<open>Boot\<close>: \<open>sanitize.middleware.js\<close>,
    \<open>src/i18n\<close>, the error handler and the validation, the mails, the clean-up jobs and dead letters,
    \<open>validateEnv\<close>.
  \<^item> \<open>Requests\<close>, \<open>OrgRoutes\<close>, \<open>AdminRoutes\<close>, \<open>AccountRoutes\<close>, \<open>Api\<close>: the controllers and routers, every
    route under \<open>/api\<close> behind its guards, those that write, those that read and those for API keys.  \<open>ApiFrames\<close>, \<open>ApiInvariant\<close> and \<open>ApiAudit\<close> hold what is true of the whole
    interface: who may change what, the ownership of organizations from the empty database on, and the audit trail
    entry by entry.
  \<^item> \<open>Zod\<close>, \<open>Schemas\<close>, \<open>OpenApi\<close>, \<open>OpenApiSpec\<close>, \<open>Operations\<close>, \<open>Routes\<close>, \<open>Documentation\<close>: the request
    schemas as data, the converter and builder of the API documentation, its table of operations, and the table of
    routes.  The two tables are compared, the security that the documentation and the guards of a route announce is
    shown to be enforced for reading and writing requests, and no route to hide another.
  \<^item> \<open>Gateway\<close>, \<open>GatewayProps\<close>: \<open>src/app.js\<close> as the list of its layers.  Nothing reaches a router but through
    the sanitizer, budgets of rate limiters hold and do not mix, and a failing store refuses nobody.
  \<^item> \<open>Processes\<close>: start and shutdown of both processes, retries of the connections, the level of the log.
  \<^item> \<open>Seed\<close>: \<open>prisma/seed.js\<close>.  Its steps are composed in a state monad; the locale \<open>table\<close> states what a
    step needs of a table and is interpreted on every table the script writes.
  \<^item> \<open>Races\<close>: the login challenge and the refresh cut into what a request reads and what it writes, and
    the writes of requests that read first taken in any order.

  \<^bold>\<open>What the properties leave out.\<close>  A request is one step: two requests interleave between their steps only where
  a theorem says so, as in \<open>Races\<close> and in the races shown for the transfer of ownership and the last
  administrators.  A rate limiter's window is not a clock: \<open>sensitive_budget\<close> speaks of requests within one window.  The shutdown is bounded by its
  timer; that a process with nothing left to wait for ends earlier by itself is not modelled.

  \<^bold>\<open>Not modelled.\<close>  The packages above; the console output and log messages, and what pino does with them (its
  redaction of headers included); the queue itself (retries and storage of jobs are BullMQ's); the Swagger UI page of
  \<open>docs.router.js\<close> and the prose of the documentation; the initialisation of Sentry (\<open>instrument.js\<close>); the
  clients of PostgreSQL, Redis, Stripe and Google, but for their options; the contents of the dictionaries of
  \<open>src/i18n\<close>; the tests.
\<close>

end
